(* ===== verification/Prelude.thy ===== *)
theory Prelude
  imports Main "HOL-Library.AList" "HOL-Library.Sublist"
begin

text \<open>
  Shared model of the Python run-time the clients rely on: JSON values as \<open>json.load\<close>
  returns them, Python exceptions as values of \<open>py_error\<close>, the dictionary, list and
  string operations the sources call (\<open>get\<close>, \<open>[]\<close>, \<open>setdefault\<close>, \<open>append\<close>,
  slicing, truthiness, \<open>len\<close>, \<open>strip\<close>, \<open>lower\<close>, \<open>int()\<close>, \<open>str()\<close>), and the
  generic list and association-list lemmas the component theories share.
  A Python dict is an association list: lookup is \<open>map_of\<close>, item assignment is
  \<open>AList.update\<close> (in place when the key exists, appended otherwise, as CPython keeps
  insertion order), deletion is \<open>AList.delete\<close>.
\<close>

named_theorems py_simps "evaluation rules of the modelled Python primitives"
named_theorems keeps_intros "introduction rules: an action keeps a property of the journal directory"
named_theorems agents_intros "introduction rules: an action keeps the service's agents"
named_theorems inv_intros "introduction rules: an action keeps an invariant of the directory and the session's thread"
named_theorems sim_intros "introduction rules: two actions run in step on related worlds"

section \<open>JSON values and Python errors\<close>

datatype json =
    JNull
  | JBool bool
  | JInt int
  | JStr string
  | JList "json list"
  | JDict "(string \<times> json) list"

text \<open>\<open>ServiceError\<close> stands for every exception the Azure SDK raises on a failed remote call.\<close>

datatype py_error = AttributeError | KeyError | TypeError | IndexError | ValueError | EOFError
  | ServiceError

type_synonym 'a py = "py_error + 'a"

definition py_bind :: "'a py \<Rightarrow> ('a \<Rightarrow> 'b py) \<Rightarrow> 'b py" where
  "py_bind m f = (case m of Inl e \<Rightarrow> Inl e | Inr x \<Rightarrow> f x)"

lemma py_bind_Inl [simp, py_simps]: "py_bind (Inl e) f = Inl e"
  and py_bind_Inr [simp, py_simps]: "py_bind (Inr x) f = f x"
  by (simp_all add: py_bind_def)

lemma py_bind_eq_Inr: "py_bind m f = Inr y \<longleftrightarrow> (\<exists>x. m = Inr x \<and> f x = Inr y)"
  by (cases m) simp_all

lemma py_bind_eq_Inl: "py_bind m f = Inl e \<longleftrightarrow> m = Inl e \<or> (\<exists>x. m = Inr x \<and> f x = Inl e)"
  by (cases m) simp_all

section \<open>Truthiness, length, iteration, indexing\<close>

fun py_truthy :: "json \<Rightarrow> bool" where
  "py_truthy JNull = False"
| "py_truthy (JBool b) = b"
| "py_truthy (JInt i) = (i \<noteq> 0)"
| "py_truthy (JStr s) = (s \<noteq> [])"
| "py_truthy (JList xs) = (xs \<noteq> [])"
| "py_truthy (JDict kvs) = (kvs \<noteq> [])"

fun py_len :: "json \<Rightarrow> nat py" where
  "py_len (JStr s) = Inr (length s)"
| "py_len (JList xs) = Inr (length xs)"
| "py_len (JDict kvs) = Inr (length kvs)"
| "py_len _ = Inl TypeError"

text \<open>\<open>for x in v\<close>: a list yields its items, a dict its keys, a string its characters.\<close>

fun py_iter :: "json \<Rightarrow> json list py" where
  "py_iter (JList xs) = Inr xs"
| "py_iter (JDict kvs) = Inr (map (JStr \<circ> fst) kvs)"
| "py_iter (JStr s) = Inr (map (\<lambda>c. JStr [c]) s)"
| "py_iter _ = Inl TypeError"

text \<open>\<open>v[i]\<close> with an integer index, negative indices counting from the end.\<close>

definition py_nth :: "'a list \<Rightarrow> int \<Rightarrow> 'a py" where
  "py_nth xs i =
     (let k = (if 0 \<le> i then i else i + int (length xs))
      in if k < 0 \<or> int (length xs) \<le> k then Inl IndexError else Inr (xs ! nat k))"

fun py_index :: "json \<Rightarrow> int \<Rightarrow> json py" where
  "py_index (JList xs) i = py_nth xs i"
| "py_index (JStr s) i = py_bind (py_nth s i) (\<lambda>c. Inr (JStr [c]))"
| "py_index (JDict kvs) i = Inl KeyError"
| "py_index _ i = Inl TypeError"

section \<open>The dict protocol on JSON values\<close>

text \<open>\<open>d.get(k, default)\<close>; a value that is not a dict has no attribute \<open>get\<close>.\<close>

fun py_get :: "json \<Rightarrow> string \<Rightarrow> json \<Rightarrow> json py" where
  "py_get (JDict kvs) k dflt = Inr (case map_of kvs k of None \<Rightarrow> dflt | Some v \<Rightarrow> v)"
| "py_get _ k dflt = Inl AttributeError"

text \<open>\<open>d[k]\<close> with a string key.\<close>

fun py_getitem :: "json \<Rightarrow> string \<Rightarrow> json py" where
  "py_getitem (JDict kvs) k = (case map_of kvs k of None \<Rightarrow> Inl KeyError | Some v \<Rightarrow> Inr v)"
| "py_getitem _ k = Inl TypeError"

text \<open>\<open>d[k] = v\<close>, returning the updated dict.\<close>

fun py_setitem :: "json \<Rightarrow> string \<Rightarrow> json \<Rightarrow> json py" where
  "py_setitem (JDict kvs) k v = Inr (JDict (AList.update k v kvs))"
| "py_setitem _ k v = Inl TypeError"

text \<open>\<open>d.setdefault(k, v)\<close>, returning the updated dict (the sources discard the result).\<close>

fun py_setdefault :: "json \<Rightarrow> string \<Rightarrow> json \<Rightarrow> json py" where
  "py_setdefault (JDict kvs) k v =
     Inr (case map_of kvs k of None \<Rightarrow> JDict (kvs @ [(k, v)]) | Some _ \<Rightarrow> JDict kvs)"
| "py_setdefault _ k v = Inl AttributeError"

text \<open>\<open>xs.append(x)\<close>, returning the items of the updated list.\<close>

fun py_list_append :: "json \<Rightarrow> json \<Rightarrow> json list py" where
  "py_list_append (JList xs) x = Inr (xs @ [x])"
| "py_list_append _ x = Inl AttributeError"

lemmas py_dict_simps [py_simps] =
  py_get.simps py_getitem.simps py_setitem.simps py_setdefault.simps py_list_append.simps
  py_truthy.simps py_len.simps py_iter.simps py_index.simps

section \<open>Slices: \<open>xs[-n:]\<close>\<close>

text \<open>
  \<open>xs[-n:]\<close> keeps the last \<open>n\<close> items, the whole list when it is shorter
  (for \<open>n > 0\<close>; the sources only slice with \<open>n = 20\<close>).
\<close>

definition last_n :: "nat \<Rightarrow> 'a list \<Rightarrow> 'a list" where
  "last_n n xs = drop (length xs - n) xs"

lemma last_n_rev: "last_n n xs = rev (take n (rev xs))"
  by (simp add: last_n_def rev_take)

lemma length_last_n [simp]: "length (last_n n xs) = min n (length xs)"
  by (simp add: last_n_def)

lemma last_n_short [simp]: "length xs \<le> n \<Longrightarrow> last_n n xs = xs"
  by (simp add: last_n_def)

lemma last_n_suffix: "suffix (last_n n xs) xs"
  by (simp add: last_n_def suffix_drop)

lemma last_n_last_n_append: "last_n n (last_n n xs @ ys) = last_n n (xs @ ys)"
proof -
  have "take n (rev ys @ take n (rev xs)) = take n (rev ys @ rev xs)"
    by (simp add: take_append min_def)
  then show ?thesis by (simp add: last_n_rev)
qed

lemma set_last_n: "set (last_n n xs) \<subseteq> set xs"
  by (simp add: last_n_def set_drop_subset)

lemma last_n_map: "last_n n (map f xs) = map f (last_n n xs)"
  by (simp add: last_n_def drop_map)

section \<open>Options and association lists\<close>

lemma those_map_iff:
  "those (map f xs) = Some ys \<longleftrightarrow> (\<forall>x\<in>set xs. f x \<noteq> None) \<and> ys = map (the \<circ> f) xs"
  by (induction xs arbitrary: ys) (auto split: option.splits)

lemma set_update_subset: "set (AList.update k v al) \<subseteq> insert (k, v) (set al)"
  by (induction al) auto

lemma update_missing: "map_of al k = None \<Longrightarrow> AList.update k v al = al @ [(k, v)]"
  by (induction al) auto

lemma update_missing_last: "map_of al k = None \<Longrightarrow> AList.update k v (al @ [(k, w)]) = al @ [(k, v)]"
  by (induction al) auto

section \<open>Strings\<close>

text \<open>
  Python strings are sequences of code points; the model reads a HOL \<open>char\<close> as one
  code point, so the lengths below are Python's for ASCII text.
\<close>

definition py_whitespace :: "char \<Rightarrow> bool" where
  "py_whitespace c \<longleftrightarrow>
     c \<in> {CHR '' '', CHR 0x09, CHR 0x0A, CHR 0x0B, CHR 0x0C, CHR 0x0D, CHR 0x1C, CHR 0x1D, CHR 0x1E, CHR 0x1F}"

definition py_strip :: "string \<Rightarrow> string" where
  "py_strip s = rev (dropWhile py_whitespace (rev (dropWhile py_whitespace s)))"

definition py_lower_char :: "char \<Rightarrow> char" where
  "py_lower_char c =
     (let n = (of_char c :: nat) in if 65 \<le> n \<and> n \<le> 90 then char_of (n + 32) else c)"

definition py_lower :: "string \<Rightarrow> string" where
  "py_lower s = map py_lower_char s"

definition is_digit :: "char \<Rightarrow> bool" where
  "is_digit c \<longleftrightarrow> 48 \<le> (of_char c :: nat) \<and> (of_char c :: nat) \<le> 57"

definition digit_val :: "char \<Rightarrow> nat" where
  "digit_val c = of_char c - 48"

definition digit_char :: "nat \<Rightarrow> char" where
  "digit_char d = char_of (48 + d)"

text \<open>\<open>str(n)\<close> for naturals and integers.\<close>

fun nat_str :: "nat \<Rightarrow> string" where
  "nat_str n = (if n < 10 then [digit_char n] else nat_str (n div 10) @ [digit_char (n mod 10)])"

declare nat_str.simps [simp del]

definition int_str :: "int \<Rightarrow> string" where
  "int_str i = (if i < 0 then CHR ''-'' # nat_str (nat (- i)) else nat_str (nat i))"

text \<open>
  \<open>int(s)\<close> in base 10 on an already stripped string: an optional sign, then digits in
  which single underscores may separate digits; anything else raises \<open>ValueError\<close>.
\<close>

fun parse_digits :: "int \<Rightarrow> bool \<Rightarrow> string \<Rightarrow> int option" where
  "parse_digits acc prev [] = (if prev then Some acc else None)"
| "parse_digits acc prev (c # cs) =
     (if is_digit c then parse_digits (10 * acc + int (digit_val c)) True cs
      else if c = CHR ''_'' \<and> prev then parse_digits acc False cs
      else None)"

definition py_int :: "string \<Rightarrow> int py" where
  "py_int s =
     (let r = (case s of
                 c # cs \<Rightarrow>
                   if c = CHR ''-'' then map_option uminus (parse_digits 0 False cs)
                   else if c = CHR ''+'' then parse_digits 0 False cs
                   else parse_digits 0 False s
               | [] \<Rightarrow> None)
      in case r of None \<Rightarrow> Inl ValueError | Some i \<Rightarrow> Inr i)"

text \<open>
  \<open>str(v)\<close> as an f-string formats a JSON value: strings as they are, the other
  values by their \<open>repr\<close> (quotes inside strings are not escaped in this model).
\<close>

text \<open>\<open>sep.join(xs)\<close>.\<close>

fun py_join :: "string \<Rightarrow> string list \<Rightarrow> string" where
  "py_join sep [] = []"
| "py_join sep [x] = x"
| "py_join sep (x # xs) = x @ sep @ py_join sep xs"

fun py_repr :: "json \<Rightarrow> string" where
  "py_repr JNull = ''None''"
| "py_repr (JBool b) = (if b then ''True'' else ''False'')"
| "py_repr (JInt i) = int_str i"
| "py_repr (JStr s) = CHR 0x27 # s @ [CHR 0x27]"
| "py_repr (JList xs) = ''['' @ py_join '', '' (map py_repr xs) @ '']''"
| "py_repr (JDict kvs) =
     ''{'' @ py_join '', '' (map (\<lambda>(k, v). CHR 0x27 # k @ CHR 0x27 # '': '' @ py_repr v) kvs) @ ''}''"

definition py_str :: "json \<Rightarrow> string" where
  "py_str v = (case v of JStr s \<Rightarrow> s | _ \<Rightarrow> py_repr v)"

lemma py_str_JStr [simp]: "py_str (JStr s) = s"
  by (simp add: py_str_def)

end
