(* ===== verification/Journal.thy ===== *)
theory Journal
  imports Prelude
begin

text \<open>
  The journal store: the per-thread JSON files under \<open>memory/\<close> that every client keeps
  (\<open>_memory_path_for_thread\<close>, \<open>_load_memory\<close>, \<open>_append_memory\<close>, the inline
  thread-id stamping of the command-line clients and the \<open>unlink\<close> of \<open>delete_thread\<close>).
  The directory is an association list from file names to contents, in the order the
  operating system enumerates it; a file holds either a JSON value (what \<open>json.dump\<close>
  wrote and \<open>json.load\<close> reads back) or bytes that do not parse.
  The abstract view is a \<open>journal\<close> record (thread id and entry list), reached through
  \<open>journal_of_json\<close>; the lemmas show that each operation refines the abstract one.
\<close>

section \<open>State\<close>

datatype fcontent = FJson json | FUnreadable

type_synonym memdir = "(string \<times> fcontent) list"

record entry =
  e_ts :: string
  e_role :: string
  e_text :: string
  e_mid :: "string option"

record journal =
  j_thread :: "string option"
  j_messages :: "entry list"

section \<open>Operations\<close>

text \<open>\<open>_memory_path_for_thread\<close>: the file name inside \<open>memory/\<close>.\<close>

definition memory_path_for_thread :: "string \<Rightarrow> string" where
  "memory_path_for_thread tid = ''conversation_'' @ tid @ ''.json''"

definition empty_memory :: json where
  "empty_memory = JDict [(''thread_id'', JNull), (''messages'', JList [])]"

text \<open>\<open>_load_memory\<close>: a missing or unparsable file reads as the empty memory.\<close>

definition load_memory :: "memdir \<Rightarrow> string \<Rightarrow> json" where
  "load_memory d p = (case map_of d p of Some (FJson v) \<Rightarrow> v | _ \<Rightarrow> empty_memory)"

text \<open>\<open>with p.open("w") as f: json.dump(v, f)\<close>.\<close>

definition write_json :: "memdir \<Rightarrow> string \<Rightarrow> json \<Rightarrow> memdir" where
  "write_json d p v = AList.update p (FJson v) d"

fun json_of_opt_str :: "string option \<Rightarrow> json" where
  "json_of_opt_str None = JNull"
| "json_of_opt_str (Some s) = JStr s"

definition mem_entry :: "string \<Rightarrow> string \<Rightarrow> string \<Rightarrow> string option \<Rightarrow> json" where
  "mem_entry ts role text mid =
     JDict [(''ts'', JStr ts), (''role'', JStr role), (''text'', JStr text),
            (''message_id'', json_of_opt_str mid)]"

text \<open>
  The retention policy: \<open>None\<close> keeps everything (the command-line clients and the first
  two Streamlit versions), \<open>Some n\<close> keeps \<open>data["messages"][-n:]\<close> (\<open>n = 20\<close> in
  the current Streamlit app).
\<close>

fun trim_msgs :: "nat option \<Rightarrow> 'a list \<Rightarrow> 'a list" where
  "trim_msgs None xs = xs"
| "trim_msgs (Some n) xs = last_n n xs"

text \<open>
  \<open>_append_memory\<close>: load, \<open>setdefault("messages", [])\<close>, append the entry to the list
  under \<open>"messages"\<close> (stored back under that key, which is where the in-place
  mutation is visible), trim, write the whole value back. The time stamp is the
  clock's reading, an input.
\<close>

definition append_memory ::
  "nat option \<Rightarrow> memdir \<Rightarrow> string \<Rightarrow> string \<Rightarrow> string \<Rightarrow> string \<Rightarrow> string option \<Rightarrow> memdir py" where
  "append_memory keep d p ts role text mid =
     py_bind (py_setdefault (load_memory d p) ''messages'' (JList [])) (\<lambda>data.
     py_bind (py_getitem data ''messages'') (\<lambda>msgs.
     py_bind (py_list_append msgs (mem_entry ts role text mid)) (\<lambda>msgs'.
     py_bind (py_setitem data ''messages'' (JList (trim_msgs keep msgs'))) (\<lambda>data'.
     Inr (write_json d p data')))))"

text \<open>
  The command-line clients prepare the file of the thread they use (the id is the value
  the service returned or the one read back from a journal):
  \<open>mem_data = _load_memory(mem_path); mem_data["thread_id"] = thread_id; json.dump\<close>.
\<close>

definition prepare_memory :: "memdir \<Rightarrow> json \<Rightarrow> memdir py" where
  "prepare_memory d tid =
     (let p = memory_path_for_thread (py_str tid)
      in py_bind (py_setitem (load_memory d p) ''thread_id'' tid) (\<lambda>data.
         Inr (write_json d p data)))"

text \<open>\<open>if mem_path.exists(): mem_path.unlink()\<close> in \<open>delete_thread\<close>.\<close>

definition unlink_memory :: "memdir \<Rightarrow> string \<Rightarrow> memdir" where
  "unlink_memory d p = (if map_of d p \<noteq> None then AList.delete p d else d)"

section \<open>Abstraction\<close>

fun opt_str_of_json :: "json \<Rightarrow> string option option" where
  "opt_str_of_json JNull = Some None"
| "opt_str_of_json (JStr s) = Some (Some s)"
| "opt_str_of_json _ = None"

definition entry_of_json :: "json \<Rightarrow> entry option" where
  "entry_of_json v =
     (case v of
        JDict kvs \<Rightarrow>
          (case (map_of kvs ''ts'', map_of kvs ''role'', map_of kvs ''text'', map_of kvs ''message_id'') of
             (Some (JStr ts), Some (JStr r), Some (JStr t), Some m) \<Rightarrow>
               map_option (\<lambda>mid. \<lparr>e_ts = ts, e_role = r, e_text = t, e_mid = mid\<rparr>) (opt_str_of_json m)
           | _ \<Rightarrow> None)
      | _ \<Rightarrow> None)"

definition thread_of_json :: "json option \<Rightarrow> string option option" where
  "thread_of_json v = (case v of None \<Rightarrow> Some None | Some t \<Rightarrow> opt_str_of_json t)"

definition journal_of_json :: "json \<Rightarrow> journal option" where
  "journal_of_json v =
     (case v of
        JDict kvs \<Rightarrow>
          (case (thread_of_json (map_of kvs ''thread_id''), map_of kvs ''messages'') of
             (Some t, Some (JList ms)) \<Rightarrow>
               map_option (\<lambda>es. \<lparr>j_thread = t, j_messages = es\<rparr>) (those (map entry_of_json ms))
           | _ \<Rightarrow> None)
      | _ \<Rightarrow> None)"

definition empty_journal :: journal where
  "empty_journal = \<lparr>j_thread = None, j_messages = []\<rparr>"

text \<open>The abstract operations the spec describes.\<close>

definition j_append :: "nat option \<Rightarrow> journal \<Rightarrow> entry \<Rightarrow> journal" where
  "j_append keep j e = j\<lparr>j_messages := trim_msgs keep (j_messages j @ [e])\<rparr>"

definition wf_memdir :: "memdir \<Rightarrow> bool" where
  "wf_memdir d \<longleftrightarrow>
     list_all (\<lambda>(p, c). case c of FJson v \<Rightarrow> journal_of_json v \<noteq> None | FUnreadable \<Rightarrow> True) d"

text \<open>Each journal file that records a thread id is the file of that thread.\<close>

definition named_by_thread :: "memdir \<Rightarrow> bool" where
  "named_by_thread d \<longleftrightarrow>
     list_all (\<lambda>(f, c). case c of
         FJson v \<Rightarrow> (case journal_of_json v of
                       Some j \<Rightarrow> (case j_thread j of Some t \<Rightarrow> f = memory_path_for_thread t | None \<Rightarrow> True)
                     | None \<Rightarrow> True)
       | FUnreadable \<Rightarrow> True) d"

section \<open>Runs of the store\<close>

text \<open>
  A run of appends to one file, as the interaction loops issue them (one per user
  message, one per assistant reply), each operation a tuple
  \<open>(ts, role, text, message_id)\<close>; it stops at the first exception.
\<close>

fun append_all ::
  "nat option \<Rightarrow> memdir \<Rightarrow> string \<Rightarrow> (string \<times> string \<times> string \<times> string option) list \<Rightarrow> memdir py" where
  "append_all keep d p [] = Inr d"
| "append_all keep d p ((ts, r, t, m) # ops) =
     py_bind (append_memory keep d p ts r t m) (\<lambda>d'. append_all keep d' p ops)"

definition entry_of_op :: "string \<times> string \<times> string \<times> string option \<Rightarrow> entry" where
  "entry_of_op op = (case op of (ts, r, t, m) \<Rightarrow> \<lparr>e_ts = ts, e_role = r, e_text = t, e_mid = m\<rparr>)"

text \<open>
  The stores the clients can produce from an empty \<open>memory/\<close> directory: successful
  appends under any retention policy, thread-id stamping, deletions, and a write cut off
  half-way (\<open>open("w")\<close> truncates before \<open>json.dump\<close> writes), which leaves a file
  that does not parse.
\<close>

inductive mem_reach :: "memdir \<Rightarrow> bool" where
  start: "mem_reach []"
| append: "mem_reach d \<Longrightarrow> append_memory keep d p ts r t m = Inr d' \<Longrightarrow> mem_reach d'"
| prepare: "mem_reach d \<Longrightarrow> prepare_memory d (JStr tid) = Inr d' \<Longrightarrow> mem_reach d'"
| unlink: "mem_reach d \<Longrightarrow> mem_reach (unlink_memory d p)"
| torn_write: "mem_reach d \<Longrightarrow> mem_reach (AList.update p FUnreadable d)"

section \<open>Lemmas: the file layer\<close>

lemma trim_msgs_Nil [simp]: "trim_msgs keep [] = []"
  by (cases keep) (simp_all add: last_n_def)

lemma trim_msgs_map: "trim_msgs keep (map f xs) = map f (trim_msgs keep xs)"
  by (cases keep) (simp_all add: last_n_map)

lemma set_trim_msgs: "set (trim_msgs keep xs) \<subseteq> set xs"
  by (cases keep) (simp_all add: set_last_n)

lemma trim_msgs_trim_append: "trim_msgs keep (trim_msgs keep xs @ ys) = trim_msgs keep (xs @ ys)"
  by (cases keep) (simp_all add: last_n_last_n_append)

lemma load_write_same [simp]: "load_memory (write_json d p v) p = v"
  by (simp add: load_memory_def write_json_def update_conv')

lemma load_write_other [simp]: "q \<noteq> p \<Longrightarrow> load_memory (write_json d p v) q = load_memory d q"
  by (simp add: load_memory_def write_json_def update_conv')

lemma write_write [simp]: "write_json (write_json d p v) p w = write_json d p w"
  by (simp add: write_json_def)

lemma load_unlink_same [simp]: "load_memory (unlink_memory d p) p = empty_memory"
  by (simp add: load_memory_def unlink_memory_def delete_conv' split: option.splits)

lemma load_unlink_other [simp]: "q \<noteq> p \<Longrightarrow> load_memory (unlink_memory d p) q = load_memory d q"
  by (simp add: load_memory_def unlink_memory_def)

lemma load_missing [simp]: "map_of d p = None \<Longrightarrow> load_memory d p = empty_memory"
  by (simp add: load_memory_def)

lemma unlink_idem: "unlink_memory (unlink_memory d p) p = unlink_memory d p"
  by (simp add: unlink_memory_def delete_conv' delete_idem)

section \<open>Lemmas: the abstraction\<close>

lemma journal_of_json_Some_iff:
  "journal_of_json v = Some j \<longleftrightarrow>
     (\<exists>kvs ms. v = JDict kvs \<and> thread_of_json (map_of kvs ''thread_id'') = Some (j_thread j) \<and>
        map_of kvs ''messages'' = Some (JList ms) \<and> those (map entry_of_json ms) = Some (j_messages j))"
  by (auto simp: journal_of_json_def split: json.splits option.splits)

lemma journal_of_empty_memory [simp]: "journal_of_json empty_memory = Some empty_journal"
  by (simp add: journal_of_json_def empty_memory_def empty_journal_def thread_of_json_def)

lemma entry_of_mem_entry [simp]:
  "entry_of_json (mem_entry ts role text mid) = Some \<lparr>e_ts = ts, e_role = role, e_text = text, e_mid = mid\<rparr>"
  by (cases mid) (simp_all add: entry_of_json_def mem_entry_def)

lemma append_memory_dict:
  assumes "load_memory d p = JDict kvs" and "map_of kvs ''messages'' = Some (JList ms)"
  shows "append_memory keep d p ts role text mid =
    Inr (write_json d p (JDict (AList.update ''messages''
           (JList (trim_msgs keep (ms @ [mem_entry ts role text mid]))) kvs)))"
  using assms by (simp add: append_memory_def)

text \<open>The simulation step every append proof goes through.\<close>

lemma append_memory_step:
  assumes "journal_of_json (load_memory d p) = Some j"
  shows "\<exists>v. append_memory keep d p ts role text mid = Inr (write_json d p v) \<and>
    journal_of_json v = Some (j_append keep j \<lparr>e_ts = ts, e_role = role, e_text = text, e_mid = mid\<rparr>)"
proof -
  from assms obtain kvs ms where
    v: "load_memory d p = JDict kvs" and
    t: "thread_of_json (map_of kvs ''thread_id'') = Some (j_thread j)" and
    m: "map_of kvs ''messages'' = Some (JList ms)" and
    es: "those (map entry_of_json ms) = Some (j_messages j)"
    by (auto simp: journal_of_json_Some_iff)
  let ?e = "mem_entry ts role text mid"
  let ?x = "\<lparr>e_ts = ts, e_role = role, e_text = text, e_mid = mid\<rparr>"
  let ?ms = "trim_msgs keep (ms @ [?e])"
  from es have all: "\<forall>x\<in>set (ms @ [?e]). entry_of_json x \<noteq> None"
    and conv: "map (the \<circ> entry_of_json) (ms @ [?e]) = j_messages j @ [?x]"
    by (auto simp: those_map_iff)
  have "map (the \<circ> entry_of_json) ?ms = trim_msgs keep (map (the \<circ> entry_of_json) (ms @ [?e]))"
    by (simp only: trim_msgs_map)
  also have "\<dots> = trim_msgs keep (j_messages j @ [?x])"
    by (simp only: conv)
  finally have "those (map entry_of_json ?ms) = Some (trim_msgs keep (j_messages j @ [?x]))"
    using all set_trim_msgs [of keep "ms @ [?e]"] by (auto simp: those_map_iff)
  with t show ?thesis
    by (intro exI [of _ "JDict (AList.update ''messages'' (JList ?ms) kvs)"])
      (simp add: append_memory_dict [OF v m] journal_of_json_Some_iff update_conv' j_append_def)
qed

lemma prepare_memory_step:
  assumes "journal_of_json (load_memory d (memory_path_for_thread tid)) = Some j"
  shows "\<exists>v. prepare_memory d (JStr tid) = Inr (write_json d (memory_path_for_thread tid) v) \<and>
    journal_of_json v = Some (j\<lparr>j_thread := Some tid\<rparr>)"
proof -
  from assms obtain kvs ms where
    v: "load_memory d (memory_path_for_thread tid) = JDict kvs" and
    m: "map_of kvs ''messages'' = Some (JList ms)" and
    es: "those (map entry_of_json ms) = Some (j_messages j)"
    by (auto simp: journal_of_json_Some_iff)
  with v show ?thesis
    by (intro exI [of _ "JDict (AList.update ''thread_id'' (JStr tid) kvs)"])
      (simp add: prepare_memory_def journal_of_json_Some_iff update_conv' thread_of_json_def)
qed

lemma append_all_refines:
  "journal_of_json (load_memory d p) = Some j \<Longrightarrow>
   \<exists>d'. append_all keep d p ops = Inr d' \<and>
     journal_of_json (load_memory d' p) = Some (foldl (j_append keep) j (map entry_of_op ops))"
proof (induction ops arbitrary: d j)
  case Nil
  then show ?case by simp
next
  case (Cons op ops)
  obtain ts r t m where op: "op = (ts, r, t, m)" by (cases op) auto
  obtain v where
    d1: "append_memory keep d p ts r t m = Inr (write_json d p v)" and
    j1: "journal_of_json (load_memory (write_json d p v) p) = Some (j_append keep j (entry_of_op op))"
    using append_memory_step [OF Cons.prems, of keep ts r t m] by (auto simp: op entry_of_op_def)
  from Cons.IH [OF j1] show ?case
    by (simp add: op d1)
qed

lemma foldl_j_append:
  "es \<noteq> [] \<Longrightarrow> foldl (j_append keep) j es = j\<lparr>j_messages := trim_msgs keep (j_messages j @ es)\<rparr>"
proof (induction es arbitrary: j rule: rev_induct)
  case (snoc e es)
  then show ?case
    by (cases "es = []") (simp_all add: j_append_def trim_msgs_trim_append)
qed simp

section \<open>Lemmas: the well-formedness invariant\<close>

lemma wf_memdir_load:
  assumes "wf_memdir d" shows "journal_of_json (load_memory d p) \<noteq> None"
proof (cases "map_of d p")
  case (Some c)
  then have "(p, c) \<in> set d" by (rule map_of_SomeD)
  with assms Some show ?thesis
    by (cases c) (auto simp: wf_memdir_def list_all_iff load_memory_def)
qed (simp add: load_memory_def)

lemma wf_memdir_write:
  "wf_memdir d \<Longrightarrow> journal_of_json v \<noteq> None \<Longrightarrow> wf_memdir (write_json d p v)"
  using set_update_subset [of p "FJson v" d]
  by (fastforce simp: wf_memdir_def list_all_iff write_json_def)

lemma wf_memdir_unlink: "wf_memdir d \<Longrightarrow> wf_memdir (unlink_memory d p)"
  by (auto simp: wf_memdir_def list_all_iff unlink_memory_def AList.delete_eq)

lemma wf_memdir_unreadable: "wf_memdir d \<Longrightarrow> wf_memdir (AList.update p FUnreadable d)"
  using set_update_subset [of p FUnreadable d]
  by (fastforce simp: wf_memdir_def list_all_iff)

lemma append_memory_wf:
  assumes "wf_memdir d"
  shows "\<exists>d'. append_memory keep d p ts r t m = Inr d' \<and> wf_memdir d'"
proof -
  from wf_memdir_load [OF assms] obtain j where "journal_of_json (load_memory d p) = Some j" by auto
  from append_memory_step [OF this, of keep ts r t m] assms show ?thesis
    by (auto intro: wf_memdir_write)
qed

lemma prepare_memory_wf:
  assumes "wf_memdir d"
  shows "\<exists>d'. prepare_memory d (JStr tid) = Inr d' \<and> wf_memdir d'"
proof -
  from wf_memdir_load [OF assms]
  obtain j where "journal_of_json (load_memory d (memory_path_for_thread tid)) = Some j" by auto
  from prepare_memory_step [OF this] assms show ?thesis
    by (auto intro: wf_memdir_write)
qed

lemma mem_reach_wf_memdir: "mem_reach d \<Longrightarrow> wf_memdir d"
proof (induction rule: mem_reach.induct)
  case start
  then show ?case by (simp add: wf_memdir_def)
next
  case (append d keep p ts r t m d')
  from append_memory_wf [OF append.IH, of keep p ts r t m] append.hyps(2) show ?case by auto
next
  case (prepare d tid d')
  from prepare_memory_wf [OF prepare.IH, of tid] prepare.hyps(2) show ?case by auto
next
  case (unlink d p)
  show ?case by (rule wf_memdir_unlink [OF unlink.IH])
next
  case (torn_write d p)
  show ?case by (rule wf_memdir_unreadable [OF torn_write.IH])
qed

section \<open>Lemmas: file names and thread ids\<close>

lemma named_load:
  assumes "named_by_thread d" and "journal_of_json (load_memory d p) = Some j" and "j_thread j = Some t"
  shows "p = memory_path_for_thread t"
proof (cases "map_of d p")
  case None
  with assms(2) have "j = empty_journal" by simp
  with assms(3) show ?thesis by (simp add: empty_journal_def)
next
  case (Some c)
  then have "(p, c) \<in> set d" by (rule map_of_SomeD)
  with assms Some show ?thesis
    by (cases c) (auto simp: named_by_thread_def list_all_iff load_memory_def empty_journal_def)
qed

lemma named_write:
  assumes "named_by_thread d" and "journal_of_json v = Some j"
    and "\<And>t. j_thread j = Some t \<Longrightarrow> p = memory_path_for_thread t"
  shows "named_by_thread (write_json d p v)"
  using assms set_update_subset [of p "FJson v" d]
  by (fastforce simp: named_by_thread_def list_all_iff write_json_def split: option.splits fcontent.splits)

lemma named_unlink: "named_by_thread d \<Longrightarrow> named_by_thread (unlink_memory d p)"
  by (auto simp: named_by_thread_def list_all_iff unlink_memory_def AList.delete_eq)

lemma named_unreadable: "named_by_thread d \<Longrightarrow> named_by_thread (AList.update p FUnreadable d)"
  using set_update_subset [of p FUnreadable d]
  by (fastforce simp: named_by_thread_def list_all_iff)

lemma distinct_unlink: "distinct (map fst d) \<Longrightarrow> distinct (map fst (unlink_memory d p))"
  by (simp add: unlink_memory_def distinct_delete)

lemma mem_reach_named: "mem_reach d \<Longrightarrow> named_by_thread d \<and> distinct (map fst d)"
proof (induction rule: mem_reach.induct)
  case start
  then show ?case by (simp add: named_by_thread_def)
next
  case (append d keep p ts r t m d')
  from mem_reach_wf_memdir [OF append.hyps(1)] obtain j where
    j: "journal_of_json (load_memory d p) = Some j" using wf_memdir_load by fastforce
  from append_memory_step [OF j, of keep ts r t m] append.hyps(2) obtain v where
    d': "d' = write_json d p v" and v: "journal_of_json v = Some (j_append keep j \<lparr>e_ts = ts, e_role = r, e_text = t, e_mid = m\<rparr>)"
    by auto
  have "named_by_thread d'"
    unfolding d' using append.IH j v by (auto intro!: named_write named_load simp: j_append_def)
  then show ?case using append.IH by (simp add: d' write_json_def distinct_update)
next
  case (prepare d tid d')
  from mem_reach_wf_memdir [OF prepare.hyps(1)] obtain j where
    j: "journal_of_json (load_memory d (memory_path_for_thread tid)) = Some j" using wf_memdir_load by fastforce
  from prepare_memory_step [OF j] prepare.hyps(2) obtain v where
    d': "d' = write_json d (memory_path_for_thread tid) v" and v: "journal_of_json v = Some (j\<lparr>j_thread := Some tid\<rparr>)"
    by auto
  have "named_by_thread d'"
    unfolding d' using prepare.IH v by (auto intro!: named_write)
  then show ?case using prepare.IH by (simp add: d' write_json_def distinct_update)
next
  case (unlink d p)
  then show ?case by (simp add: named_unlink distinct_unlink)
next
  case (torn_write d p)
  then show ?case by (simp add: named_unreadable distinct_update)
qed

section \<open>Lemmas: runs of appends\<close>

lemma j_thread_foldl_append [simp]: "j_thread (foldl (j_append keep) j es) = j_thread j"
  by (induction es arbitrary: j) (simp_all add: j_append_def)

lemma append_all_keys:
  "append_all keep d p ops = Inr d' \<Longrightarrow> fst ` set d' \<subseteq> insert p (fst ` set d)"
proof (induction ops arbitrary: d)
  case (Cons op ops)
  obtain ts r t m where op: "op = (ts, r, t, m)" by (cases op) auto
  from Cons.prems obtain d1 where d1: "append_memory keep d p ts r t m = Inr d1"
    and rest: "append_all keep d1 p ops = Inr d'" by (auto simp: op py_bind_eq_Inr)
  from d1 obtain v where "d1 = write_json d p v" by (auto simp: append_memory_def py_bind_eq_Inr)
  then have "fst ` set d1 \<subseteq> insert p (fst ` set d)"
    using set_update_subset [of p "FJson v" d] by (auto simp: write_json_def)
  with Cons.IH [OF rest] show ?case by auto
qed auto

lemma append_all_reach:
  "mem_reach d \<Longrightarrow> append_all keep d p ops = Inr d' \<Longrightarrow> mem_reach d'"
proof (induction ops arbitrary: d)
  case (Cons op ops)
  obtain ts r t m where op: "op = (ts, r, t, m)" by (cases op) auto
  from Cons.prems obtain d1 where d1: "append_memory keep d p ts r t m = Inr d1"
    and rest: "append_all keep d1 p ops = Inr d'" by (auto simp: op py_bind_eq_Inr)
  from mem_reach.append [OF Cons.prems(1) d1] rest show ?case by (rule Cons.IH)
qed simp

section \<open>Lemmas: building reachable stores\<close>

lemma mem_reach_new_thread:
  assumes "mem_reach d" and "map_of d (memory_path_for_thread t) = None"
  shows "mem_reach (d @ [(memory_path_for_thread t, FJson (JDict [(''thread_id'', JStr t),
           (''messages'', JList [mem_entry ts role body mid])]))])"
proof -
  let ?p = "memory_path_for_thread t"
  let ?d1 = "d @ [(?p, FJson (JDict [(''thread_id'', JStr t), (''messages'', JList [])]))]"
  have p: "prepare_memory d (JStr t) = Inr ?d1"
    using assms(2) by (simp add: prepare_memory_def write_json_def empty_memory_def update_missing)
  have a: "append_memory None ?d1 ?p ts role body mid =
     Inr (d @ [(?p, FJson (JDict [(''thread_id'', JStr t), (''messages'', JList [mem_entry ts role body mid])]))])"
    using assms(2) by (simp add: append_memory_def load_memory_def write_json_def map_of_append
      map_add_def update_missing_last)
  show ?thesis by (rule mem_reach.append [OF mem_reach.prepare [OF assms(1) p] a])
qed


section \<open>Properties of the journal store\<close>

text \<open>
  C1. Appending one entry to a journal file whose contents are a well-formed journal
  succeeds and yields the file of the abstract journal with the entry appended and the
  retention policy applied.
\<close>

theorem append_memory_refines:
  assumes "journal_of_json (load_memory d p) = Some j"
  shows "\<exists>d'. append_memory keep d p ts role body mid = Inr d' \<and>
    journal_of_json (load_memory d' p) =
      Some (j_append keep j \<lparr>e_ts = ts, e_role = role, e_text = body, e_mid = mid\<rparr>)"
  using append_memory_step [OF assms, of keep ts role body mid] by auto

theorem append_memory_refines_witness:
  "journal_of_json (load_memory [] ''conversation_t.json'') = Some empty_journal \<and>
   (\<exists>d'. append_memory (Some 20) [] ''conversation_t.json'' ''T1'' ''user'' ''Hello'' (Some ''m1'') = Inr d' \<and>
     journal_of_json (load_memory d' ''conversation_t.json'') =
       Some (j_append (Some 20) empty_journal
         \<lparr>e_ts = ''T1'', e_role = ''user'', e_text = ''Hello'', e_mid = Some ''m1''\<rparr>))"
proof -
  have h: "journal_of_json (load_memory [] ''conversation_t.json'') = Some empty_journal" by simp
  show ?thesis using h append_memory_refines [OF h] by blast
qed

text \<open>
  C2. Starting from a thread with no journal file, a run of appends succeeds and the file
  then holds exactly the appended entries, in append order, cut to the retention policy's
  most recent ones; the thread id stays unset.
\<close>

theorem append_sequence_from_missing:
  assumes "map_of d p = None"
  shows "\<exists>d'. append_all keep d p ops = Inr d' \<and>
    journal_of_json (load_memory d' p) =
      Some \<lparr>j_thread = None, j_messages = trim_msgs keep (map entry_of_op ops)\<rparr>"
proof -
  from assms have "journal_of_json (load_memory d p) = Some empty_journal" by simp
  from append_all_refines [OF this, of keep ops] obtain d' where
    "append_all keep d p ops = Inr d'" and
    "journal_of_json (load_memory d' p) = Some (foldl (j_append keep) empty_journal (map entry_of_op ops))"
    by blast
  then show ?thesis
    by (cases "ops = []") (simp_all add: foldl_j_append empty_journal_def)
qed

theorem append_sequence_from_missing_witness:
  "map_of [] ''conversation_t.json'' = None \<and>
   (\<exists>d'. append_all None [] ''conversation_t.json''
      [(''T1'', ''user'', ''Hello'', Some ''m1''), (''T2'', ''assistant'', ''Hi there'', Some ''m2'')] = Inr d' \<and>
    journal_of_json (load_memory d' ''conversation_t.json'') =
      Some \<lparr>j_thread = None, j_messages =
        [\<lparr>e_ts = ''T1'', e_role = ''user'', e_text = ''Hello'', e_mid = Some ''m1''\<rparr>,
         \<lparr>e_ts = ''T2'', e_role = ''assistant'', e_text = ''Hi there'', e_mid = Some ''m2''\<rparr>]\<rparr>)"
  using append_sequence_from_missing [of "[]" "''conversation_t.json''" None
      "[(''T1'', ''user'', ''Hello'', Some ''m1''), (''T2'', ''assistant'', ''Hi there'', Some ''m2'')]"]
  by (simp add: entry_of_op_def)

text \<open>
  C3. Under the retention policy \<open>[-n:]\<close>, after one or more appends the journal holds at
  most \<open>n\<close> entries, and they are exactly the \<open>n\<close> most recent of the old entries
  followed by the appended ones, in their original order.
\<close>

theorem append_trim_bound:
  assumes "journal_of_json (load_memory d p) = Some j" and "ops \<noteq> []"
  shows "\<exists>d' j'. append_all (Some n) d p ops = Inr d' \<and> journal_of_json (load_memory d' p) = Some j' \<and>
    length (j_messages j') \<le> n \<and> j_messages j' = last_n n (j_messages j @ map entry_of_op ops)"
  using append_all_refines [OF assms(1), of "Some n" ops] assms(2)
  by (auto simp: foldl_j_append)

theorem append_trim_bound_witness:
  "journal_of_json (load_memory [] ''f'') = Some empty_journal \<and> [(''1'', ''user'', ''A'', None)] \<noteq> [] \<and>
   (\<exists>d' j'. append_all (Some 20) [] ''f'' [(''1'', ''user'', ''A'', None)] = Inr d' \<and>
     journal_of_json (load_memory d' ''f'') = Some j' \<and> length (j_messages j') \<le> 20 \<and>
     j_messages j' = last_n 20 (j_messages empty_journal @ map entry_of_op [(''1'', ''user'', ''A'', None)]))"
proof -
  have h: "journal_of_json (load_memory [] ''f'') = Some empty_journal" by simp
  have n: "[(''1'', ''user'', ''A'', None)] \<noteq> []" by simp
  show ?thesis using h n append_trim_bound [OF h n, of 20] by blast
qed

text \<open>
  C4. Every store the clients can reach from an empty directory (appends, stamping,
  deletions, and writes cut off half-way) is well formed, and in it every append and every
  thread-id stamping succeeds: no exception is raised by the journal layer.
\<close>

theorem mem_reach_safe:
  assumes "mem_reach d"
  shows "wf_memdir d \<and> (\<exists>d'. append_memory keep d p ts r t m = Inr d') \<and>
    (\<exists>d'. prepare_memory d (JStr tid) = Inr d')"
  using mem_reach_wf_memdir [OF assms] append_memory_wf prepare_memory_wf by blast

theorem mem_reach_safe_witness:
  "mem_reach [(''f'', FUnreadable)] \<and> wf_memdir [(''f'', FUnreadable)] \<and>
   (\<exists>d'. append_memory None [(''f'', FUnreadable)] ''f'' ''T'' ''user'' ''x'' None = Inr d') \<and>
   (\<exists>d'. prepare_memory [(''f'', FUnreadable)] (JStr ''t'') = Inr d')"
proof -
  have r: "mem_reach [(''f'', FUnreadable)]"
    using mem_reach.torn_write [OF mem_reach.start, of "''f''"] by simp
  show ?thesis using r mem_reach_safe [OF r, of None "''f''" "''T''" "''user''" "''x''" None "''t''"] by blast
qed

text \<open>
  C5. Reading is fail-open: appending to a thread whose file is missing or does not parse
  does exactly what appending to a freshly initialised empty journal file does.
\<close>

theorem append_memory_fail_open:
  assumes "map_of d p = None \<or> map_of d p = Some FUnreadable"
  shows "append_memory keep d p ts role text mid =
         append_memory keep (write_json d p empty_memory) p ts role text mid"
proof -
  from assms have "load_memory d p = empty_memory" by (auto simp: load_memory_def)
  then show ?thesis by (simp add: append_memory_def)
qed

theorem append_memory_fail_open_witness:
  "(map_of [(''f'', FUnreadable)] ''f'' = None \<or> map_of [(''f'', FUnreadable)] ''f'' = Some FUnreadable) \<and>
   append_memory None [(''f'', FUnreadable)] ''f'' ''T'' ''user'' ''x'' None =
   append_memory None (write_json [(''f'', FUnreadable)] ''f'' empty_memory) ''f'' ''T'' ''user'' ''x'' None"
  using append_memory_fail_open [of "[(''f'', FUnreadable)]" "''f''" None "''T''" "''user''" "''x''" None]
  by simp

text \<open>
  C6. Deleting a journal is complete and idempotent: a load afterwards gives the fresh empty
  journal, and deleting again changes nothing (deleting an absent file is no error).
\<close>

theorem unlink_then_load:
  "load_memory (unlink_memory d p) p = empty_memory \<and>
   journal_of_json (load_memory (unlink_memory d p) p) = Some empty_journal \<and>
   unlink_memory (unlink_memory d p) p = unlink_memory d p"
  by (simp add: unlink_idem)

text \<open>
  C7. Stamping a thread id on a well-formed journal file (what the command-line clients do
  when they open a new or resumed thread) succeeds, sets the thread id and keeps the entries.
\<close>

theorem prepare_memory_refines:
  assumes "journal_of_json (load_memory d (memory_path_for_thread tid)) = Some j"
  shows "\<exists>d'. prepare_memory d (JStr tid) = Inr d' \<and>
    journal_of_json (load_memory d' (memory_path_for_thread tid)) = Some (j\<lparr>j_thread := Some tid\<rparr>)"
  using prepare_memory_step [OF assms] by auto

theorem prepare_memory_refines_witness:
  "journal_of_json (load_memory [] (memory_path_for_thread ''t1'')) = Some empty_journal \<and>
   (\<exists>d'. prepare_memory [] (JStr ''t1'') = Inr d' \<and>
     journal_of_json (load_memory d' (memory_path_for_thread ''t1'')) =
       Some (empty_journal\<lparr>j_thread := Some ''t1''\<rparr>))"
proof -
  have h: "journal_of_json (load_memory [] (memory_path_for_thread ''t1'')) = Some empty_journal" by simp
  show ?thesis using h prepare_memory_refines [OF h] by blast
qed

text \<open>C8. An append to one thread's journal leaves every other journal file as it was.\<close>

theorem append_memory_frame:
  assumes "append_memory keep d p ts role text mid = Inr d'" and "q \<noteq> p"
  shows "load_memory d' q = load_memory d q"
  using assms by (auto simp: append_memory_def py_bind_eq_Inr)

theorem append_memory_frame_witness:
  "append_memory None [] ''f'' ''T'' ''user'' ''x'' None =
     Inr (write_json [] ''f'' (JDict [(''thread_id'', JNull), (''messages'', JList [mem_entry ''T'' ''user'' ''x'' None])])) \<and>
   ''g'' \<noteq> ''f'' \<and>
   load_memory (write_json [] ''f'' (JDict [(''thread_id'', JNull), (''messages'', JList [mem_entry ''T'' ''user'' ''x'' None])])) ''g'' =
   load_memory [] ''g''"
proof -
  have a: "append_memory None [] ''f'' ''T'' ''user'' ''x'' None =
     Inr (write_json [] ''f'' (JDict [(''thread_id'', JNull), (''messages'', JList [mem_entry ''T'' ''user'' ''x'' None])]))"
    by (simp add: append_memory_def empty_memory_def)
  have n: "''g'' \<noteq> ''f''" by simp
  show ?thesis using a n append_memory_frame [OF a n] by blast
qed

text \<open>
  C9. Loading is fail-open only for unparsable files: a file holding valid JSON of another
  shape (here a list) is returned as it is, and the next append raises \<open>AttributeError\<close>.
\<close>

theorem append_memory_wrong_shape:
  assumes "map_of d p = Some (FJson (JList xs))"
  shows "load_memory d p = JList xs \<and> append_memory keep d p ts role text mid = Inl AttributeError"
  using assms by (simp add: load_memory_def append_memory_def)

theorem append_memory_wrong_shape_witness:
  "map_of [(''f'', FJson (JList []))] ''f'' = Some (FJson (JList [])) \<and>
   load_memory [(''f'', FJson (JList []))] ''f'' = JList [] \<and>
   append_memory None [(''f'', FJson (JList []))] ''f'' ''T'' ''user'' ''x'' None = Inl AttributeError"
  using append_memory_wrong_shape [of "[(''f'', FJson (JList []))]" "''f''" "[]" None "''T''" "''user''" "''x''" None]
  by simp

text \<open>
  The spec's first scenario: appending \<open>(user, "Hello", "m1")\<close> and then
  \<open>(assistant, "Hi there", "m2")\<close> to a new thread leaves exactly these two entries.
\<close>

theorem scenario_hello:
  "append_all None [] (memory_path_for_thread ''t1'')
     [(''T1'', ''user'', ''Hello'', Some ''m1''), (''T2'', ''assistant'', ''Hi there'', Some ''m2'')]
   = Inr [(memory_path_for_thread ''t1'', FJson (JDict [(''thread_id'', JNull), (''messages'',
       JList [mem_entry ''T1'' ''user'' ''Hello'' (Some ''m1''),
              mem_entry ''T2'' ''assistant'' ''Hi there'' (Some ''m2'')])]))]"
  by (simp add: append_memory_def load_memory_def write_json_def empty_memory_def)

text \<open>
  The spec's trim scenario: with the policy \<open>[-2:]\<close>, appending A to F leaves \<open>[E, F]\<close>.
\<close>

theorem scenario_trim:
  "append_all (Some 2) [] ''f''
     [(''1'', ''user'', ''A'', None), (''2'', ''assistant'', ''B'', None), (''3'', ''user'', ''C'', None),
      (''4'', ''assistant'', ''D'', None), (''5'', ''user'', ''E'', None), (''6'', ''assistant'', ''F'', None)]
   = Inr [(''f'', FJson (JDict [(''thread_id'', JNull), (''messages'',
       JList [mem_entry ''5'' ''user'' ''E'' None, mem_entry ''6'' ''assistant'' ''F'' None])]))]"
  by (simp add: append_memory_def load_memory_def write_json_def empty_memory_def last_n_def)

text \<open>The file naming is injective: distinct thread ids never share a journal file.\<close>

theorem memory_path_injective:
  "(memory_path_for_thread a = memory_path_for_thread b) = (a = b)"
  by (simp add: memory_path_for_thread_def)

end
