(* ===== verification/Directory.thy ===== *)
theory Directory
  imports Journal "HOL-Library.List_Lexorder" "HOL-Library.Char_ord" "HOL-Library.Multiset"
begin

text \<open>
  The thread directory: the read-side scans of the journal files that feed the resume
  menus. \<open>get_all_threads\<close> of the Streamlit app (files in descending name order) and
  of backup version 3 (files in directory order) build a dict from thread id to the text
  of the first user message; \<open>_list_saved_threads\<close> of the resuming command-line client
  builds menu rows and sorts them newest first; \<open>_choose_thread_interactive\<close> turns the
  typed answer into a thread id. Python's dict keys are JSON values compared by HOL
  equality (Python would also identify \<open>True\<close> with \<open>1\<close>).
\<close>

section \<open>Enumerating the journal files\<close>

text \<open>\<open>glob("conversation_*.json")\<close> inside \<open>memory/\<close>.\<close>

definition glob_conversation :: "string \<Rightarrow> bool" where
  "glob_conversation n \<longleftrightarrow> prefix ''conversation_'' n \<and> suffix ''.json'' n \<and> 18 \<le> length n"

definition memory_files :: "memdir \<Rightarrow> string list" where
  "memory_files d = filter glob_conversation (map fst d)"

text \<open>The thread id a matching file name carries (the text the \<open>*\<close> matched).\<close>

definition thread_of_file :: "string \<Rightarrow> string" where
  "thread_of_file n = take (length n - 18) (drop 13 n)"

section \<open>\<open>get_all_threads\<close>\<close>

text \<open>\<open>next((msg["text"] for msg in messages if msg["role"] == "user"), "Chat")\<close>.\<close>

fun first_user :: "json list \<Rightarrow> json py" where
  "first_user [] = Inr (JStr ''Chat'')"
| "first_user (m # ms) =
     py_bind (py_getitem m ''role'') (\<lambda>r.
       if r = JStr ''user'' then py_getitem m ''text'' else first_user ms)"

definition first_user_text :: "json \<Rightarrow> json py" where
  "first_user_text v = py_bind (py_iter v) first_user"

text \<open>\<open>threads[k] = v\<close>: lists and dicts are unhashable.\<close>

fun py_hashable :: "json \<Rightarrow> bool" where
  "py_hashable (JList _) = False"
| "py_hashable (JDict _) = False"
| "py_hashable _ = True"

definition dict_store :: "(json \<times> json) list \<Rightarrow> json \<Rightarrow> json \<Rightarrow> (json \<times> json) list py" where
  "dict_store m k v = (if py_hashable k then Inr (AList.update k v m) else Inl TypeError)"

text \<open>The loop body of \<open>get_all_threads\<close>, over the files in the order given.\<close>

fun collect_threads :: "memdir \<Rightarrow> (json \<times> json) list \<Rightarrow> string list \<Rightarrow> (json \<times> json) list py" where
  "collect_threads d acc [] = Inr acc"
| "collect_threads d acc (f # fs) =
     (let mem_data = load_memory d f in
      py_bind (py_get mem_data ''thread_id'' JNull) (\<lambda>tid.
      py_bind (if py_truthy tid then py_get mem_data ''messages'' JNull else Inr tid) (\<lambda>msgs.
      if py_truthy tid \<and> py_truthy msgs then
        py_bind (py_getitem mem_data ''messages'') (\<lambda>ms.
        py_bind (first_user_text ms) (\<lambda>label.
        py_bind (dict_store acc tid label) (\<lambda>acc'.
        collect_threads d acc' fs)))
      else collect_threads d acc fs)))"

text \<open>
  The Streamlit app and backup 4: \<open>sorted(..., reverse=True)\<close>; file names are distinct,
  so the reversed ascending order is Python's descending one.
\<close>

definition get_all_threads :: "memdir \<Rightarrow> (json \<times> json) list py" where
  "get_all_threads d = collect_threads d [] (rev (sort (memory_files d)))"

text \<open>Backup 3: the files in directory order.\<close>

definition get_all_threads_unsorted :: "memdir \<Rightarrow> (json \<times> json) list py" where
  "get_all_threads_unsorted d = collect_threads d [] (memory_files d)"

section \<open>\<open>_list_saved_threads\<close>\<close>

record saved_item =
  si_tid :: json
  si_path :: string
  si_created :: json
  si_role :: json
  si_snippet :: json

text \<open>\<open>last_text[:57] + "..." if last_text and len(last_text) > 60 else last_text\<close>.\<close>

definition snippet :: "json \<Rightarrow> json py" where
  "snippet t =
     (if py_truthy t then
        py_bind (py_len t) (\<lambda>n.
          if 60 < n then (case t of JStr s \<Rightarrow> Inr (JStr (take 57 s @ ''...'')) | _ \<Rightarrow> Inl TypeError)
          else Inr t)
      else Inr t)"

definition saved_row :: "memdir \<Rightarrow> string \<Rightarrow> saved_item option py" where
  "saved_row d f =
     (let data = load_memory d f in
      py_bind (py_get data ''thread_id'' JNull) (\<lambda>tid.
      py_bind (py_get data ''messages'' (JList [])) (\<lambda>msgs.
      py_bind (if py_truthy msgs then py_bind (py_index msgs 0) (\<lambda>m. py_getitem m ''ts'') else Inr JNull) (\<lambda>created.
      py_bind (if py_truthy msgs then py_bind (py_index msgs (-1)) (\<lambda>m.
                 py_bind (py_getitem m ''role'') (\<lambda>r. py_bind (py_getitem m ''text'') (\<lambda>t. Inr (r, t))))
               else Inr (JNull, JNull)) (\<lambda>(last_role, last_text).
      py_bind (snippet last_text) (\<lambda>snip.
      Inr (if py_truthy tid
           then Some \<lparr>si_tid = tid, si_path = f, si_created = created, si_role = last_role, si_snippet = snip\<rparr>
           else None)))))))"

fun saved_rows :: "memdir \<Rightarrow> string list \<Rightarrow> saved_item list py" where
  "saved_rows d [] = Inr []"
| "saved_rows d (f # fs) =
     py_bind (saved_row d f) (\<lambda>r. py_bind (saved_rows d fs) (\<lambda>rs.
       Inr (case r of None \<Rightarrow> rs | Some x \<Rightarrow> x # rs)))"

text \<open>
  \<open>items.sort(key=lambda x: x[2] or "", reverse=True)\<close> is a stable sort into
  descending key order: an element goes before the first one whose key is not larger.
\<close>

fun insort_desc :: "('a \<Rightarrow> 'k::linorder) \<Rightarrow> 'a \<Rightarrow> 'a list \<Rightarrow> 'a list" where
  "insort_desc f x [] = [x]"
| "insort_desc f x (y # ys) = (if f y \<le> f x then x # y # ys else y # insort_desc f x ys)"

definition sort_desc :: "('a \<Rightarrow> 'k::linorder) \<Rightarrow> 'a list \<Rightarrow> 'a list" where
  "sort_desc f xs = foldr (insort_desc f) xs []"

definition created_key :: "saved_item \<Rightarrow> json" where
  "created_key x = (if py_truthy (si_created x) then si_created x else JStr '''')"

text \<open>
  The keys are compared with \<open><\<close>. Strings compare lexicographically; the model sorts
  when every key is a string and raises \<open>TypeError\<close> otherwise as soon as there are two
  rows to compare (Python raises only when it compares two incomparable keys).
\<close>

fun str_of_json :: "json \<Rightarrow> string option" where
  "str_of_json (JStr s) = Some s"
| "str_of_json _ = None"

definition created_str :: "saved_item \<Rightarrow> string" where
  "created_str x = the (str_of_json (created_key x))"

definition sort_saved :: "saved_item list \<Rightarrow> saved_item list py" where
  "sort_saved items =
     (if \<forall>x\<in>set items. str_of_json (created_key x) \<noteq> None
      then Inr (sort_desc created_str items)
      else if length items \<le> 1 then Inr items else Inl TypeError)"

definition list_saved_threads :: "memdir \<Rightarrow> saved_item list py" where
  "list_saved_threads d = py_bind (saved_rows d (memory_files d)) sort_saved"

section \<open>\<open>_choose_thread_interactive\<close>\<close>

text \<open>
  The typed answer is \<open>None\<close> at end of input, where \<open>input()\<close> raises
  \<open>EOFError\<close> (not caught here). The result is the chosen thread id, or \<open>None\<close> for a
  new conversation.
\<close>

definition choose_from :: "saved_item list \<Rightarrow> string \<Rightarrow> json option" where
  "choose_from saved answer =
     (let choice = py_lower (py_strip answer) in
      if choice = ''n'' \<or> choice = '''' then None
      else case py_int choice of
        Inl _ \<Rightarrow> None
      | Inr k \<Rightarrow>
          (let idx = k - 1 in
           if 0 \<le> idx \<and> idx < int (length saved) then Some (si_tid (saved ! nat idx)) else None))"

definition choose_thread_interactive :: "memdir \<Rightarrow> string option \<Rightarrow> json option py" where
  "choose_thread_interactive d answer =
     py_bind (list_saved_threads d) (\<lambda>saved.
       if saved = [] then Inr None
       else case answer of
         None \<Rightarrow> Inl EOFError
       | Some a \<Rightarrow> Inr (choose_from saved a))"

section \<open>The abstract directory\<close>

text \<open>
  What \<open>get_all_threads\<close> promises on journals: a journal with a non-empty thread id
  and at least one entry is listed under its thread id, labelled with the text of its
  first user entry, or \<open>Chat\<close> when there is none.
\<close>

definition thread_label :: "journal \<Rightarrow> string" where
  "thread_label j =
     (case find (\<lambda>e. e_role e = ''user'') (j_messages j) of Some e \<Rightarrow> e_text e | None \<Rightarrow> ''Chat'')"

definition listed :: "journal \<Rightarrow> bool" where
  "listed j \<longleftrightarrow> (case j_thread j of Some t \<Rightarrow> t \<noteq> [] | None \<Rightarrow> False) \<and> j_messages j \<noteq> []"

definition dir_row :: "journal \<Rightarrow> json \<times> json" where
  "dir_row j = (JStr (the (j_thread j)), JStr (thread_label j))"

fun dir_spec :: "(json \<times> json) list \<Rightarrow> journal list \<Rightarrow> (json \<times> json) list" where
  "dir_spec acc [] = acc"
| "dir_spec acc (j # js) =
     dir_spec (if listed j then AList.update (fst (dir_row j)) (snd (dir_row j)) acc else acc) js"

definition journal_at :: "memdir \<Rightarrow> string \<Rightarrow> journal" where
  "journal_at d f = the (journal_of_json (load_memory d f))"

section \<open>Lemmas: the stable descending sort\<close>

lemma mset_insort_desc: "mset (insort_desc f x xs) = add_mset x (mset xs)"
  by (induction xs) auto

lemma mset_sort_desc: "mset (sort_desc f xs) = mset xs"
  by (induction xs) (simp_all add: sort_desc_def mset_insort_desc)

lemma set_insort_desc: "set (insort_desc f x xs) = insert x (set xs)"
  by (induction xs) auto

lemma sorted_insort_desc:
  "sorted_wrt (\<lambda>a b. f b \<le> f a) xs \<Longrightarrow> sorted_wrt (\<lambda>a b. f b \<le> f a) (insort_desc f x xs)"
  by (induction xs) (auto simp: set_insort_desc)

lemma sorted_sort_desc: "sorted_wrt (\<lambda>a b. f b \<le> f a) (sort_desc f xs)"
  by (induction xs) (simp_all add: sort_desc_def sorted_insort_desc)

lemma filter_insort_desc_same:
  "f x = k \<Longrightarrow> sorted_wrt (\<lambda>a b. f b \<le> f a) xs \<Longrightarrow>
   filter (\<lambda>y. f y = k) (insort_desc f x xs) = x # filter (\<lambda>y. f y = k) xs"
  by (induction xs) auto

lemma filter_insort_desc_other:
  "f x \<noteq> k \<Longrightarrow> filter (\<lambda>y. f y = k) (insort_desc f x xs) = filter (\<lambda>y. f y = k) xs"
  by (induction xs) auto

lemma sort_desc_stable: "filter (\<lambda>y. f y = k) (sort_desc f xs) = filter (\<lambda>y. f y = k) xs"
proof (induction xs)
  case (Cons x xs)
  have s: "sorted_wrt (\<lambda>a b. f b \<le> f a) (sort_desc f xs)" by (rule sorted_sort_desc)
  show ?case
  proof (cases "f x = k")
    case True
    with Cons.IH s show ?thesis by (simp add: sort_desc_def filter_insort_desc_same)
  next
    case False
    with Cons.IH show ?thesis by (simp add: sort_desc_def filter_insort_desc_other)
  qed
qed (simp add: sort_desc_def)

lemma sort_desc_eq_rev_sort_key: "sort_desc f xs = rev (sort_key f (rev xs))"
proof -
  have "sort_key f (rev xs) = rev (sort_desc f xs)"
  proof (rule properties_for_sort_key)
    show "mset (rev (sort_desc f xs)) = mset (rev xs)" by (simp add: mset_sort_desc)
    show "filter (\<lambda>y. f k = f y) (rev (sort_desc f xs)) = filter (\<lambda>y. f k = f y) (rev xs)" for k
      using sort_desc_stable [of f "f k" xs] by (simp add: rev_filter [symmetric] eq_commute)
    show "sorted (map f (rev (sort_desc f xs)))"
      using sorted_sort_desc [of f xs] by (simp add: rev_map [symmetric] sorted_wrt_rev sorted_wrt_map)
  qed
  then show ?thesis by simp
qed

section \<open>Lemmas: file names\<close>

lemma glob_memory_path: "glob_conversation (memory_path_for_thread t)"
proof -
  have "suffix ''.json'' ((''conversation_'' @ t) @ ''.json'')" by (rule suffixI) simp
  then show ?thesis by (simp add: glob_conversation_def memory_path_for_thread_def)
qed

lemma thread_of_memory_path: "thread_of_file (memory_path_for_thread t) = t"
  by (simp add: thread_of_file_def memory_path_for_thread_def)

lemma memory_path_of_glob:
  assumes "glob_conversation n" shows "memory_path_for_thread (thread_of_file n) = n"
proof -
  from assms obtain a where a: "n = ''conversation_'' @ a"
    by (auto simp: glob_conversation_def prefix_def)
  from assms obtain b where b: "n = b @ ''.json''"
    by (auto simp: glob_conversation_def suffix_def)
  from assms b have lb: "13 \<le> length b" by (simp add: glob_conversation_def)
  have "a = drop 13 n" by (simp add: a)
  also have "\<dots> = drop 13 b @ ''.json''" using lb by (simp add: b)
  finally have a': "a = drop 13 b @ ''.json''" .
  have "thread_of_file n = drop 13 b"
    using lb by (simp add: thread_of_file_def b)
  then show ?thesis by (simp add: memory_path_for_thread_def a a')
qed

section \<open>Lemmas: the menu answer\<close>

lemma digit_char_props:
  assumes "d < 10" shows "is_digit (digit_char d)" and "digit_val (digit_char d) = d"
  using assms by (simp_all add: is_digit_def digit_val_def digit_char_def)

lemma nat_str_digits: "\<forall>c\<in>set (nat_str n). is_digit c"
  by (induction n rule: nat_str.induct) (subst nat_str.simps, simp add: digit_char_props)

lemma nat_str_not_Nil: "nat_str n \<noteq> []"
  by (subst nat_str.simps) simp

lemma foldl_digits_nat_str: "foldl (\<lambda>a c. 10 * a + int (digit_val c)) 0 (nat_str n) = int n"
proof (induction n rule: nat_str.induct)
  case (1 n)
  show ?case
  proof (cases "n < 10")
    case True
    then show ?thesis by (subst nat_str.simps) (simp add: digit_char_props)
  next
    case False
    with "1.IH" have "foldl (\<lambda>a c. 10 * a + int (digit_val c)) 0 (nat_str (n div 10)) = int (n div 10)"
      by simp
    have e: "10 * int (n div 10) + int (n mod 10) = int n"
      by (metis div_mult_mod_eq mult.commute of_nat_add of_nat_mult of_nat_numeral)
    with False \<open>foldl _ 0 (nat_str (n div 10)) = _\<close> show ?thesis
      by (subst nat_str.simps) (simp add: digit_char_props)
  qed
qed

lemma parse_digits_digits:
  "\<forall>c\<in>set xs. is_digit c \<Longrightarrow> xs \<noteq> [] \<Longrightarrow>
   parse_digits acc p xs = Some (foldl (\<lambda>a c. 10 * a + int (digit_val c)) acc xs)"
proof (induction xs arbitrary: acc p)
  case (Cons c cs)
  then show ?case by (cases "cs = []") simp_all
qed simp

lemma digit_not_sign: "is_digit c \<Longrightarrow> c \<noteq> CHR ''-'' \<and> c \<noteq> CHR ''+''"
  by (auto simp: is_digit_def)

lemma py_int_nat_str: "py_int (nat_str n) = Inr (int n)"
proof -
  obtain c cs where cs: "nat_str n = c # cs" using nat_str_not_Nil by (cases "nat_str n") auto
  with nat_str_digits [of n] have "is_digit c" by simp
  then have sign: "c \<noteq> CHR ''-'' \<and> c \<noteq> CHR ''+''" by (rule digit_not_sign)
  have "parse_digits 0 False (nat_str n) = Some (int n)"
    using parse_digits_digits [OF nat_str_digits nat_str_not_Nil, of 0 False] foldl_digits_nat_str [of n]
    by simp
  with cs have p: "parse_digits 0 False (c # cs) = Some (int n)" by simp
  show ?thesis using sign p by (simp add: py_int_def cs del: parse_digits.simps)
qed

lemma digit_not_whitespace: "is_digit c \<Longrightarrow> \<not> py_whitespace c"
  by (auto simp: is_digit_def py_whitespace_def)

lemma py_strip_id: "\<forall>c\<in>set xs. \<not> py_whitespace c \<Longrightarrow> py_strip xs = xs"
proof -
  assume a: "\<forall>c\<in>set xs. \<not> py_whitespace c"
  then have "dropWhile py_whitespace xs = xs" by (cases xs) simp_all
  moreover from a have "dropWhile py_whitespace (rev xs) = rev xs" by (cases "rev xs") auto
  ultimately show ?thesis by (simp add: py_strip_def)
qed

lemma py_lower_digits: "\<forall>c\<in>set xs. is_digit c \<Longrightarrow> py_lower xs = xs"
  by (induction xs) (auto simp: py_lower_def py_lower_char_def is_digit_def Let_def)

section \<open>Lemmas: \<open>get_all_threads\<close> against the abstract directory\<close>

lemma entry_of_json_items:
  assumes "entry_of_json m = Some e"
  shows "py_getitem m ''role'' = Inr (JStr (e_role e)) \<and> py_getitem m ''text'' = Inr (JStr (e_text e)) \<and>
         py_getitem m ''ts'' = Inr (JStr (e_ts e))"
  using assms by (auto simp: entry_of_json_def split: json.splits option.splits)

lemma first_user_entries:
  "those (map entry_of_json ms) = Some es \<Longrightarrow>
   first_user ms = Inr (JStr (case find (\<lambda>e. e_role e = ''user'') es of Some e \<Rightarrow> e_text e | None \<Rightarrow> ''Chat''))"
proof (induction ms arbitrary: es)
  case (Cons m ms)
  then obtain e es' where e: "entry_of_json m = Some e" and es': "those (map entry_of_json ms) = Some es'"
    and es: "es = e # es'" by (auto split: option.splits)
  show ?case using entry_of_json_items [OF e] Cons.IH [OF es'] by (simp add: es)
qed simp

lemma opt_str_of_json_inv: "opt_str_of_json y = Some t \<Longrightarrow> y = json_of_opt_str t"
  by (cases y) auto

lemma opt_str_of_json_Some_None [simp]: "opt_str_of_json y = Some None \<longleftrightarrow> y = JNull"
  by (cases y) auto

lemma journal_fields:
  assumes "journal_of_json v = Some j"
  shows "py_get v ''thread_id'' JNull = Inr (json_of_opt_str (j_thread j)) \<and>
    (\<exists>ms. py_get v ''messages'' JNull = Inr (JList ms) \<and> py_getitem v ''messages'' = Inr (JList ms) \<and>
          py_get v ''messages'' (JList []) = Inr (JList ms) \<and>
          those (map entry_of_json ms) = Some (j_messages j))"
  using assms
  by (auto simp: journal_of_json_Some_iff thread_of_json_def split: option.splits dest: opt_str_of_json_inv)

lemma truthy_thread: "py_truthy (json_of_opt_str t) \<longleftrightarrow> (case t of Some s \<Rightarrow> s \<noteq> [] | None \<Rightarrow> False)"
  by (cases t) simp_all

lemma truthy_messages: "those (map entry_of_json ms) = Some es \<Longrightarrow> py_truthy (JList ms) \<longleftrightarrow> es \<noteq> []"
  by (auto simp: those_map_iff)

lemma collect_threads_refines:
  "wf_memdir d \<Longrightarrow> collect_threads d acc fs = Inr (dir_spec acc (map (journal_at d) fs))"
proof (induction fs arbitrary: acc)
  case (Cons f fs)
  from wf_memdir_load [OF Cons.prems] obtain j where j: "journal_of_json (load_memory d f) = Some j" by auto
  from journal_fields [OF j] obtain ms where
    tid: "py_get (load_memory d f) ''thread_id'' JNull = Inr (json_of_opt_str (j_thread j))" and
    g: "py_get (load_memory d f) ''messages'' JNull = Inr (JList ms)" and
    gi: "py_getitem (load_memory d f) ''messages'' = Inr (JList ms)" and
    es: "those (map entry_of_json ms) = Some (j_messages j)" by blast
  have lab: "first_user_text (JList ms) = Inr (JStr (thread_label j))"
    using first_user_entries [OF es] by (simp add: first_user_text_def thread_label_def)
  have ja: "journal_at d f = j" using j by (simp add: journal_at_def)
  show ?case
  proof (cases "listed j")
    case True
    then obtain t where t: "j_thread j = Some t" "t \<noteq> []" and m: "j_messages j \<noteq> []"
      by (auto simp: listed_def split: option.splits)
    then show ?thesis using Cons.IH [OF Cons.prems] True tid g gi lab truthy_messages [OF es]
      by (simp add: ja dict_store_def dir_row_def Let_def)
  next
    case False
    then show ?thesis using Cons.IH [OF Cons.prems] tid g truthy_messages [OF es]
      by (auto simp: ja listed_def truthy_thread Let_def split: option.splits)
  qed
qed simp

lemma update_fresh: "k \<notin> fst ` set acc \<Longrightarrow> AList.update k v acc = acc @ [(k, v)]"
  by (induction acc) auto

lemma dir_spec_rows:
  "distinct (map (fst \<circ> dir_row) (filter listed js)) \<Longrightarrow>
   (\<forall>j\<in>set (filter listed js). fst (dir_row j) \<notin> fst ` set acc) \<Longrightarrow>
   dir_spec acc js = acc @ map dir_row (filter listed js)"
proof (induction js arbitrary: acc)
  case (Cons j js)
  show ?case
  proof (cases "listed j")
    case True
    then have upd: "AList.update (fst (dir_row j)) (snd (dir_row j)) acc = acc @ [dir_row j]"
      using Cons.prems(2) by (simp add: update_fresh)
    have "\<forall>j'\<in>set (filter listed js). fst (dir_row j') \<notin> fst ` set (acc @ [dir_row j])"
    proof
      fix j' assume j': "j' \<in> set (filter listed js)"
      have "(fst \<circ> dir_row) j' \<in> (fst \<circ> dir_row) ` set (filter listed js)" using j' by (rule imageI)
      moreover from Cons.prems(1) True
      have "fst (dir_row j) \<notin> (fst \<circ> dir_row) ` set (filter listed js)" by simp
      ultimately have "fst (dir_row j') \<noteq> fst (dir_row j)" by auto
      with j' Cons.prems(2) show "fst (dir_row j') \<notin> fst ` set (acc @ [dir_row j])" by auto
    qed
    then show ?thesis using Cons.IH [of "acc @ [dir_row j]"] Cons.prems True by (simp add: upd)
  next
    case False
    then show ?thesis using Cons.IH [of acc] Cons.prems by simp
  qed
qed simp

lemma distinct_dir_keys:
  assumes "distinct fs"
    and "\<forall>f\<in>set fs. listed (journal_at d f) \<longrightarrow> f = memory_path_for_thread (the (j_thread (journal_at d f)))"
  shows "distinct (map (fst \<circ> dir_row) (filter listed (map (journal_at d) fs)))"
  using assms
proof (induction fs)
  case (Cons f fs)
  have "fst (dir_row (journal_at d f)) \<notin> (fst \<circ> dir_row) ` set (filter listed (map (journal_at d) fs))"
    if "listed (journal_at d f)"
  proof
    assume "fst (dir_row (journal_at d f)) \<in> (fst \<circ> dir_row) ` set (filter listed (map (journal_at d) fs))"
    then obtain g where g: "g \<in> set fs" "listed (journal_at d g)"
      and eq: "the (j_thread (journal_at d g)) = the (j_thread (journal_at d f))"
      by (auto simp: dir_row_def)
    from Cons.prems(2) g that eq have "g = f" by auto
    with g Cons.prems(1) show False by simp
  qed
  with Cons show ?case by auto
qed simp

lemma mem_reach_listed_named:
  assumes "mem_reach d" and "listed (journal_at d f)"
  shows "f = memory_path_for_thread (the (j_thread (journal_at d f)))"
proof -
  from mem_reach_wf_memdir [OF assms(1)] have "journal_of_json (load_memory d f) \<noteq> None"
    by (rule wf_memdir_load)
  then have j: "journal_of_json (load_memory d f) = Some (journal_at d f)" by (auto simp: journal_at_def)
  from assms(2) obtain t where "j_thread (journal_at d f) = Some t" by (auto simp: listed_def split: option.splits)
  with named_load [OF conjunct1 [OF mem_reach_named [OF assms(1)]] j] show ?thesis by simp
qed

lemma get_all_threads_rows:
  assumes "mem_reach d"
  shows "get_all_threads d = Inr (map dir_row (filter listed (map (journal_at d) (rev (sort (memory_files d)))))) \<and>
    distinct (map (fst \<circ> dir_row) (filter listed (map (journal_at d) (rev (sort (memory_files d))))))"
proof -
  let ?fs = "rev (sort (memory_files d))"
  let ?J = "journal_at d"
  have wf: "wf_memdir d" by (rule mem_reach_wf_memdir [OF assms])
  have dist: "distinct (map fst d)" using mem_reach_named [OF assms] by simp
  have fs: "distinct ?fs" using dist by (simp add: memory_files_def)
  have named: "\<forall>f\<in>set ?fs. listed (?J f) \<longrightarrow> f = memory_path_for_thread (the (j_thread (?J f)))"
    using mem_reach_listed_named [OF assms] by blast
  have keys: "distinct (map (fst \<circ> dir_row) (filter listed (map ?J ?fs)))"
    by (rule distinct_dir_keys [OF fs named])
  show ?thesis
    using collect_threads_refines [OF wf, of "[]" ?fs] dir_spec_rows [OF keys, of "[]"] keys
    by (simp add: get_all_threads_def)
qed

lemma dir_rows_mem:
  assumes "mem_reach d"
  shows "(k, l) \<in> set (map dir_row (filter listed (map (journal_at d) (rev (sort (memory_files d)))))) \<longleftrightarrow>
    (\<exists>t j. k = JStr t \<and> memory_path_for_thread t \<in> fst ` set d \<and>
         journal_of_json (load_memory d (memory_path_for_thread t)) = Some j \<and>
         j_thread j = Some t \<and> t \<noteq> [] \<and> j_messages j \<noteq> [] \<and> l = JStr (thread_label j))"
proof -
  let ?fs = "rev (sort (memory_files d))"
  let ?J = "journal_at d"
  have wf: "wf_memdir d" by (rule mem_reach_wf_memdir [OF assms])
  have setfs: "set ?fs = {f \<in> fst ` set d. glob_conversation f}" by (auto simp: memory_files_def)
  have Jf: "journal_of_json (load_memory d f) = Some (?J f)" for f
    using wf_memdir_load [OF wf, of f] by (auto simp: journal_at_def)
  have named: "\<forall>f\<in>set ?fs. listed (?J f) \<longrightarrow> f = memory_path_for_thread (the (j_thread (?J f)))"
    using mem_reach_listed_named [OF assms] by blast
  show ?thesis
  proof
    assume "(k, l) \<in> set (map dir_row (filter listed (map ?J ?fs)))"
    then obtain f where f: "f \<in> set ?fs" "listed (?J f)" and kl: "(k, l) = dir_row (?J f)" by auto
    from f obtain t where t: "j_thread (?J f) = Some t" "t \<noteq> []" "j_messages (?J f) \<noteq> []"
      by (auto simp: listed_def split: option.splits)
    from named f t have "f = memory_path_for_thread t" by auto
    with f t kl Jf [of f] setfs show "\<exists>t j. k = JStr t \<and> memory_path_for_thread t \<in> fst ` set d \<and>
         journal_of_json (load_memory d (memory_path_for_thread t)) = Some j \<and>
         j_thread j = Some t \<and> t \<noteq> [] \<and> j_messages j \<noteq> [] \<and> l = JStr (thread_label j)"
      by (auto simp: dir_row_def)
  next
    assume "\<exists>t j. k = JStr t \<and> memory_path_for_thread t \<in> fst ` set d \<and>
         journal_of_json (load_memory d (memory_path_for_thread t)) = Some j \<and>
         j_thread j = Some t \<and> t \<noteq> [] \<and> j_messages j \<noteq> [] \<and> l = JStr (thread_label j)"
    then obtain t j where t: "k = JStr t" "memory_path_for_thread t \<in> fst ` set d"
      "journal_of_json (load_memory d (memory_path_for_thread t)) = Some j"
      "j_thread j = Some t" "t \<noteq> []" "j_messages j \<noteq> []" "l = JStr (thread_label j)" by blast
    let ?f = "memory_path_for_thread t"
    have "?f \<in> set ?fs" using t(2) setfs glob_memory_path by auto
    moreover have "?J ?f = j" using t(3) by (simp add: journal_at_def)
    ultimately show "(k, l) \<in> set (map dir_row (filter listed (map ?J ?fs)))"
      using t by (force simp: listed_def dir_row_def)
  qed
qed

section \<open>Properties of the thread directory\<close>

text \<open>
  C13. For every reachable journal directory, \<open>get_all_threads\<close> succeeds and lists each
  thread exactly once: a key is listed iff the thread's journal file exists, records that
  thread id (non-empty) and at least one entry, and its label is the text of the journal's
  first user entry (\<open>Chat\<close> when there is none).
\<close>

theorem get_all_threads_lists:
  assumes "mem_reach d"
  shows "\<exists>ts. get_all_threads d = Inr ts \<and> distinct (map fst ts) \<and>
    (\<forall>k l. (k, l) \<in> set ts \<longleftrightarrow>
      (\<exists>t j. k = JStr t \<and> memory_path_for_thread t \<in> fst ` set d \<and>
         journal_of_json (load_memory d (memory_path_for_thread t)) = Some j \<and>
         j_thread j = Some t \<and> t \<noteq> [] \<and> j_messages j \<noteq> [] \<and> l = JStr (thread_label j)))"
proof -
  note rows = get_all_threads_rows [OF assms]
  show ?thesis using rows dir_rows_mem [OF assms] by (simp add: comp_def)
qed

theorem get_all_threads_lists_witness:
  "mem_reach [(memory_path_for_thread ''t1'', FJson (JDict [(''thread_id'', JStr ''t1''),
        (''messages'', JList [mem_entry ''T1'' ''user'' ''Hello'' None])]))] \<and> (\<exists>ts. get_all_threads [(memory_path_for_thread ''t1'', FJson (JDict [(''thread_id'', JStr ''t1''),
        (''messages'', JList [mem_entry ''T1'' ''user'' ''Hello'' None])]))] = Inr ts \<and> distinct (map fst ts) \<and>
    (\<forall>k l. (k, l) \<in> set ts \<longleftrightarrow>
      (\<exists>t j. k = JStr t \<and> memory_path_for_thread t \<in> fst ` set [(memory_path_for_thread ''t1'', FJson (JDict [(''thread_id'', JStr ''t1''),
        (''messages'', JList [mem_entry ''T1'' ''user'' ''Hello'' None])]))] \<and>
         journal_of_json (load_memory [(memory_path_for_thread ''t1'', FJson (JDict [(''thread_id'', JStr ''t1''),
        (''messages'', JList [mem_entry ''T1'' ''user'' ''Hello'' None])]))] (memory_path_for_thread t)) = Some j \<and>
         j_thread j = Some t \<and> t \<noteq> [] \<and> j_messages j \<noteq> [] \<and> l = JStr (thread_label j))))"
proof -
  have p: "prepare_memory [] (JStr ''t1'') = Inr [(memory_path_for_thread ''t1'', FJson (JDict [(''thread_id'', JStr ''t1''), (''messages'', JList [])]))]"
    by (simp add: prepare_memory_def load_memory_def write_json_def empty_memory_def)
  have a: "append_memory None [(memory_path_for_thread ''t1'', FJson (JDict [(''thread_id'', JStr ''t1''), (''messages'', JList [])]))] (memory_path_for_thread ''t1'') ''T1'' ''user'' ''Hello'' None = Inr [(memory_path_for_thread ''t1'', FJson (JDict [(''thread_id'', JStr ''t1''),
        (''messages'', JList [mem_entry ''T1'' ''user'' ''Hello'' None])]))]"
    by (simp add: append_memory_def load_memory_def write_json_def)
  have r: "mem_reach [(memory_path_for_thread ''t1'', FJson (JDict [(''thread_id'', JStr ''t1''),
        (''messages'', JList [mem_entry ''T1'' ''user'' ''Hello'' None])]))]" by (rule mem_reach.append [OF mem_reach.prepare [OF mem_reach.start p] a])
  show ?thesis using r get_all_threads_lists [OF r] by blast
qed

text \<open>
  C14. A conversation whose journal file only ever receives appends (what the Streamlit
  app's chat handler does: it never stamps the thread id) is never listed by
  \<open>get_all_threads\<close>, so it cannot be resumed from the history panel.
\<close>

theorem appended_only_not_listed:
  assumes "append_all keep [] p ops = Inr d"
  shows "get_all_threads d = Inr []"
proof -
  have r: "mem_reach d" by (rule append_all_reach [OF mem_reach.start assms])
  from append_all_refines [of "[]" p empty_journal keep ops] assms
  have jp: "journal_of_json (load_memory d p) = Some (foldl (j_append keep) empty_journal (map entry_of_op ops))"
    by auto
  have "\<not> listed (journal_at d f)" if "f \<in> set (rev (sort (memory_files d)))" for f
  proof -
    from that have "f \<in> fst ` set d" by (auto simp: memory_files_def)
    with append_all_keys [OF assms] have "f = p" by auto
    with jp show ?thesis by (simp add: journal_at_def listed_def empty_journal_def)
  qed
  then show ?thesis using get_all_threads_rows [OF r] by (simp add: filter_empty_conv)
qed

theorem appended_only_not_listed_witness:
  "append_all (Some 20) [] (memory_path_for_thread ''t1'') [(''T1'', ''user'', ''Hello'', Some ''m1'')] =
     Inr [(memory_path_for_thread ''t1'', FJson (JDict [(''thread_id'', JNull),
            (''messages'', JList [mem_entry ''T1'' ''user'' ''Hello'' (Some ''m1'')])]))] \<and>
   get_all_threads [(memory_path_for_thread ''t1'', FJson (JDict [(''thread_id'', JNull),
            (''messages'', JList [mem_entry ''T1'' ''user'' ''Hello'' (Some ''m1'')])]))] = Inr []"
proof -
  have a: "append_all (Some 20) [] (memory_path_for_thread ''t1'') [(''T1'', ''user'', ''Hello'', Some ''m1'')] =
     Inr [(memory_path_for_thread ''t1'', FJson (JDict [(''thread_id'', JNull),
            (''messages'', JList [mem_entry ''T1'' ''user'' ''Hello'' (Some ''m1'')])]))]"
    by (simp add: append_memory_def load_memory_def write_json_def empty_memory_def last_n_def)
  show ?thesis using a appended_only_not_listed [OF a] by blast
qed

text \<open>
  The resume menu of the command-line client and the Streamlit history panel disagree
  on unused threads: a thread whose journal was stamped but holds no entry yet (what the
  command-line client writes when it opens a thread) is offered by
  \<open>_list_saved_threads\<close> but not by \<open>get_all_threads\<close>.
\<close>

theorem saved_threads_include_unused:
  "prepare_memory [] (JStr ''t1'') = Inr [(memory_path_for_thread ''t1'', FJson (JDict [(''thread_id'', JStr ''t1''), (''messages'', JList [])]))] \<and>
   list_saved_threads [(memory_path_for_thread ''t1'', FJson (JDict [(''thread_id'', JStr ''t1''), (''messages'', JList [])]))] =
     Inr [\<lparr>si_tid = JStr ''t1'', si_path = memory_path_for_thread ''t1'', si_created = JNull,
           si_role = JNull, si_snippet = JNull\<rparr>] \<and>
   get_all_threads [(memory_path_for_thread ''t1'', FJson (JDict [(''thread_id'', JStr ''t1''), (''messages'', JList [])]))] = Inr []"
  by (simp add: prepare_memory_def load_memory_def write_json_def empty_memory_def list_saved_threads_def
      memory_files_def glob_memory_path saved_row_def snippet_def sort_saved_def created_key_def
      sort_desc_def get_all_threads_def)

text \<open>
  C16. \<open>_list_saved_threads\<close> returns the rows it collected over the journal files,
  newest first: a permutation of those rows, in descending order of the key
  \<open>created_ts or ""\<close> (the time stamp of the journal's first entry), rows with equal
  keys in the order they were collected (Python's sort is stable).
\<close>

theorem list_saved_threads_sorted:
  assumes "list_saved_threads d = Inr items"
  shows "\<exists>rows. saved_rows d (memory_files d) = Inr rows \<and> mset items = mset rows \<and>
    sorted_wrt (\<lambda>a b. created_str b \<le> created_str a) items \<and>
    (\<forall>k. filter (\<lambda>y. created_str y = k) items = filter (\<lambda>y. created_str y = k) rows)"
proof -
  from assms obtain rows where r: "saved_rows d (memory_files d) = Inr rows" and s: "sort_saved rows = Inr items"
    by (auto simp: list_saved_threads_def py_bind_eq_Inr)
  show ?thesis
  proof (cases "\<forall>x\<in>set rows. str_of_json (created_key x) \<noteq> None")
    case True
    with s have "items = sort_desc created_str rows" by (simp add: sort_saved_def)
    then show ?thesis using r by (simp add: mset_sort_desc sorted_sort_desc sort_desc_stable)
  next
    case False
    with s have "items = rows" and "length rows \<le> 1" by (auto simp: sort_saved_def split: if_splits)
    then show ?thesis using r by (cases rows) auto
  qed
qed

theorem list_saved_threads_sorted_witness:
  "list_saved_threads [(memory_path_for_thread ''t1'', FJson (JDict [(''thread_id'', JStr ''t1''),
       (''messages'', JList [mem_entry ''2024'' ''user'' ''a'' None])])),
     (memory_path_for_thread ''t2'', FJson (JDict [(''thread_id'', JStr ''t2''),
       (''messages'', JList [mem_entry ''2025'' ''user'' ''b'' None])]))] =
     Inr [\<lparr>si_tid = JStr ''t2'', si_path = memory_path_for_thread ''t2'', si_created = JStr ''2025'',
           si_role = JStr ''user'', si_snippet = JStr ''b''\<rparr>,
          \<lparr>si_tid = JStr ''t1'', si_path = memory_path_for_thread ''t1'', si_created = JStr ''2024'',
           si_role = JStr ''user'', si_snippet = JStr ''a''\<rparr>] \<and>
   sorted_wrt (\<lambda>a b. created_str b \<le> created_str a)
     [\<lparr>si_tid = JStr ''t2'', si_path = memory_path_for_thread ''t2'', si_created = JStr ''2025'',
           si_role = JStr ''user'', si_snippet = JStr ''b''\<rparr>,
      \<lparr>si_tid = JStr ''t1'', si_path = memory_path_for_thread ''t1'', si_created = JStr ''2024'',
           si_role = JStr ''user'', si_snippet = JStr ''a''\<rparr>]"
proof -
  have e: "list_saved_threads [(memory_path_for_thread ''t1'', FJson (JDict [(''thread_id'', JStr ''t1''),
       (''messages'', JList [mem_entry ''2024'' ''user'' ''a'' None])])),
     (memory_path_for_thread ''t2'', FJson (JDict [(''thread_id'', JStr ''t2''),
       (''messages'', JList [mem_entry ''2025'' ''user'' ''b'' None])]))] =
     Inr [\<lparr>si_tid = JStr ''t2'', si_path = memory_path_for_thread ''t2'', si_created = JStr ''2025'',
           si_role = JStr ''user'', si_snippet = JStr ''b''\<rparr>,
          \<lparr>si_tid = JStr ''t1'', si_path = memory_path_for_thread ''t1'', si_created = JStr ''2024'',
           si_role = JStr ''user'', si_snippet = JStr ''a''\<rparr>]"
    using glob_memory_path [of "''t1''"] glob_memory_path [of "''t2''"]
    by (simp add: list_saved_threads_def memory_files_def memory_path_for_thread_def load_memory_def
        saved_row_def snippet_def mem_entry_def sort_saved_def created_key_def created_str_def sort_desc_def py_nth_def)
  from list_saved_threads_sorted [OF e] show ?thesis using e by auto
qed

text \<open>
  C17. Typing the number the resume menu prints in front of a row (\<open>[i]\<close>, counted from 1)
  selects exactly that row's thread.
\<close>

theorem choose_from_number:
  assumes "i < length saved"
  shows "choose_from saved (nat_str (Suc i)) = Some (si_tid (saved ! i))"
proof -
  let ?s = "nat_str (Suc i)"
  have strip: "py_strip ?s = ?s" using nat_str_digits digit_not_whitespace by (blast intro: py_strip_id)
  have lower: "py_lower ?s = ?s" by (rule py_lower_digits [OF nat_str_digits])
  have ne: "?s \<noteq> ''n''" using nat_str_digits [of "Suc i"] by (auto simp: is_digit_def)
  show ?thesis using assms nat_str_not_Nil [of "Suc i"] ne
    by (simp add: choose_from_def strip lower py_int_nat_str)
qed

theorem choose_from_number_witness:
  "1 < length [\<lparr>si_tid = JStr ''t1'', si_path = ''a'', si_created = JNull, si_role = JNull, si_snippet = JNull\<rparr>,
               \<lparr>si_tid = JStr ''t2'', si_path = ''b'', si_created = JNull, si_role = JNull, si_snippet = JNull\<rparr>] \<and>
   choose_from [\<lparr>si_tid = JStr ''t1'', si_path = ''a'', si_created = JNull, si_role = JNull, si_snippet = JNull\<rparr>,
                \<lparr>si_tid = JStr ''t2'', si_path = ''b'', si_created = JNull, si_role = JNull, si_snippet = JNull\<rparr>]
     (nat_str (Suc 1)) = Some (JStr ''t2'')"
  using choose_from_number [of 1 "[\<lparr>si_tid = JStr ''t1'', si_path = ''a'', si_created = JNull, si_role = JNull, si_snippet = JNull\<rparr>,
               \<lparr>si_tid = JStr ''t2'', si_path = ''b'', si_created = JNull, si_role = JNull, si_snippet = JNull\<rparr>]"]
  by simp

text \<open>
  C18. The menu resumes a thread exactly when the answer, stripped and lower-cased, is a
  number \<open>k\<close> with \<open>1 \<le> k \<le> len(saved)\<close>, and then it resumes the \<open>k\<close>-th row's
  thread; every other answer (\<open>n\<close>, the empty line, zero, negative numbers, numbers
  past the end, non-numbers) starts a new conversation.
\<close>

theorem choose_from_listed:
  "choose_from saved a = Some t \<longleftrightarrow>
   (\<exists>k. py_int (py_lower (py_strip a)) = Inr k \<and> 1 \<le> k \<and> k \<le> int (length saved) \<and>
        t = si_tid (saved ! nat (k - 1)))"
proof -
  have n: "py_int ''n'' = Inl ValueError" and e: "py_int [] = Inl ValueError"
    by (simp_all add: py_int_def is_digit_def)
  show ?thesis
    by (auto simp: choose_from_def Let_def n e split: if_splits sum.splits)
qed

theorem choose_from_listed_witness:
  "choose_from [\<lparr>si_tid = JStr ''t1'', si_path = ''p'', si_created = JNull, si_role = JNull, si_snippet = JNull\<rparr>] '' 1 '' =
     Some (JStr ''t1'') \<and>
   choose_from [\<lparr>si_tid = JStr ''t1'', si_path = ''p'', si_created = JNull, si_role = JNull, si_snippet = JNull\<rparr>] ''0'' = None"
proof -
  have z: "py_int (py_lower (py_strip ''0'')) = Inr 0" by code_simp
  have o: "py_int (py_lower (py_strip '' 1 '')) = Inr 1" by code_simp
  show ?thesis
    using choose_from_listed [of "[\<lparr>si_tid = JStr ''t1'', si_path = ''p'', si_created = JNull, si_role = JNull, si_snippet = JNull\<rparr>]" "''0''"]
      choose_from_listed [of "[\<lparr>si_tid = JStr ''t1'', si_path = ''p'', si_created = JNull, si_role = JNull, si_snippet = JNull\<rparr>]" "'' 1 ''"]
      z o by auto
qed

text \<open>
  C19. The glob pattern and the file naming agree: every thread's file matches
  \<open>conversation_*.json\<close> and gives its thread id back, and every matching file is the
  file of the thread id its name carries.
\<close>

theorem glob_roundtrip:
  "glob_conversation (memory_path_for_thread t) \<and> thread_of_file (memory_path_for_thread t) = t \<and>
   (glob_conversation n \<longrightarrow> memory_path_for_thread (thread_of_file n) = n)"
  by (simp add: glob_memory_path thread_of_memory_path memory_path_of_glob)

theorem glob_roundtrip_witness:
  "glob_conversation (memory_path_for_thread ''t1'') \<and> thread_of_file (memory_path_for_thread ''t1'') = ''t1'' \<and>
   glob_conversation (memory_path_for_thread ''t2'') \<and>
   memory_path_for_thread (thread_of_file (memory_path_for_thread ''t2'')) = memory_path_for_thread ''t2''"
  using glob_roundtrip [of "''t1''" "memory_path_for_thread ''t2''"] glob_roundtrip [of "''t2''" "memory_path_for_thread ''t2''"]
  by blast

text \<open>
  The spec's listing scenario: two journals, written by stamping and appending, whose
  first user messages are \<open>Hello\<close> and \<open>What is Azure?\<close>; \<open>get_all_threads\<close> lists both
  labels, each with its own thread id, the file names in descending order.
\<close>

theorem scenario_two_threads:
  "let d = [(memory_path_for_thread ''t1'', FJson (JDict [(''thread_id'', JStr ''t1''),
               (''messages'', JList [mem_entry ''T1'' ''user'' ''Hello'' (Some ''m1'')])])),
            (memory_path_for_thread ''t2'', FJson (JDict [(''thread_id'', JStr ''t2''),
               (''messages'', JList [mem_entry ''T2'' ''user'' ''What is Azure?'' (Some ''m2'')])]))]
   in mem_reach d \<and> get_all_threads d = Inr [(JStr ''t2'', JStr ''What is Azure?''), (JStr ''t1'', JStr ''Hello'')]"
proof -
  have r1: "mem_reach [(memory_path_for_thread ''t1'', FJson (JDict [(''thread_id'', JStr ''t1''),
               (''messages'', JList [mem_entry ''T1'' ''user'' ''Hello'' (Some ''m1'')])]))]"
    using mem_reach_new_thread [OF mem_reach.start, of "''t1''"] by simp
  have r: "mem_reach [(memory_path_for_thread ''t1'', FJson (JDict [(''thread_id'', JStr ''t1''),
               (''messages'', JList [mem_entry ''T1'' ''user'' ''Hello'' (Some ''m1'')])])),
            (memory_path_for_thread ''t2'', FJson (JDict [(''thread_id'', JStr ''t2''),
               (''messages'', JList [mem_entry ''T2'' ''user'' ''What is Azure?'' (Some ''m2'')])]))]"
    using mem_reach_new_thread [OF r1, of "''t2''"] by (simp add: memory_path_for_thread_def)
  have g: "get_all_threads [(memory_path_for_thread ''t1'', FJson (JDict [(''thread_id'', JStr ''t1''),
               (''messages'', JList [mem_entry ''T1'' ''user'' ''Hello'' (Some ''m1'')])])),
            (memory_path_for_thread ''t2'', FJson (JDict [(''thread_id'', JStr ''t2''),
               (''messages'', JList [mem_entry ''T2'' ''user'' ''What is Azure?'' (Some ''m2'')])]))] =
           Inr [(JStr ''t2'', JStr ''What is Azure?''), (JStr ''t1'', JStr ''Hello'')]"
    using glob_memory_path [of "''t1''"] glob_memory_path [of "''t2''"]
    by (simp add: get_all_threads_def memory_files_def memory_path_for_thread_def
        load_memory_def mem_entry_def first_user_text_def dict_store_def)
  show ?thesis using r g by (simp only: Let_def)
qed

end
