(* ===== verification/Session.thy ===== *)
theory Session
  imports Directory
begin

text \<open>
  The Streamlit app's per-browser-session state (\<open>st.session_state\<close>) and the callbacks
  of its history panel in \<open>streamlit_mcpclientapp.py\<close>: \<open>start_new_chat\<close>,
  \<open>set_active_thread\<close>, \<open>delete_thread\<close>, \<open>handle_chat_selection\<close> (the radio
  button's \<open>on_change\<close>) and \<open>delete_selected_chat_callback\<close>. A callback returns the
  new session and the exception it raised, if any: Streamlit keeps the session-state
  writes made before an exception, so the session is returned in both cases.
  Log texts are kept without their emoji prefixes.
\<close>

section \<open>State\<close>

record step_log =
  sl_id :: string
  sl_calls :: "(json \<times> json \<times> json) list"

datatype log_entry =
    LInfo string
  | LSuccess string
  | LWarning string
  | LError string
  | LSubheader string
  | LRunSteps "step_log list"

record session =
  ss_messages :: "(json \<times> json) list"
  ss_selected :: json
  ss_log :: "log_entry list"
  ss_thread :: "json option"

definition new_chat_label :: json where
  "new_chat_label = JStr ''--- Start a new chat ---''"

text \<open>The initialisation at the top of the script (a fresh browser session).\<close>

definition session_init :: session where
  "session_init = \<lparr>ss_messages = [], ss_selected = new_chat_label, ss_log = [], ss_thread = None\<rparr>"

section \<open>Callbacks\<close>

definition start_new_chat :: "session \<Rightarrow> session" where
  "start_new_chat s = s\<lparr>ss_messages := [], ss_selected := new_chat_label, ss_log := [], ss_thread := None\<rparr>"

text \<open>A list comprehension: the items in order, the first exception ends it.\<close>

fun py_map :: "('a \<Rightarrow> 'b py) \<Rightarrow> 'a list \<Rightarrow> 'b list py" where
  "py_map f [] = Inr []"
| "py_map f (x # xs) = py_bind (f x) (\<lambda>y. py_bind (py_map f xs) (\<lambda>ys. Inr (y # ys)))"

definition chat_message_of :: "json \<Rightarrow> (json \<times> json) py" where
  "chat_message_of msg =
     py_bind (py_getitem msg ''role'') (\<lambda>r. py_bind (py_getitem msg ''text'') (\<lambda>t. Inr (r, t)))"

text \<open>\<open>threads.get(thread_id, placeholder)\<close>.\<close>

definition dict_get :: "(json \<times> json) list \<Rightarrow> json \<Rightarrow> json \<Rightarrow> json py" where
  "dict_get m k dflt =
     (if py_hashable k then Inr (case map_of m k of Some v \<Rightarrow> v | None \<Rightarrow> dflt) else Inl TypeError)"

definition set_active_thread :: "memdir \<Rightarrow> session \<Rightarrow> json \<Rightarrow> session \<times> py_error option" where
  "set_active_thread d s tid =
     (let s1 = s\<lparr>ss_thread := Some tid\<rparr>;
          mem_data = load_memory d (memory_path_for_thread (py_str tid))
      in case py_bind (py_get mem_data ''messages'' (JList [])) (\<lambda>ms.
                py_bind (py_iter ms) (py_map chat_message_of)) of
           Inl e \<Rightarrow> (s1, Some e)
         | Inr msgs \<Rightarrow>
             (let s2 = s1\<lparr>ss_messages := msgs\<rparr>
              in case py_bind (get_all_threads d) (\<lambda>threads. dict_get threads tid new_chat_label) of
                   Inl e \<Rightarrow> (s2, Some e)
                 | Inr label \<Rightarrow> (s2\<lparr>ss_selected := label\<rparr>, None)))"

text \<open>
  \<open>delete_thread\<close>: the file goes, and the session is reset when the deleted thread is
  the active one (\<open>st.session_state.get("thread_id")\<close> is \<open>None\<close> when unset).
\<close>

definition delete_thread :: "memdir \<Rightarrow> session \<Rightarrow> json \<Rightarrow> memdir \<times> session" where
  "delete_thread d s tid =
     (let d' = unlink_memory d (memory_path_for_thread (py_str tid))
      in (d', if (case ss_thread s of Some t \<Rightarrow> t | None \<Rightarrow> JNull) = tid then start_new_chat s else s))"

text \<open>\<open>[tid for tid, msg in saved_threads.items() if msg == selected][0]\<close>.\<close>

definition find_label :: "(json \<times> json) list \<Rightarrow> json \<Rightarrow> json py" where
  "find_label threads lbl =
     (case map fst (filter (\<lambda>(t, m). m = lbl) threads) of [] \<Rightarrow> Inl IndexError | t # _ \<Rightarrow> Inr t)"

definition handle_chat_selection :: "memdir \<Rightarrow> session \<Rightarrow> session \<times> py_error option" where
  "handle_chat_selection d s =
     (if ss_selected s = new_chat_label then (start_new_chat s, None)
      else case py_bind (get_all_threads d) (\<lambda>saved. find_label saved (ss_selected s)) of
             Inl e \<Rightarrow> (s, Some e)
           | Inr tid \<Rightarrow> set_active_thread d s tid)"

text \<open>Clicking an option of the radio button stores it under its key, then runs the callback.\<close>

definition select_chat :: "memdir \<Rightarrow> session \<Rightarrow> json \<Rightarrow> session \<times> py_error option" where
  "select_chat d s choice = handle_chat_selection d (s\<lparr>ss_selected := choice\<rparr>)"

definition delete_selected_chat_callback :: "memdir \<Rightarrow> session \<Rightarrow> memdir \<times> session \<times> py_error option" where
  "delete_selected_chat_callback d s =
     (if ss_selected s = new_chat_label then (d, s, None)
      else case py_bind (get_all_threads d) (\<lambda>saved. find_label saved (ss_selected s)) of
             Inl e \<Rightarrow> (d, s, Some e)
           | Inr tid \<Rightarrow> (case delete_thread d s tid of (d', s') \<Rightarrow> (d', s', None)))"

section \<open>Lemmas: resuming a thread\<close>

lemma py_map_chat_messages:
  "those (map entry_of_json ms) = Some es \<Longrightarrow>
   py_map chat_message_of ms = Inr (map (\<lambda>e. (JStr (e_role e), JStr (e_text e))) es)"
proof (induction ms arbitrary: es)
  case (Cons m ms)
  then obtain e es' where e: "entry_of_json m = Some e" and es': "those (map entry_of_json ms) = Some es'"
    and es: "es = e # es'" by (auto split: option.splits)
  show ?case using entry_of_json_items [OF e] Cons.IH [OF es'] by (simp add: es chat_message_of_def)
qed simp

lemma get_all_threads_map_of:
  assumes "mem_reach d" and j: "journal_of_json (load_memory d (memory_path_for_thread t)) = Some j"
  shows "\<exists>ts. get_all_threads d = Inr ts \<and> map_of ts (JStr t) =
    (if j_thread j = Some t \<and> t \<noteq> [] \<and> j_messages j \<noteq> [] then Some (JStr (thread_label j)) else None)"
proof -
  let ?ts = "map dir_row (filter listed (map (journal_at d) (rev (sort (memory_files d)))))"
  from get_all_threads_rows [OF assms(1)]
  have ts: "get_all_threads d = Inr ?ts" and dk: "distinct (map fst ?ts)" by (simp_all add: comp_def)
  show ?thesis
  proof (cases "j_thread j = Some t \<and> t \<noteq> [] \<and> j_messages j \<noteq> []")
    case True
    then have "memory_path_for_thread t \<in> fst ` set d"
      using j by (auto simp: load_memory_def empty_journal_def weak_map_of_SomeI split: option.splits
                      dest: map_of_SomeD intro: rev_image_eqI)
    with True j have "(JStr t, JStr (thread_label j)) \<in> set ?ts"
      unfolding dir_rows_mem [OF assms(1)] by blast
    with dk True ts show ?thesis by (simp add: map_of_is_SomeI)
  next
    case False
    have "map_of ?ts (JStr t) = None"
    proof (rule ccontr)
      assume "map_of ?ts (JStr t) \<noteq> None"
      then obtain l where "(JStr t, l) \<in> set ?ts" by (auto dest: map_of_SomeD)
      then have "\<exists>t' j'. JStr t = JStr t' \<and> memory_path_for_thread t' \<in> fst ` set d \<and>
         journal_of_json (load_memory d (memory_path_for_thread t')) = Some j' \<and>
         j_thread j' = Some t' \<and> t' \<noteq> [] \<and> j_messages j' \<noteq> [] \<and> l = JStr (thread_label j')"
        unfolding dir_rows_mem [OF assms(1)] .
      with j False show False by auto
    qed
    with ts False show ?thesis by simp
  qed
qed

lemma set_active_thread_loads:
  assumes "mem_reach d" and j: "journal_of_json (load_memory d (memory_path_for_thread t)) = Some j"
  shows "set_active_thread d s (JStr t) =
    (s\<lparr>ss_thread := Some (JStr t),
       ss_messages := map (\<lambda>e. (JStr (e_role e), JStr (e_text e))) (j_messages j),
       ss_selected := (if j_thread j = Some t \<and> t \<noteq> [] \<and> j_messages j \<noteq> []
                       then JStr (thread_label j) else new_chat_label)\<rparr>, None)"
proof -
  from journal_fields [OF j] obtain ms where
    g: "py_get (load_memory d (memory_path_for_thread t)) ''messages'' (JList []) = Inr (JList ms)" and
    es: "those (map entry_of_json ms) = Some (j_messages j)" by blast
  from get_all_threads_map_of [OF assms] obtain ts where ts: "get_all_threads d = Inr ts" and
    m: "map_of ts (JStr t) = (if j_thread j = Some t \<and> t \<noteq> [] \<and> j_messages j \<noteq> []
                              then Some (JStr (thread_label j)) else None)" by blast
  show ?thesis
    using g py_map_chat_messages [OF es] ts m
    by (simp add: set_active_thread_def dict_get_def split: if_splits)
qed

section \<open>Lemmas: deleting a thread\<close>

lemma memory_files_unlink:
  "memory_files (unlink_memory d p) = filter (\<lambda>f. f \<noteq> p) (memory_files d)"
proof (cases "map_of d p = None")
  case True
  then have "p \<notin> set (map fst d)" by (simp add: map_of_eq_None_iff)
  then have "filter (\<lambda>f. f \<noteq> p) (memory_files d) = memory_files d"
    unfolding memory_files_def filter_filter by (auto intro!: filter_cong)
  with True show ?thesis by (simp add: unlink_memory_def)
next
  case False
  have "map fst (AList.delete p d) = filter (\<lambda>f. f \<noteq> p) (map fst d)"
    by (induction d) auto
  with False show ?thesis by (simp add: unlink_memory_def memory_files_def filter_filter conj_commute)
qed

lemma get_all_threads_unlink:
  assumes r: "mem_reach d"
  shows "get_all_threads (unlink_memory d (memory_path_for_thread t)) =
         py_bind (get_all_threads d) (\<lambda>ts. Inr (filter (\<lambda>row. fst row \<noteq> JStr t) ts))"
proof -
  let ?p = "memory_path_for_thread t"
  let ?d = "unlink_memory d ?p"
  let ?fs = "rev (sort (memory_files d))"
  have r': "mem_reach ?d" by (rule mem_reach.unlink [OF r])
  have fs': "rev (sort (memory_files ?d)) = filter (\<lambda>f. f \<noteq> ?p) ?fs"
    by (simp add: memory_files_unlink filter_sort [symmetric] rev_filter)
  have J: "map (journal_at ?d) (filter (\<lambda>f. f \<noteq> ?p) ?fs) = map (journal_at d) (filter (\<lambda>f. f \<noteq> ?p) ?fs)"
    by (simp add: journal_at_def)
  have key: "(f \<noteq> ?p) = (fst (dir_row (journal_at d f)) \<noteq> JStr t)" if "listed (journal_at d f)" for f
  proof -
    define x where "x = the (j_thread (journal_at d f))"
    have "f = memory_path_for_thread x" using mem_reach_listed_named [OF r that] by (simp add: x_def)
    moreover have "fst (dir_row (journal_at d f)) = JStr x" by (simp add: dir_row_def x_def)
    ultimately show ?thesis by (simp add: memory_path_for_thread_def)
  qed
  have "filter (\<lambda>f. listed (journal_at d f)) (filter (\<lambda>f. f \<noteq> ?p) ?fs) =
        filter (\<lambda>f. fst (dir_row (journal_at d f)) \<noteq> JStr t) (filter (\<lambda>f. listed (journal_at d f)) ?fs)"
    unfolding filter_filter
  proof (rule filter_cong [OF refl])
    show "(f \<noteq> ?p \<and> listed (journal_at d f)) =
          (listed (journal_at d f) \<and> fst (dir_row (journal_at d f)) \<noteq> JStr t)" for f
      using key [of f] by blast
  qed
  then show ?thesis
    using get_all_threads_rows [OF r] get_all_threads_rows [OF r'] fs' J
    by (simp add: filter_map comp_def)
qed

lemma find_label_Inr: "find_label ts l = Inr k \<Longrightarrow> (k, l) \<in> set ts"
proof -
  assume a: "find_label ts l = Inr k"
  then obtain r where "map fst (filter (\<lambda>(t, m). m = l) ts) = k # r"
    by (auto simp: find_label_def split: list.splits)
  then have "k \<in> set (map fst (filter (\<lambda>(t, m). m = l) ts))" by simp
  then show ?thesis by auto
qed

lemma find_label_found: "l \<in> snd ` set ts \<Longrightarrow> \<exists>k. find_label ts l = Inr k"
proof -
  assume "l \<in> snd ` set ts"
  then have "filter (\<lambda>(t, m). m = l) ts \<noteq> []" by (auto simp: filter_empty_conv)
  then show ?thesis by (auto simp: find_label_def split: list.splits)
qed

lemma find_label_prefix:
  assumes "l \<in> snd ` set xs"
  shows "\<exists>t0. find_label (xs @ ys) l = Inr t0 \<and> (t0, l) \<in> set xs"
proof -
  from assms obtain h hs where f: "filter (\<lambda>(t, m). m = l) xs = h # hs"
    by (cases "filter (\<lambda>(t, m). m = l) xs") (auto simp: filter_empty_conv)
  have "h \<in> set (filter (\<lambda>(t, m). m = l) xs)" using f by simp
  then have "h \<in> set xs" and "snd h = l" by (auto simp: case_prod_beta)
  then have h: "(fst h, l) \<in> set xs" by (metis prod.collapse)
  show ?thesis using f h by (intro exI [of _ "fst h"]) (simp add: find_label_def)
qed

lemma find_label_listed:
  assumes r: "mem_reach d" and ts: "get_all_threads d = Inr ts" and l: "l \<in> snd ` set ts"
  shows "\<exists>t j. find_label ts l = Inr (JStr t) \<and> (JStr t, l) \<in> set ts \<and>
           journal_of_json (load_memory d (memory_path_for_thread t)) = Some j \<and>
           j_thread j = Some t \<and> t \<noteq> [] \<and> j_messages j \<noteq> [] \<and> l = JStr (thread_label j)"
proof -
  from find_label_found [OF l] obtain k where k: "find_label ts l = Inr k" ..
  have "(k, l) \<in> set ts" by (rule find_label_Inr [OF k])
  then have "(k, l) \<in> set (map dir_row (filter listed (map (journal_at d) (rev (sort (memory_files d))))))"
    using get_all_threads_rows [OF r] ts by simp
  then obtain t j where "k = JStr t" "journal_of_json (load_memory d (memory_path_for_thread t)) = Some j"
     "j_thread j = Some t" "t \<noteq> []" "j_messages j \<noteq> []" "l = JStr (thread_label j)"
    unfolding dir_rows_mem [OF r] by blast
  with k find_label_Inr [OF k] show ?thesis by blast
qed

lemma set_active_thread_thread: "ss_thread (fst (set_active_thread d s tid)) = Some tid"
  by (simp add: set_active_thread_def Let_def split: sum.splits)

section \<open>Properties of the history panel\<close>

text \<open>
  C20. Choosing a label that the history panel lists (any label other than the
  new-chat placeholder) resumes a thread with no exception: the thread is the first
  one \<open>get_all_threads\<close> lists under that label, its journal is readable, the
  session's active thread becomes it and the chat pane shows exactly its journal
  entries (role and text, in order), with the label kept selected.
\<close>

theorem select_listed_label:
  assumes "mem_reach d" and "get_all_threads d = Inr ts" and "l \<in> snd ` set ts" and "l \<noteq> new_chat_label"
  shows "\<exists>t j. find_label ts l = Inr (JStr t) \<and> journal_of_json (load_memory d (memory_path_for_thread t)) = Some j \<and>
    JStr (thread_label j) = l \<and>
    select_chat d s l = (s\<lparr>ss_selected := l, ss_thread := Some (JStr t),
      ss_messages := map (\<lambda>e. (JStr (e_role e), JStr (e_text e))) (j_messages j)\<rparr>, None)"
proof -
  from find_label_listed [OF assms(1-3)] obtain t j where f: "find_label ts l = Inr (JStr t)"
    and j: "journal_of_json (load_memory d (memory_path_for_thread t)) = Some j"
    and c: "j_thread j = Some t" "t \<noteq> []" "j_messages j \<noteq> []" and l: "l = JStr (thread_label j)" by blast
  have "select_chat d s l = set_active_thread d (s\<lparr>ss_selected := l\<rparr>) (JStr t)"
    using assms(2,4) f by (simp add: select_chat_def handle_chat_selection_def)
  also have "\<dots> = (s\<lparr>ss_selected := l, ss_thread := Some (JStr t),
      ss_messages := map (\<lambda>e. (JStr (e_role e), JStr (e_text e))) (j_messages j)\<rparr>, None)"
    using set_active_thread_loads [OF assms(1) j] c l by simp
  finally show ?thesis using f j l by blast
qed

theorem select_listed_label_witness:
  "mem_reach [(memory_path_for_thread ''t1'', FJson (JDict [(''thread_id'', JStr ''t1''),
      (''messages'', JList [mem_entry ''T1'' ''user'' ''Hello'' None])]))] \<and>
   get_all_threads [(memory_path_for_thread ''t1'', FJson (JDict [(''thread_id'', JStr ''t1''),
      (''messages'', JList [mem_entry ''T1'' ''user'' ''Hello'' None])]))] = Inr [(JStr ''t1'', JStr ''Hello'')] \<and>
   JStr ''Hello'' \<in> snd ` set [(JStr ''t1'', JStr ''Hello'')] \<and> JStr ''Hello'' \<noteq> new_chat_label \<and>
   (\<exists>t j. find_label [(JStr ''t1'', JStr ''Hello'')] (JStr ''Hello'') = Inr (JStr t) \<and>
      journal_of_json (load_memory [(memory_path_for_thread ''t1'', FJson (JDict [(''thread_id'', JStr ''t1''),
        (''messages'', JList [mem_entry ''T1'' ''user'' ''Hello'' None])]))] (memory_path_for_thread t)) = Some j \<and>
      JStr (thread_label j) = JStr ''Hello'' \<and>
      select_chat [(memory_path_for_thread ''t1'', FJson (JDict [(''thread_id'', JStr ''t1''),
        (''messages'', JList [mem_entry ''T1'' ''user'' ''Hello'' None])]))] session_init (JStr ''Hello'') =
        (session_init\<lparr>ss_selected := JStr ''Hello'', ss_thread := Some (JStr t),
          ss_messages := map (\<lambda>e. (JStr (e_role e), JStr (e_text e))) (j_messages j)\<rparr>, None))"
proof -
  have r: "mem_reach [(memory_path_for_thread ''t1'', FJson (JDict [(''thread_id'', JStr ''t1''),
      (''messages'', JList [mem_entry ''T1'' ''user'' ''Hello'' None])]))]"
    using mem_reach_new_thread [OF mem_reach.start, of "''t1''"] by simp
  have g: "get_all_threads [(memory_path_for_thread ''t1'', FJson (JDict [(''thread_id'', JStr ''t1''),
      (''messages'', JList [mem_entry ''T1'' ''user'' ''Hello'' None])]))] = Inr [(JStr ''t1'', JStr ''Hello'')]"
    using glob_memory_path [of "''t1''"]
    by (simp add: get_all_threads_def memory_files_def load_memory_def mem_entry_def first_user_text_def dict_store_def)
  have l: "JStr ''Hello'' \<in> snd ` set [(JStr ''t1'', JStr ''Hello'')]" by simp
  have n: "JStr ''Hello'' \<noteq> new_chat_label" by (simp add: new_chat_label_def)
  show ?thesis using r g l n select_listed_label [OF r g l n, of session_init] by blast
qed

text \<open>
  C21. Labels are not unique, and the history panel identifies a thread by its label.
  When a thread \<open>t1\<close> is listed after another thread with the same label \<open>l\<close>
  (\<open>get_all_threads\<close> lists the files in descending name order), no choice of the
  radio button, from any session, makes \<open>t1\<close> active, and deleting the selected \<open>l\<close>
  deletes the journal of the first thread listed under \<open>l\<close>, never that of \<open>t1\<close>.
\<close>

theorem duplicate_label_shadows:
  assumes g: "get_all_threads d = Inr ts" and dk: "distinct (map fst ts)"
    and ts: "ts = xs @ (t1, l) # ys" and dup: "l \<in> snd ` set xs" and lp: "l \<noteq> new_chat_label"
  shows "(\<forall>s c. ss_thread (fst (select_chat d s c)) = Some t1 \<longrightarrow> ss_thread s = Some t1) \<and>
    (\<exists>t0. (t0, l) \<in> set xs \<and> t0 \<noteq> t1 \<and>
       (\<forall>s. fst (delete_selected_chat_callback d (s\<lparr>ss_selected := l\<rparr>)) =
              unlink_memory d (memory_path_for_thread (py_str t0))))"
proof -
  from find_label_prefix [OF dup, of "(t1, l) # ys"] ts obtain t0 where
    f: "find_label ts l = Inr t0" and x: "(t0, l) \<in> set xs" by auto
  from dk ts have "t1 \<notin> fst ` set xs" by simp
  with x have ne: "t0 \<noteq> t1" by force
  have t1l: "(t1, l) \<in> set ts" using ts by simp
  have sel: "ss_thread (fst (select_chat d s c)) = Some t1 \<longrightarrow> ss_thread s = Some t1" for s c
  proof (cases "c = new_chat_label")
    case True
    then show ?thesis by (simp add: select_chat_def handle_chat_selection_def start_new_chat_def)
  next
    case False
    show ?thesis
    proof (cases "find_label ts c")
      case (Inl e)
      with False g show ?thesis by (simp add: select_chat_def handle_chat_selection_def)
    next
      case (Inr k)
      with False g have "ss_thread (fst (select_chat d s c)) = Some k"
        by (simp add: select_chat_def handle_chat_selection_def set_active_thread_thread)
      moreover have "k \<noteq> t1"
      proof
        assume "k = t1"
        with find_label_Inr [OF Inr] have "(t1, c) \<in> set ts" by simp
        with t1l dk have "c = l" by (metis eq_key_imp_eq_value)
        with Inr f ne \<open>k = t1\<close> show False by simp
      qed
      ultimately show ?thesis by simp
    qed
  qed
  have del: "fst (delete_selected_chat_callback d (s\<lparr>ss_selected := l\<rparr>)) =
      unlink_memory d (memory_path_for_thread (py_str t0))" for s
    using g f lp by (simp add: delete_selected_chat_callback_def delete_thread_def Let_def split: prod.splits)
  show ?thesis using sel x ne del by blast
qed

theorem duplicate_label_shadows_witness:
  "get_all_threads [(memory_path_for_thread ''t1'', FJson (JDict [(''thread_id'', JStr ''t1''),
               (''messages'', JList [mem_entry ''T1'' ''user'' ''Hello'' None])])),
            (memory_path_for_thread ''t2'', FJson (JDict [(''thread_id'', JStr ''t2''),
               (''messages'', JList [mem_entry ''T2'' ''user'' ''Hello'' None])]))] = Inr ([(JStr ''t2'', JStr ''Hello'')] @ (JStr ''t1'', JStr ''Hello'') # []) \<and>
   (\<forall>c. ss_thread (fst (select_chat [(memory_path_for_thread ''t1'', FJson (JDict [(''thread_id'', JStr ''t1''),
               (''messages'', JList [mem_entry ''T1'' ''user'' ''Hello'' None])])),
            (memory_path_for_thread ''t2'', FJson (JDict [(''thread_id'', JStr ''t2''),
               (''messages'', JList [mem_entry ''T2'' ''user'' ''Hello'' None])]))] session_init c)) \<noteq> Some (JStr ''t1'')) \<and>
   fst (delete_selected_chat_callback [(memory_path_for_thread ''t1'', FJson (JDict [(''thread_id'', JStr ''t1''),
               (''messages'', JList [mem_entry ''T1'' ''user'' ''Hello'' None])])),
            (memory_path_for_thread ''t2'', FJson (JDict [(''thread_id'', JStr ''t2''),
               (''messages'', JList [mem_entry ''T2'' ''user'' ''Hello'' None])]))] (session_init\<lparr>ss_selected := JStr ''Hello''\<rparr>)) =
     unlink_memory [(memory_path_for_thread ''t1'', FJson (JDict [(''thread_id'', JStr ''t1''),
               (''messages'', JList [mem_entry ''T1'' ''user'' ''Hello'' None])])),
            (memory_path_for_thread ''t2'', FJson (JDict [(''thread_id'', JStr ''t2''),
               (''messages'', JList [mem_entry ''T2'' ''user'' ''Hello'' None])]))] (memory_path_for_thread ''t2'')"
proof -
  have g: "get_all_threads [(memory_path_for_thread ''t1'', FJson (JDict [(''thread_id'', JStr ''t1''),
               (''messages'', JList [mem_entry ''T1'' ''user'' ''Hello'' None])])),
            (memory_path_for_thread ''t2'', FJson (JDict [(''thread_id'', JStr ''t2''),
               (''messages'', JList [mem_entry ''T2'' ''user'' ''Hello'' None])]))] = Inr ([(JStr ''t2'', JStr ''Hello'')] @ (JStr ''t1'', JStr ''Hello'') # [])"
    using glob_memory_path [of "''t1''"] glob_memory_path [of "''t2''"]
    by (simp add: get_all_threads_def memory_files_def memory_path_for_thread_def
        load_memory_def mem_entry_def first_user_text_def dict_store_def)
  have dk: "distinct (map fst ([(JStr ''t2'', JStr ''Hello'')] @ (JStr ''t1'', JStr ''Hello'') # []))" by simp
  have dup: "JStr ''Hello'' \<in> snd ` set [(JStr ''t2'', JStr ''Hello'')]" by simp
  have lp: "JStr ''Hello'' \<noteq> new_chat_label" by (simp add: new_chat_label_def)
  from duplicate_label_shadows [OF g dk refl dup lp] obtain t0 where
    sel: "\<forall>s c. ss_thread (fst (select_chat [(memory_path_for_thread ''t1'', FJson (JDict [(''thread_id'', JStr ''t1''),
               (''messages'', JList [mem_entry ''T1'' ''user'' ''Hello'' None])])),
            (memory_path_for_thread ''t2'', FJson (JDict [(''thread_id'', JStr ''t2''),
               (''messages'', JList [mem_entry ''T2'' ''user'' ''Hello'' None])]))] s c)) = Some (JStr ''t1'') \<longrightarrow> ss_thread s = Some (JStr ''t1'')"
    and t0: "(t0, JStr ''Hello'') \<in> set [(JStr ''t2'', JStr ''Hello'')]"
    and del: "\<forall>s. fst (delete_selected_chat_callback [(memory_path_for_thread ''t1'', FJson (JDict [(''thread_id'', JStr ''t1''),
               (''messages'', JList [mem_entry ''T1'' ''user'' ''Hello'' None])])),
            (memory_path_for_thread ''t2'', FJson (JDict [(''thread_id'', JStr ''t2''),
               (''messages'', JList [mem_entry ''T2'' ''user'' ''Hello'' None])]))] (s\<lparr>ss_selected := JStr ''Hello''\<rparr>)) =
              unlink_memory [(memory_path_for_thread ''t1'', FJson (JDict [(''thread_id'', JStr ''t1''),
               (''messages'', JList [mem_entry ''T1'' ''user'' ''Hello'' None])])),
            (memory_path_for_thread ''t2'', FJson (JDict [(''thread_id'', JStr ''t2''),
               (''messages'', JList [mem_entry ''T2'' ''user'' ''Hello'' None])]))] (memory_path_for_thread (py_str t0))" by blast
  from t0 have "t0 = JStr ''t2''" by simp
  moreover have "ss_thread (fst (select_chat [(memory_path_for_thread ''t1'', FJson (JDict [(''thread_id'', JStr ''t1''),
               (''messages'', JList [mem_entry ''T1'' ''user'' ''Hello'' None])])),
            (memory_path_for_thread ''t2'', FJson (JDict [(''thread_id'', JStr ''t2''),
               (''messages'', JList [mem_entry ''T2'' ''user'' ''Hello'' None])]))] session_init c)) \<noteq> Some (JStr ''t1'')" for c
    using sel by (auto simp: session_init_def)
  ultimately show ?thesis using g del by simp
qed

text \<open>
  C22. Deleting the selected conversation removes exactly that thread's journal: the
  file of the first thread listed under the selected label is unlinked, it then reads
  as the empty memory, the listing afterwards is the old one without that row, the
  session is reset to a new chat exactly when the deleted thread was the active one,
  and no exception is raised.
\<close>

theorem delete_selected_removes:
  assumes r: "mem_reach d" and ts: "get_all_threads d = Inr ts" and l: "ss_selected s \<in> snd ` set ts"
    and n: "ss_selected s \<noteq> new_chat_label"
  shows "\<exists>t. find_label ts (ss_selected s) = Inr (JStr t) \<and>
    delete_selected_chat_callback d s =
      (unlink_memory d (memory_path_for_thread t),
       (if ss_thread s = Some (JStr t) then start_new_chat s else s), None) \<and>
    load_memory (unlink_memory d (memory_path_for_thread t)) (memory_path_for_thread t) = empty_memory \<and>
    get_all_threads (unlink_memory d (memory_path_for_thread t)) = Inr (filter (\<lambda>row. fst row \<noteq> JStr t) ts)"
proof -
  from find_label_listed [OF r ts l] obtain t where f: "find_label ts (ss_selected s) = Inr (JStr t)" by blast
  have "(case ss_thread s of Some t \<Rightarrow> t | None \<Rightarrow> JNull) = JStr t \<longleftrightarrow> ss_thread s = Some (JStr t)"
    by (cases "ss_thread s") auto
  then have "delete_selected_chat_callback d s =
      (unlink_memory d (memory_path_for_thread t), (if ss_thread s = Some (JStr t) then start_new_chat s else s), None)"
    using ts n f by (simp add: delete_selected_chat_callback_def delete_thread_def)
  with f get_all_threads_unlink [OF r, of t] ts show ?thesis by simp
qed

theorem delete_selected_removes_witness:
  "mem_reach [(memory_path_for_thread ''t1'', FJson (JDict [(''thread_id'', JStr ''t1''),
      (''messages'', JList [mem_entry ''T1'' ''user'' ''Hello'' None])]))] \<and>
   get_all_threads [(memory_path_for_thread ''t1'', FJson (JDict [(''thread_id'', JStr ''t1''),
      (''messages'', JList [mem_entry ''T1'' ''user'' ''Hello'' None])]))] = Inr [(JStr ''t1'', JStr ''Hello'')] \<and>
   (\<exists>t. find_label [(JStr ''t1'', JStr ''Hello'')] (JStr ''Hello'') = Inr (JStr t) \<and>
    delete_selected_chat_callback [(memory_path_for_thread ''t1'', FJson (JDict [(''thread_id'', JStr ''t1''),
      (''messages'', JList [mem_entry ''T1'' ''user'' ''Hello'' None])]))]
      (session_init\<lparr>ss_selected := JStr ''Hello'', ss_thread := Some (JStr ''t1'')\<rparr>) =
      (unlink_memory [(memory_path_for_thread ''t1'', FJson (JDict [(''thread_id'', JStr ''t1''),
      (''messages'', JList [mem_entry ''T1'' ''user'' ''Hello'' None])]))] (memory_path_for_thread t),
       (if Some (JStr ''t1'') = Some (JStr t)
        then start_new_chat (session_init\<lparr>ss_selected := JStr ''Hello'', ss_thread := Some (JStr ''t1'')\<rparr>)
        else session_init\<lparr>ss_selected := JStr ''Hello'', ss_thread := Some (JStr ''t1'')\<rparr>), None) \<and>
    get_all_threads (unlink_memory [(memory_path_for_thread ''t1'', FJson (JDict [(''thread_id'', JStr ''t1''),
      (''messages'', JList [mem_entry ''T1'' ''user'' ''Hello'' None])]))] (memory_path_for_thread t)) =
      Inr (filter (\<lambda>row. fst row \<noteq> JStr t) [(JStr ''t1'', JStr ''Hello'')]))"
proof -
  have r: "mem_reach [(memory_path_for_thread ''t1'', FJson (JDict [(''thread_id'', JStr ''t1''),
      (''messages'', JList [mem_entry ''T1'' ''user'' ''Hello'' None])]))]"
    using mem_reach_new_thread [OF mem_reach.start, of "''t1''"] by simp
  have g: "get_all_threads [(memory_path_for_thread ''t1'', FJson (JDict [(''thread_id'', JStr ''t1''),
      (''messages'', JList [mem_entry ''T1'' ''user'' ''Hello'' None])]))] = Inr [(JStr ''t1'', JStr ''Hello'')]"
    using glob_memory_path [of "''t1''"]
    by (simp add: get_all_threads_def memory_files_def load_memory_def mem_entry_def first_user_text_def dict_store_def)
  have l: "ss_selected (session_init\<lparr>ss_selected := JStr ''Hello'', ss_thread := Some (JStr ''t1'')\<rparr>)
      \<in> snd ` set [(JStr ''t1'', JStr ''Hello'')]" by simp
  have n: "ss_selected (session_init\<lparr>ss_selected := JStr ''Hello'', ss_thread := Some (JStr ''t1'')\<rparr>)
      \<noteq> new_chat_label" by (simp add: new_chat_label_def)
  show ?thesis using r g delete_selected_removes [OF r g l n] by simp
qed

end
