(* ===== verification/Turn.thy ===== *)
theory Turn
  imports Session
begin

text \<open>
  The chat turn of the Streamlit app (\<open>if prompt := st.chat_input(...)\<close> in
  \<open>streamlit_mcpclientapp.py\<close>) with its helpers \<open>_print_latest_assistant\<close> and
  \<open>_log_run_steps\<close>, run against a model of the remote agent service.
  The service keeps threads (their messages in creation order), agents and the steps
  of each run; ids are drawn from a counter. What the agent answers is an input of the
  turn (\<open>run_outcome\<close>: the run's status, its error, the messages it posts and its
  steps), and so is the set of remote calls that fail (\<open>rcall list\<close>), so every
  exception path of the turn is a value of the model.
  The turn is written in a small state-and-exception monad over the whole world
  (journal directory, service, session): an exception leaves the world as the code left
  it, since Streamlit keeps the session-state writes and files already written.
\<close>

section \<open>The remote service\<close>

record rmsg =
  rm_id :: string
  rm_role :: string
  rm_texts :: "string list"

record rstep =
  rs_id :: string
  rs_body :: json

record rrun =
  rr_id :: string
  rr_status :: string
  rr_error :: json

record svc =
  sv_threads :: "(string \<times> rmsg list) list"
  sv_agents :: "string list"
  sv_steps :: "(string \<times> rstep list) list"
  sv_next :: nat

datatype rcall = CThreadCreate | CAgentCreate | CMsgCreate | CRunCreate | CStepsList | CMsgList
  | CAgentDelete

record run_outcome =
  ro_status :: string
  ro_error :: json
  ro_replies :: "rmsg list"
  ro_steps :: "rstep list"

definition fresh_id :: "string \<Rightarrow> svc \<Rightarrow> string" where
  "fresh_id pfx sv = pfx @ nat_str (sv_next sv)"

text \<open>\<open>threads.create()\<close>.\<close>

definition svc_create_thread :: "rcall list \<Rightarrow> svc \<Rightarrow> (string \<times> svc) py" where
  "svc_create_thread fl sv =
     (if CThreadCreate \<in> set fl then Inl ServiceError
      else let t = fresh_id ''thread_'' sv
           in Inr (t, sv\<lparr>sv_threads := sv_threads sv @ [(t, [])], sv_next := Suc (sv_next sv)\<rparr>))"

text \<open>\<open>create_agent(model=..., name="my-mcp-agent", instructions=...)\<close>.\<close>

definition svc_create_agent :: "rcall list \<Rightarrow> svc \<Rightarrow> (string \<times> svc) py" where
  "svc_create_agent fl sv =
     (if CAgentCreate \<in> set fl then Inl ServiceError
      else let a = fresh_id ''asst_'' sv
           in Inr (a, sv\<lparr>sv_agents := sv_agents sv @ [a], sv_next := Suc (sv_next sv)\<rparr>))"

text \<open>\<open>messages.create(thread_id=..., role=..., content=...)\<close>: an unknown thread is an error.\<close>

definition svc_create_message ::
  "rcall list \<Rightarrow> svc \<Rightarrow> string \<Rightarrow> string \<Rightarrow> string \<Rightarrow> (string \<times> svc) py" where
  "svc_create_message fl sv tid role content =
     (case map_of (sv_threads sv) tid of
        None \<Rightarrow> Inl ServiceError
      | Some ms \<Rightarrow>
          if CMsgCreate \<in> set fl then Inl ServiceError
          else let m = fresh_id ''msg_'' sv
               in Inr (m, sv\<lparr>sv_threads := AList.update tid (ms @ [\<lparr>rm_id = m, rm_role = role, rm_texts = [content]\<rparr>])
                                               (sv_threads sv),
                             sv_next := Suc (sv_next sv)\<rparr>))"

text \<open>
  \<open>runs.create_and_process(thread_id=..., agent_id=..., toolset=...)\<close>: the run ends in
  the outcome's status, after posting the outcome's messages to the thread.
\<close>

definition svc_run ::
  "rcall list \<Rightarrow> svc \<Rightarrow> string \<Rightarrow> string \<Rightarrow> run_outcome \<Rightarrow> (rrun \<times> svc) py" where
  "svc_run fl sv tid aid out =
     (case map_of (sv_threads sv) tid of
        None \<Rightarrow> Inl ServiceError
      | Some ms \<Rightarrow>
          if aid \<notin> set (sv_agents sv) \<or> CRunCreate \<in> set fl then Inl ServiceError
          else let r = fresh_id ''run_'' sv
               in Inr (\<lparr>rr_id = r, rr_status = ro_status out, rr_error = ro_error out\<rparr>,
                       sv\<lparr>sv_threads := AList.update tid (ms @ ro_replies out) (sv_threads sv),
                          sv_steps := sv_steps sv @ [(r, ro_steps out)],
                          sv_next := Suc (sv_next sv)\<rparr>))"

text \<open>\<open>run_steps.list(thread_id=..., run_id=...)\<close>.\<close>

definition svc_list_steps :: "rcall list \<Rightarrow> svc \<Rightarrow> string \<Rightarrow> rstep list py" where
  "svc_list_steps fl sv rid =
     (case map_of (sv_steps sv) rid of
        None \<Rightarrow> Inl ServiceError
      | Some st \<Rightarrow> if CStepsList \<in> set fl then Inl ServiceError else Inr st)"

text \<open>\<open>messages.list(thread_id=..., order=ListSortOrder.DESCENDING)\<close>: newest first.\<close>

definition svc_list_messages :: "rcall list \<Rightarrow> svc \<Rightarrow> string \<Rightarrow> rmsg list py" where
  "svc_list_messages fl sv tid =
     (case map_of (sv_threads sv) tid of
        None \<Rightarrow> Inl ServiceError
      | Some ms \<Rightarrow> if CMsgList \<in> set fl then Inl ServiceError else Inr (rev ms))"

text \<open>\<open>delete_agent(agent_id)\<close>.\<close>

definition svc_delete_agent :: "rcall list \<Rightarrow> svc \<Rightarrow> string \<Rightarrow> svc py" where
  "svc_delete_agent fl sv aid =
     (if aid \<notin> set (sv_agents sv) \<or> CAgentDelete \<in> set fl then Inl ServiceError
      else Inr (sv\<lparr>sv_agents := removeAll aid (sv_agents sv)\<rparr>))"

section \<open>The world and its actions\<close>

record world =
  w_dir :: memdir
  w_svc :: svc
  w_sess :: session

type_synonym 'a act = "world \<Rightarrow> 'a py \<times> world"

definition act_return :: "'a \<Rightarrow> 'a act" where
  "act_return x w = (Inr x, w)"

definition act_bind :: "'a act \<Rightarrow> ('a \<Rightarrow> 'b act) \<Rightarrow> 'b act" where
  "act_bind m f w = (case m w of (Inl e, w') \<Rightarrow> (Inl e, w') | (Inr x, w') \<Rightarrow> f x w')"

definition act_seq :: "unit act \<Rightarrow> 'b act \<Rightarrow> 'b act" where
  "act_seq m k = act_bind m (\<lambda>_. k)"

definition act_sess :: "(session \<Rightarrow> session) \<Rightarrow> unit act" where
  "act_sess f w = (Inr (), w\<lparr>w_sess := f (w_sess w)\<rparr>)"

text \<open>\<open>st.session_state.log_messages.append(...)\<close>.\<close>

definition act_log :: "log_entry \<Rightarrow> unit act" where
  "act_log l = act_sess (\<lambda>s. s\<lparr>ss_log := ss_log s @ [l]\<rparr>)"

definition act_remote :: "(svc \<Rightarrow> ('a \<times> svc) py) \<Rightarrow> 'a act" where
  "act_remote f w = (case f (w_svc w) of Inl e \<Rightarrow> (Inl e, w) | Inr (x, sv) \<Rightarrow> (Inr x, w\<lparr>w_svc := sv\<rparr>))"

definition act_query :: "(svc \<Rightarrow> 'a py) \<Rightarrow> 'a act" where
  "act_query f w = (f (w_svc w), w)"

definition act_mem :: "(memdir \<Rightarrow> memdir py) \<Rightarrow> unit act" where
  "act_mem f w = (case f (w_dir w) of Inl e \<Rightarrow> (Inl e, w) | Inr d \<Rightarrow> (Inr (), w\<lparr>w_dir := d\<rparr>))"

text \<open>\<open>try: ... except Exception as e: ...\<close>.\<close>

definition act_try :: "'a act \<Rightarrow> (py_error \<Rightarrow> 'a act) \<Rightarrow> 'a act" where
  "act_try m h w = (case m w of (Inl e, w') \<Rightarrow> h e w' | r \<Rightarrow> r)"

definition act_lift :: "'a py \<Rightarrow> 'a act" where
  "act_lift r w = (r, w)"

section \<open>\<open>_print_latest_assistant\<close> and \<open>_log_run_steps\<close>\<close>

text \<open>
  \<open>for m in msgs: if m.role == "assistant" and m.text_messages: ...\<close>: the first
  assistant message with text in the listing (the newest one, as the listing is newest
  first); the reply is its last text part (\<open>m.text_messages[-1].text.value\<close>), and the
  empty string when there is none.
\<close>

definition latest_assistant :: "rmsg list \<Rightarrow> rmsg option" where
  "latest_assistant msgs = find (\<lambda>m. rm_role m = ''assistant'' \<and> rm_texts m \<noteq> []) msgs"

definition reply_text :: "rmsg list \<Rightarrow> string" where
  "reply_text msgs = (case latest_assistant msgs of Some m \<Rightarrow> last (rm_texts m) | None \<Rightarrow> [])"

definition print_latest_assistant :: "rcall list \<Rightarrow> string \<Rightarrow> string act" where
  "print_latest_assistant fl tid =
     act_seq (act_log (LInfo ''...Retrieving assistant's response.'')) (
     act_bind (act_query (\<lambda>sv. svc_list_messages fl sv tid)) (\<lambda>msgs.
     case latest_assistant msgs of
       Some m \<Rightarrow> act_seq (act_log (LSuccess ''Response received.'')) (act_return (reply_text msgs))
     | None \<Rightarrow> act_seq (act_log (LWarning ''No assistant response found.'')) (act_return (reply_text msgs))))"

text \<open>\<open>{"id": call.get('id', 'N/A'), "type": ..., "name": ...}\<close>.\<close>

definition call_row :: "json \<Rightarrow> (json \<times> json \<times> json) py" where
  "call_row call =
     py_bind (py_get call ''id'' (JStr ''N/A'')) (\<lambda>i.
     py_bind (py_get call ''type'' (JStr ''N/A'')) (\<lambda>ty.
     py_bind (py_get call ''name'' (JStr ''N/A'')) (\<lambda>n. Inr (i, ty, n))))"

text \<open>The body of the loop over the run's steps.\<close>

definition step_details :: "rstep \<Rightarrow> step_log py" where
  "step_details step =
     py_bind (py_get (rs_body step) ''step_details'' (JDict [])) (\<lambda>det.
     py_bind (py_get det ''tool_calls'' (JList [])) (\<lambda>tc.
     if py_truthy tc then
       py_bind (py_iter tc) (\<lambda>calls. py_bind (py_map call_row calls) (\<lambda>rows.
         Inr \<lparr>sl_id = rs_id step, sl_calls = rows\<rparr>))
     else Inr \<lparr>sl_id = rs_id step, sl_calls = []\<rparr>))"

definition log_run_steps :: "rcall list \<Rightarrow> string \<Rightarrow> string \<Rightarrow> unit act" where
  "log_run_steps fl tid rid =
     act_seq (act_log (LSubheader ''Run Steps & Tool Calls'')) (
     act_bind (act_query (\<lambda>sv. svc_list_steps fl sv rid)) (\<lambda>steps.
     act_bind (act_lift (py_map step_details steps)) (\<lambda>details.
     act_log (LRunSteps details))))"

section \<open>The chat turn\<close>

text \<open>Lines 204--209: a session without a thread gets a new remote thread.\<close>

definition app_open_thread :: "rcall list \<Rightarrow> unit act" where
  "app_open_thread fl w =
     (case ss_thread (w_sess w) of
        Some _ \<Rightarrow> (Inr (), w)
      | None \<Rightarrow>
          act_seq (act_log (LInfo ''Creating a new thread...'')) (
          act_bind (act_remote (svc_create_thread fl)) (\<lambda>t.
          act_seq (act_sess (\<lambda>s. s\<lparr>ss_thread := Some (JStr t)\<rparr>)) (
          act_log (LSuccess (''New thread: `'' @ t @ ''`''))))) w)"

text \<open>\<open>st.session_state.thread_id\<close>.\<close>

definition app_thread_id :: "json act" where
  "app_thread_id w = (case ss_thread (w_sess w) of Some t \<Rightarrow> Inr t | None \<Rightarrow> Inl AttributeError, w)"

text \<open>
  \<open>next((m.id for m in msgs if m.role == "assistant"), None)\<close>: the id of the newest
  assistant message, whether or not it has text.
\<close>

definition last_assistant_id :: "rmsg list \<Rightarrow> string option" where
  "last_assistant_id msgs = map_option rm_id (find (\<lambda>m. rm_role m = ''assistant'') msgs)"

text \<open>Lines 246--254: the branch of a run that did not fail.\<close>

definition app_reply :: "rcall list \<Rightarrow> string \<Rightarrow> string \<Rightarrow> string \<Rightarrow> rrun \<Rightarrow> unit act" where
  "app_reply fl ts2 tid mem_path run =
     act_seq (act_log (LSuccess (''Run `'' @ rr_id run @ ''`: **'' @ rr_status run @ ''**''))) (
     act_seq (log_run_steps fl tid (rr_id run)) (
     act_bind (print_latest_assistant fl tid) (\<lambda>txt.
     act_seq (act_sess (\<lambda>s. s\<lparr>ss_messages := ss_messages s @ [(JStr ''assistant'', JStr txt)]\<rparr>)) (
     act_bind (act_query (\<lambda>sv. svc_list_messages fl sv tid)) (\<lambda>msgs.
     act_mem (\<lambda>d. append_memory (Some 20) d mem_path ts2 ''assistant'' txt (last_assistant_id msgs)))))))"

text \<open>Lines 256--262: the agent is deleted; a failure is logged, not raised.\<close>

definition app_delete_agent :: "rcall list \<Rightarrow> string \<Rightarrow> unit act" where
  "app_delete_agent fl aid =
     act_seq (act_log (LInfo (''Deleting agent `'' @ aid @ ''`...''))) (
     act_try (act_seq (act_remote (\<lambda>sv. py_bind (svc_delete_agent fl sv aid) (\<lambda>sv'. Inr ((), sv'))))
                      (act_log (LSuccess ''Agent deleted.'')))
             (\<lambda>e. act_log (LWarning ''Could not delete agent'')))"

text \<open>Lines 199--200: the log is cleared and the prompt shown.\<close>

definition app_begin_turn :: "string \<Rightarrow> unit act" where
  "app_begin_turn prompt =
     act_sess (\<lambda>s. s\<lparr>ss_log := [], ss_messages := ss_messages s @ [(JStr ''user'', JStr prompt)]\<rparr>)"

text \<open>
  Lines 211--262, once the session has a thread: create the agent, post and journal the
  prompt, run, show and journal the reply, delete the agent. The time stamps of the two
  journal entries are inputs.
\<close>

definition app_run_turn ::
  "rcall list \<Rightarrow> run_outcome \<Rightarrow> string \<Rightarrow> string \<Rightarrow> string \<Rightarrow> json \<Rightarrow> unit act" where
  "app_run_turn fl out ts1 ts2 prompt thread_id =
     (let tid = py_str thread_id; mem_path = memory_path_for_thread tid in
     act_seq (act_log (LInfo ''Creating agent...'')) (
     act_bind (act_remote (svc_create_agent fl)) (\<lambda>aid.
     act_seq (act_log (LSuccess ''Agent created: `my-mcp-agent`'')) (
     act_seq (act_log (LInfo ''Sending message...'')) (
     act_bind (act_remote (\<lambda>sv. svc_create_message fl sv tid ''user'' prompt)) (\<lambda>mid.
     act_seq (act_mem (\<lambda>d. append_memory (Some 20) d mem_path ts1 ''user'' prompt (Some mid))) (
     act_seq (act_log (LSuccess ''Message sent.'')) (
     act_seq (act_log (LInfo ''Starting run...'')) (
     act_bind (act_remote (\<lambda>sv. svc_run fl sv tid aid out)) (\<lambda>run.
     act_seq (if rr_status run = ''failed'' then act_log (LError (''Run `'' @ rr_id run @ ''` failed.''))
              else app_reply fl ts2 tid mem_path run) (
     app_delete_agent fl aid)))))))))))"

text \<open>Lines 198--264, from a submitted prompt to \<open>st.rerun()\<close>.\<close>

definition app_chat_turn :: "rcall list \<Rightarrow> run_outcome \<Rightarrow> string \<Rightarrow> string \<Rightarrow> string \<Rightarrow> unit act" where
  "app_chat_turn fl out ts1 ts2 prompt =
     act_seq (app_begin_turn prompt) (
     act_seq (app_open_thread fl) (
     act_bind app_thread_id (app_run_turn fl out ts1 ts2 prompt)))"

text \<open>
  The page as a whole: each user action is an event, handled by the script run it
  triggers. A chat prompt runs the chat turn; choosing a radio option, the delete button
  and the new-chat button run their callbacks. An exception ends the script run with the
  state as it was left (Streamlit shows the error), so a step keeps that state.  The
  chat turn ends in \<open>st.rerun()\<close> (line 264), before the radio (line 278) is drawn; a run
  stopped this way does not clean up widget state (Streamlit drops the values of widgets
  a run did not draw only when the run completes), so \<open>selected_chat\<close> keeps its value
  and the initialisation at lines 161--162 does not fire.
\<close>

datatype app_event =
    EChat "rcall list" run_outcome string string string
  | ESelect json
  | EDelete
  | ENewChat

fun app_step :: "world \<Rightarrow> app_event \<Rightarrow> world" where
  "app_step w (EChat fl out ts1 ts2 prompt) = snd (app_chat_turn fl out ts1 ts2 prompt w)"
| "app_step w (ESelect c) = w\<lparr>w_sess := fst (select_chat (w_dir w) (w_sess w) c)\<rparr>"
| "app_step w EDelete =
     (case delete_selected_chat_callback (w_dir w) (w_sess w) of (d, s, _) \<Rightarrow> w\<lparr>w_dir := d, w_sess := s\<rparr>)"
| "app_step w ENewChat = w\<lparr>w_sess := start_new_chat (w_sess w)\<rparr>"

section \<open>Invariants of the service model\<close>

text \<open>
  The service never reissues an id: no id it holds has the form of an id it will issue
  later (\<open>svc_wf\<close>). A session's active thread, when there is one, is a thread the
  service knows (\<open>thread_ok\<close>). \<open>act_keeps P m\<close> says the action \<open>m\<close> keeps the property
  \<open>P\<close> of the journal directory, whatever happens.
\<close>

definition id_prefixes :: "string list" where
  "id_prefixes = [''thread_'', ''asst_'', ''msg_'', ''run_'']"

definition svc_ids :: "svc \<Rightarrow> string set" where
  "svc_ids sv = fst ` set (sv_threads sv) \<union> set (sv_agents sv) \<union> fst ` set (sv_steps sv)"

definition svc_wf :: "svc \<Rightarrow> bool" where
  "svc_wf sv \<longleftrightarrow> (\<forall>x\<in>svc_ids sv. \<forall>p\<in>set id_prefixes. \<forall>k\<ge>sv_next sv. x \<noteq> p @ nat_str k)"

definition thread_ok :: "world \<Rightarrow> bool" where
  "thread_ok w \<longleftrightarrow>
     (case ss_thread (w_sess w) of None \<Rightarrow> True
      | Some tid \<Rightarrow> (\<exists>t. tid = JStr t \<and> map_of (sv_threads (w_svc w)) t \<noteq> None))"

definition act_keeps :: "(memdir \<Rightarrow> bool) \<Rightarrow> 'a act \<Rightarrow> bool" where
  "act_keeps P m \<longleftrightarrow> (\<forall>w. P (w_dir w) \<longrightarrow> P (w_dir (snd (m w))))"

definition append_keeps :: "(memdir \<Rightarrow> bool) \<Rightarrow> bool" where
  "append_keeps P \<longleftrightarrow> (\<forall>d p ts r t m d'. P d \<longrightarrow> append_memory (Some 20) d p ts r t m = Inr d' \<longrightarrow> P d')"

section \<open>Lemmas: fresh ids\<close>

lemma nat_str_inj: "nat_str a = nat_str b \<Longrightarrow> a = b"
proof -
  assume e: "nat_str a = nat_str b"
  have "Inr (int a) = (Inr (int b) :: int py)" using py_int_nat_str [of a] py_int_nat_str [of b] e by metis
  then show "a = b" by simp
qed

lemma nat_str_hd_digit: "\<exists>c cs. nat_str n = c # cs \<and> is_digit c"
  using nat_str_not_Nil [of n] nat_str_digits [of n] by (cases "nat_str n") auto

lemma fresh_id_eq:
  assumes "p \<in> set id_prefixes" "q \<in> set id_prefixes"
  shows "p @ nat_str a = q @ nat_str b \<longleftrightarrow> p = q \<and> a = b"
proof -
  obtain c cs where c: "nat_str a = c # cs" "is_digit c" using nat_str_hd_digit by blast
  obtain d ds where d: "nat_str b = d # ds" "is_digit d" using nat_str_hd_digit by blast
  have "p @ nat_str a = q @ nat_str b \<Longrightarrow> p = q"
    using assms c d by (auto simp: id_prefixes_def is_digit_def)
  then show ?thesis by (auto dest: nat_str_inj)
qed

lemma fresh_not_in:
  assumes "svc_wf sv" "p \<in> set id_prefixes"
  shows "fresh_id p sv \<notin> svc_ids sv"
  using assms by (auto simp: svc_wf_def fresh_id_def)

lemma svc_wf_next:
  assumes "svc_wf sv" "p \<in> set id_prefixes"
    and "svc_ids sv' \<subseteq> insert (fresh_id p sv) (svc_ids sv)" "sv_next sv' = Suc (sv_next sv)"
  shows "svc_wf sv'"
  unfolding svc_wf_def
proof (intro ballI allI impI)
  fix x q k assume x: "x \<in> svc_ids sv'" and q: "q \<in> set id_prefixes" and k: "sv_next sv' \<le> k"
  show "x \<noteq> q @ nat_str k"
  proof (cases "x = fresh_id p sv")
    case True
    with assms(2) q k assms(4) show ?thesis by (auto simp: fresh_id_def fresh_id_eq)
  next
    case False
    with x assms(3) have "x \<in> svc_ids sv" by auto
    with assms(1) q k assms(4) show ?thesis by (auto simp: svc_wf_def)
  qed
qed

section \<open>Lemmas: the turn up to the agent\<close>

lemma svc_ids_update_thread:
  "map_of (sv_threads sv) t \<noteq> None \<Longrightarrow> fst ` set (AList.update t v (sv_threads sv)) = fst ` set (sv_threads sv)"
  by (auto simp: AList.dom_update dest: map_of_SomeD intro: rev_image_eqI)

lemma app_open_thread_ok:
  assumes "svc_wf (w_svc w)" and "thread_ok w" and "CThreadCreate \<notin> set fl"
  shows "\<exists>t ms w1. app_open_thread fl w = (Inr (), w1) \<and> ss_thread (w_sess w1) = Some (JStr t) \<and>
    map_of (sv_threads (w_svc w1)) t = Some ms \<and> svc_wf (w_svc w1) \<and> w_dir w1 = w_dir w \<and>
    ss_messages (w_sess w1) = ss_messages (w_sess w) \<and> sv_agents (w_svc w1) = sv_agents (w_svc w) \<and>
    (\<forall>tid. ss_thread (w_sess w) = Some tid \<longrightarrow> tid = JStr t) \<and>
    (ss_thread (w_sess w) \<noteq> None \<longrightarrow> w_svc w1 = w_svc w)"
proof (cases "ss_thread (w_sess w)")
  case None
  let ?sv = "w_svc w"
  let ?t = "fresh_id ''thread_'' ?sv"
  let ?sv1 = "?sv\<lparr>sv_threads := sv_threads ?sv @ [(?t, [])], sv_next := Suc (sv_next ?sv)\<rparr>"
  have fr: "?t \<notin> fst ` set (sv_threads ?sv)"
    using fresh_not_in [OF assms(1), of "''thread_''"] by (simp add: svc_ids_def id_prefixes_def)
  then have m: "map_of (sv_threads ?sv1) ?t = Some []"
    by (simp add: map_add_def map_of_eq_None_iff [symmetric])
  have wf: "svc_wf ?sv1" by (rule svc_wf_next [OF assms(1), of "''thread_''"]) (auto simp: svc_ids_def id_prefixes_def)
  show ?thesis using None m wf assms(3)
    by (simp add: app_open_thread_def act_seq_def act_bind_def act_log_def act_sess_def act_remote_def
        svc_create_thread_def Let_def)
next
  case (Some tid)
  with assms(2) obtain t ms where "tid = JStr t" "map_of (sv_threads (w_svc w)) t = Some ms"
    by (auto simp: thread_ok_def)
  with Some assms(1) show ?thesis by (simp add: app_open_thread_def)
qed

lemma app_chat_turn_opened:
  assumes sv: "svc_wf (w_svc w)" and th: "thread_ok w" and fl: "CThreadCreate \<notin> set fl"
  shows "\<exists>t ms w1. app_chat_turn fl out ts1 ts2 prompt w = app_run_turn fl out ts1 ts2 prompt (JStr t) w1 \<and>
    ss_thread (w_sess w1) = Some (JStr t) \<and> map_of (sv_threads (w_svc w1)) t = Some ms \<and>
    svc_wf (w_svc w1) \<and> w_dir w1 = w_dir w \<and>
    ss_messages (w_sess w1) = ss_messages (w_sess w) @ [(JStr ''user'', JStr prompt)] \<and>
    sv_agents (w_svc w1) = sv_agents (w_svc w) \<and> (\<forall>tid. ss_thread (w_sess w) = Some tid \<longrightarrow> tid = JStr t) \<and>
    (ss_thread (w_sess w) \<noteq> None \<longrightarrow> w_svc w1 = w_svc w)"
proof -
  define w0 where "w0 = w\<lparr>w_sess := (w_sess w)\<lparr>ss_log := [], ss_messages := ss_messages (w_sess w) @ [(JStr ''user'', JStr prompt)]\<rparr>\<rparr>"
  have sv0: "svc_wf (w_svc w0)" and th0: "thread_ok w0"
    using sv th by (simp_all add: w0_def thread_ok_def split: option.splits)
  from app_open_thread_ok [OF sv0 th0 fl] obtain t ms w1 where
    o: "app_open_thread fl w0 = (Inr (), w1)" and t1: "ss_thread (w_sess w1) = Some (JStr t)"
    and rest: "map_of (sv_threads (w_svc w1)) t = Some ms" "svc_wf (w_svc w1)" "w_dir w1 = w_dir w"
      "ss_messages (w_sess w1) = ss_messages (w_sess w) @ [(JStr ''user'', JStr prompt)]"
      "sv_agents (w_svc w1) = sv_agents (w_svc w)"
      "\<forall>tid. ss_thread (w_sess w) = Some tid \<longrightarrow> tid = JStr t"
      "ss_thread (w_sess w) \<noteq> None \<longrightarrow> w_svc w1 = w_svc w"
    by (auto simp: w0_def)
  have "app_chat_turn fl out ts1 ts2 prompt w = app_run_turn fl out ts1 ts2 prompt (JStr t) w1"
    using o t1 by (simp add: app_chat_turn_def act_seq_def act_bind_def app_begin_turn_def act_sess_def
                   app_thread_id_def w0_def)
  with t1 rest show ?thesis by blast
qed

lemmas act_simps = act_return_def act_bind_def act_seq_def act_sess_def act_log_def act_remote_def
  act_query_def act_mem_def act_try_def act_lift_def

lemma steps_listed:
  assumes "svc_wf sv"
  shows "map_of (sv_steps sv @ [(fresh_id ''run_'' sv, st)]) (fresh_id ''run_'' sv) = Some st"
  using fresh_not_in [OF assms, of "''run_''"]
  by (simp add: svc_ids_def id_prefixes_def map_add_def map_of_eq_None_iff [symmetric])

lemmas turn_eval = app_chat_turn_def app_begin_turn_def app_run_turn_def act_simps app_open_thread_def
  app_thread_id_def svc_create_thread_def svc_create_agent_def svc_create_message_def svc_run_def fresh_id_def
  append_memory_def load_memory_def write_json_def empty_memory_def app_reply_def log_run_steps_def
  svc_list_steps_def print_latest_assistant_def svc_list_messages_def app_delete_agent_def
  svc_delete_agent_def last_n_def Let_def nat_str.simps digit_char_def last_assistant_id_def
  reply_text_def latest_assistant_def char_of_def bit_iff_odd

section \<open>Lemmas: what a turn does to the journal directory\<close>

lemma keeps_return [keeps_intros]: "act_keeps P (act_return x)"
  and keeps_sess [keeps_intros]: "act_keeps P (act_sess f)"
  and keeps_log [keeps_intros]: "act_keeps P (act_log l)"
  and keeps_query [keeps_intros]: "act_keeps P (act_query q)"
  and keeps_lift [keeps_intros]: "act_keeps P (act_lift r)"
  and keeps_thread_id [keeps_intros]: "act_keeps P app_thread_id"
  by (simp_all add: act_keeps_def act_simps app_thread_id_def)

lemma keeps_remote [keeps_intros]: "act_keeps P (act_remote f)"
  by (auto simp: act_keeps_def act_remote_def split: sum.splits)

lemma keeps_bind [keeps_intros]:
  "act_keeps P m \<Longrightarrow> (\<And>x. act_keeps P (f x)) \<Longrightarrow> act_keeps P (act_bind m f)"
  by (auto simp: act_keeps_def act_bind_def split: prod.splits sum.splits)

lemma keeps_seq [keeps_intros]:
  "act_keeps P m \<Longrightarrow> act_keeps P k \<Longrightarrow> act_keeps P (act_seq m k)"
  unfolding act_seq_def by (rule keeps_bind)

lemma keeps_try [keeps_intros]:
  "act_keeps P m \<Longrightarrow> (\<And>e. act_keeps P (h e)) \<Longrightarrow> act_keeps P (act_try m h)"
  by (auto simp: act_keeps_def act_try_def split: prod.splits sum.splits)

lemma keeps_if [keeps_intros]:
  "act_keeps P a \<Longrightarrow> act_keeps P b \<Longrightarrow> act_keeps P (if c then a else b)"
  by simp

lemma keeps_mem [keeps_intros]:
  "(\<And>d d'. P d \<Longrightarrow> f d = Inr d' \<Longrightarrow> P d') \<Longrightarrow> act_keeps P (act_mem f)"
  by (auto simp: act_keeps_def act_mem_def split: sum.splits)

lemma keeps_open_thread [keeps_intros]: "act_keeps P (app_open_thread fl)"
proof -
  have "act_keeps P (act_seq (act_log (LInfo ''Creating a new thread...'')) (
          act_bind (act_remote (svc_create_thread fl)) (\<lambda>t.
          act_seq (act_sess (\<lambda>s. s\<lparr>ss_thread := Some (JStr t)\<rparr>)) (
          act_log (LSuccess (''New thread: `'' @ t @ ''`''))))))"
    by (intro keeps_intros)
  then show ?thesis by (auto simp: act_keeps_def app_open_thread_def split: option.splits)
qed

lemma keeps_print_latest [keeps_intros]: "act_keeps P (print_latest_assistant fl tid)"
  unfolding print_latest_assistant_def
  by (intro keeps_intros) (simp split: option.split add: keeps_intros)

lemma keeps_chat_turn:
  assumes "append_keeps P"
  shows "act_keeps P (app_chat_turn fl out ts1 ts2 prompt)"
  using assms unfolding app_chat_turn_def app_begin_turn_def app_run_turn_def app_reply_def log_run_steps_def
    app_delete_agent_def Let_def append_keeps_def
  by (intro keeps_intros) blast+

lemma append_keeps_reach: "append_keeps mem_reach"
  by (auto simp: append_keeps_def intro: mem_reach.append)

lemma find_skip: "\<forall>x\<in>set ys. \<not> P x \<Longrightarrow> find P (ys @ xs) = find P xs"
  by (induction ys) auto

lemma find_skip_mid: "\<not> P u \<Longrightarrow> find P (xs @ u # ys) = find P (xs @ ys)"
  by (induction xs) auto

section \<open>Properties of the chat turn\<close>

lemma app_turn_completed_result:
  assumes d: "wf_memdir (w_dir w)" and sv: "svc_wf (w_svc w)" and th: "thread_ok w"
    and st: "ro_status out \<noteq> ''failed''"
    and steps: "case py_map step_details (ro_steps out) of Inl _ \<Rightarrow> False | Inr _ \<Rightarrow> True"
  shows "\<exists>t j ms mid w'. app_chat_turn [] out ts1 ts2 prompt w = (Inr (), w') \<and>
    ss_thread (w_sess w') = Some (JStr t) \<and>
    journal_of_json (load_memory (w_dir w) (memory_path_for_thread t)) = Some j \<and>
    map_of (sv_threads (w_svc w')) t =
      Some (ms @ \<lparr>rm_id = mid, rm_role = ''user'', rm_texts = [prompt]\<rparr> # ro_replies out) \<and>
    journal_of_json (load_memory (w_dir w') (memory_path_for_thread t)) =
      Some (j_append (Some 20)
             (j_append (Some 20) j \<lparr>e_ts = ts1, e_role = ''user'', e_text = prompt, e_mid = Some mid\<rparr>)
             \<lparr>e_ts = ts2, e_role = ''assistant'',
              e_text = reply_text (rev (ms @ \<lparr>rm_id = mid, rm_role = ''user'', rm_texts = [prompt]\<rparr> # ro_replies out)),
              e_mid = last_assistant_id (rev (ms @ \<lparr>rm_id = mid, rm_role = ''user'', rm_texts = [prompt]\<rparr> # ro_replies out))\<rparr>) \<and>
    ss_messages (w_sess w') = ss_messages (w_sess w) @
      [(JStr ''user'', JStr prompt),
       (JStr ''assistant'', JStr (reply_text (rev (ms @ \<lparr>rm_id = mid, rm_role = ''user'', rm_texts = [prompt]\<rparr> # ro_replies out))))] \<and>
    sv_agents (w_svc w') = sv_agents (w_svc w) \<and>
    (\<forall>tid. ss_thread (w_sess w) = Some tid \<longrightarrow> tid = JStr t \<and> map_of (sv_threads (w_svc w)) t = Some ms)"
proof -
  from app_chat_turn_opened [OF sv th, of "[]" out ts1 ts2 prompt] obtain t ms w1 where
    turn: "app_chat_turn [] out ts1 ts2 prompt w = app_run_turn [] out ts1 ts2 prompt (JStr t) w1"
    and t1: "ss_thread (w_sess w1) = Some (JStr t)"
    and m1: "map_of (sv_threads (w_svc w1)) t = Some ms" and sv1: "svc_wf (w_svc w1)"
    and d1: "w_dir w1 = w_dir w" and msg1: "ss_messages (w_sess w1) = ss_messages (w_sess w) @ [(JStr ''user'', JStr prompt)]"
    and ag1: "sv_agents (w_svc w1) = sv_agents (w_svc w)"
    and old: "ss_thread (w_sess w) \<noteq> None \<longrightarrow> w_svc w1 = w_svc w"
    and same: "\<forall>tid. ss_thread (w_sess w) = Some tid \<longrightarrow> tid = JStr t"
    by auto
  let ?p = "memory_path_for_thread t"
  let ?a = "fresh_id ''asst_'' (w_svc w1)"
  let ?sv2 = "(w_svc w1)\<lparr>sv_agents := sv_agents (w_svc w1) @ [?a], sv_next := Suc (sv_next (w_svc w1))\<rparr>"
  let ?mid = "fresh_id ''msg_'' ?sv2"
  let ?u = "\<lparr>rm_id = ?mid, rm_role = ''user'', rm_texts = [prompt]\<rparr>"
  let ?sv3 = "?sv2\<lparr>sv_threads := AList.update t (ms @ [?u]) (sv_threads ?sv2), sv_next := Suc (sv_next ?sv2)\<rparr>"
  have a: "?a \<notin> set (sv_agents (w_svc w1))"
    using fresh_not_in [OF sv1, of "''asst_''"] by (simp add: svc_ids_def id_prefixes_def)
  have sv2: "svc_wf ?sv2" by (rule svc_wf_next [OF sv1, of "''asst_''"]) (auto simp: svc_ids_def id_prefixes_def)
  have sv3: "svc_wf ?sv3"
    by (rule svc_wf_next [OF sv2, of "''msg_''"]) (auto simp: svc_ids_def id_prefixes_def svc_ids_update_thread m1)
  have r: "map_of (sv_steps ?sv3 @ [(fresh_id ''run_'' ?sv3, ro_steps out)]) (fresh_id ''run_'' ?sv3) = Some (ro_steps out)"
    by (rule steps_listed [OF sv3])
  from wf_memdir_load [OF d] obtain j where j: "journal_of_json (load_memory (w_dir w) ?p) = Some j" by auto
  from append_memory_step [OF j, of "Some 20" ts1 "''user''" prompt "Some ?mid"] obtain v1 where
    v1: "append_memory (Some 20) (w_dir w) ?p ts1 ''user'' prompt (Some ?mid) = Inr (write_json (w_dir w) ?p v1)"
    and j1: "journal_of_json v1 = Some (j_append (Some 20) j \<lparr>e_ts = ts1, e_role = ''user'', e_text = prompt, e_mid = Some ?mid\<rparr>)"
    by blast
  let ?ms = "rev (ms @ ?u # ro_replies out)"
  from j1 have j1': "journal_of_json (load_memory (write_json (w_dir w) ?p v1) ?p) = Some (j_append (Some 20) j \<lparr>e_ts = ts1, e_role = ''user'', e_text = prompt, e_mid = Some ?mid\<rparr>)"
    by simp
  from append_memory_step [OF j1', of "Some 20" ts2 "''assistant''" "reply_text ?ms" "last_assistant_id ?ms"]
  obtain v2 where
    v2: "append_memory (Some 20) (write_json (w_dir w) ?p v1) ?p ts2 ''assistant'' (reply_text ?ms) (last_assistant_id ?ms) =
       Inr (write_json (write_json (w_dir w) ?p v1) ?p v2)"
    and j2: "journal_of_json v2 = Some (j_append (Some 20) (j_append (Some 20) j \<lparr>e_ts = ts1, e_role = ''user'', e_text = prompt, e_mid = Some ?mid\<rparr>)
             \<lparr>e_ts = ts2, e_role = ''assistant'', e_text = reply_text ?ms, e_mid = last_assistant_id ?ms\<rparr>)"
    by blast
  obtain ls where ls: "py_map step_details (ro_steps out) = Inr ls" using steps by (auto split: sum.splits)
  have extra: "\<forall>tid. ss_thread (w_sess w) = Some tid \<longrightarrow> tid = JStr t \<and> map_of (sv_threads (w_svc w)) t = Some ms"
    using old same m1 by auto
  show ?thesis
    apply (rule exI [of _ t], rule exI [of _ j], rule exI [of _ ms], rule exI [of _ ?mid])
    using j j2 m1 t1 d1 msg1 ag1 a v1 v2 r ls st extra
    apply (simp add: turn app_run_turn_def act_simps svc_create_agent_def svc_create_message_def svc_run_def
        app_reply_def log_run_steps_def svc_list_steps_def print_latest_assistant_def svc_list_messages_def
        app_delete_agent_def svc_delete_agent_def Let_def AList.update_conv' split: option.splits)
    done
qed


text \<open>
  C23. A chat turn with no failing remote call whose run completes (any status other than
  \<open>failed\<close>) ends without exception on the thread of the session (a new one when there
  was none); the service thread then holds the prompt as a user message followed by what
  the run posted; the journal of the thread is the old one with the user entry (carrying
  the id of the posted message) and the assistant entry appended under the retention
  policy of 20, the assistant entry holding the reply extracted from the newest-first
  listing; the chat pane gains the prompt and that reply; and the agent the turn
  created has been deleted again.
\<close>

theorem app_turn_completed:
  assumes d: "wf_memdir (w_dir w)" and sv: "svc_wf (w_svc w)" and th: "thread_ok w"
    and st: "ro_status out \<noteq> ''failed''"
    and steps: "case py_map step_details (ro_steps out) of Inl _ \<Rightarrow> False | Inr _ \<Rightarrow> True"
  shows "\<exists>t j ms mid w'. app_chat_turn [] out ts1 ts2 prompt w = (Inr (), w') \<and>
    ss_thread (w_sess w') = Some (JStr t) \<and>
    journal_of_json (load_memory (w_dir w) (memory_path_for_thread t)) = Some j \<and>
    map_of (sv_threads (w_svc w')) t =
      Some (ms @ \<lparr>rm_id = mid, rm_role = ''user'', rm_texts = [prompt]\<rparr> # ro_replies out) \<and>
    journal_of_json (load_memory (w_dir w') (memory_path_for_thread t)) =
      Some (j_append (Some 20)
             (j_append (Some 20) j \<lparr>e_ts = ts1, e_role = ''user'', e_text = prompt, e_mid = Some mid\<rparr>)
             \<lparr>e_ts = ts2, e_role = ''assistant'',
              e_text = reply_text (rev (ms @ \<lparr>rm_id = mid, rm_role = ''user'', rm_texts = [prompt]\<rparr> # ro_replies out)),
              e_mid = last_assistant_id (rev (ms @ \<lparr>rm_id = mid, rm_role = ''user'', rm_texts = [prompt]\<rparr> # ro_replies out))\<rparr>) \<and>
    ss_messages (w_sess w') = ss_messages (w_sess w) @
      [(JStr ''user'', JStr prompt),
       (JStr ''assistant'', JStr (reply_text (rev (ms @ \<lparr>rm_id = mid, rm_role = ''user'', rm_texts = [prompt]\<rparr> # ro_replies out))))] \<and>
    sv_agents (w_svc w') = sv_agents (w_svc w)"
  using app_turn_completed_result [OF assms] by blast

theorem app_turn_completed_witness:
  "let w = \<lparr>w_dir = [], w_svc = \<lparr>sv_threads = [], sv_agents = [], sv_steps = [], sv_next = 0\<rparr>,
            w_sess = session_init\<rparr>;
       out = \<lparr>ro_status = ''completed'', ro_error = JNull,
              ro_replies = [\<lparr>rm_id = ''r1'', rm_role = ''assistant'', rm_texts = [''Hi'']\<rparr>], ro_steps = []\<rparr>
   in wf_memdir (w_dir w) \<and> svc_wf (w_svc w) \<and> thread_ok w \<and> ro_status out \<noteq> ''failed'' \<and>
      (case py_map step_details (ro_steps out) of Inl _ \<Rightarrow> False | Inr _ \<Rightarrow> True) \<and>
      (\<exists>t j ms mid w'. app_chat_turn [] out ''T1'' ''T2'' ''Hello'' w = (Inr (), w') \<and>
        ss_thread (w_sess w') = Some (JStr t) \<and>
        journal_of_json (load_memory (w_dir w) (memory_path_for_thread t)) = Some j \<and>
        map_of (sv_threads (w_svc w')) t =
          Some (ms @ \<lparr>rm_id = mid, rm_role = ''user'', rm_texts = [''Hello'']\<rparr> # ro_replies out) \<and>
        journal_of_json (load_memory (w_dir w') (memory_path_for_thread t)) =
          Some (j_append (Some 20)
                 (j_append (Some 20) j \<lparr>e_ts = ''T1'', e_role = ''user'', e_text = ''Hello'', e_mid = Some mid\<rparr>)
                 \<lparr>e_ts = ''T2'', e_role = ''assistant'',
                  e_text = reply_text (rev (ms @ \<lparr>rm_id = mid, rm_role = ''user'', rm_texts = [''Hello'']\<rparr> # ro_replies out)),
                  e_mid = last_assistant_id (rev (ms @ \<lparr>rm_id = mid, rm_role = ''user'', rm_texts = [''Hello'']\<rparr> # ro_replies out))\<rparr>) \<and>
        ss_messages (w_sess w') = ss_messages (w_sess w) @
          [(JStr ''user'', JStr ''Hello''),
           (JStr ''assistant'', JStr (reply_text (rev (ms @ \<lparr>rm_id = mid, rm_role = ''user'', rm_texts = [''Hello'']\<rparr> # ro_replies out))))] \<and>
        sv_agents (w_svc w') = sv_agents (w_svc w))"
proof -
  let ?w = "\<lparr>w_dir = [], w_svc = \<lparr>sv_threads = [], sv_agents = [], sv_steps = [], sv_next = 0\<rparr>,
            w_sess = session_init\<rparr>"
  let ?out = "\<lparr>ro_status = ''completed'', ro_error = JNull,
              ro_replies = [\<lparr>rm_id = ''r1'', rm_role = ''assistant'', rm_texts = [''Hi'']\<rparr>], ro_steps = []\<rparr>"
  have h1: "wf_memdir (w_dir ?w)" by (simp add: wf_memdir_def)
  have h2: "svc_wf (w_svc ?w)" by (simp add: svc_wf_def svc_ids_def)
  have h3: "thread_ok ?w" by (simp add: thread_ok_def session_init_def)
  have h4: "ro_status ?out \<noteq> ''failed''" by simp
  have h5: "case py_map step_details (ro_steps ?out) of Inl _ \<Rightarrow> False | Inr _ \<Rightarrow> True" by simp
  show ?thesis
    unfolding Let_def using h1 h2 h3 h4 h5 app_turn_completed [OF h1 h2 h3 h4 h5, of "''T1''" "''T2''" "''Hello''"]
    by blast
qed

text \<open>
  C24. When the run fails, the turn still ends without exception: only the user entry is
  journalled, the chat pane shows only the prompt, and the agent is deleted.
\<close>

theorem app_turn_failed_run:
  assumes d: "wf_memdir (w_dir w)" and sv: "svc_wf (w_svc w)" and th: "thread_ok w"
    and st: "ro_status out = ''failed''"
  shows "\<exists>t j mid w'. app_chat_turn [] out ts1 ts2 prompt w = (Inr (), w') \<and>
    ss_thread (w_sess w') = Some (JStr t) \<and>
    journal_of_json (load_memory (w_dir w) (memory_path_for_thread t)) = Some j \<and>
    journal_of_json (load_memory (w_dir w') (memory_path_for_thread t)) =
      Some (j_append (Some 20) j \<lparr>e_ts = ts1, e_role = ''user'', e_text = prompt, e_mid = Some mid\<rparr>) \<and>
    ss_messages (w_sess w') = ss_messages (w_sess w) @ [(JStr ''user'', JStr prompt)] \<and>
    sv_agents (w_svc w') = sv_agents (w_svc w)"
proof -
  from app_chat_turn_opened [OF sv th, of "[]" out ts1 ts2 prompt] obtain t ms w1 where
    turn: "app_chat_turn [] out ts1 ts2 prompt w = app_run_turn [] out ts1 ts2 prompt (JStr t) w1"
    and t1: "ss_thread (w_sess w1) = Some (JStr t)"
    and m1: "map_of (sv_threads (w_svc w1)) t = Some ms" and sv1: "svc_wf (w_svc w1)"
    and d1: "w_dir w1 = w_dir w" and msg1: "ss_messages (w_sess w1) = ss_messages (w_sess w) @ [(JStr ''user'', JStr prompt)]"
    and ag1: "sv_agents (w_svc w1) = sv_agents (w_svc w)"
    by auto
  let ?p = "memory_path_for_thread t"
  let ?a = "fresh_id ''asst_'' (w_svc w1)"
  let ?sv2 = "(w_svc w1)\<lparr>sv_agents := sv_agents (w_svc w1) @ [?a], sv_next := Suc (sv_next (w_svc w1))\<rparr>"
  let ?mid = "fresh_id ''msg_'' ?sv2"
  have a: "?a \<notin> set (sv_agents (w_svc w1))"
    using fresh_not_in [OF sv1, of "''asst_''"] by (simp add: svc_ids_def id_prefixes_def)
  from wf_memdir_load [OF d] obtain j where j: "journal_of_json (load_memory (w_dir w) ?p) = Some j" by auto
  from append_memory_step [OF j, of "Some 20" ts1 "''user''" prompt "Some ?mid"] obtain v1 where
    v1: "append_memory (Some 20) (w_dir w) ?p ts1 ''user'' prompt (Some ?mid) = Inr (write_json (w_dir w) ?p v1)"
    and j1: "journal_of_json v1 = Some (j_append (Some 20) j \<lparr>e_ts = ts1, e_role = ''user'', e_text = prompt, e_mid = Some ?mid\<rparr>)"
    by blast
  show ?thesis
    apply (rule exI [of _ t], rule exI [of _ j], rule exI [of _ ?mid])
    using j j1 m1 t1 d1 msg1 ag1 a v1 st
    by (simp add: turn app_run_turn_def act_simps svc_create_agent_def svc_create_message_def svc_run_def
        app_delete_agent_def svc_delete_agent_def Let_def AList.update_conv')
qed

theorem app_turn_failed_run_witness:
  "let w = \<lparr>w_dir = [], w_svc = \<lparr>sv_threads = [], sv_agents = [], sv_steps = [], sv_next = 0\<rparr>,
            w_sess = session_init\<rparr>;
       out = \<lparr>ro_status = ''failed'', ro_error = JStr ''rate limit'', ro_replies = [], ro_steps = []\<rparr>
   in wf_memdir (w_dir w) \<and> svc_wf (w_svc w) \<and> thread_ok w \<and> ro_status out = ''failed'' \<and>
      (\<exists>t j mid w'. app_chat_turn [] out ''T1'' ''T2'' ''Hello'' w = (Inr (), w') \<and>
        ss_thread (w_sess w') = Some (JStr t) \<and>
        journal_of_json (load_memory (w_dir w) (memory_path_for_thread t)) = Some j \<and>
        journal_of_json (load_memory (w_dir w') (memory_path_for_thread t)) =
          Some (j_append (Some 20) j \<lparr>e_ts = ''T1'', e_role = ''user'', e_text = ''Hello'', e_mid = Some mid\<rparr>) \<and>
        ss_messages (w_sess w') = ss_messages (w_sess w) @ [(JStr ''user'', JStr ''Hello'')] \<and>
        sv_agents (w_svc w') = sv_agents (w_svc w))"
proof -
  let ?w = "\<lparr>w_dir = [], w_svc = \<lparr>sv_threads = [], sv_agents = [], sv_steps = [], sv_next = 0\<rparr>,
            w_sess = session_init\<rparr>"
  let ?out = "\<lparr>ro_status = ''failed'', ro_error = JStr ''rate limit'', ro_replies = [], ro_steps = []\<rparr>"
  have h1: "wf_memdir (w_dir ?w)" by (simp add: wf_memdir_def)
  have h2: "svc_wf (w_svc ?w)" by (simp add: svc_wf_def svc_ids_def)
  have h3: "thread_ok ?w" by (simp add: thread_ok_def session_init_def)
  have h4: "ro_status ?out = ''failed''" by simp
  show ?thesis
    unfolding Let_def using h1 h2 h3 h4 app_turn_failed_run [OF h1 h2 h3 h4, of "''T1''" "''T2''" "''Hello''"]
    by blast
qed

text \<open>
  C25. The agent's lifetime is not protected: when posting the prompt fails, the
  exception ends the turn before the deletion, and the agent created by the turn stays
  registered with the service; nothing is journalled.
\<close>

theorem app_turn_agent_leak:
  assumes sv: "svc_wf (w_svc w)" and th: "thread_ok w"
    and fl: "CThreadCreate \<notin> set fl" "CAgentCreate \<notin> set fl" "CMsgCreate \<in> set fl"
  shows "\<exists>a w'. app_chat_turn fl out ts1 ts2 prompt w = (Inl ServiceError, w') \<and>
    a \<notin> set (sv_agents (w_svc w)) \<and> sv_agents (w_svc w') = sv_agents (w_svc w) @ [a] \<and>
    w_dir w' = w_dir w"
proof -
  from app_chat_turn_opened [OF sv th fl(1), of out ts1 ts2 prompt] obtain t ms w1 where
    turn: "app_chat_turn fl out ts1 ts2 prompt w = app_run_turn fl out ts1 ts2 prompt (JStr t) w1"
    and t1: "ss_thread (w_sess w1) = Some (JStr t)"
    and m1: "map_of (sv_threads (w_svc w1)) t = Some ms" and sv1: "svc_wf (w_svc w1)"
    and d1: "w_dir w1 = w_dir w" and msg1: "ss_messages (w_sess w1) = ss_messages (w_sess w) @ [(JStr ''user'', JStr prompt)]"
    and ag1: "sv_agents (w_svc w1) = sv_agents (w_svc w)"
    by blast
  have a: "fresh_id ''asst_'' (w_svc w1) \<notin> set (sv_agents (w_svc w1))"
    using fresh_not_in [OF sv1, of "''asst_''"] by (simp add: svc_ids_def id_prefixes_def)
  show ?thesis
    apply (rule exI [of _ "fresh_id ''asst_'' (w_svc w1)"])
    using a m1 d1 ag1 fl
    by (simp add: turn app_run_turn_def act_simps svc_create_agent_def svc_create_message_def Let_def)
qed

theorem app_turn_agent_leak_witness:
  "let w = \<lparr>w_dir = [], w_svc = \<lparr>sv_threads = [], sv_agents = [], sv_steps = [], sv_next = 0\<rparr>,
            w_sess = session_init\<rparr>
   in svc_wf (w_svc w) \<and> thread_ok w \<and>
      CThreadCreate \<notin> set [CMsgCreate] \<and> CAgentCreate \<notin> set [CMsgCreate] \<and> CMsgCreate \<in> set [CMsgCreate] \<and>
      (\<exists>a w'. app_chat_turn [CMsgCreate] \<lparr>ro_status = ''completed'', ro_error = JNull, ro_replies = [], ro_steps = []\<rparr>
                 ''T1'' ''T2'' ''Hello'' w = (Inl ServiceError, w') \<and>
        a \<notin> set (sv_agents (w_svc w)) \<and> sv_agents (w_svc w') = sv_agents (w_svc w) @ [a] \<and> w_dir w' = w_dir w)"
proof -
  let ?w = "\<lparr>w_dir = [], w_svc = \<lparr>sv_threads = [], sv_agents = [], sv_steps = [], sv_next = 0\<rparr>,
            w_sess = session_init\<rparr>"
  have h1: "svc_wf (w_svc ?w)" by (simp add: svc_wf_def svc_ids_def)
  have h2: "thread_ok ?w" by (simp add: thread_ok_def session_init_def)
  have f: "CThreadCreate \<notin> set [CMsgCreate]" "CAgentCreate \<notin> set [CMsgCreate]" "CMsgCreate \<in> set [CMsgCreate]"
    by simp_all
  show ?thesis
    unfolding Let_def using h1 h2 f
      app_turn_agent_leak [OF h1 h2 f, of "\<lparr>ro_status = ''completed'', ro_error = JNull, ro_replies = [], ro_steps = []\<rparr>"
        "''T1''" "''T2''" "''Hello''"]
    by blast
qed

text \<open>
  C26. When a run completes without posting any assistant text, the reply shown and
  journalled is the previous turn's assistant message, text and id, because
  \<open>_print_latest_assistant\<close> takes the newest assistant message with text in the whole
  thread.
\<close>

theorem app_turn_stale_reply:
  assumes d: "wf_memdir (w_dir w)" and sv: "svc_wf (w_svc w)" and th: "thread_ok w"
    and st: "ro_status out \<noteq> ''failed''"
    and steps: "case py_map step_details (ro_steps out) of Inl _ \<Rightarrow> False | Inr _ \<Rightarrow> True"
    and t: "ss_thread (w_sess w) = Some (JStr t)" and m: "map_of (sv_threads (w_svc w)) t = Some ms"
    and none: "\<forall>r\<in>set (ro_replies out). rm_role r \<noteq> ''assistant''"
  shows "\<exists>j mid w'. app_chat_turn [] out ts1 ts2 prompt w = (Inr (), w') \<and>
    journal_of_json (load_memory (w_dir w) (memory_path_for_thread t)) = Some j \<and>
    journal_of_json (load_memory (w_dir w') (memory_path_for_thread t)) =
      Some (j_append (Some 20)
             (j_append (Some 20) j \<lparr>e_ts = ts1, e_role = ''user'', e_text = prompt, e_mid = Some mid\<rparr>)
             \<lparr>e_ts = ts2, e_role = ''assistant'', e_text = reply_text (rev ms), e_mid = last_assistant_id (rev ms)\<rparr>) \<and>
    ss_messages (w_sess w') = ss_messages (w_sess w) @
      [(JStr ''user'', JStr prompt), (JStr ''assistant'', JStr (reply_text (rev ms)))]"
proof -
  from app_turn_completed_result [OF d sv th st steps, of ts1 ts2 prompt] obtain t' j ms' mid w' where
    r: "app_chat_turn [] out ts1 ts2 prompt w = (Inr (), w')"
    and j: "journal_of_json (load_memory (w_dir w) (memory_path_for_thread t')) = Some j"
    and j': "journal_of_json (load_memory (w_dir w') (memory_path_for_thread t')) =
      Some (j_append (Some 20)
             (j_append (Some 20) j \<lparr>e_ts = ts1, e_role = ''user'', e_text = prompt, e_mid = Some mid\<rparr>)
             \<lparr>e_ts = ts2, e_role = ''assistant'',
              e_text = reply_text (rev (ms' @ \<lparr>rm_id = mid, rm_role = ''user'', rm_texts = [prompt]\<rparr> # ro_replies out)),
              e_mid = last_assistant_id (rev (ms' @ \<lparr>rm_id = mid, rm_role = ''user'', rm_texts = [prompt]\<rparr> # ro_replies out))\<rparr>)"
    and msg: "ss_messages (w_sess w') = ss_messages (w_sess w) @
      [(JStr ''user'', JStr prompt),
       (JStr ''assistant'', JStr (reply_text (rev (ms' @ \<lparr>rm_id = mid, rm_role = ''user'', rm_texts = [prompt]\<rparr> # ro_replies out))))]"
    and ex: "\<forall>tid. ss_thread (w_sess w) = Some tid \<longrightarrow> tid = JStr t' \<and> map_of (sv_threads (w_svc w)) t' = Some ms'"
    by blast
  from ex t m have tt: "t' = t" "ms' = ms" by auto
  have "reply_text (rev (ms @ \<lparr>rm_id = mid, rm_role = ''user'', rm_texts = [prompt]\<rparr> # ro_replies out)) =
      reply_text (rev ms) \<and>
    last_assistant_id (rev (ms @ \<lparr>rm_id = mid, rm_role = ''user'', rm_texts = [prompt]\<rparr> # ro_replies out)) =
      last_assistant_id (rev ms)"
    using none by (simp add: reply_text_def latest_assistant_def last_assistant_id_def find_skip)
  then show ?thesis using r j j' msg tt by auto
qed

theorem app_turn_stale_reply_witness:
  "wf_memdir (w_dir \<lparr>w_dir = [(memory_path_for_thread ''t1'', FJson (JDict [(''thread_id'', JNull),
              (''messages'', JList [mem_entry ''T0'' ''user'' ''Q1'' (Some ''m1''),
                                   mem_entry ''T0'' ''assistant'' ''A1'' (Some ''m2'')])]))],
            w_svc = \<lparr>sv_threads = [(''t1'', [\<lparr>rm_id = ''m1'', rm_role = ''user'', rm_texts = [''Q1'']\<rparr>,
                                           \<lparr>rm_id = ''m2'', rm_role = ''assistant'', rm_texts = [''A1'']\<rparr>])],
                     sv_agents = [], sv_steps = [], sv_next = 0\<rparr>,
            w_sess = session_init\<lparr>ss_thread := Some (JStr ''t1''),
                       ss_messages := [(JStr ''user'', JStr ''Q1''), (JStr ''assistant'', JStr ''A1'')]\<rparr>\<rparr>) \<and> svc_wf (w_svc \<lparr>w_dir = [(memory_path_for_thread ''t1'', FJson (JDict [(''thread_id'', JNull),
              (''messages'', JList [mem_entry ''T0'' ''user'' ''Q1'' (Some ''m1''),
                                   mem_entry ''T0'' ''assistant'' ''A1'' (Some ''m2'')])]))],
            w_svc = \<lparr>sv_threads = [(''t1'', [\<lparr>rm_id = ''m1'', rm_role = ''user'', rm_texts = [''Q1'']\<rparr>,
                                           \<lparr>rm_id = ''m2'', rm_role = ''assistant'', rm_texts = [''A1'']\<rparr>])],
                     sv_agents = [], sv_steps = [], sv_next = 0\<rparr>,
            w_sess = session_init\<lparr>ss_thread := Some (JStr ''t1''),
                       ss_messages := [(JStr ''user'', JStr ''Q1''), (JStr ''assistant'', JStr ''A1'')]\<rparr>\<rparr>) \<and> thread_ok \<lparr>w_dir = [(memory_path_for_thread ''t1'', FJson (JDict [(''thread_id'', JNull),
              (''messages'', JList [mem_entry ''T0'' ''user'' ''Q1'' (Some ''m1''),
                                   mem_entry ''T0'' ''assistant'' ''A1'' (Some ''m2'')])]))],
            w_svc = \<lparr>sv_threads = [(''t1'', [\<lparr>rm_id = ''m1'', rm_role = ''user'', rm_texts = [''Q1'']\<rparr>,
                                           \<lparr>rm_id = ''m2'', rm_role = ''assistant'', rm_texts = [''A1'']\<rparr>])],
                     sv_agents = [], sv_steps = [], sv_next = 0\<rparr>,
            w_sess = session_init\<lparr>ss_thread := Some (JStr ''t1''),
                       ss_messages := [(JStr ''user'', JStr ''Q1''), (JStr ''assistant'', JStr ''A1'')]\<rparr>\<rparr> \<and>
   ss_thread (w_sess \<lparr>w_dir = [(memory_path_for_thread ''t1'', FJson (JDict [(''thread_id'', JNull),
              (''messages'', JList [mem_entry ''T0'' ''user'' ''Q1'' (Some ''m1''),
                                   mem_entry ''T0'' ''assistant'' ''A1'' (Some ''m2'')])]))],
            w_svc = \<lparr>sv_threads = [(''t1'', [\<lparr>rm_id = ''m1'', rm_role = ''user'', rm_texts = [''Q1'']\<rparr>,
                                           \<lparr>rm_id = ''m2'', rm_role = ''assistant'', rm_texts = [''A1'']\<rparr>])],
                     sv_agents = [], sv_steps = [], sv_next = 0\<rparr>,
            w_sess = session_init\<lparr>ss_thread := Some (JStr ''t1''),
                       ss_messages := [(JStr ''user'', JStr ''Q1''), (JStr ''assistant'', JStr ''A1'')]\<rparr>\<rparr>) = Some (JStr ''t1'') \<and> map_of (sv_threads (w_svc \<lparr>w_dir = [(memory_path_for_thread ''t1'', FJson (JDict [(''thread_id'', JNull),
              (''messages'', JList [mem_entry ''T0'' ''user'' ''Q1'' (Some ''m1''),
                                   mem_entry ''T0'' ''assistant'' ''A1'' (Some ''m2'')])]))],
            w_svc = \<lparr>sv_threads = [(''t1'', [\<lparr>rm_id = ''m1'', rm_role = ''user'', rm_texts = [''Q1'']\<rparr>,
                                           \<lparr>rm_id = ''m2'', rm_role = ''assistant'', rm_texts = [''A1'']\<rparr>])],
                     sv_agents = [], sv_steps = [], sv_next = 0\<rparr>,
            w_sess = session_init\<lparr>ss_thread := Some (JStr ''t1''),
                       ss_messages := [(JStr ''user'', JStr ''Q1''), (JStr ''assistant'', JStr ''A1'')]\<rparr>\<rparr>)) ''t1'' = Some [\<lparr>rm_id = ''m1'', rm_role = ''user'', rm_texts = [''Q1'']\<rparr>, \<lparr>rm_id = ''m2'', rm_role = ''assistant'', rm_texts = [''A1'']\<rparr>] \<and>
   reply_text (rev [\<lparr>rm_id = ''m1'', rm_role = ''user'', rm_texts = [''Q1'']\<rparr>, \<lparr>rm_id = ''m2'', rm_role = ''assistant'', rm_texts = [''A1'']\<rparr>]) = ''A1'' \<and> last_assistant_id (rev [\<lparr>rm_id = ''m1'', rm_role = ''user'', rm_texts = [''Q1'']\<rparr>, \<lparr>rm_id = ''m2'', rm_role = ''assistant'', rm_texts = [''A1'']\<rparr>]) = Some ''m2'' \<and>
   (\<exists>j mid w'. app_chat_turn [] \<lparr>ro_status = ''completed'', ro_error = JNull, ro_replies = [], ro_steps = []\<rparr>
        ''T1'' ''T2'' ''Q2'' \<lparr>w_dir = [(memory_path_for_thread ''t1'', FJson (JDict [(''thread_id'', JNull),
              (''messages'', JList [mem_entry ''T0'' ''user'' ''Q1'' (Some ''m1''),
                                   mem_entry ''T0'' ''assistant'' ''A1'' (Some ''m2'')])]))],
            w_svc = \<lparr>sv_threads = [(''t1'', [\<lparr>rm_id = ''m1'', rm_role = ''user'', rm_texts = [''Q1'']\<rparr>,
                                           \<lparr>rm_id = ''m2'', rm_role = ''assistant'', rm_texts = [''A1'']\<rparr>])],
                     sv_agents = [], sv_steps = [], sv_next = 0\<rparr>,
            w_sess = session_init\<lparr>ss_thread := Some (JStr ''t1''),
                       ss_messages := [(JStr ''user'', JStr ''Q1''), (JStr ''assistant'', JStr ''A1'')]\<rparr>\<rparr> = (Inr (), w') \<and>
      journal_of_json (load_memory (w_dir w') (memory_path_for_thread ''t1'')) =
        Some (j_append (Some 20)
               (j_append (Some 20) j \<lparr>e_ts = ''T1'', e_role = ''user'', e_text = ''Q2'', e_mid = Some mid\<rparr>)
               \<lparr>e_ts = ''T2'', e_role = ''assistant'', e_text = ''A1'', e_mid = Some ''m2''\<rparr>) \<and>
      ss_messages (w_sess w') = [(JStr ''user'', JStr ''Q1''), (JStr ''assistant'', JStr ''A1''),
                                 (JStr ''user'', JStr ''Q2''), (JStr ''assistant'', JStr ''A1'')])"
proof -
  have h1: "wf_memdir (w_dir \<lparr>w_dir = [(memory_path_for_thread ''t1'', FJson (JDict [(''thread_id'', JNull),
              (''messages'', JList [mem_entry ''T0'' ''user'' ''Q1'' (Some ''m1''),
                                   mem_entry ''T0'' ''assistant'' ''A1'' (Some ''m2'')])]))],
            w_svc = \<lparr>sv_threads = [(''t1'', [\<lparr>rm_id = ''m1'', rm_role = ''user'', rm_texts = [''Q1'']\<rparr>,
                                           \<lparr>rm_id = ''m2'', rm_role = ''assistant'', rm_texts = [''A1'']\<rparr>])],
                     sv_agents = [], sv_steps = [], sv_next = 0\<rparr>,
            w_sess = session_init\<lparr>ss_thread := Some (JStr ''t1''),
                       ss_messages := [(JStr ''user'', JStr ''Q1''), (JStr ''assistant'', JStr ''A1'')]\<rparr>\<rparr>)"
    by (simp add: wf_memdir_def mem_entry_def journal_of_json_def thread_of_json_def entry_of_json_def)
  have h2: "svc_wf (w_svc \<lparr>w_dir = [(memory_path_for_thread ''t1'', FJson (JDict [(''thread_id'', JNull),
              (''messages'', JList [mem_entry ''T0'' ''user'' ''Q1'' (Some ''m1''),
                                   mem_entry ''T0'' ''assistant'' ''A1'' (Some ''m2'')])]))],
            w_svc = \<lparr>sv_threads = [(''t1'', [\<lparr>rm_id = ''m1'', rm_role = ''user'', rm_texts = [''Q1'']\<rparr>,
                                           \<lparr>rm_id = ''m2'', rm_role = ''assistant'', rm_texts = [''A1'']\<rparr>])],
                     sv_agents = [], sv_steps = [], sv_next = 0\<rparr>,
            w_sess = session_init\<lparr>ss_thread := Some (JStr ''t1''),
                       ss_messages := [(JStr ''user'', JStr ''Q1''), (JStr ''assistant'', JStr ''A1'')]\<rparr>\<rparr>)" by (simp add: svc_wf_def svc_ids_def id_prefixes_def)
  have h3: "thread_ok \<lparr>w_dir = [(memory_path_for_thread ''t1'', FJson (JDict [(''thread_id'', JNull),
              (''messages'', JList [mem_entry ''T0'' ''user'' ''Q1'' (Some ''m1''),
                                   mem_entry ''T0'' ''assistant'' ''A1'' (Some ''m2'')])]))],
            w_svc = \<lparr>sv_threads = [(''t1'', [\<lparr>rm_id = ''m1'', rm_role = ''user'', rm_texts = [''Q1'']\<rparr>,
                                           \<lparr>rm_id = ''m2'', rm_role = ''assistant'', rm_texts = [''A1'']\<rparr>])],
                     sv_agents = [], sv_steps = [], sv_next = 0\<rparr>,
            w_sess = session_init\<lparr>ss_thread := Some (JStr ''t1''),
                       ss_messages := [(JStr ''user'', JStr ''Q1''), (JStr ''assistant'', JStr ''A1'')]\<rparr>\<rparr>" by (simp add: thread_ok_def)
  have h4: "ro_status \<lparr>ro_status = ''completed'', ro_error = JNull, ro_replies = [], ro_steps = []\<rparr> \<noteq> ''failed''" by simp
  have h5: "case py_map step_details (ro_steps \<lparr>ro_status = ''completed'', ro_error = JNull, ro_replies = [], ro_steps = []\<rparr>) of
      Inl _ \<Rightarrow> False | Inr _ \<Rightarrow> True" by simp
  have h6: "ss_thread (w_sess \<lparr>w_dir = [(memory_path_for_thread ''t1'', FJson (JDict [(''thread_id'', JNull),
              (''messages'', JList [mem_entry ''T0'' ''user'' ''Q1'' (Some ''m1''),
                                   mem_entry ''T0'' ''assistant'' ''A1'' (Some ''m2'')])]))],
            w_svc = \<lparr>sv_threads = [(''t1'', [\<lparr>rm_id = ''m1'', rm_role = ''user'', rm_texts = [''Q1'']\<rparr>,
                                           \<lparr>rm_id = ''m2'', rm_role = ''assistant'', rm_texts = [''A1'']\<rparr>])],
                     sv_agents = [], sv_steps = [], sv_next = 0\<rparr>,
            w_sess = session_init\<lparr>ss_thread := Some (JStr ''t1''),
                       ss_messages := [(JStr ''user'', JStr ''Q1''), (JStr ''assistant'', JStr ''A1'')]\<rparr>\<rparr>) = Some (JStr ''t1'')" by simp
  have h7: "map_of (sv_threads (w_svc \<lparr>w_dir = [(memory_path_for_thread ''t1'', FJson (JDict [(''thread_id'', JNull),
              (''messages'', JList [mem_entry ''T0'' ''user'' ''Q1'' (Some ''m1''),
                                   mem_entry ''T0'' ''assistant'' ''A1'' (Some ''m2'')])]))],
            w_svc = \<lparr>sv_threads = [(''t1'', [\<lparr>rm_id = ''m1'', rm_role = ''user'', rm_texts = [''Q1'']\<rparr>,
                                           \<lparr>rm_id = ''m2'', rm_role = ''assistant'', rm_texts = [''A1'']\<rparr>])],
                     sv_agents = [], sv_steps = [], sv_next = 0\<rparr>,
            w_sess = session_init\<lparr>ss_thread := Some (JStr ''t1''),
                       ss_messages := [(JStr ''user'', JStr ''Q1''), (JStr ''assistant'', JStr ''A1'')]\<rparr>\<rparr>)) ''t1'' = Some [\<lparr>rm_id = ''m1'', rm_role = ''user'', rm_texts = [''Q1'']\<rparr>, \<lparr>rm_id = ''m2'', rm_role = ''assistant'', rm_texts = [''A1'']\<rparr>]" by simp
  have h8: "\<forall>r\<in>set (ro_replies \<lparr>ro_status = ''completed'', ro_error = JNull, ro_replies = [], ro_steps = []\<rparr>).
      rm_role r \<noteq> ''assistant''" by simp
  have rt: "reply_text (rev [\<lparr>rm_id = ''m1'', rm_role = ''user'', rm_texts = [''Q1'']\<rparr>, \<lparr>rm_id = ''m2'', rm_role = ''assistant'', rm_texts = [''A1'']\<rparr>]) = ''A1''" and li: "last_assistant_id (rev [\<lparr>rm_id = ''m1'', rm_role = ''user'', rm_texts = [''Q1'']\<rparr>, \<lparr>rm_id = ''m2'', rm_role = ''assistant'', rm_texts = [''A1'']\<rparr>]) = Some ''m2''"
    by (simp_all add: reply_text_def latest_assistant_def last_assistant_id_def)
  from app_turn_stale_reply [OF h1 h2 h3 h4 h5 h6 h7 h8, of "''T1''" "''T2''" "''Q2''"]
  show ?thesis using h1 h2 h3 h6 h7 rt li by (simp add: session_init_def) blast
qed

text \<open>
  C27. The journalled reply text and its message id can come from different messages:
  when the newest message the run posts is an assistant message without text, the
  journal and the chat pane get the text of the newest assistant message with text among
  the thread's earlier messages and the run's other messages, while the journalled id is
  that of the newest, textless message.
\<close>

theorem app_turn_reply_id_mismatch:
  assumes d: "wf_memdir (w_dir w)" and sv: "svc_wf (w_svc w)" and th: "thread_ok w"
    and st: "ro_status out \<noteq> ''failed''"
    and steps: "case py_map step_details (ro_steps out) of Inl _ \<Rightarrow> False | Inr _ \<Rightarrow> True"
    and t: "ss_thread (w_sess w) = Some (JStr t)" and m: "map_of (sv_threads (w_svc w)) t = Some ms"
    and rs: "ro_replies out = rs @ [a]" and a: "rm_role a = ''assistant''" "rm_texts a = []"
  shows "\<exists>j mid w'. app_chat_turn [] out ts1 ts2 prompt w = (Inr (), w') \<and>
    journal_of_json (load_memory (w_dir w) (memory_path_for_thread t)) = Some j \<and>
    journal_of_json (load_memory (w_dir w') (memory_path_for_thread t)) =
      Some (j_append (Some 20)
             (j_append (Some 20) j \<lparr>e_ts = ts1, e_role = ''user'', e_text = prompt, e_mid = Some mid\<rparr>)
             \<lparr>e_ts = ts2, e_role = ''assistant'', e_text = reply_text (rev (ms @ rs)), e_mid = Some (rm_id a)\<rparr>) \<and>
    ss_messages (w_sess w') = ss_messages (w_sess w) @
      [(JStr ''user'', JStr prompt), (JStr ''assistant'', JStr (reply_text (rev (ms @ rs))))]"
proof -
  from app_turn_completed_result [OF d sv th st steps, of ts1 ts2 prompt] obtain t' j ms' mid w' where
    r: "app_chat_turn [] out ts1 ts2 prompt w = (Inr (), w')"
    and j: "journal_of_json (load_memory (w_dir w) (memory_path_for_thread t')) = Some j"
    and j': "journal_of_json (load_memory (w_dir w') (memory_path_for_thread t')) =
      Some (j_append (Some 20)
             (j_append (Some 20) j \<lparr>e_ts = ts1, e_role = ''user'', e_text = prompt, e_mid = Some mid\<rparr>)
             \<lparr>e_ts = ts2, e_role = ''assistant'',
              e_text = reply_text (rev (ms' @ \<lparr>rm_id = mid, rm_role = ''user'', rm_texts = [prompt]\<rparr> # ro_replies out)),
              e_mid = last_assistant_id (rev (ms' @ \<lparr>rm_id = mid, rm_role = ''user'', rm_texts = [prompt]\<rparr> # ro_replies out))\<rparr>)"
    and msg: "ss_messages (w_sess w') = ss_messages (w_sess w) @
      [(JStr ''user'', JStr prompt),
       (JStr ''assistant'', JStr (reply_text (rev (ms' @ \<lparr>rm_id = mid, rm_role = ''user'', rm_texts = [prompt]\<rparr> # ro_replies out))))]"
    and ex: "\<forall>tid. ss_thread (w_sess w) = Some tid \<longrightarrow> tid = JStr t' \<and> map_of (sv_threads (w_svc w)) t' = Some ms'"
    by blast
  from ex t m have tt: "t' = t" "ms' = ms" by auto
  have "reply_text (rev (ms @ \<lparr>rm_id = mid, rm_role = ''user'', rm_texts = [prompt]\<rparr> # ro_replies out)) =
      reply_text (rev (ms @ rs)) \<and>
    last_assistant_id (rev (ms @ \<lparr>rm_id = mid, rm_role = ''user'', rm_texts = [prompt]\<rparr> # ro_replies out)) =
      Some (rm_id a)"
    using rs a by (simp add: reply_text_def latest_assistant_def last_assistant_id_def find_skip_mid)
  then show ?thesis using r j j' msg tt by auto
qed

theorem app_turn_reply_id_mismatch_witness:
  "wf_memdir (w_dir \<lparr>w_dir = [], w_svc = \<lparr>sv_threads = [(''t1'', [])], sv_agents = [], sv_steps = [], sv_next = 0\<rparr>,
            w_sess = session_init\<lparr>ss_thread := Some (JStr ''t1'')\<rparr>\<rparr>) \<and> svc_wf (w_svc \<lparr>w_dir = [], w_svc = \<lparr>sv_threads = [(''t1'', [])], sv_agents = [], sv_steps = [], sv_next = 0\<rparr>,
            w_sess = session_init\<lparr>ss_thread := Some (JStr ''t1'')\<rparr>\<rparr>) \<and> thread_ok \<lparr>w_dir = [], w_svc = \<lparr>sv_threads = [(''t1'', [])], sv_agents = [], sv_steps = [], sv_next = 0\<rparr>,
            w_sess = session_init\<lparr>ss_thread := Some (JStr ''t1'')\<rparr>\<rparr> \<and>
   (\<exists>j mid w'. app_chat_turn [] \<lparr>ro_status = ''completed'', ro_error = JNull,
              ro_replies = [\<lparr>rm_id = ''r1'', rm_role = ''assistant'', rm_texts = [''Hi'']\<rparr>,
                            \<lparr>rm_id = ''r2'', rm_role = ''assistant'', rm_texts = []\<rparr>], ro_steps = []\<rparr> ''T1'' ''T2'' ''Hello'' \<lparr>w_dir = [], w_svc = \<lparr>sv_threads = [(''t1'', [])], sv_agents = [], sv_steps = [], sv_next = 0\<rparr>,
            w_sess = session_init\<lparr>ss_thread := Some (JStr ''t1'')\<rparr>\<rparr> = (Inr (), w') \<and>
      journal_of_json (load_memory (w_dir w') (memory_path_for_thread ''t1'')) =
        Some (j_append (Some 20)
               (j_append (Some 20) j \<lparr>e_ts = ''T1'', e_role = ''user'', e_text = ''Hello'', e_mid = Some mid\<rparr>)
               \<lparr>e_ts = ''T2'', e_role = ''assistant'', e_text = ''Hi'', e_mid = Some ''r2''\<rparr>))"
proof -
  have h1: "wf_memdir (w_dir \<lparr>w_dir = [], w_svc = \<lparr>sv_threads = [(''t1'', [])], sv_agents = [], sv_steps = [], sv_next = 0\<rparr>,
            w_sess = session_init\<lparr>ss_thread := Some (JStr ''t1'')\<rparr>\<rparr>)" by (simp add: wf_memdir_def)
  have h2: "svc_wf (w_svc \<lparr>w_dir = [], w_svc = \<lparr>sv_threads = [(''t1'', [])], sv_agents = [], sv_steps = [], sv_next = 0\<rparr>,
            w_sess = session_init\<lparr>ss_thread := Some (JStr ''t1'')\<rparr>\<rparr>)" by (simp add: svc_wf_def svc_ids_def id_prefixes_def)
  have h3: "thread_ok \<lparr>w_dir = [], w_svc = \<lparr>sv_threads = [(''t1'', [])], sv_agents = [], sv_steps = [], sv_next = 0\<rparr>,
            w_sess = session_init\<lparr>ss_thread := Some (JStr ''t1'')\<rparr>\<rparr>" by (simp add: thread_ok_def)
  have h4: "ro_status \<lparr>ro_status = ''completed'', ro_error = JNull,
              ro_replies = [\<lparr>rm_id = ''r1'', rm_role = ''assistant'', rm_texts = [''Hi'']\<rparr>,
                            \<lparr>rm_id = ''r2'', rm_role = ''assistant'', rm_texts = []\<rparr>], ro_steps = []\<rparr> \<noteq> ''failed''" by simp
  have h5: "case py_map step_details (ro_steps \<lparr>ro_status = ''completed'', ro_error = JNull,
              ro_replies = [\<lparr>rm_id = ''r1'', rm_role = ''assistant'', rm_texts = [''Hi'']\<rparr>,
                            \<lparr>rm_id = ''r2'', rm_role = ''assistant'', rm_texts = []\<rparr>], ro_steps = []\<rparr>) of Inl _ \<Rightarrow> False | Inr _ \<Rightarrow> True" by simp
  have h6: "ss_thread (w_sess \<lparr>w_dir = [], w_svc = \<lparr>sv_threads = [(''t1'', [])], sv_agents = [], sv_steps = [], sv_next = 0\<rparr>,
            w_sess = session_init\<lparr>ss_thread := Some (JStr ''t1'')\<rparr>\<rparr>) = Some (JStr ''t1'')" by simp
  have h7: "map_of (sv_threads (w_svc \<lparr>w_dir = [], w_svc = \<lparr>sv_threads = [(''t1'', [])], sv_agents = [], sv_steps = [], sv_next = 0\<rparr>,
            w_sess = session_init\<lparr>ss_thread := Some (JStr ''t1'')\<rparr>\<rparr>)) ''t1'' = Some []" by simp
  have h8: "ro_replies \<lparr>ro_status = ''completed'', ro_error = JNull,
              ro_replies = [\<lparr>rm_id = ''r1'', rm_role = ''assistant'', rm_texts = [''Hi'']\<rparr>,
                            \<lparr>rm_id = ''r2'', rm_role = ''assistant'', rm_texts = []\<rparr>], ro_steps = []\<rparr> = [\<lparr>rm_id = ''r1'', rm_role = ''assistant'', rm_texts = [''Hi'']\<rparr>] @
      [\<lparr>rm_id = ''r2'', rm_role = ''assistant'', rm_texts = []\<rparr>]" by simp
  have h9: "rm_role \<lparr>rm_id = ''r2'', rm_role = ''assistant'', rm_texts = []\<rparr> = ''assistant''"
    "rm_texts \<lparr>rm_id = ''r2'', rm_role = ''assistant'', rm_texts = []\<rparr> = []" by simp_all
  from app_turn_reply_id_mismatch [OF h1 h2 h3 h4 h5 h6 h7 h8 h9, of "''T1''" "''T2''" "''Hello''"]
  show ?thesis using h1 h2 h3 by (simp add: reply_text_def latest_assistant_def) blast
qed

text \<open>
  C35. A journal write failure is not contained: when the thread's journal file holds
  JSON of the wrong shape, the first \<open>_append_memory\<close> of the turn raises
  \<open>AttributeError\<close> after the prompt was posted to the service; the exception ends the
  turn, no file changes, and the agent created by the turn is never deleted.
\<close>

theorem app_turn_journal_error:
  assumes sv: "svc_wf (w_svc w)" and th: "thread_ok w"
    and t: "ss_thread (w_sess w) = Some (JStr t)"
    and bad: "map_of (w_dir w) (memory_path_for_thread t) = Some (FJson (JList xs))"
  shows "\<exists>a w'. app_chat_turn [] out ts1 ts2 prompt w = (Inl AttributeError, w') \<and> w_dir w' = w_dir w \<and>
    a \<notin> set (sv_agents (w_svc w)) \<and> sv_agents (w_svc w') = sv_agents (w_svc w) @ [a] \<and>
    ss_messages (w_sess w') = ss_messages (w_sess w) @ [(JStr ''user'', JStr prompt)]"
proof -
  from app_chat_turn_opened [OF sv th, of "[]" out ts1 ts2 prompt] obtain t1 ms w1 where
    turn: "app_chat_turn [] out ts1 ts2 prompt w = app_run_turn [] out ts1 ts2 prompt (JStr t1) w1"
    and m1: "map_of (sv_threads (w_svc w1)) t1 = Some ms" and sv1: "svc_wf (w_svc w1)"
    and d1: "w_dir w1 = w_dir w" and msg1: "ss_messages (w_sess w1) = ss_messages (w_sess w) @ [(JStr ''user'', JStr prompt)]"
    and ag1: "sv_agents (w_svc w1) = sv_agents (w_svc w)" and same: "\<forall>tid. ss_thread (w_sess w) = Some tid \<longrightarrow> tid = JStr t1"
    by auto
  from same t have tt: "t1 = t" by simp
  have a: "fresh_id ''asst_'' (w_svc w1) \<notin> set (sv_agents (w_svc w1))"
    using fresh_not_in [OF sv1, of "''asst_''"] by (simp add: svc_ids_def id_prefixes_def)
  have l: "load_memory (w_dir w1) (memory_path_for_thread t1) = JList xs"
    using bad d1 tt by (simp add: load_memory_def)
  show ?thesis
    apply (rule exI [of _ "fresh_id ''asst_'' (w_svc w1)"])
    using a m1 d1 ag1 msg1 l
    by (simp add: turn app_run_turn_def act_simps svc_create_agent_def svc_create_message_def append_memory_def Let_def)
qed


theorem app_turn_journal_error_witness:
  "let w = \<lparr>w_dir = [(memory_path_for_thread ''t1'', FJson (JList []))],
      w_svc = \<lparr>sv_threads = [(''t1'', [])], sv_agents = [], sv_steps = [], sv_next = 0\<rparr>,
      w_sess = session_init\<lparr>ss_thread := Some (JStr ''t1'')\<rparr>\<rparr>
   in svc_wf (w_svc w) \<and> thread_ok w \<and> ss_thread (w_sess w) = Some (JStr ''t1'') \<and>
      map_of (w_dir w) (memory_path_for_thread ''t1'') = Some (FJson (JList [])) \<and>
      (\<exists>a w'. app_chat_turn [] \<lparr>ro_status = ''completed'', ro_error = JNull, ro_replies = [], ro_steps = []\<rparr>
                 ''T1'' ''T2'' ''Hello'' w = (Inl AttributeError, w') \<and> w_dir w' = w_dir w \<and>
        a \<notin> set (sv_agents (w_svc w)) \<and> sv_agents (w_svc w') = sv_agents (w_svc w) @ [a] \<and>
        ss_messages (w_sess w') = ss_messages (w_sess w) @ [(JStr ''user'', JStr ''Hello'')])"
proof -
  let ?w = "\<lparr>w_dir = [(memory_path_for_thread ''t1'', FJson (JList []))],
      w_svc = \<lparr>sv_threads = [(''t1'', [])], sv_agents = [], sv_steps = [], sv_next = 0\<rparr>,
      w_sess = session_init\<lparr>ss_thread := Some (JStr ''t1'')\<rparr>\<rparr>"
  have h1: "svc_wf (w_svc ?w)" by (simp add: svc_wf_def svc_ids_def id_prefixes_def)
  have h2: "thread_ok ?w" by (simp add: thread_ok_def)
  have h3: "ss_thread (w_sess ?w) = Some (JStr ''t1'')" by simp
  have h4: "map_of (w_dir ?w) (memory_path_for_thread ''t1'') = Some (FJson (JList []))" by simp
  show ?thesis
    unfolding Let_def using h1 h2 h3 h4
      app_turn_journal_error [OF h1 h2 h3 h4, of "\<lparr>ro_status = ''completed'', ro_error = JNull, ro_replies = [], ro_steps = []\<rparr>"
        "''T1''" "''T2''" "''Hello''"]
    by blast
qed

end
