(* ===== verification/Cli.thy ===== *)
theory Cli
  imports Turn
begin

text \<open>
  The command-line clients: \<open>main\<close> of \<open>client_python.py\<close> (choose a saved thread or
  start a new one, then a read-eval loop) and \<open>main\<close> of \<open>client_v2.py\<close> (always a new
  thread), with their versions of \<open>_log_run_steps\<close> and \<open>_print_latest_assistant\<close>.
  They run against the same service model and world as the Streamlit app; the session
  part of the world is not used. Console output is not modelled, except for the
  exceptions the printing expressions can raise. The lines typed at the prompt are an
  input list (\<open>None\<close> is end of input or Ctrl-C); each line carries what the service
  does for the turn it starts (the run's outcome) and the clock readings of its two
  journal entries. The journal keeps every entry (\<open>keep = None\<close>).
\<close>

section \<open>Configuration\<close>

text \<open>\<open>if not project_endpoint or not model_deployment: raise ValueError(...)\<close>.\<close>

definition cli_config :: "string option \<Rightarrow> string option \<Rightarrow> (string \<times> string) py" where
  "cli_config ep md =
     (case (ep, md) of
        (Some e, Some m) \<Rightarrow> if e = [] \<or> m = [] then Inl ValueError else Inr (e, m)
      | _ \<Rightarrow> Inl ValueError)"

section \<open>\<open>_print_latest_assistant\<close> and \<open>_log_run_steps\<close>\<close>

definition cli_print_latest_assistant :: "rcall list \<Rightarrow> string \<Rightarrow> string act" where
  "cli_print_latest_assistant fl tid =
     act_bind (act_query (\<lambda>sv. svc_list_messages fl sv tid)) (\<lambda>msgs. act_return (reply_text msgs))"

text \<open>\<open>call.get('id')\<close>, \<open>call.get('type')\<close>, \<open>call.get('name')\<close> in the prints.\<close>

definition cli_call :: "json \<Rightarrow> unit py" where
  "cli_call call =
     py_bind (py_get call ''id'' JNull) (\<lambda>_.
     py_bind (py_get call ''type'' JNull) (\<lambda>_.
     py_bind (py_get call ''name'' JNull) (\<lambda>_. Inr ())))"

text \<open>The loop body: \<open>step['status']\<close> is read for the print, then the tool calls.\<close>

definition cli_step :: "rstep \<Rightarrow> unit py" where
  "cli_step step =
     py_bind (py_getitem (rs_body step) ''status'') (\<lambda>_.
     py_bind (py_get (rs_body step) ''step_details'' (JDict [])) (\<lambda>det.
     py_bind (py_get det ''tool_calls'' (JList [])) (\<lambda>tc.
     if py_truthy tc then py_bind (py_iter tc) (\<lambda>calls. py_bind (py_map cli_call calls) (\<lambda>_. Inr ()))
     else Inr ())))"

definition cli_log_run_steps :: "rcall list \<Rightarrow> string \<Rightarrow> string \<Rightarrow> unit act" where
  "cli_log_run_steps fl tid rid =
     act_bind (act_query (\<lambda>sv. svc_list_steps fl sv rid)) (\<lambda>steps.
     act_bind (act_lift (py_map cli_step steps)) (\<lambda>_. act_return ()))"

section \<open>One turn of the loop\<close>

text \<open>
  Lines 207--235 of \<open>client_python.py\<close>: post the input, journal it, run, log the steps,
  show the reply and journal it when it is not empty. A failed run is only reported.
\<close>

definition cli_turn ::
  "rcall list \<Rightarrow> run_outcome \<Rightarrow> string \<Rightarrow> string \<Rightarrow> string \<Rightarrow> string \<Rightarrow> string \<Rightarrow> string \<Rightarrow> unit act" where
  "cli_turn fl out ts1 ts2 tid mem_path aid user_input =
     act_bind (act_remote (\<lambda>sv. svc_create_message fl sv tid ''user'' user_input)) (\<lambda>mid.
     act_seq (act_mem (\<lambda>d. append_memory None d mem_path ts1 ''user'' user_input (Some mid))) (
     act_bind (act_remote (\<lambda>sv. svc_run fl sv tid aid out)) (\<lambda>run.
     act_seq (cli_log_run_steps fl tid (rr_id run)) (
     act_bind (cli_print_latest_assistant fl tid) (\<lambda>assistant_text.
     if assistant_text \<noteq> [] then
       act_bind (act_query (\<lambda>sv. svc_list_messages fl sv tid)) (\<lambda>msgs.
       act_mem (\<lambda>d. append_memory None d mem_path ts2 ''assistant'' assistant_text (last_assistant_id msgs)))
     else act_return ())))))"

section \<open>The read-eval loop\<close>

datatype cli_cmd = CliQuit | CliSkip | CliAsk string

text \<open>\<open>user_input = input(...).strip()\<close>, then the exit words and the empty line.\<close>

definition cli_read :: "string \<Rightarrow> cli_cmd" where
  "cli_read raw =
     (let u = py_strip raw in
      if py_lower u \<in> set [''exit'', ''quit'', ''q''] then CliQuit
      else if u = [] then CliSkip
      else CliAsk u)"

record cli_line =
  cl_input :: "string option"
  cl_outcome :: run_outcome
  cl_ts1 :: string
  cl_ts2 :: string

text \<open>
  \<open>while True:\<close> one iteration per typed line; the loop ends at an exit word or at the
  end of input (\<open>EOFError\<close>, \<open>KeyboardInterrupt\<close>), and an exception of a turn ends it
  too.
\<close>

fun cli_loop :: "rcall list \<Rightarrow> string \<Rightarrow> string \<Rightarrow> string \<Rightarrow> cli_line list \<Rightarrow> unit act" where
  "cli_loop fl tid mem_path aid [] = act_return ()"
| "cli_loop fl tid mem_path aid (l # ls) =
     (case cl_input l of
        None \<Rightarrow> act_return ()
      | Some raw \<Rightarrow>
          (case cli_read raw of
             CliQuit \<Rightarrow> act_return ()
           | CliSkip \<Rightarrow> cli_loop fl tid mem_path aid ls
           | CliAsk u \<Rightarrow>
               act_seq (cli_turn fl (cl_outcome l) (cl_ts1 l) (cl_ts2 l) tid mem_path aid u)
                 (cli_loop fl tid mem_path aid ls)))"

section \<open>The session\<close>

text \<open>\<open>try: ... finally: ...\<close>: the cleanup runs after the body, whatever its result.\<close>

definition act_finally :: "'a act \<Rightarrow> unit act \<Rightarrow> 'a act" where
  "act_finally m f w =
     (case m w of (r, w') \<Rightarrow> (case f w' of (Inl e, w'') \<Rightarrow> (Inl e, w'') | (Inr _, w'') \<Rightarrow> (r, w'')))"

text \<open>\<open>act_dir f\<close> reads the journal directory.\<close>

definition act_dir :: "(memdir \<Rightarrow> 'a py) \<Rightarrow> 'a act" where
  "act_dir f w = (f (w_dir w), w)"

text \<open>Lines 239--244: delete the agent, reporting a failure.\<close>

definition cli_delete_agent :: "rcall list \<Rightarrow> string \<Rightarrow> unit act" where
  "cli_delete_agent fl aid =
     act_try (act_remote (\<lambda>sv. py_bind (svc_delete_agent fl sv aid) (\<lambda>sv'. Inr ((), sv'))))
             (\<lambda>e. act_return ())"

text \<open>Lines 176--182: reuse the chosen thread when its id is truthy, else create one.\<close>

definition cli_open_thread :: "rcall list \<Rightarrow> json option \<Rightarrow> json act" where
  "cli_open_thread fl existing =
     (case existing of
        Some t \<Rightarrow> if py_truthy t then act_return t
                  else act_bind (act_remote (svc_create_thread fl)) (\<lambda>t. act_return (JStr t))
      | None \<Rightarrow> act_bind (act_remote (svc_create_thread fl)) (\<lambda>t. act_return (JStr t)))"

text \<open>
  Lines 154--244: create the agent, open the thread, stamp its journal
  (\<open>prepare_memory\<close>), run the loop, and delete the agent in the \<open>finally\<close> block,
  which runs only when the agent was created.
\<close>

definition cli_chat :: "rcall list \<Rightarrow> json option \<Rightarrow> cli_line list \<Rightarrow> unit act" where
  "cli_chat fl existing lines =
     act_bind (act_remote (svc_create_agent fl)) (\<lambda>aid.
     act_finally
       (act_bind (cli_open_thread fl existing) (\<lambda>thread_id.
        act_seq (act_mem (\<lambda>d. prepare_memory d thread_id)) (
        cli_loop fl (py_str thread_id) (memory_path_for_thread (py_str thread_id)) aid lines)))
       (cli_delete_agent fl aid))"

text \<open>
  \<open>main\<close> of \<open>client_python.py\<close>: the configuration check, the menu of saved threads
  (the typed answer is an input), then the session.
\<close>

definition cli_main ::
  "string option \<Rightarrow> string option \<Rightarrow> string option \<Rightarrow> rcall list \<Rightarrow> cli_line list \<Rightarrow> unit act" where
  "cli_main ep md answer fl lines =
     act_bind (act_lift (cli_config ep md)) (\<lambda>_.
     act_bind (act_dir (\<lambda>d. choose_thread_interactive d answer)) (\<lambda>existing.
     cli_chat fl existing lines))"

text \<open>\<open>main\<close> of \<open>client_v2.py\<close>: no menu, always a new thread.\<close>

definition v2_main :: "string option \<Rightarrow> string option \<Rightarrow> rcall list \<Rightarrow> cli_line list \<Rightarrow> unit act" where
  "v2_main ep md fl lines =
     act_bind (act_lift (cli_config ep md)) (\<lambda>_. cli_chat fl None lines)"

section \<open>Invariants and proof notions\<close>

text \<open>
  \<open>agents_kept m\<close>: the action leaves the service's agents as they were;
  \<open>act_returns Q m\<close>: every value the action returns satisfies \<open>Q\<close>.
\<close>

definition agents_kept :: "'a act \<Rightarrow> bool" where
  "agents_kept m \<longleftrightarrow> (\<forall>w. sv_agents (w_svc (snd (m w))) = sv_agents (w_svc w))"

definition act_returns :: "('a \<Rightarrow> bool) \<Rightarrow> 'a act \<Rightarrow> bool" where
  "act_returns Q m \<longleftrightarrow> (\<forall>w. case fst (m w) of Inr x \<Rightarrow> Q x | Inl _ \<Rightarrow> True)"

definition is_str_json :: "json \<Rightarrow> bool" where
  "is_str_json v \<longleftrightarrow> (case v of JStr _ \<Rightarrow> True | _ \<Rightarrow> False)"

section \<open>Lemmas: agents\<close>

lemma agents_return [agents_intros]: "agents_kept (act_return x)"
  and agents_sess [agents_intros]: "agents_kept (act_sess f)"
  and agents_log [agents_intros]: "agents_kept (act_log l)"
  and agents_query [agents_intros]: "agents_kept (act_query q)"
  and agents_lift [agents_intros]: "agents_kept (act_lift r)"
  and agents_dir [agents_intros]: "agents_kept (act_dir g)"
  by (simp_all add: agents_kept_def act_simps act_dir_def)

lemma agents_mem [agents_intros]: "agents_kept (act_mem f)"
  by (simp add: agents_kept_def act_mem_def split: sum.splits)

lemma agents_remote [agents_intros]:
  "(\<And>sv x sv'. f sv = Inr (x, sv') \<Longrightarrow> sv_agents sv' = sv_agents sv) \<Longrightarrow> agents_kept (act_remote f)"
  by (auto simp: agents_kept_def act_remote_def split: sum.splits)

lemma agents_bind [agents_intros]:
  assumes m: "agents_kept m" and f: "\<And>x. agents_kept (f x)"
  shows "agents_kept (act_bind m f)"
  unfolding agents_kept_def
proof
  fix w
  obtain r w' where mw: "m w = (r, w')" by fastforce
  from m mw have a: "sv_agents (w_svc w') = sv_agents (w_svc w)" unfolding agents_kept_def by (metis snd_conv)
  show "sv_agents (w_svc (snd (act_bind m f w))) = sv_agents (w_svc w)"
  proof (cases r)
    case (Inr x)
    from f [of x] have "sv_agents (w_svc (snd (f x w'))) = sv_agents (w_svc w')" by (simp add: agents_kept_def)
    with a mw Inr show ?thesis by (simp add: act_bind_def)
  qed (use a mw in \<open>simp add: act_bind_def\<close>)
qed

lemma agents_seq [agents_intros]:
  "agents_kept m \<Longrightarrow> agents_kept k \<Longrightarrow> agents_kept (act_seq m k)"
  unfolding act_seq_def by (rule agents_bind)

lemma agents_if [agents_intros]:
  "agents_kept a \<Longrightarrow> agents_kept b \<Longrightarrow> agents_kept (if c then a else b)"
  by simp

lemma svc_create_thread_agents [agents_intros]:
  "svc_create_thread fl sv = Inr (x, sv') \<Longrightarrow> sv_agents sv' = sv_agents sv"
  by (auto simp: svc_create_thread_def Let_def split: if_splits)

lemma svc_create_message_agents [agents_intros]:
  "svc_create_message fl sv tid r c = Inr (x, sv') \<Longrightarrow> sv_agents sv' = sv_agents sv"
  by (auto simp: svc_create_message_def Let_def split: if_splits option.splits)

lemma svc_run_agents [agents_intros]:
  "svc_run fl sv tid aid out = Inr (x, sv') \<Longrightarrow> sv_agents sv' = sv_agents sv"
  by (auto simp: svc_run_def Let_def split: if_splits option.splits)

lemma agents_cli_turn [agents_intros]: "agents_kept (cli_turn fl out ts1 ts2 tid p aid u)"
  unfolding cli_turn_def cli_log_run_steps_def cli_print_latest_assistant_def
  by (intro agents_intros)

lemma agents_cli_loop [agents_intros]: "agents_kept (cli_loop fl tid p aid ls)"
  by (induction ls) (simp_all add: agents_intros split: option.split cli_cmd.split)

lemma agents_open_thread [agents_intros]: "agents_kept (cli_open_thread fl existing)"
  unfolding cli_open_thread_def by (simp add: agents_intros split: option.split)

section \<open>Lemmas: the journal directory\<close>

lemma keeps_bind_returns:
  assumes m: "act_keeps P m" and q: "act_returns Q m" and f: "\<And>x. Q x \<Longrightarrow> act_keeps P (f x)"
  shows "act_keeps P (act_bind m f)"
  unfolding act_keeps_def
proof (intro allI impI)
  fix w :: world assume p: "P (w_dir w)"
  obtain r w' where mw: "m w = (r, w')" by fastforce
  from m p mw have p': "P (w_dir w')" unfolding act_keeps_def by (metis snd_conv)
  show "P (w_dir (snd (act_bind m f w)))"
  proof (cases r)
    case (Inr x)
    from q mw Inr have "Q x" unfolding act_returns_def by (metis fst_conv sum.simps(6))
    with f p' Inr mw show ?thesis by (simp add: act_bind_def act_keeps_def)
  qed (use p' mw in \<open>simp add: act_bind_def\<close>)
qed

lemma keeps_finally [keeps_intros]:
  "act_keeps P m \<Longrightarrow> act_keeps P f \<Longrightarrow> act_keeps P (act_finally m f)"
  by (auto simp: act_keeps_def act_finally_def split: prod.splits sum.splits)

lemma keeps_dir [keeps_intros]: "act_keeps P (act_dir g)"
  by (simp add: act_keeps_def act_dir_def)

lemma keeps_cli_turn [keeps_intros]: "act_keeps mem_reach (cli_turn fl out ts1 ts2 tid p aid u)"
  unfolding cli_turn_def cli_log_run_steps_def cli_print_latest_assistant_def
  by (intro keeps_intros) (auto intro: mem_reach.append)

lemma keeps_cli_loop [keeps_intros]: "act_keeps mem_reach (cli_loop fl tid p aid ls)"
  by (induction ls) (simp_all add: keeps_intros split: option.split cli_cmd.split)

lemma open_thread_returns:
  "(case existing of None \<Rightarrow> True | Some t \<Rightarrow> is_str_json t) \<Longrightarrow> act_returns is_str_json (cli_open_thread fl existing)"
  by (auto simp: act_returns_def cli_open_thread_def act_simps is_str_json_def split: option.splits sum.splits)

lemma keeps_open_thread_cli [keeps_intros]: "act_keeps P (cli_open_thread fl existing)"
  unfolding cli_open_thread_def by (simp add: keeps_intros split: option.split)

lemma keeps_cli_body:
  assumes "case existing of None \<Rightarrow> True | Some t \<Rightarrow> is_str_json t"
  shows "act_keeps mem_reach (act_bind (cli_open_thread fl existing) (\<lambda>thread_id.
           act_seq (act_mem (\<lambda>d. prepare_memory d thread_id))
             (cli_loop fl (py_str thread_id) (memory_path_for_thread (py_str thread_id)) aid lines)))"
proof (rule keeps_bind_returns [OF keeps_open_thread_cli open_thread_returns [OF assms]])
  fix thread_id assume "is_str_json thread_id"
  then obtain s where s: "thread_id = JStr s" by (auto simp: is_str_json_def split: json.splits)
  show "act_keeps mem_reach (act_seq (act_mem (\<lambda>d. prepare_memory d thread_id))
          (cli_loop fl (py_str thread_id) (memory_path_for_thread (py_str thread_id)) aid lines))"
    by (intro keeps_intros) (auto simp: s intro: mem_reach.prepare)
qed

lemma keeps_cli_chat:
  assumes "case existing of None \<Rightarrow> True | Some t \<Rightarrow> is_str_json t"
  shows "act_keeps mem_reach (cli_chat fl existing lines)"
  unfolding cli_chat_def cli_delete_agent_def
  by (intro keeps_intros keeps_cli_body [OF assms])

lemma saved_row_str:
  assumes "wf_memdir d" and "saved_row d f = Inr (Some x)"
  shows "is_str_json (si_tid x)"
proof -
  from wf_memdir_load [OF assms(1)] obtain j where j: "journal_of_json (load_memory d f) = Some j" by auto
  from journal_fields [OF j] have "py_get (load_memory d f) ''thread_id'' JNull = Inr (json_of_opt_str (j_thread j))" by blast
  with assms(2) show ?thesis
    by (cases "j_thread j") (auto simp: saved_row_def Let_def is_str_json_def py_bind_eq_Inr split: if_splits prod.splits)
qed

lemma saved_rows_str: "wf_memdir d \<Longrightarrow> saved_rows d fs = Inr xs \<Longrightarrow> \<forall>x\<in>set xs. is_str_json (si_tid x)"
proof (induction fs arbitrary: xs)
  case (Cons f fs)
  then show ?case
    using saved_row_str [OF Cons.prems(1), of f] by (auto simp: py_bind_eq_Inr split: option.splits)
qed simp

lemma set_sort_desc: "set (sort_desc f xs) = set xs"
  by (metis mset_sort_desc set_mset_mset)

lemma sort_saved_set: "sort_saved xs = Inr ys \<Longrightarrow> set ys = set xs"
  by (auto simp: sort_saved_def set_sort_desc split: if_splits)

lemma choose_from_member: "choose_from saved a = Some t \<Longrightarrow> t \<in> si_tid ` set saved"
  by (auto simp: choose_from_def Let_def split: if_splits sum.splits)

lemma choose_str:
  assumes "wf_memdir d" and "choose_thread_interactive d answer = Inr existing"
  shows "case existing of None \<Rightarrow> True | Some t \<Rightarrow> is_str_json t"
proof (cases existing)
  case (Some t)
  from assms(2) Some obtain saved a where
    l: "list_saved_threads d = Inr saved" and c: "choose_from saved a = Some t"
    by (auto simp: choose_thread_interactive_def py_bind_eq_Inr split: if_splits option.splits)
  from l obtain xs where xs: "saved_rows d (memory_files d) = Inr xs" and s: "sort_saved xs = Inr saved"
    by (auto simp: list_saved_threads_def py_bind_eq_Inr)
  from choose_from_member [OF c] sort_saved_set [OF s] saved_rows_str [OF assms(1) xs] Some show ?thesis
    by auto
qed simp

lemmas cli_eval = cli_main_def cli_config_def act_simps act_dir_def choose_thread_interactive_def
  list_saved_threads_def memory_files_def sort_saved_def sort_desc_def cli_chat_def act_finally_def
  cli_open_thread_def svc_create_agent_def svc_create_thread_def fresh_id_def prepare_memory_def
  load_memory_def write_json_def empty_memory_def cli_read_def py_strip_def py_lower_def py_lower_char_def
  py_whitespace_def cli_turn_def svc_create_message_def append_memory_def svc_run_def cli_log_run_steps_def
  svc_list_steps_def cli_print_latest_assistant_def svc_list_messages_def reply_text_def latest_assistant_def
  last_assistant_id_def cli_delete_agent_def svc_delete_agent_def Let_def nat_str.simps digit_char_def
  char_of_def bit_iff_odd

section \<open>Properties of the command-line clients\<close>

text \<open>
  C30. One turn of the command-line loop, with no failing remote call, on a thread the
  service knows and a well-formed journal: it ends without exception, the service thread
  gains the input as a user message followed by what the run posted, and the journal
  gains the user entry (with the posted message's id) and, when the extracted reply is
  not empty, the assistant entry with that reply and the id of the newest assistant
  message; nothing is trimmed. This holds whatever the run's status, failed included.
\<close>

theorem cli_turn_journal:
  assumes j: "journal_of_json (load_memory (w_dir w) p) = Some j"
    and ms: "map_of (sv_threads (w_svc w)) tid = Some ms"
    and ag: "aid \<in> set (sv_agents (w_svc w))" and sv: "svc_wf (w_svc w)"
    and steps: "case py_map cli_step (ro_steps out) of Inl _ \<Rightarrow> False | Inr _ \<Rightarrow> True"
  shows "\<exists>mid w'. cli_turn [] out ts1 ts2 tid p aid u w = (Inr (), w') \<and>
    map_of (sv_threads (w_svc w')) tid = Some (ms @ \<lparr>rm_id = mid, rm_role = ''user'', rm_texts = [u]\<rparr> # ro_replies out) \<and>
    journal_of_json (load_memory (w_dir w') p) =
      Some (let j1 = j_append None j \<lparr>e_ts = ts1, e_role = ''user'', e_text = u, e_mid = Some mid\<rparr>;
                msgs = rev (ms @ \<lparr>rm_id = mid, rm_role = ''user'', rm_texts = [u]\<rparr> # ro_replies out)
            in if reply_text msgs = [] then j1
               else j_append None j1 \<lparr>e_ts = ts2, e_role = ''assistant'', e_text = reply_text msgs,
                                      e_mid = last_assistant_id msgs\<rparr>)"
proof -
  let ?sv = "w_svc w"
  let ?mid = "fresh_id ''msg_'' ?sv"
  let ?u = "\<lparr>rm_id = ?mid, rm_role = ''user'', rm_texts = [u]\<rparr>"
  let ?sv2 = "?sv\<lparr>sv_threads := AList.update tid (ms @ [?u]) (sv_threads ?sv), sv_next := Suc (sv_next ?sv)\<rparr>"
  let ?msgs = "rev (ms @ ?u # ro_replies out)"
  have sv2: "svc_wf ?sv2"
    by (rule svc_wf_next [OF sv, of "''msg_''"]) (auto simp: svc_ids_def id_prefixes_def svc_ids_update_thread ms)
  have r: "map_of (sv_steps ?sv2 @ [(fresh_id ''run_'' ?sv2, ro_steps out)]) (fresh_id ''run_'' ?sv2) = Some (ro_steps out)"
    by (rule steps_listed [OF sv2])
  from append_memory_step [OF j, of None ts1 "''user''" u "Some ?mid"] obtain v1 where
    v1: "append_memory None (w_dir w) p ts1 ''user'' u (Some ?mid) = Inr (write_json (w_dir w) p v1)"
    and j1: "journal_of_json v1 = Some (j_append None j \<lparr>e_ts = ts1, e_role = ''user'', e_text = u, e_mid = Some ?mid\<rparr>)"
    by blast
  from j1 have j1': "journal_of_json (load_memory (write_json (w_dir w) p v1) p) =
      Some (j_append None j \<lparr>e_ts = ts1, e_role = ''user'', e_text = u, e_mid = Some ?mid\<rparr>)" by simp
  from append_memory_step [OF j1', of None ts2 "''assistant''" "reply_text ?msgs" "last_assistant_id ?msgs"]
  obtain v2 where
    v2: "append_memory None (write_json (w_dir w) p v1) p ts2 ''assistant'' (reply_text ?msgs) (last_assistant_id ?msgs) =
       Inr (write_json (write_json (w_dir w) p v1) p v2)"
    and j2: "journal_of_json v2 = Some (j_append None (j_append None j \<lparr>e_ts = ts1, e_role = ''user'', e_text = u, e_mid = Some ?mid\<rparr>)
             \<lparr>e_ts = ts2, e_role = ''assistant'', e_text = reply_text ?msgs, e_mid = last_assistant_id ?msgs\<rparr>)"
    by blast
  obtain ls where ls: "py_map cli_step (ro_steps out) = Inr ls" using steps by (auto split: sum.splits)
  show ?thesis
    apply (rule exI [of _ ?mid])
    using ms ag v1 v2 j1 j2 r ls
    by (simp add: cli_turn_def act_simps svc_create_message_def svc_run_def cli_log_run_steps_def
        svc_list_steps_def cli_print_latest_assistant_def svc_list_messages_def Let_def AList.update_conv')
qed

theorem cli_turn_journal_witness:
  "let w = \<lparr>w_dir = [], w_svc = \<lparr>sv_threads = [(''t1'', [])], sv_agents = [''a1''], sv_steps = [], sv_next = 0\<rparr>,
             w_sess = session_init\<rparr>;
       out = \<lparr>ro_status = ''completed'', ro_error = JNull, ro_replies = [\<lparr>rm_id = ''r1'', rm_role = ''assistant'', rm_texts = [''Hi'']\<rparr>], ro_steps = []\<rparr>
   in journal_of_json (load_memory (w_dir w) (memory_path_for_thread ''t1'')) = Some empty_journal \<and>
      map_of (sv_threads (w_svc w)) ''t1'' = Some [] \<and> ''a1'' \<in> set (sv_agents (w_svc w)) \<and>
      svc_wf (w_svc w) \<and> (case py_map cli_step (ro_steps out) of Inl _ \<Rightarrow> False | Inr _ \<Rightarrow> True) \<and>
      (\<exists>mid w'. cli_turn [] out ''T1'' ''T2'' ''t1'' (memory_path_for_thread ''t1'') ''a1'' ''Hello'' w = (Inr (), w') \<and>
        map_of (sv_threads (w_svc w')) ''t1'' = Some ([] @ \<lparr>rm_id = mid, rm_role = ''user'', rm_texts = [''Hello'']\<rparr> # ro_replies out) \<and>
        journal_of_json (load_memory (w_dir w') (memory_path_for_thread ''t1'')) =
          Some (let j1 = j_append None empty_journal \<lparr>e_ts = ''T1'', e_role = ''user'', e_text = ''Hello'', e_mid = Some mid\<rparr>;
                    msgs = rev ([] @ \<lparr>rm_id = mid, rm_role = ''user'', rm_texts = [''Hello'']\<rparr> # ro_replies out)
                in if reply_text msgs = [] then j1
                   else j_append None j1 \<lparr>e_ts = ''T2'', e_role = ''assistant'', e_text = reply_text msgs,
                                          e_mid = last_assistant_id msgs\<rparr>))"
proof -
  let ?w = "\<lparr>w_dir = [], w_svc = \<lparr>sv_threads = [(''t1'', [])], sv_agents = [''a1''], sv_steps = [], sv_next = 0\<rparr>,
             w_sess = session_init\<rparr>"
  let ?out = "\<lparr>ro_status = ''completed'', ro_error = JNull, ro_replies = [\<lparr>rm_id = ''r1'', rm_role = ''assistant'', rm_texts = [''Hi'']\<rparr>], ro_steps = []\<rparr>"
  have h1: "journal_of_json (load_memory (w_dir ?w) (memory_path_for_thread ''t1'')) = Some empty_journal" by simp
  have h2: "map_of (sv_threads (w_svc ?w)) ''t1'' = Some []" by simp
  have h3: "''a1'' \<in> set (sv_agents (w_svc ?w))" by simp
  have h4: "svc_wf (w_svc ?w)" by (simp add: svc_wf_def svc_ids_def id_prefixes_def)
  have h5: "case py_map cli_step (ro_steps ?out) of Inl _ \<Rightarrow> False | Inr _ \<Rightarrow> True" by simp
  show ?thesis
    unfolding Let_def using h1 h2 h3 h4 h5 cli_turn_journal [OF h1 h2 h3 h4 h5, of "''T1''" "''T2''" "''Hello''"]
    by (simp only: Let_def)
qed

text \<open>
  After a failed run the command-line client still journals a reply: the previous
  turn's assistant answer is found again by \<open>_print_latest_assistant\<close> and stored a
  second time, as the answer to the new question, with the old message id.
\<close>

theorem cli_failed_run_repeats_reply:
  "let lines = [\<lparr>cl_input = Some ''Q1'', cl_outcome = \<lparr>ro_status = ''completed'', ro_error = JNull,
                   ro_replies = [\<lparr>rm_id = ''r1'', rm_role = ''assistant'', rm_texts = [''A1'']\<rparr>], ro_steps = []\<rparr>,
                 cl_ts1 = ''T1'', cl_ts2 = ''T2''\<rparr>,
               \<lparr>cl_input = Some ''Q2'', cl_outcome = \<lparr>ro_status = ''failed'', ro_error = JStr ''server_error'',
                   ro_replies = [], ro_steps = []\<rparr>,
                 cl_ts1 = ''T3'', cl_ts2 = ''T4''\<rparr>,
               \<lparr>cl_input = None, cl_outcome = \<lparr>ro_status = ''completed'', ro_error = JNull, ro_replies = [], ro_steps = []\<rparr>,
                 cl_ts1 = ''T5'', cl_ts2 = ''T6''\<rparr>];
       w = \<lparr>w_dir = [], w_svc = \<lparr>sv_threads = [], sv_agents = [], sv_steps = [], sv_next = 0\<rparr>, w_sess = session_init\<rparr>
   in \<exists>w'. cli_main (Some ''https://ep'') (Some ''gpt-4o'') None [] lines w = (Inr (), w') \<and>
        journal_of_json (load_memory (w_dir w') (memory_path_for_thread ''thread_1'')) =
          Some \<lparr>j_thread = Some ''thread_1'', j_messages =
            [\<lparr>e_ts = ''T1'', e_role = ''user'', e_text = ''Q1'', e_mid = Some ''msg_2''\<rparr>,
             \<lparr>e_ts = ''T2'', e_role = ''assistant'', e_text = ''A1'', e_mid = Some ''r1''\<rparr>,
             \<lparr>e_ts = ''T3'', e_role = ''user'', e_text = ''Q2'', e_mid = Some ''msg_4''\<rparr>,
             \<lparr>e_ts = ''T4'', e_role = ''assistant'', e_text = ''A1'', e_mid = Some ''r1''\<rparr>]\<rparr> \<and>
        sv_agents (w_svc w') = []"
  by (simp add: cli_eval mem_entry_def memory_path_for_thread_def journal_of_json_def thread_of_json_def
      entry_of_json_def session_init_def)

text \<open>
  C32. The command-line session always deletes the agent it created (the \<open>finally\<close>
  block), whatever the typed lines, the service's answers and the failures of the other
  remote calls, as long as the deletion itself succeeds: the service's agents afterwards
  are those before.
\<close>

theorem cli_chat_deletes_agent:
  assumes sv: "svc_wf (w_svc w)" and fl: "CAgentDelete \<notin> set fl"
  shows "sv_agents (w_svc (snd (cli_chat fl existing lines w))) = sv_agents (w_svc w)"
proof (cases "CAgentCreate \<in> set fl")
  case True
  then show ?thesis by (simp add: cli_chat_def act_bind_def act_remote_def svc_create_agent_def)
next
  case False
  let ?a = "fresh_id ''asst_'' (w_svc w)"
  let ?w1 = "w\<lparr>w_svc := (w_svc w)\<lparr>sv_agents := sv_agents (w_svc w) @ [?a], sv_next := Suc (sv_next (w_svc w))\<rparr>\<rparr>"
  let ?body = "act_bind (cli_open_thread fl existing) (\<lambda>thread_id.
        act_seq (act_mem (\<lambda>d. prepare_memory d thread_id)) (
        cli_loop fl (py_str thread_id) (memory_path_for_thread (py_str thread_id)) ?a lines))"
  have a: "?a \<notin> set (sv_agents (w_svc w))"
    using fresh_not_in [OF sv, of "''asst_''"] by (simp add: svc_ids_def id_prefixes_def)
  have kept: "agents_kept ?body" by (intro agents_intros)
  obtain r w2 where b: "?body ?w1 = (r, w2)" by fastforce
  have "sv_agents (w_svc (snd (?body ?w1))) = sv_agents (w_svc ?w1)"
    using kept unfolding agents_kept_def by blast
  with b have ag2: "sv_agents (w_svc w2) = sv_agents (w_svc w) @ [?a]" by simp
  have "cli_chat fl existing lines w = act_finally ?body (cli_delete_agent fl ?a) ?w1"
    using False by (simp add: cli_chat_def act_bind_def act_remote_def svc_create_agent_def Let_def)
  then show ?thesis
    using b ag2 a fl by (simp add: act_finally_def cli_delete_agent_def act_try_def act_remote_def svc_delete_agent_def)
qed

theorem cli_chat_deletes_agent_witness:
  "svc_wf \<lparr>sv_threads = [], sv_agents = [], sv_steps = [], sv_next = 0\<rparr> \<and> CAgentDelete \<notin> set [] \<and>
   sv_agents (w_svc (snd (cli_chat [] None [\<lparr>cl_input = Some ''Hello'', cl_outcome = \<lparr>ro_status = ''completed'', ro_error = JNull, ro_replies = [\<lparr>rm_id = ''r1'', rm_role = ''assistant'', rm_texts = [''Hi'']\<rparr>], ro_steps = []\<rparr>,
       cl_ts1 = ''T1'', cl_ts2 = ''T2''\<rparr>] \<lparr>w_dir = [], w_svc = \<lparr>sv_threads = [], sv_agents = [], sv_steps = [], sv_next = 0\<rparr>, w_sess = session_init\<rparr>))) = []"
proof -
  have h1: "svc_wf (w_svc \<lparr>w_dir = [], w_svc = \<lparr>sv_threads = [], sv_agents = [], sv_steps = [], sv_next = 0\<rparr>, w_sess = session_init\<rparr>)" by (simp add: svc_wf_def svc_ids_def)
  have h2: "CAgentDelete \<notin> set []" by simp
  show ?thesis using h1 h2 cli_chat_deletes_agent [OF h1 h2, of None "[\<lparr>cl_input = Some ''Hello'', cl_outcome = \<lparr>ro_status = ''completed'', ro_error = JNull, ro_replies = [\<lparr>rm_id = ''r1'', rm_role = ''assistant'', rm_texts = [''Hi'']\<rparr>], ro_steps = []\<rparr>,
       cl_ts1 = ''T1'', cl_ts2 = ''T2''\<rparr>]"] by simp
qed

text \<open>
  C33. Both command-line clients check their configuration first: with the endpoint or
  the model deployment unset or empty, \<open>main\<close> raises \<open>ValueError\<close> before any remote
  call, file access or prompt.
\<close>

theorem cli_main_config_error:
  "(case (ep, md) of (Some e, Some m) \<Rightarrow> e = [] \<or> m = [] | _ \<Rightarrow> True) \<Longrightarrow>
   cli_main ep md answer fl lines w = (Inl ValueError, w) \<and> v2_main ep md fl lines w = (Inl ValueError, w)"
  by (auto simp: cli_main_def v2_main_def cli_config_def act_bind_def act_lift_def split: option.splits)

theorem cli_main_config_error_witness:
  "(case (None :: string option, Some ''gpt-4o'') of (Some e, Some m) \<Rightarrow> e = [] \<or> m = [] | _ \<Rightarrow> True) \<and>
   cli_main None (Some ''gpt-4o'') None [] [] \<lparr>w_dir = [], w_svc = \<lparr>sv_threads = [], sv_agents = [], sv_steps = [], sv_next = 0\<rparr>, w_sess = session_init\<rparr> = (Inl ValueError, \<lparr>w_dir = [], w_svc = \<lparr>sv_threads = [], sv_agents = [], sv_steps = [], sv_next = 0\<rparr>, w_sess = session_init\<rparr>) \<and>
   v2_main None (Some ''gpt-4o'') [] [] \<lparr>w_dir = [], w_svc = \<lparr>sv_threads = [], sv_agents = [], sv_steps = [], sv_next = 0\<rparr>, w_sess = session_init\<rparr> = (Inl ValueError, \<lparr>w_dir = [], w_svc = \<lparr>sv_threads = [], sv_agents = [], sv_steps = [], sv_next = 0\<rparr>, w_sess = session_init\<rparr>)"
  using cli_main_config_error [of None "Some ''gpt-4o''" None "[]" "[]" "\<lparr>w_dir = [], w_svc = \<lparr>sv_threads = [], sv_agents = [], sv_steps = [], sv_next = 0\<rparr>, w_sess = session_init\<rparr>"] by simp

text \<open>
  The read-eval loop stops at the first exit word (\<open>exit\<close>, \<open>quit\<close>, \<open>q\<close>, in any
  letter case and with surrounding blanks) or at the end of input: the lines typed after
  it are never read, posted or journalled.
\<close>

theorem cli_loop_stop:
  assumes "cl_input l = None \<or> (\<exists>raw. cl_input l = Some raw \<and> cli_read raw = CliQuit)"
  shows "cli_loop fl tid p aid (ls1 @ l # ls2) = cli_loop fl tid p aid ls1"
  using assms
proof (induction ls1)
  case Nil
  then show ?case by (auto split: option.splits)
next
  case (Cons l1 ls)
  then show ?case by (simp split: option.split cli_cmd.split)
qed


theorem cli_loop_stop_witness:
  "(cl_input \<lparr>cl_input = Some '' Quit '', cl_outcome = \<lparr>ro_status = ''completed'', ro_error = JNull, ro_replies = [], ro_steps = []\<rparr>,
        cl_ts1 = ''T3'', cl_ts2 = ''T4''\<rparr> = None \<or>
    (\<exists>raw. cl_input \<lparr>cl_input = Some '' Quit '', cl_outcome = \<lparr>ro_status = ''completed'', ro_error = JNull, ro_replies = [], ro_steps = []\<rparr>,
        cl_ts1 = ''T3'', cl_ts2 = ''T4''\<rparr> = Some raw \<and> cli_read raw = CliQuit)) \<and>
   cli_loop [] ''t1'' (memory_path_for_thread ''t1'') ''a1'' ([\<lparr>cl_input = Some ''Hello'', cl_outcome = \<lparr>ro_status = ''completed'', ro_error = JNull, ro_replies = [], ro_steps = []\<rparr>,
        cl_ts1 = ''T1'', cl_ts2 = ''T2''\<rparr>] @ \<lparr>cl_input = Some '' Quit '', cl_outcome = \<lparr>ro_status = ''completed'', ro_error = JNull, ro_replies = [], ro_steps = []\<rparr>,
        cl_ts1 = ''T3'', cl_ts2 = ''T4''\<rparr> # [\<lparr>cl_input = Some ''More'', cl_outcome = \<lparr>ro_status = ''completed'', ro_error = JNull, ro_replies = [], ro_steps = []\<rparr>,
        cl_ts1 = ''T5'', cl_ts2 = ''T6''\<rparr>]) =
   cli_loop [] ''t1'' (memory_path_for_thread ''t1'') ''a1'' [\<lparr>cl_input = Some ''Hello'', cl_outcome = \<lparr>ro_status = ''completed'', ro_error = JNull, ro_replies = [], ro_steps = []\<rparr>,
        cl_ts1 = ''T1'', cl_ts2 = ''T2''\<rparr>]"
proof -
  have h: "cl_input \<lparr>cl_input = Some '' Quit '', cl_outcome = \<lparr>ro_status = ''completed'', ro_error = JNull, ro_replies = [], ro_steps = []\<rparr>,
        cl_ts1 = ''T3'', cl_ts2 = ''T4''\<rparr> = None \<or>
    (\<exists>raw. cl_input \<lparr>cl_input = Some '' Quit '', cl_outcome = \<lparr>ro_status = ''completed'', ro_error = JNull, ro_replies = [], ro_steps = []\<rparr>,
        cl_ts1 = ''T3'', cl_ts2 = ''T4''\<rparr> = Some raw \<and> cli_read raw = CliQuit)"
    by (simp add: cli_read_def py_strip_def py_lower_def py_lower_char_def py_whitespace_def Let_def char_of_def bit_iff_odd)
  show ?thesis using h cli_loop_stop [OF h, of "[]" "''t1''" "memory_path_for_thread ''t1''" "''a1''" "[\<lparr>cl_input = Some ''Hello'', cl_outcome = \<lparr>ro_status = ''completed'', ro_error = JNull, ro_replies = [], ro_steps = []\<rparr>,
        cl_ts1 = ''T1'', cl_ts2 = ''T2''\<rparr>]" "[\<lparr>cl_input = Some ''More'', cl_outcome = \<lparr>ro_status = ''completed'', ro_error = JNull, ro_replies = [], ro_steps = []\<rparr>,
        cl_ts1 = ''T5'', cl_ts2 = ''T6''\<rparr>]"]
    by blast
qed

end
