(* ===== verification/Backup_Pages.thy ===== *)
theory Backup_Pages
  imports Cli
begin

text \<open>
  The first two Streamlit versions kept under \<open>src/backup/\<close>: \<open>streamlit_mcpclient.py\<close>
  (backup 1) and \<open>streamlit_mcpclient2.py\<close> (backup 2). Each is one page: on every script
  run it opens the browser session's thread (creating it, and stamping its journal file
  with the thread id, the first time), creates an agent, and, when the user pressed
  \<open>Send\<close> with a non-empty question, posts it, runs the agent, journals both sides without
  a retention limit and deletes the agent. Backup 2 adds an activity log in the sidebar
  (kept in \<open>ss_log\<close>, which each script run starts empty). A page run is an action on
  the world of \<open>Turn\<close>; \<open>page_step_b1\<close> and \<open>page_step_b2\<close> fold the runs of a page.
  The lemmas show that the pages keep every journal file stamped with its own thread id
  (\<open>page_inv\<close>), so that the history panels of the later versions list what these pages
  journalled, and that a run without a question leaves one more agent behind.
\<close>

section \<open>Backup 1: helpers\<close>

text \<open>\<open>_append_memory\<close> of backup 1: no retention limit.\<close>

definition append_memory_b1 :: "memdir \<Rightarrow> string \<Rightarrow> string \<Rightarrow> string \<Rightarrow> string \<Rightarrow> string option \<Rightarrow> memdir py" where
  "append_memory_b1 = append_memory None"

text \<open>\<open>_print_latest_assistant\<close> of backup 1: the reply text, nothing logged.\<close>

definition print_latest_assistant_b1 :: "rcall list \<Rightarrow> string \<Rightarrow> string act" where
  "print_latest_assistant_b1 fl tid =
     act_bind (act_query (\<lambda>sv. svc_list_messages fl sv tid)) (\<lambda>msgs. act_return (reply_text msgs))"

text \<open>
  \<open>_log_run_steps\<close> of backup 1 builds the text it returns: per step
  \<open>f"Step {step['id']} status: {step['status']}"\<close>, then, when the step has tool calls,
  a header line and three lines per call with \<open>call.get('id')\<close> (\<open>None\<close> when absent).
\<close>

definition call_lines_b1 :: "json \<Rightarrow> string list py" where
  "call_lines_b1 call =
     py_bind (py_get call ''id'' JNull) (\<lambda>i.
     py_bind (py_get call ''type'' JNull) (\<lambda>ty.
     py_bind (py_get call ''name'' JNull) (\<lambda>n.
     Inr [''    Tool Call ID: '' @ py_str i, ''    Type: '' @ py_str ty, ''    Name: '' @ py_str n])))"

definition step_lines_b1 :: "rstep \<Rightarrow> string list py" where
  "step_lines_b1 step =
     py_bind (py_getitem (rs_body step) ''status'') (\<lambda>status.
     py_bind (py_get (rs_body step) ''step_details'' (JDict [])) (\<lambda>det.
     py_bind (py_get det ''tool_calls'' (JList [])) (\<lambda>tc.
     (let head = ''Step '' @ rs_id step @ '' status: '' @ py_str status in
      if py_truthy tc then
        py_bind (py_iter tc) (\<lambda>calls. py_bind (py_map call_lines_b1 calls) (\<lambda>ls.
          Inr (head # ''  MCP Tool calls:'' # concat ls)))
      else Inr [head]))))"

definition log_run_steps_b1 :: "rcall list \<Rightarrow> string \<Rightarrow> string \<Rightarrow> string act" where
  "log_run_steps_b1 fl tid rid =
     act_bind (act_query (\<lambda>sv. svc_list_steps fl sv rid)) (\<lambda>steps.
     act_bind (act_lift (py_map step_lines_b1 steps)) (\<lambda>ls.
     act_return (py_join [CHR 0x0A] (concat ls))))"

section \<open>Backup 1: the page\<close>

text \<open>
  Lines 99--109: a session without a thread gets one; its journal file is loaded, stamped
  with the id (\<open>mem_data["thread_id"] = thread.id\<close>) and written. The session's thread
  id is returned; \<open>mem_path\<close> is its file.
\<close>

definition open_thread_b1 :: "rcall list \<Rightarrow> json act" where
  "open_thread_b1 fl w =
     (case ss_thread (w_sess w) of
        Some t \<Rightarrow> (Inr t, w)
      | None \<Rightarrow>
          act_bind (act_remote (svc_create_thread fl)) (\<lambda>t.
          act_seq (act_sess (\<lambda>s. s\<lparr>ss_thread := Some (JStr t)\<rparr>)) (
          act_seq (act_mem (\<lambda>d. prepare_memory d (JStr t))) (
          act_return (JStr t)))) w)"

text \<open>
  Lines 128--166, once \<open>Send\<close> was pressed with a question: post and journal it, run the
  agent, log the steps, journal the reply when it is not empty, delete the agent (a
  failure only shows a warning). A failed run is only shown.
\<close>

definition send_b1 ::
  "rcall list \<Rightarrow> run_outcome \<Rightarrow> string \<Rightarrow> string \<Rightarrow> string \<Rightarrow> string \<Rightarrow> string \<Rightarrow> unit act" where
  "send_b1 fl out ts1 ts2 tid aid user_input =
     (let mem_path = memory_path_for_thread tid in
     act_bind (act_remote (\<lambda>sv. svc_create_message fl sv tid ''user'' user_input)) (\<lambda>mid.
     act_seq (act_mem (\<lambda>d. append_memory_b1 d mem_path ts1 ''user'' user_input (Some mid))) (
     act_bind (act_remote (\<lambda>sv. svc_run fl sv tid aid out)) (\<lambda>run.
     act_bind (log_run_steps_b1 fl tid (rr_id run)) (\<lambda>logs.
     act_bind (print_latest_assistant_b1 fl tid) (\<lambda>assistant_text.
     act_seq (if assistant_text \<noteq> [] then
                act_bind (act_query (\<lambda>sv. svc_list_messages fl sv tid)) (\<lambda>msgs.
                act_mem (\<lambda>d. append_memory_b1 d mem_path ts2 ''assistant'' assistant_text (last_assistant_id msgs)))
              else act_return ()) (
     act_try (act_remote (\<lambda>sv. py_bind (svc_delete_agent fl sv aid) (\<lambda>sv'. Inr ((), sv'))))
             (\<lambda>e. act_return ()))))))))"

text \<open>
  Lines 75--166, one script run: the configuration check (a missing setting only shows an
  error), the thread, a new agent on every run, and the question when \<open>submit and
  user_input\<close>.
\<close>

definition page_b1 ::
  "string option \<Rightarrow> string option \<Rightarrow> rcall list \<Rightarrow> run_outcome \<Rightarrow> string \<Rightarrow> string \<Rightarrow> bool \<Rightarrow> string \<Rightarrow> unit act" where
  "page_b1 ep md fl out ts1 ts2 submit user_input =
     (case cli_config ep md of
        Inl _ \<Rightarrow> act_return ()
      | Inr _ \<Rightarrow>
          act_bind (open_thread_b1 fl) (\<lambda>thread_id.
          act_bind (act_remote (svc_create_agent fl)) (\<lambda>aid.
          if submit \<and> user_input \<noteq> [] then send_b1 fl out ts1 ts2 (py_str thread_id) aid user_input
          else act_return ())))"

text \<open>
  What starts a script run: an interaction with the page (the remote failures, the run's
  outcome and the clock readings of this run, the \<open>Send\<close> button and the text field),
  or a new browser session, whose \<open>st.session_state\<close> starts empty.
\<close>

datatype page_event =
    PageRun "rcall list" run_outcome string string bool string
  | PageNewSession

fun page_step_b1 :: "string option \<Rightarrow> string option \<Rightarrow> world \<Rightarrow> page_event \<Rightarrow> world" where
  "page_step_b1 ep md w (PageRun fl out ts1 ts2 submit txt) = snd (page_b1 ep md fl out ts1 ts2 submit txt w)"
| "page_step_b1 ep md w PageNewSession = w\<lparr>w_sess := session_init\<rparr>"

section \<open>Backup 2: helpers\<close>

text \<open>
  Backup 2's \<open>_append_memory\<close> keeps every entry; its \<open>_print_latest_assistant\<close> and
  \<open>_log_run_steps\<close> write to the sidebar what the current app's versions append to its
  log, and read the same fields.
\<close>

definition append_memory_b2 :: "memdir \<Rightarrow> string \<Rightarrow> string \<Rightarrow> string \<Rightarrow> string \<Rightarrow> string option \<Rightarrow> memdir py" where
  "append_memory_b2 = append_memory None"

definition print_latest_assistant_b2 :: "rcall list \<Rightarrow> string \<Rightarrow> string act" where
  "print_latest_assistant_b2 = print_latest_assistant"

definition log_run_steps_b2 :: "rcall list \<Rightarrow> string \<Rightarrow> string \<Rightarrow> unit act" where
  "log_run_steps_b2 = log_run_steps"

section \<open>Backup 2: the page\<close>

text \<open>Lines 131--144.\<close>

definition open_thread_b2 :: "rcall list \<Rightarrow> json act" where
  "open_thread_b2 fl w =
     (case ss_thread (w_sess w) of
        Some t \<Rightarrow> act_seq (act_log (LInfo (''Using existing thread: `'' @ py_str t @ ''`''))) (act_return t) w
      | None \<Rightarrow>
          act_seq (act_log (LInfo ''No thread found. Creating a new thread...'')) (
          act_bind (act_remote (svc_create_thread fl)) (\<lambda>t.
          act_seq (act_sess (\<lambda>s. s\<lparr>ss_thread := Some (JStr t)\<rparr>)) (
          act_seq (act_log (LSuccess (''New thread created: `'' @ t @ ''`''))) (
          act_seq (act_mem (\<lambda>d. prepare_memory d (JStr t))) (
          act_return (JStr t)))))) w)"

text \<open>Lines 165--210.\<close>

definition send_b2 ::
  "rcall list \<Rightarrow> run_outcome \<Rightarrow> string \<Rightarrow> string \<Rightarrow> string \<Rightarrow> string \<Rightarrow> string \<Rightarrow> unit act" where
  "send_b2 fl out ts1 ts2 tid aid user_input =
     (let mem_path = memory_path_for_thread tid in
     act_seq (act_log (LInfo ''Sending user message to thread...'')) (
     act_bind (act_remote (\<lambda>sv. svc_create_message fl sv tid ''user'' user_input)) (\<lambda>mid.
     act_seq (act_mem (\<lambda>d. append_memory_b2 d mem_path ts1 ''user'' user_input (Some mid))) (
     act_seq (act_log (LSuccess ''Message sent.'')) (
     act_seq (act_log (LInfo ''Starting run with agent...'')) (
     act_bind (act_remote (\<lambda>sv. svc_run fl sv tid aid out)) (\<lambda>run.
     act_seq (if rr_status run = ''failed'' then act_log (LError (''Run `'' @ rr_id run @ ''` failed.''))
              else act_log (LSuccess (''Run `'' @ rr_id run @ ''` completed with status: **'' @ rr_status run @ ''**''))) (
     act_seq (log_run_steps_b2 fl tid (rr_id run)) (
     act_bind (print_latest_assistant_b2 fl tid) (\<lambda>assistant_text.
     act_seq (if assistant_text \<noteq> [] then
                act_bind (act_query (\<lambda>sv. svc_list_messages fl sv tid)) (\<lambda>msgs.
                act_mem (\<lambda>d. append_memory_b2 d mem_path ts2 ''assistant'' assistant_text (last_assistant_id msgs)))
              else act_return ()) (
     app_delete_agent fl aid)))))))))))"

text \<open>Lines 102--210, one script run; the sidebar starts empty.\<close>

definition page_b2 ::
  "string option \<Rightarrow> string option \<Rightarrow> rcall list \<Rightarrow> run_outcome \<Rightarrow> string \<Rightarrow> string \<Rightarrow> bool \<Rightarrow> string \<Rightarrow> unit act" where
  "page_b2 ep md fl out ts1 ts2 submit user_input =
     act_seq (act_sess (\<lambda>s. s\<lparr>ss_log := []\<rparr>)) (
     case cli_config ep md of
        Inl _ \<Rightarrow> act_return ()
      | Inr _ \<Rightarrow>
          act_bind (open_thread_b2 fl) (\<lambda>thread_id.
          act_seq (act_log (LInfo ''Creating agent for this session...'')) (
          act_bind (act_remote (svc_create_agent fl)) (\<lambda>aid.
          act_seq (act_log (LSuccess (''Agent created: `my-mcp-agent` (`'' @ aid @ ''`)''))) (
          if submit \<and> user_input \<noteq> [] then send_b2 fl out ts1 ts2 (py_str thread_id) aid user_input
          else act_return ())))))"

fun page_step_b2 :: "string option \<Rightarrow> string option \<Rightarrow> world \<Rightarrow> page_event \<Rightarrow> world" where
  "page_step_b2 ep md w (PageRun fl out ts1 ts2 submit txt) = snd (page_b2 ep md fl out ts1 ts2 submit txt w)"
| "page_step_b2 ep md w PageNewSession = w\<lparr>w_sess := session_init\<rparr>"

section \<open>Invariants\<close>

text \<open>
  \<open>stamped d\<close>: every file of the directory is a journal that records a non-empty thread id
  and is that thread's file. \<open>page_inv d th\<close> adds that \<open>d\<close> is reachable and that the
  session's thread, if any, already has its file. \<open>thread_keeps D m\<close>: the action keeps the
  relation \<open>D\<close> between the directory and the session's thread, whatever happens.
  \<open>idle_run\<close>: a script run in which the agent is created and no question is sent.
\<close>

definition stamped :: "memdir \<Rightarrow> bool" where
  "stamped d \<longleftrightarrow>
     list_all (\<lambda>(f, c). case c of
         FJson v \<Rightarrow> (case journal_of_json v of
                       Some j \<Rightarrow> (case j_thread j of Some t \<Rightarrow> t \<noteq> [] \<and> f = memory_path_for_thread t | None \<Rightarrow> False)
                     | None \<Rightarrow> False)
       | FUnreadable \<Rightarrow> False) d"

definition page_inv :: "memdir \<Rightarrow> json option \<Rightarrow> bool" where
  "page_inv d th \<longleftrightarrow> mem_reach d \<and> stamped d \<and>
     (case th of None \<Rightarrow> True
      | Some (JStr t) \<Rightarrow> map_of d (memory_path_for_thread t) \<noteq> None
      | Some _ \<Rightarrow> False)"

definition thread_keeps :: "(memdir \<Rightarrow> json option \<Rightarrow> bool) \<Rightarrow> 'a act \<Rightarrow> bool" where
  "thread_keeps D m \<longleftrightarrow>
     (\<forall>w. D (w_dir w) (ss_thread (w_sess w)) \<longrightarrow> D (w_dir (snd (m w))) (ss_thread (w_sess (snd (m w)))))"

fun idle_run :: "page_event \<Rightarrow> bool" where
  "idle_run (PageRun fl out ts1 ts2 submit u) \<longleftrightarrow> CAgentCreate \<notin> set fl \<and> \<not> (submit \<and> u \<noteq> [])"
| "idle_run PageNewSession \<longleftrightarrow> False"

section \<open>Lemmas: actions that keep the journal files stamped\<close>

lemma inv_return [inv_intros]: "thread_keeps D (act_return x)"
  and inv_log [inv_intros]: "thread_keeps D (act_log l)"
  and inv_query [inv_intros]: "thread_keeps D (act_query q)"
  and inv_lift [inv_intros]: "thread_keeps D (act_lift r)"
  by (simp_all add: thread_keeps_def act_simps)

lemma inv_remote [inv_intros]: "thread_keeps D (act_remote f)"
  by (auto simp: thread_keeps_def act_remote_def split: sum.splits)

lemma inv_sess [inv_intros]: "(\<And>s. ss_thread (f s) = ss_thread s) \<Longrightarrow> thread_keeps D (act_sess f)"
  by (simp add: thread_keeps_def act_sess_def)

lemma inv_bind [inv_intros]:
  "thread_keeps D m \<Longrightarrow> (\<And>x. thread_keeps D (f x)) \<Longrightarrow> thread_keeps D (act_bind m f)"
  by (auto simp: thread_keeps_def act_bind_def split: prod.splits sum.splits)

lemma inv_seq [inv_intros]:
  "thread_keeps D m \<Longrightarrow> thread_keeps D k \<Longrightarrow> thread_keeps D (act_seq m k)"
  unfolding act_seq_def by (rule inv_bind)

lemma inv_try [inv_intros]:
  "thread_keeps D m \<Longrightarrow> (\<And>e. thread_keeps D (h e)) \<Longrightarrow> thread_keeps D (act_try m h)"
  by (auto simp: thread_keeps_def act_try_def split: prod.splits sum.splits)

lemma inv_if [inv_intros]:
  "thread_keeps D a \<Longrightarrow> thread_keeps D b \<Longrightarrow> thread_keeps D (if c then a else b)"
  by simp

text \<open>A bound value that is the session's thread: the continuation may rely on it.\<close>

lemma inv_bind_thread:
  assumes m: "thread_keeps D m"
    and r: "\<And>w x w'. D (w_dir w) (ss_thread (w_sess w)) \<Longrightarrow> m w = (Inr x, w') \<Longrightarrow> ss_thread (w_sess w') = Some x"
    and f: "\<And>x. thread_keeps (\<lambda>d th. D d th \<and> th = Some x) (f x)"
  shows "thread_keeps D (act_bind m f)"
  unfolding thread_keeps_def
proof (intro allI impI)
  fix w :: world assume D: "D (w_dir w) (ss_thread (w_sess w))"
  obtain res w' where mw: "m w = (res, w')" by fastforce
  from m D mw have D': "D (w_dir w') (ss_thread (w_sess w'))" unfolding thread_keeps_def by (metis snd_conv)
  show "D (w_dir (snd (act_bind m f w))) (ss_thread (w_sess (snd (act_bind m f w))))"
  proof (cases res)
    case (Inr x)
    with r [OF D] mw have "ss_thread (w_sess w') = Some x" by simp
    with f [of x] D' have "D (w_dir (snd (f x w'))) (ss_thread (w_sess (snd (f x w'))))"
      unfolding thread_keeps_def by blast
    with mw Inr show ?thesis by (simp add: act_bind_def)
  qed (use D' mw in \<open>simp add: act_bind_def\<close>)
qed

lemma inv_print_latest [inv_intros]: "thread_keeps D (print_latest_assistant fl tid)"
  unfolding print_latest_assistant_def
  by (intro inv_intros) (simp split: option.split add: inv_intros)

lemma inv_log_run_steps [inv_intros]: "thread_keeps D (log_run_steps fl tid rid)"
  unfolding log_run_steps_def by (intro inv_intros)

lemma inv_delete_agent [inv_intros]: "thread_keeps D (app_delete_agent fl aid)"
  unfolding app_delete_agent_def by (intro inv_intros)

section \<open>Lemmas: stamped journal files\<close>

lemma stamped_write:
  assumes "stamped d" and "journal_of_json v = Some j" and "j_thread j = Some t" and "t \<noteq> []"
    and "p = memory_path_for_thread t"
  shows "stamped (write_json d p v)"
  using assms set_update_subset [of p "FJson v" d]
  by (fastforce simp: stamped_def list_all_iff write_json_def)

lemma stamped_file:
  assumes "stamped d" and "map_of d p = Some c"
  obtains v j t where "c = FJson v" and "load_memory d p = v" and "journal_of_json v = Some j"
    and "j_thread j = Some t" and "t \<noteq> []" and "p = memory_path_for_thread t"
proof -
  from assms(2) have "(p, c) \<in> set d" by (rule map_of_SomeD)
  with assms(1) have "case c of FJson v \<Rightarrow> (case journal_of_json v of
      Some j \<Rightarrow> (case j_thread j of Some t \<Rightarrow> t \<noteq> [] \<and> p = memory_path_for_thread t | None \<Rightarrow> False)
    | None \<Rightarrow> False) | FUnreadable \<Rightarrow> False"
    by (auto simp: stamped_def list_all_iff)
  then obtain v j t where "c = FJson v" "journal_of_json v = Some j" "j_thread j = Some t" "t \<noteq> []"
    "p = memory_path_for_thread t" by (auto split: fcontent.splits option.splits)
  moreover from this(1) assms(2) have "load_memory d p = v" by (simp add: load_memory_def)
  ultimately show ?thesis using that by blast
qed

lemma page_inv_append:
  assumes "page_inv d (Some x)"
    and "append_memory keep d (memory_path_for_thread (py_str x)) ts r body m = Inr d'"
  shows "page_inv d' (Some x)"
proof -
  from assms(1) obtain t c where x: "x = JStr t" and reach: "mem_reach d" and st: "stamped d"
    and c: "map_of d (memory_path_for_thread t) = Some c"
    by (auto simp: page_inv_def split: json.splits)
  let ?p = "memory_path_for_thread t"
  obtain v j t' where l: "load_memory d ?p = v" and j: "journal_of_json v = Some j"
    and t': "j_thread j = Some t'" "t' \<noteq> []" "?p = memory_path_for_thread t'"
    by (rule stamped_file [OF st c])
  note step = append_memory_step [of d "?p" j keep ts r body m]
  from step j l assms(2) x obtain v' where
    d': "d' = write_json d ?p v'" and v': "journal_of_json v' = Some (j_append keep j \<lparr>e_ts = ts, e_role = r, e_text = body, e_mid = m\<rparr>)"
    by auto
  have "stamped d'" unfolding d' using stamped_write [OF st v'] t' by (simp add: j_append_def)
  moreover have "mem_reach d'" using mem_reach.append [OF reach] assms(2) x by simp
  ultimately show ?thesis by (simp add: page_inv_def x d' write_json_def update_conv')
qed

lemma page_inv_prepare:
  assumes "page_inv d th" and "t \<noteq> []"
  shows "\<exists>d'. prepare_memory d (JStr t) = Inr d' \<and> page_inv d' (Some (JStr t))"
proof -
  from assms(1) have reach: "mem_reach d" and st: "stamped d" by (auto simp: page_inv_def)
  let ?p = "memory_path_for_thread t"
  from wf_memdir_load [OF mem_reach_wf_memdir [OF reach]]
  obtain j where "journal_of_json (load_memory d ?p) = Some j" by fastforce
  from prepare_memory_step [OF this] obtain v where
    pr: "prepare_memory d (JStr t) = Inr (write_json d ?p v)" and v: "journal_of_json v = Some (j\<lparr>j_thread := Some t\<rparr>)"
    by auto
  have "stamped (write_json d ?p v)" using st v assms(2) by (intro stamped_write) auto
  moreover have "mem_reach (write_json d ?p v)" by (rule mem_reach.prepare [OF reach pr])
  ultimately show ?thesis using pr by (simp add: page_inv_def write_json_def update_conv')
qed

lemma inv_append [inv_intros]:
  "thread_keeps (\<lambda>d th. page_inv d th \<and> th = Some x)
     (act_mem (\<lambda>d. append_memory keep d (memory_path_for_thread (py_str x)) ts r body m))"
  by (auto simp: thread_keeps_def act_mem_def split: sum.splits intro: page_inv_append)

lemma svc_create_thread_id: "svc_create_thread fl sv = Inr (t, sv') \<Longrightarrow> t \<noteq> []"
  by (auto simp: svc_create_thread_def fresh_id_def Let_def split: if_splits)

lemma page_inv_None: "page_inv d th \<Longrightarrow> page_inv d None"
  by (simp add: page_inv_def)

text \<open>Opening the thread: a new one is stamped on disk before anything is journalled.\<close>

lemma open_new_thread:
  assumes "page_inv d th" and "svc_create_thread fl sv = Inr (t, sv')"
  shows "\<exists>d'. prepare_memory d (JStr t) = Inr d' \<and> page_inv d' (Some (JStr t))"
  using page_inv_prepare [OF assms(1) svc_create_thread_id [OF assms(2)]] .

lemma open_thread_b1_inv:
  assumes "page_inv (w_dir w) (ss_thread (w_sess w))" and "open_thread_b1 fl w = (r, w')"
  shows "page_inv (w_dir w') (ss_thread (w_sess w')) \<and> (\<forall>x. r = Inr x \<longrightarrow> ss_thread (w_sess w') = Some x)"
proof (cases "ss_thread (w_sess w)")
  case None
  show ?thesis
  proof (cases "svc_create_thread fl (w_svc w)")
    case (Inr tsv)
    then obtain t sv' where c: "svc_create_thread fl (w_svc w) = Inr (t, sv')" by (cases tsv) auto
    from open_new_thread [OF assms(1) c] obtain d' where
      "prepare_memory (w_dir w) (JStr t) = Inr d'" and "page_inv d' (Some (JStr t))" by blast
    with assms(2) None c show ?thesis by (auto simp: open_thread_b1_def act_simps)
  qed (use assms None in \<open>auto simp: open_thread_b1_def act_simps\<close>)
qed (use assms in \<open>auto simp: open_thread_b1_def\<close>)

lemma open_thread_b2_inv:
  assumes "page_inv (w_dir w) (ss_thread (w_sess w))" and "open_thread_b2 fl w = (r, w')"
  shows "page_inv (w_dir w') (ss_thread (w_sess w')) \<and> (\<forall>x. r = Inr x \<longrightarrow> ss_thread (w_sess w') = Some x)"
proof (cases "ss_thread (w_sess w)")
  case None
  show ?thesis
  proof (cases "svc_create_thread fl (w_svc w)")
    case (Inr tsv)
    then obtain t sv' where c: "svc_create_thread fl (w_svc w) = Inr (t, sv')" by (cases tsv) auto
    from open_new_thread [OF assms(1) c] obtain d' where
      "prepare_memory (w_dir w) (JStr t) = Inr d'" and "page_inv d' (Some (JStr t))" by blast
    with assms(2) None c show ?thesis by (auto simp: open_thread_b2_def act_simps)
  qed (use assms None in \<open>auto simp: open_thread_b2_def act_simps\<close>)
qed (use assms in \<open>auto simp: open_thread_b2_def act_simps\<close>)

lemma inv_open_thread_b1: "thread_keeps page_inv (open_thread_b1 fl)"
  using open_thread_b1_inv unfolding thread_keeps_def by (metis prod.collapse)

lemma inv_open_thread_b2: "thread_keeps page_inv (open_thread_b2 fl)"
  using open_thread_b2_inv unfolding thread_keeps_def by (metis prod.collapse)

lemma inv_send_b1 [inv_intros]:
  "thread_keeps (\<lambda>d th. page_inv d th \<and> th = Some x) (send_b1 fl out ts1 ts2 (py_str x) aid u)"
  unfolding send_b1_def Let_def append_memory_b1_def log_run_steps_b1_def print_latest_assistant_b1_def
  by (intro inv_intros)

lemma inv_send_b2 [inv_intros]:
  "thread_keeps (\<lambda>d th. page_inv d th \<and> th = Some x) (send_b2 fl out ts1 ts2 (py_str x) aid u)"
  unfolding send_b2_def Let_def append_memory_b2_def log_run_steps_b2_def print_latest_assistant_b2_def
  by (intro inv_intros)

lemma inv_page_b1: "thread_keeps page_inv (page_b1 ep md fl out ts1 ts2 submit u)"
  unfolding page_b1_def
  by (auto split: sum.split intro!: inv_intros inv_bind_thread [OF inv_open_thread_b1] dest: open_thread_b1_inv)

lemma inv_page_b2: "thread_keeps page_inv (page_b2 ep md fl out ts1 ts2 submit u)"
  unfolding page_b2_def
  by (auto split: sum.split intro!: inv_intros inv_bind_thread [OF inv_open_thread_b2] dest: open_thread_b2_inv)

section \<open>Lemmas: runs of the pages\<close>

lemma page_step_b1_inv:
  "page_inv (w_dir w) (ss_thread (w_sess w)) \<Longrightarrow>
   page_inv (w_dir (page_step_b1 ep md w ev)) (ss_thread (w_sess (page_step_b1 ep md w ev)))"
  using inv_page_b1 by (cases ev) (auto simp: thread_keeps_def session_init_def intro: page_inv_None)

lemma page_step_b2_inv:
  "page_inv (w_dir w) (ss_thread (w_sess w)) \<Longrightarrow>
   page_inv (w_dir (page_step_b2 ep md w ev)) (ss_thread (w_sess (page_step_b2 ep md w ev)))"
  using inv_page_b2 by (cases ev) (auto simp: thread_keeps_def session_init_def intro: page_inv_None)

lemma page_runs_b2_inv:
  "page_inv (w_dir w) (ss_thread (w_sess w)) \<Longrightarrow>
   page_inv (w_dir (foldl (page_step_b2 ep md) w evs)) (ss_thread (w_sess (foldl (page_step_b2 ep md) w evs)))"
  by (induction evs arbitrary: w) (simp_all add: page_step_b2_inv)

lemma page_inv_start: "page_inv [] None"
  by (simp add: page_inv_def stamped_def mem_reach.start)

text \<open>A stamped, reachable directory: every journal with a message is in the history panel.\<close>

lemma stamped_listed:
  assumes "mem_reach d" and "stamped d"
    and j: "journal_of_json (load_memory d (memory_path_for_thread t)) = Some j" and "j_messages j \<noteq> []"
  shows "\<exists>ts. get_all_threads d = Inr ts \<and> map_of ts (JStr t) = Some (JStr (thread_label j))"
proof (cases "map_of d (memory_path_for_thread t)")
  case None
  with j assms(4) show ?thesis by (auto simp: empty_journal_def)
next
  case (Some c)
  from stamped_file [OF assms(2) Some] obtain v j' t' where "load_memory d (memory_path_for_thread t) = v"
    and "journal_of_json v = Some j'" and "j_thread j' = Some t'" and "t' \<noteq> []"
    and "memory_path_for_thread t = memory_path_for_thread t'" .
  with j have "j_thread j = Some t" and "t \<noteq> []" by (auto simp: memory_path_for_thread_def)
  with get_all_threads_map_of [OF assms(1) j] assms(4) show ?thesis by auto
qed

lemma idle_step_b1:
  assumes "cli_config ep md = Inr c" and "ss_thread (w_sess w) \<noteq> None" and "idle_run ev"
  shows "\<exists>a. sv_agents (w_svc (page_step_b1 ep md w ev)) = sv_agents (w_svc w) @ [a] \<and>
    ss_thread (w_sess (page_step_b1 ep md w ev)) = ss_thread (w_sess w)"
  using assms
  by (cases ev) (auto simp: page_b1_def open_thread_b1_def act_simps svc_create_agent_def Let_def)

lemmas page_eval = turn_eval page_b1_def open_thread_b1_def send_b1_def append_memory_b1_def
  print_latest_assistant_b1_def log_run_steps_b1_def page_b2_def open_thread_b2_def send_b2_def
  append_memory_b2_def print_latest_assistant_b2_def log_run_steps_b2_def prepare_memory_def cli_config_def
  session_init_def

section \<open>Properties of the first two Streamlit versions\<close>

text \<open>
  C37. Whatever backup 2's page is asked to do (any questions, remote failures, run
  outcomes and new browser sessions), starting from an empty \<open>memory/\<close> directory: every
  thread whose journal holds a message is listed in the history panel of the current app
  (\<open>get_all_threads\<close>), under the text of its first user message, because backup 2 stamps
  the thread id into the journal file when it creates the thread.
\<close>

theorem b2_journals_listed:
  assumes "w_dir w = []" and "ss_thread (w_sess w) = None"
    and "journal_of_json (load_memory (w_dir (foldl (page_step_b2 ep md) w evs)) (memory_path_for_thread t)) = Some j"
    and "j_messages j \<noteq> []"
  shows "\<exists>ts. get_all_threads (w_dir (foldl (page_step_b2 ep md) w evs)) = Inr ts \<and>
    map_of ts (JStr t) = Some (JStr (thread_label j))"
proof -
  have "page_inv (w_dir w) (ss_thread (w_sess w))" using assms(1,2) page_inv_start by simp
  from page_runs_b2_inv [OF this, of ep md evs]
  have "mem_reach (w_dir (foldl (page_step_b2 ep md) w evs))" and "stamped (w_dir (foldl (page_step_b2 ep md) w evs))"
    by (simp_all add: page_inv_def)
  from stamped_listed [OF this assms(3,4)] show ?thesis .
qed

theorem b2_journals_listed_witness:
  "journal_of_json (load_memory (w_dir (foldl (page_step_b2 (Some ''e'') (Some ''m''))
       \<lparr>w_dir = [], w_svc = \<lparr>sv_threads = [], sv_agents = [], sv_steps = [], sv_next = 0\<rparr>, w_sess = session_init\<rparr>
       [PageRun [] \<lparr>ro_status = ''completed'', ro_error = JNull, ro_replies = [], ro_steps = []\<rparr> ''T1'' ''T2'' True ''hi''])) 
       (memory_path_for_thread ''thread_0'')) =
     Some \<lparr>j_thread = Some ''thread_0'', j_messages = [\<lparr>e_ts = ''T1'', e_role = ''user'', e_text = ''hi'', e_mid = Some ''msg_2''\<rparr>]\<rparr> \<and>
   (\<exists>ts. get_all_threads (w_dir (foldl (page_step_b2 (Some ''e'') (Some ''m''))
       \<lparr>w_dir = [], w_svc = \<lparr>sv_threads = [], sv_agents = [], sv_steps = [], sv_next = 0\<rparr>, w_sess = session_init\<rparr>
       [PageRun [] \<lparr>ro_status = ''completed'', ro_error = JNull, ro_replies = [], ro_steps = []\<rparr> ''T1'' ''T2'' True ''hi''])) = Inr ts \<and>
     map_of ts (JStr ''thread_0'') = Some (JStr ''hi''))"
proof -
  let ?w = "\<lparr>w_dir = [], w_svc = \<lparr>sv_threads = [], sv_agents = [], sv_steps = [], sv_next = 0\<rparr>, w_sess = session_init\<rparr>"
  let ?evs = "[PageRun [] \<lparr>ro_status = ''completed'', ro_error = JNull, ro_replies = [], ro_steps = []\<rparr> ''T1'' ''T2'' True ''hi'']"
  let ?j = "\<lparr>j_thread = Some ''thread_0'', j_messages = [\<lparr>e_ts = ''T1'', e_role = ''user'', e_text = ''hi'', e_mid = Some ''msg_2''\<rparr>]\<rparr>"
  have j: "journal_of_json (load_memory (w_dir (foldl (page_step_b2 (Some ''e'') (Some ''m'')) ?w ?evs))
       (memory_path_for_thread ''thread_0'')) = Some ?j"
    by (simp add: page_eval memory_path_for_thread_def journal_of_json_def thread_of_json_def entry_of_json_def
      mem_entry_def)
  have "thread_label ?j = ''hi''" by (simp add: thread_label_def)
  with j b2_journals_listed [OF _ _ j] show ?thesis by (simp add: session_init_def)
qed

text \<open>
  C38. Every script run of backup 1's page in which no question is sent (the user types,
  or presses \<open>Send\<close> with an empty field) creates an agent and deletes none: after \<open>n\<close>
  such runs the service holds \<open>n\<close> more agents, the old ones first.
\<close>

theorem b1_idle_runs_leak_agents:
  assumes "cli_config ep md = Inr c" and "ss_thread (w_sess w) \<noteq> None" and "list_all idle_run evs"
  shows "\<exists>new. sv_agents (w_svc (foldl (page_step_b1 ep md) w evs)) = sv_agents (w_svc w) @ new \<and>
    length new = length evs"
  using assms(2,3)
proof (induction evs arbitrary: w)
  case (Cons ev evs)
  from idle_step_b1 [OF assms(1)] Cons.prems obtain a where
    a: "sv_agents (w_svc (page_step_b1 ep md w ev)) = sv_agents (w_svc w) @ [a]"
    and th: "ss_thread (w_sess (page_step_b1 ep md w ev)) = ss_thread (w_sess w)" by auto
  from Cons.IH [of "page_step_b1 ep md w ev"] Cons.prems th obtain new where
    "sv_agents (w_svc (foldl (page_step_b1 ep md) (page_step_b1 ep md w ev) evs)) =
       sv_agents (w_svc (page_step_b1 ep md w ev)) @ new" and "length new = length evs" by auto
  with a show ?case by (intro exI [of _ "a # new"]) simp
qed simp

theorem b1_idle_runs_leak_agents_witness:
  "length (sv_agents (w_svc (foldl (page_step_b1 (Some ''e'') (Some ''m''))
       \<lparr>w_dir = [], w_svc = \<lparr>sv_threads = [(''thread_0'', [])], sv_agents = [], sv_steps = [], sv_next = 1\<rparr>,
         w_sess = session_init\<lparr>ss_thread := Some (JStr ''thread_0'')\<rparr>\<rparr>
       [PageRun [] \<lparr>ro_status = ''completed'', ro_error = JNull, ro_replies = [], ro_steps = []\<rparr> ''T1'' ''T2'' False ''hi'',
        PageRun [] \<lparr>ro_status = ''completed'', ro_error = JNull, ro_replies = [], ro_steps = []\<rparr> ''T3'' ''T4'' True []])))
     = 2"
  using b1_idle_runs_leak_agents [of "Some ''e''" "Some ''m''" "(''e'', ''m'')"
      "\<lparr>w_dir = [], w_svc = \<lparr>sv_threads = [(''thread_0'', [])], sv_agents = [], sv_steps = [], sv_next = 1\<rparr>,
         w_sess = session_init\<lparr>ss_thread := Some (JStr ''thread_0'')\<rparr>\<rparr>"
      "[PageRun [] \<lparr>ro_status = ''completed'', ro_error = JNull, ro_replies = [], ro_steps = []\<rparr> ''T1'' ''T2'' False ''hi'',
        PageRun [] \<lparr>ro_status = ''completed'', ro_error = JNull, ro_replies = [], ro_steps = []\<rparr> ''T3'' ''T4'' True []]"]
  by (auto simp: cli_config_def)

end
