(* ===== verification/Backup_History.thy ===== *)
theory Backup_History
  imports Backup_Pages
begin

text \<open>
  The Streamlit versions with a history panel kept under \<open>src/backup/\<close>:
  \<open>streamlit_mcpclient3.py\<close> (backup 3: one button per saved thread, files in directory
  order) and \<open>streamlit_mcpclient4.py\<close> (backup 4: a select box, files in descending
  name order, a delete button, and \<open>st.rerun()\<close> after a selection or a chat turn).
  Both create the thread only when the first question is asked and never stamp its
  journal file. The session is the record of \<open>Session\<close> (\<open>messages\<close>, \<open>selected_chat\<close>,
  \<open>thread_id\<close>; \<open>ss_log\<close> holds the sidebar of the current script run). A script run is a
  \<open>bool act\<close> whose value says whether it ended in \<open>st.rerun()\<close>; \<open>settle_b4\<close> follows the
  reruns with fuel, so that \<open>None\<close> is a page that is still rerunning when the fuel is
  spent. The lemmas show that backup 4 reruns forever in a fresh session, and that
  picking a listed conversation settles after one rerun.
\<close>

section \<open>Callbacks\<close>

text \<open>
  A callback run by a widget (\<open>on_click\<close>) before the script: the session writes it made
  stay, and an exception ends the run.
\<close>

definition act_callback :: "(memdir \<Rightarrow> session \<Rightarrow> session \<times> py_error option) \<Rightarrow> unit act" where
  "act_callback f w =
     (case f (w_dir w) (w_sess w) of
        (s, None) \<Rightarrow> (Inr (), w\<lparr>w_sess := s\<rparr>)
      | (s, Some e) \<Rightarrow> (Inl e, w\<lparr>w_sess := s\<rparr>))"

section \<open>Backup 3: helpers\<close>

text \<open>
  Backup 3's \<open>_append_memory\<close> keeps the last 20 entries; its \<open>_print_latest_assistant\<close>
  and \<open>_log_run_steps\<close> write to the sidebar what the current app's versions log.
\<close>

definition append_memory_b3 :: "memdir \<Rightarrow> string \<Rightarrow> string \<Rightarrow> string \<Rightarrow> string \<Rightarrow> string option \<Rightarrow> memdir py" where
  "append_memory_b3 = append_memory (Some 20)"

definition print_latest_assistant_b3 :: "rcall list \<Rightarrow> string \<Rightarrow> string act" where
  "print_latest_assistant_b3 = print_latest_assistant"

definition log_run_steps_b3 :: "rcall list \<Rightarrow> string \<Rightarrow> string \<Rightarrow> unit act" where
  "log_run_steps_b3 = log_run_steps"

section \<open>Backup 3: the history panel\<close>

text \<open>\<open>start_new_chat\<close>: the messages go and \<open>thread_id\<close> is deleted.\<close>

definition start_new_chat_b3 :: "session \<Rightarrow> session" where
  "start_new_chat_b3 s = s\<lparr>ss_messages := [], ss_thread := None\<rparr>"

text \<open>
  \<open>set_active_thread\<close>: the thread id is set first; the messages are loaded as
  \<open>{"role": msg["role"], "content": msg["text"]}\<close> for each entry of
  \<open>mem_data.get("messages", [])\<close>.
\<close>

definition set_active_thread_b3 :: "memdir \<Rightarrow> session \<Rightarrow> json \<Rightarrow> session \<times> py_error option" where
  "set_active_thread_b3 d s tid =
     (let s1 = s\<lparr>ss_thread := Some tid\<rparr>;
          mem_data = load_memory d (memory_path_for_thread (py_str tid))
      in case py_bind (py_get mem_data ''messages'' (JList [])) (\<lambda>ms.
                py_bind (py_iter ms) (py_map chat_message_of)) of
           Inl e \<Rightarrow> (s1, Some e)
         | Inr msgs \<Rightarrow> (s1\<lparr>ss_messages := msgs\<rparr>, None))"

text \<open>\<open>(first_message[:30] + '...') if len(first_message) > 30 else first_message\<close>.\<close>

definition button_label_b3 :: "json \<Rightarrow> json py" where
  "button_label_b3 m =
     py_bind (py_len m) (\<lambda>n.
       if 30 < n then (case m of JStr s \<Rightarrow> Inr (JStr (take 30 s @ ''...'')) | _ \<Rightarrow> Inl TypeError)
       else Inr m)"

text \<open>Lines 140--144: one button per saved thread, keyed by the thread id.\<close>

definition history_buttons_b3 :: "memdir \<Rightarrow> (json \<times> json) list py" where
  "history_buttons_b3 d =
     py_bind (get_all_threads_unsorted d) (\<lambda>saved.
     py_bind (py_map (\<lambda>(tid, m). button_label_b3 m) saved) (\<lambda>labels.
     Inr (zip (map fst saved) labels)))"

section \<open>Backup 3: the chat turn\<close>

text \<open>Lines 175--179.\<close>

definition open_thread_b3 :: "rcall list \<Rightarrow> unit act" where
  "open_thread_b3 fl w =
     (case ss_thread (w_sess w) of
        Some _ \<Rightarrow> (Inr (), w)
      | None \<Rightarrow>
          act_seq (act_log (LInfo ''No thread found. Creating a new thread...'')) (
          act_bind (act_remote (svc_create_thread fl)) (\<lambda>t.
          act_seq (act_sess (\<lambda>s. s\<lparr>ss_thread := Some (JStr t)\<rparr>)) (
          act_log (LSuccess (''New thread created: `'' @ t @ ''`''))))) w)"

text \<open>\<open>st.session_state["thread_id"]\<close>.\<close>

definition thread_id_b3 :: "json act" where
  "thread_id_b3 w = (case ss_thread (w_sess w) of Some t \<Rightarrow> Inr t | None \<Rightarrow> Inl KeyError, w)"

text \<open>Lines 214--226: the branch of a run that did not fail.\<close>

definition reply_b3 :: "rcall list \<Rightarrow> string \<Rightarrow> string \<Rightarrow> string \<Rightarrow> rrun \<Rightarrow> unit act" where
  "reply_b3 fl ts2 tid mem_path run =
     act_seq (act_log (LSuccess (''Run `'' @ rr_id run @ ''` completed with status: **'' @ rr_status run @ ''**''))) (
     act_seq (log_run_steps_b3 fl tid (rr_id run)) (
     act_bind (print_latest_assistant_b3 fl tid) (\<lambda>assistant_text.
     act_seq (act_sess (\<lambda>s. s\<lparr>ss_messages := ss_messages s @ [(JStr ''assistant'', JStr assistant_text)]\<rparr>)) (
     act_bind (act_query (\<lambda>sv. svc_list_messages fl sv tid)) (\<lambda>msgs.
     act_mem (\<lambda>d. append_memory_b3 d mem_path ts2 ''assistant'' assistant_text (last_assistant_id msgs)))))))"

text \<open>Lines 181--235, once the session has a thread.\<close>

definition run_turn_b3 ::
  "rcall list \<Rightarrow> run_outcome \<Rightarrow> string \<Rightarrow> string \<Rightarrow> string \<Rightarrow> json \<Rightarrow> unit act" where
  "run_turn_b3 fl out ts1 ts2 prompt thread_id =
     (let tid = py_str thread_id; mem_path = memory_path_for_thread tid in
     act_seq (act_log (LInfo ''Creating agent for this session...'')) (
     act_bind (act_remote (svc_create_agent fl)) (\<lambda>aid.
     act_seq (act_log (LSuccess (''Agent created: `my-mcp-agent` (`'' @ aid @ ''`)''))) (
     act_seq (act_log (LInfo ''Sending user message to thread...'')) (
     act_bind (act_remote (\<lambda>sv. svc_create_message fl sv tid ''user'' prompt)) (\<lambda>mid.
     act_seq (act_mem (\<lambda>d. append_memory_b3 d mem_path ts1 ''user'' prompt (Some mid))) (
     act_seq (act_log (LSuccess ''Message sent.'')) (
     act_seq (act_log (LInfo ''Starting run with agent...'')) (
     act_bind (act_remote (\<lambda>sv. svc_run fl sv tid aid out)) (\<lambda>run.
     act_seq (if rr_status run = ''failed'' then act_log (LError (''Run `'' @ rr_id run @ ''` failed.''))
              else reply_b3 fl ts2 tid mem_path run) (
     app_delete_agent fl aid)))))))))))"

text \<open>Lines 168--235, from a submitted prompt.\<close>

definition chat_b3 :: "rcall list \<Rightarrow> run_outcome \<Rightarrow> string \<Rightarrow> string \<Rightarrow> string \<Rightarrow> unit act" where
  "chat_b3 fl out ts1 ts2 prompt =
     act_seq (act_sess (\<lambda>s. s\<lparr>ss_messages := ss_messages s @ [(JStr ''user'', JStr prompt)]\<rparr>)) (
     act_seq (open_thread_b3 fl) (
     act_bind thread_id_b3 (run_turn_b3 fl out ts1 ts2 prompt)))"

section \<open>Backup 3: the page\<close>

text \<open>
  Lines 123--235, one script run: the sidebar starts empty, the history column is built,
  then the configuration is checked and a submitted prompt (\<open>chat_input\<close> gives no empty
  one) is answered.
\<close>

definition page_b3 ::
  "string option \<Rightarrow> string option \<Rightarrow> (rcall list \<times> run_outcome \<times> string \<times> string \<times> string) option \<Rightarrow> unit act" where
  "page_b3 ep md prompt =
     act_seq (act_sess (\<lambda>s. s\<lparr>ss_log := []\<rparr>)) (
     act_bind (act_dir history_buttons_b3) (\<lambda>buttons.
     case cli_config ep md of
       Inl _ \<Rightarrow> act_return ()
     | Inr _ \<Rightarrow>
         (case prompt of
            Some (fl, out, ts1, ts2, p) \<Rightarrow> if p = [] then act_return () else chat_b3 fl out ts1 ts2 p
          | None \<Rightarrow> act_return ())))"

text \<open>
  What starts a script run of backup 3: a plain rerun, the \<open>i\<close>-th history button (its
  callback loads that thread), the new-chat button, or a prompt.
\<close>

datatype b3_event =
    B3Load
  | B3Open nat
  | B3NewChat
  | B3Chat "rcall list" run_outcome string string string

fun run_b3 :: "string option \<Rightarrow> string option \<Rightarrow> b3_event \<Rightarrow> unit act" where
  "run_b3 ep md B3Load = page_b3 ep md None"
| "run_b3 ep md (B3Open i) =
     act_seq (act_bind (act_dir history_buttons_b3) (\<lambda>buttons.
                if i < length buttons then act_callback (\<lambda>d s. set_active_thread_b3 d s (fst (buttons ! i)))
                else act_return ()))
             (page_b3 ep md None)"
| "run_b3 ep md B3NewChat = act_seq (act_sess start_new_chat_b3) (page_b3 ep md None)"
| "run_b3 ep md (B3Chat fl out ts1 ts2 p) = page_b3 ep md (Some (fl, out, ts1, ts2, p))"

section \<open>Backup 4: helpers\<close>

text \<open>
  Backup 4's \<open>_append_memory\<close>, \<open>_print_latest_assistant\<close>, \<open>_log_run_steps\<close> and
  \<open>get_all_threads\<close> are the current app's (the last one without its comment lines).
\<close>

definition append_memory_b4 :: "memdir \<Rightarrow> string \<Rightarrow> string \<Rightarrow> string \<Rightarrow> string \<Rightarrow> string option \<Rightarrow> memdir py" where
  "append_memory_b4 = append_memory (Some 20)"

definition print_latest_assistant_b4 :: "rcall list \<Rightarrow> string \<Rightarrow> string act" where
  "print_latest_assistant_b4 = print_latest_assistant"

definition log_run_steps_b4 :: "rcall list \<Rightarrow> string \<Rightarrow> string \<Rightarrow> unit act" where
  "log_run_steps_b4 = log_run_steps"

definition get_all_threads_b4 :: "memdir \<Rightarrow> (json \<times> json) list py" where
  "get_all_threads_b4 = get_all_threads"

section \<open>Backup 4: callbacks\<close>

definition start_new_chat_b4 :: "session \<Rightarrow> session" where
  "start_new_chat_b4 s = s\<lparr>ss_messages := [], ss_selected := new_chat_label, ss_thread := None\<rparr>"

definition set_active_thread_b4 :: "memdir \<Rightarrow> session \<Rightarrow> json \<Rightarrow> session \<times> py_error option" where
  "set_active_thread_b4 = set_active_thread_b3"

text \<open>\<open>delete_thread\<close>: unlink the journal, and start a new chat when it was the active one.\<close>

definition delete_thread_b4 :: "memdir \<Rightarrow> session \<Rightarrow> json \<Rightarrow> memdir \<times> session" where
  "delete_thread_b4 d s tid =
     (let d' = unlink_memory d (memory_path_for_thread (py_str tid))
      in (d', if (case ss_thread s of Some t \<Rightarrow> t | None \<Rightarrow> JNull) = tid then start_new_chat_b4 s else s))"

text \<open>The delete button is shown when the session has a truthy thread id, bound to it.\<close>

definition delete_callback_b4 :: "unit act" where
  "delete_callback_b4 w =
     (case ss_thread (w_sess w) of
        Some t \<Rightarrow>
          if py_truthy t then (case delete_thread_b4 (w_dir w) (w_sess w) t of (d, s) \<Rightarrow> (Inr (), w\<lparr>w_dir := d, w_sess := s\<rparr>))
          else (Inr (), w)
      | None \<Rightarrow> (Inr (), w))"

section \<open>Backup 4: the select box\<close>

definition placeholder_b4 :: json where
  "placeholder_b4 = JStr ''--- Select a conversation ---''"

text \<open>\<open>options.index(x)\<close>: the first position, \<open>ValueError\<close> when absent.\<close>

fun py_list_index :: "json list \<Rightarrow> json \<Rightarrow> nat py" where
  "py_list_index [] x = Inl ValueError"
| "py_list_index (y # ys) x = (if y = x then Inr 0 else py_bind (py_list_index ys x) (\<lambda>i. Inr (Suc i)))"

text \<open>Lines 166--169: the index of \<open>selected_chat\<close> among the options, \<open>0\<close> when it is not one.\<close>

definition selection_index_b4 :: "json list \<Rightarrow> json \<Rightarrow> nat" where
  "selection_index_b4 options sel = (case py_list_index options sel of Inr i \<Rightarrow> i | Inl _ \<Rightarrow> 0)"

text \<open>
  Lines 171--176: \<open>st.selectbox\<close> returns the option the user picked in the interaction
  that started this run, and otherwise the option at \<open>index\<close> (on a first render, and
  whenever a changed \<open>index\<close> makes it a new widget; when neither happens the widget
  keeps its last value, which in every run considered here is that same option).
\<close>

definition selectbox_b4 :: "json list \<Rightarrow> nat \<Rightarrow> json option \<Rightarrow> json" where
  "selectbox_b4 options idx pick =
     (case pick of Some c \<Rightarrow> if c \<in> set options then c else options ! idx | None \<Rightarrow> options ! idx)"

text \<open>
  Lines 157--187: the history column. A changed selection is stored, then either starts
  a new chat (the placeholder) or loads the first thread with that label, and the
  script ends in \<open>st.rerun()\<close>; the value is whether it did.
\<close>

definition history_b4 :: "json option \<Rightarrow> bool act" where
  "history_b4 pick =
     act_bind (act_dir get_all_threads_b4) (\<lambda>saved w.
       (let options = placeholder_b4 # map snd saved;
            selected = selectbox_b4 options (selection_index_b4 options (ss_selected (w_sess w))) pick
        in if py_truthy selected \<and> selected \<noteq> ss_selected (w_sess w) then
             act_seq (act_sess (\<lambda>s. s\<lparr>ss_selected := selected\<rparr>)) (
             act_seq (if selected = placeholder_b4 then act_sess start_new_chat_b4
                      else act_bind (act_lift (find_label saved selected)) (\<lambda>tid.
                             act_callback (\<lambda>d s. set_active_thread_b4 d s tid))) (
             act_return True)) w
           else (Inr False, w)))"

section \<open>Backup 4: the chat turn and the page\<close>

text \<open>
  Lines 218--222 and 224--269: thread creation and the agent interaction are, call for
  call and log line for log line, the current app's \<open>app_open_thread\<close> and
  \<open>app_run_turn\<close>.
\<close>

definition open_thread_b4 :: "rcall list \<Rightarrow> unit act" where
  "open_thread_b4 = app_open_thread"

definition run_turn_b4 ::
  "rcall list \<Rightarrow> run_outcome \<Rightarrow> string \<Rightarrow> string \<Rightarrow> string \<Rightarrow> json \<Rightarrow> unit act" where
  "run_turn_b4 = app_run_turn"

text \<open>Lines 215--272: the prompt is shown, answered, and the script reruns.\<close>

definition chat_b4 :: "rcall list \<Rightarrow> run_outcome \<Rightarrow> string \<Rightarrow> string \<Rightarrow> string \<Rightarrow> bool act" where
  "chat_b4 fl out ts1 ts2 prompt =
     act_seq (act_sess (\<lambda>s. s\<lparr>ss_messages := ss_messages s @ [(JStr ''user'', JStr prompt)]\<rparr>)) (
     act_seq (open_thread_b4 fl) (
     act_bind app_thread_id (\<lambda>thread_id.
     act_seq (run_turn_b4 fl out ts1 ts2 prompt thread_id) (
     act_return True))))"

text \<open>
  Lines 136--272, one script run: the sidebar starts empty; the history column may end
  the run in \<open>st.rerun()\<close>; otherwise the configuration is checked and a prompt answered.
\<close>

definition page_b4 ::
  "string option \<Rightarrow> string option \<Rightarrow> json option \<Rightarrow> (rcall list \<times> run_outcome \<times> string \<times> string \<times> string) option
   \<Rightarrow> bool act" where
  "page_b4 ep md pick prompt =
     act_seq (act_sess (\<lambda>s. s\<lparr>ss_log := []\<rparr>)) (
     act_bind (history_b4 pick) (\<lambda>rerun.
     if rerun then act_return True
     else case cli_config ep md of
       Inl _ \<Rightarrow> act_return False
     | Inr _ \<Rightarrow>
         (case prompt of
            Some (fl, out, ts1, ts2, p) \<Rightarrow> if p = [] then act_return False else chat_b4 fl out ts1 ts2 p
          | None \<Rightarrow> act_return False)))"

text \<open>
  What starts a script run of backup 4: a plain (re)run, a pick in the select box, the
  new-chat or delete button (their callbacks run first), or a prompt.
\<close>

datatype b4_event =
    B4Load
  | B4Pick json
  | B4NewChat
  | B4Delete
  | B4Chat "rcall list" run_outcome string string string

fun run_b4 :: "string option \<Rightarrow> string option \<Rightarrow> b4_event \<Rightarrow> bool act" where
  "run_b4 ep md B4Load = page_b4 ep md None None"
| "run_b4 ep md (B4Pick c) = page_b4 ep md (Some c) None"
| "run_b4 ep md B4NewChat = act_seq (act_sess start_new_chat_b4) (page_b4 ep md None None)"
| "run_b4 ep md B4Delete = act_seq delete_callback_b4 (page_b4 ep md None None)"
| "run_b4 ep md (B4Chat fl out ts1 ts2 p) = page_b4 ep md None (Some (fl, out, ts1, ts2, p))"

text \<open>
  \<open>st.rerun()\<close> starts the script again with no interaction; \<open>settle_b4 n\<close> allows \<open>n\<close>
  script runs and gives the world once a run ends without rerunning (normally or by an
  exception), \<open>None\<close> when the page is still rerunning.
\<close>

fun settle_b4 :: "nat \<Rightarrow> string option \<Rightarrow> string option \<Rightarrow> b4_event \<Rightarrow> world \<Rightarrow> world option" where
  "settle_b4 0 ep md ev w = None"
| "settle_b4 (Suc n) ep md ev w =
     (case run_b4 ep md ev w of
        (Inr True, w') \<Rightarrow> settle_b4 n ep md B4Load w'
      | (_, w') \<Rightarrow> Some w')"


section \<open>Proof notions\<close>

text \<open>\<open>passive_b4\<close>: the interactions that pick nothing and delete nothing.\<close>

fun passive_b4 :: "b4_event \<Rightarrow> bool" where
  "passive_b4 B4Load \<longleftrightarrow> True"
| "passive_b4 B4NewChat \<longleftrightarrow> True"
| "passive_b4 (B4Chat fl out ts1 ts2 p) \<longleftrightarrow> True"
| "passive_b4 (B4Pick c) \<longleftrightarrow> False"
| "passive_b4 B4Delete \<longleftrightarrow> False"

section \<open>Lemmas: the select box\<close>

lemma py_list_index_notin: "x \<notin> set ys \<Longrightarrow> py_list_index ys x = Inl ValueError"
  by (induction ys) auto

lemma py_list_index_mem: "x \<in> set ys \<Longrightarrow> \<exists>i. py_list_index ys x = Inr i \<and> i < length ys \<and> ys ! i = x"
proof (induction ys)
  case (Cons y ys)
  show ?case
  proof (cases "y = x")
    case False
    with Cons obtain i where "py_list_index ys x = Inr i" "i < length ys" "ys ! i = x" by auto
    with False show ?thesis by (intro exI [of _ "Suc i"]) simp
  qed simp
qed simp

lemma selection_index_mem:
  "x \<in> set ys \<Longrightarrow> selection_index_b4 ys x < length ys \<and> ys ! selection_index_b4 ys x = x"
  using py_list_index_mem [of x ys] by (auto simp: selection_index_b4_def)

lemma labels_differ: "placeholder_b4 \<noteq> new_chat_label" and truthy_placeholder: "py_truthy placeholder_b4"
  by (simp_all add: placeholder_b4_def new_chat_label_def)

lemma set_active_thread_b3_loads:
  assumes "journal_of_json (load_memory d (memory_path_for_thread t)) = Some j"
  shows "set_active_thread_b3 d s (JStr t) =
    (s\<lparr>ss_thread := Some (JStr t), ss_messages := map (\<lambda>e. (JStr (e_role e), JStr (e_text e))) (j_messages j)\<rparr>, None)"
proof -
  from journal_fields [OF assms] obtain ms where
    g: "py_get (load_memory d (memory_path_for_thread t)) ''messages'' (JList []) = Inr (JList ms)" and
    es: "those (map entry_of_json ms) = Some (j_messages j)" by blast
  show ?thesis using g py_map_chat_messages [OF es] by (simp add: set_active_thread_b3_def)
qed

section \<open>Lemmas: the rerun loop\<close>

text \<open>In a session whose selection is the new-chat label, the history column always reruns.\<close>

lemma history_b4_fresh:
  assumes "get_all_threads (w_dir w) = Inr saved" and "new_chat_label \<notin> snd ` set saved"
    and "ss_selected (w_sess w) = new_chat_label"
  shows "history_b4 None w = (Inr True, w\<lparr>w_sess := start_new_chat_b4 ((w_sess w)\<lparr>ss_selected := placeholder_b4\<rparr>)\<rparr>)"
proof -
  have "new_chat_label \<notin> set (placeholder_b4 # map snd saved)" using assms(2) labels_differ by auto
  then have "selection_index_b4 (placeholder_b4 # map snd saved) new_chat_label = 0"
    by (simp add: selection_index_b4_def py_list_index_notin)
  then show ?thesis using assms labels_differ truthy_placeholder
    by (simp add: history_b4_def get_all_threads_b4_def selectbox_b4_def act_simps act_dir_def)
qed

lemma run_b4_fresh:
  assumes "get_all_threads (w_dir w) = Inr saved" and "new_chat_label \<notin> snd ` set saved"
    and "ss_selected (w_sess w) = new_chat_label" and "passive_b4 ev"
  shows "\<exists>w'. run_b4 ep md ev w = (Inr True, w') \<and> w_dir w' = w_dir w \<and> ss_selected (w_sess w') = new_chat_label"
proof -
  have page: "\<exists>w'. page_b4 ep md None prompt w = (Inr True, w') \<and> w_dir w' = w_dir w \<and>
      ss_selected (w_sess w') = new_chat_label"
    if "get_all_threads (w_dir w) = Inr saved" and "ss_selected (w_sess w) = new_chat_label" for w prompt
    using history_b4_fresh [of "w\<lparr>w_sess := (w_sess w)\<lparr>ss_log := []\<rparr>\<rparr>" saved] that assms(2)
    by (simp add: page_b4_def act_simps start_new_chat_b4_def)
  from assms(4) show ?thesis
  proof (cases ev)
    case B4NewChat
    then show ?thesis
      using page [of "w\<lparr>w_sess := start_new_chat_b4 (w_sess w)\<rparr>" None] assms(1)
      by (simp add: act_simps start_new_chat_b4_def)
  qed (use page assms in auto)
qed

text \<open>After a pick, the selection is an option: the history column lets the run go on.\<close>

lemma history_b4_settled:
  assumes "get_all_threads (w_dir w) = Inr saved" and "ss_selected (w_sess w) \<in> snd ` set saved"
  shows "history_b4 None w = (Inr False, w)"
proof -
  let ?opts = "placeholder_b4 # map snd saved"
  have "ss_selected (w_sess w) \<in> set ?opts" using assms(2) by auto
  from selection_index_mem [OF this] show ?thesis using assms(1)
    by (simp add: history_b4_def get_all_threads_b4_def selectbox_b4_def act_simps act_dir_def)
qed

lemma page_b4_settled:
  assumes "get_all_threads (w_dir w) = Inr saved" and "ss_selected (w_sess w) \<in> snd ` set saved"
  shows "page_b4 ep md None None w = (Inr False, w\<lparr>w_sess := (w_sess w)\<lparr>ss_log := []\<rparr>\<rparr>)"
  using history_b4_settled [of "w\<lparr>w_sess := (w_sess w)\<lparr>ss_log := []\<rparr>\<rparr>" saved] assms
  by (simp add: page_b4_def act_simps split: sum.split)

lemma history_b4_pick:
  assumes r: "mem_reach (w_dir w)" and ts: "get_all_threads (w_dir w) = Inr saved" and x: "X \<in> snd ` set saved"
    and "X \<noteq> placeholder_b4" and "py_truthy X" and "X \<noteq> ss_selected (w_sess w)"
  shows "\<exists>t. history_b4 (Some X) w = (Inr True, w\<lparr>w_sess := fst (set_active_thread_b4 (w_dir w)
            ((w_sess w)\<lparr>ss_selected := X\<rparr>) (JStr t))\<rparr>) \<and> (JStr t, X) \<in> set saved \<and>
            snd (set_active_thread_b4 (w_dir w) ((w_sess w)\<lparr>ss_selected := X\<rparr>) (JStr t)) = None"
proof -
  from find_label_listed [OF r ts x] obtain t j where f: "find_label saved X = Inr (JStr t)"
    and m: "(JStr t, X) \<in> set saved" and j: "journal_of_json (load_memory (w_dir w) (memory_path_for_thread t)) = Some j"
    by blast
  have "X \<in> set (placeholder_b4 # map snd saved)" using x by auto
  then show ?thesis using assms f m set_active_thread_b3_loads [OF j]
    by (intro exI [of _ t]) (simp add: history_b4_def get_all_threads_b4_def selectbox_b4_def act_simps act_dir_def
      act_callback_def set_active_thread_b4_def)
qed

section \<open>Lemmas: what the script runs do to the journal directory\<close>

lemma keeps_callback [keeps_intros]: "act_keeps P (act_callback f)"
  by (simp add: act_keeps_def act_callback_def split: prod.split option.split)

lemma keeps_delete_callback_b4 [keeps_intros]: "act_keeps mem_reach delete_callback_b4"
  by (auto simp: act_keeps_def delete_callback_b4_def delete_thread_b4_def Let_def intro: mem_reach.unlink
      split: option.split)

lemma keeps_append_reach [keeps_intros]: "act_keeps mem_reach (act_mem (\<lambda>d. append_memory keep d p ts r b m))"
  by (rule keeps_mem) (rule mem_reach.append)

lemma keeps_open_thread_b3 [keeps_intros]: "act_keeps P (open_thread_b3 fl)"
proof -
  have "act_keeps P (act_seq (act_log (LInfo ''No thread found. Creating a new thread...'')) (
          act_bind (act_remote (svc_create_thread fl)) (\<lambda>t.
          act_seq (act_sess (\<lambda>s. s\<lparr>ss_thread := Some (JStr t)\<rparr>)) (
          act_log (LSuccess (''New thread created: `'' @ t @ ''`''))))))"
    by (intro keeps_intros)
  then show ?thesis by (auto simp: act_keeps_def open_thread_b3_def split: option.splits)
qed

lemma keeps_thread_id_b3 [keeps_intros]: "act_keeps P thread_id_b3"
  by (simp add: act_keeps_def thread_id_b3_def)

lemma keeps_chat_b3: "act_keeps mem_reach (chat_b3 fl out ts1 ts2 p)"
  unfolding chat_b3_def run_turn_b3_def reply_b3_def append_memory_b3_def print_latest_assistant_b3_def
    log_run_steps_b3_def log_run_steps_def app_delete_agent_def Let_def
  by (intro keeps_intros)

lemma keeps_page_b3: "act_keeps mem_reach (page_b3 ep md prompt)"
  unfolding page_b3_def
  by (intro keeps_intros) (simp add: keeps_intros keeps_chat_b3 split: sum.split option.split prod.split)

lemma keeps_run_b3: "act_keeps mem_reach (run_b3 ep md ev)"
  by (cases ev) (simp_all add: keeps_page_b3 keeps_intros)

lemma history_b4_dir: "w_dir (snd (history_b4 pick w)) = w_dir w"
  by (auto simp: history_b4_def act_simps act_dir_def act_callback_def Let_def
      split: sum.split prod.split option.split)

lemma keeps_history_b4 [keeps_intros]: "act_keeps P (history_b4 pick)"
  by (simp add: act_keeps_def history_b4_dir)

lemma keeps_chat_b4: "act_keeps mem_reach (chat_b4 fl out ts1 ts2 p)"
  unfolding chat_b4_def open_thread_b4_def run_turn_b4_def app_run_turn_def app_reply_def log_run_steps_def
    app_delete_agent_def Let_def
  by (intro keeps_intros)

lemma keeps_page_b4: "act_keeps mem_reach (page_b4 ep md pick prompt)"
  unfolding page_b4_def
  by (intro keeps_intros) (simp add: keeps_intros keeps_chat_b4 split: sum.split option.split prod.split)

lemma keeps_run_b4: "act_keeps mem_reach (run_b4 ep md ev)"
  by (cases ev) (simp_all add: keeps_page_b4 keeps_intros)

lemma settle_b4_reach:
  "mem_reach (w_dir w) \<Longrightarrow> settle_b4 n ep md ev w = Some w' \<Longrightarrow> mem_reach (w_dir w')"
proof (induction n arbitrary: w ev)
  case (Suc n)
  obtain r w1 where run: "run_b4 ep md ev w = (r, w1)" by fastforce
  have "mem_reach (w_dir w1)" using keeps_run_b4 [of ep md ev] Suc.prems(1) run
    unfolding act_keeps_def by (metis snd_conv)
  with Suc run show ?case by (auto split: sum.splits bool.splits)
qed simp

section \<open>Properties of backup 4\<close>

text \<open>
  C39. Backup 4 reruns forever in a session whose \<open>selected_chat\<close> is the new-chat label
  (every fresh session, and every session after \<open>New Chat\<close>), unless a saved
  conversation's label is that very text: that label is never among the select box's
  options, so each run selects the placeholder, which differs from it, stores it, calls
  \<open>start_new_chat\<close> (which puts the new-chat label back) and \<open>st.rerun()\<close>. No amount of
  fuel lets a plain rerun, the new-chat button or a prompt settle, and a prompt is never
  answered.
\<close>

theorem b4_fresh_session_never_settles:
  assumes "get_all_threads (w_dir w) = Inr saved" and "new_chat_label \<notin> snd ` set saved"
    and "ss_selected (w_sess w) = new_chat_label" and "passive_b4 ev"
  shows "settle_b4 n ep md ev w = None"
  using assms
proof (induction n arbitrary: w ev)
  case (Suc n)
  from run_b4_fresh [OF Suc.prems] obtain w' where
    r: "run_b4 ep md ev w = (Inr True, w')" and "w_dir w' = w_dir w" "ss_selected (w_sess w') = new_chat_label"
    by blast
  with Suc.prems Suc.IH [of w' B4Load] show ?case by simp
qed simp

theorem b4_fresh_session_never_settles_witness:
  "settle_b4 5 (Some ''e'') (Some ''m'')
     (B4Chat [] \<lparr>ro_status = ''completed'', ro_error = JNull, ro_replies = [], ro_steps = []\<rparr> ''T1'' ''T2'' ''hi'')
     \<lparr>w_dir = [], w_svc = \<lparr>sv_threads = [], sv_agents = [], sv_steps = [], sv_next = 0\<rparr>, w_sess = session_init\<rparr> = None"
  by (rule b4_fresh_session_never_settles [of _ "[]"])
    (simp_all add: get_all_threads_def memory_files_def session_init_def)

text \<open>
  C40. In a reachable directory, picking in backup 4's select box a listed conversation
  label (non-empty, not the placeholder, not the current selection) settles after one
  rerun: the session then has the label selected and the first thread listed under it
  active, and the directory is unchanged.
\<close>

theorem b4_pick_settles:
  assumes "mem_reach (w_dir w)" and "get_all_threads (w_dir w) = Inr saved" and "X \<in> snd ` set saved"
    and "X \<noteq> placeholder_b4" and "py_truthy X" and "X \<noteq> ss_selected (w_sess w)"
  shows "\<exists>w' tid. settle_b4 2 ep md (B4Pick X) w = Some w' \<and> w_dir w' = w_dir w \<and>
    ss_selected (w_sess w') = X \<and> ss_thread (w_sess w') = Some tid \<and> (tid, X) \<in> set saved"
proof -
  let ?w0 = "w\<lparr>w_sess := (w_sess w)\<lparr>ss_log := []\<rparr>\<rparr>"
  from history_b4_pick [of ?w0 saved X] assms obtain t where
    h: "history_b4 (Some X) ?w0 = (Inr True, ?w0\<lparr>w_sess := fst (set_active_thread_b4 (w_dir w)
            ((w_sess ?w0)\<lparr>ss_selected := X\<rparr>) (JStr t))\<rparr>)" and m: "(JStr t, X) \<in> set saved"
    by auto
  define w1 where "w1 = ?w0\<lparr>w_sess := fst (set_active_thread_b4 (w_dir w) ((w_sess ?w0)\<lparr>ss_selected := X\<rparr>) (JStr t))\<rparr>"
  have run1: "run_b4 ep md (B4Pick X) w = (Inr True, w1)"
    using h by (simp add: page_b4_def act_simps w1_def)
  have sel: "ss_selected (w_sess w1) = X" and th: "ss_thread (w_sess w1) = Some (JStr t)" and d: "w_dir w1 = w_dir w"
    by (simp_all add: w1_def set_active_thread_b4_def set_active_thread_b3_def Let_def split: sum.split)
  have run2: "run_b4 ep md B4Load w1 = (Inr False, w1\<lparr>w_sess := (w_sess w1)\<lparr>ss_log := []\<rparr>\<rparr>)"
    using page_b4_settled [of w1 saved ep md] assms(2,3) sel d by simp
  show ?thesis
    using run1 run2 sel th d m by (intro exI [of _ "w1\<lparr>w_sess := (w_sess w1)\<lparr>ss_log := []\<rparr>\<rparr>"] exI [of _ "JStr t"])
      (simp add: numeral_2_eq_2)
qed

theorem b4_pick_settles_witness:
  "\<exists>w'. settle_b4 2 (Some ''e'') (Some ''m'') (B4Pick (JStr ''hi''))
      \<lparr>w_dir = [(memory_path_for_thread ''thread_0'', FJson (JDict [(''thread_id'', JStr ''thread_0''),
                  (''messages'', JList [mem_entry ''T1'' ''user'' ''hi'' None])]))],
       w_svc = \<lparr>sv_threads = [], sv_agents = [], sv_steps = [], sv_next = 0\<rparr>, w_sess = session_init\<rparr> = Some w' \<and>
    ss_selected (w_sess w') = JStr ''hi'' \<and> ss_thread (w_sess w') = Some (JStr ''thread_0'')"
proof -
  let ?d = "[(memory_path_for_thread ''thread_0'', FJson (JDict [(''thread_id'', JStr ''thread_0''),
                  (''messages'', JList [mem_entry ''T1'' ''user'' ''hi'' None])]))]"
  have r: "mem_reach ?d" using mem_reach_new_thread [OF mem_reach.start, of "''thread_0''"] by simp
  have g: "get_all_threads ?d = Inr [(JStr ''thread_0'', JStr ''hi'')]"
    using glob_memory_path [of "''thread_0''"]
    by (simp add: get_all_threads_def memory_files_def memory_path_for_thread_def
        load_memory_def mem_entry_def first_user_text_def dict_store_def)
  show ?thesis
    using b4_pick_settles [of "\<lparr>w_dir = ?d, w_svc = \<lparr>sv_threads = [], sv_agents = [], sv_steps = [], sv_next = 0\<rparr>,
        w_sess = session_init\<rparr>" "[(JStr ''thread_0'', JStr ''hi'')]" "JStr ''hi''" "Some ''e''" "Some ''m''"] r g
    by (auto simp: placeholder_b4_def session_init_def new_chat_label_def)
qed


end
