(* ===== verification/Trace.thy ===== *)
theory Trace
  imports Turn
begin

text \<open>
  The run-step trace of \<open>_log_run_steps\<close> (src/streamlit_mcpclientapp.py) as an
  information flow.  Spec section 4.3 step 5 makes the trace a transient display: it is
  written to the log pane and nowhere else.  The theory states this as noninterference.
  Two worlds are related (\<open>world_sim\<close>) when they agree on the journal directory, the
  chat pane, the selected thread and the service's threads, agents and id counter, and
  their stored step lists agree up to well-formed traces (\<open>steps_ok\<close>); the log pane is
  unconstrained.  \<open>act_sim\<close> says two actions map related worlds to the same result and
  related worlds; the rules of the collection \<open>sim_intros\<close> lift it through the action
  combinators of Session and Turn, so that the whole chat turn is related to itself for
  any two well-formed traces (C10).  The last part states what happens when the trace is
  not well formed: the turn raises after the prompt is journalled and before the reply
  and the agent deletion (C12).
\<close>

section \<open>Observational equivalence of worlds\<close>

text \<open>A trace that the loop of \<open>_log_run_steps\<close> walks through without raising.\<close>

definition steps_ok :: "rstep list \<Rightarrow> bool" where
  "steps_ok st \<longleftrightarrow> (case py_map step_details st of Inr _ \<Rightarrow> True | Inl _ \<Rightarrow> False)"

definition step_rel :: "string \<times> rstep list \<Rightarrow> string \<times> rstep list \<Rightarrow> bool" where
  "step_rel a b \<longleftrightarrow> fst a = fst b \<and> (snd a = snd b \<or> steps_ok (snd a) \<and> steps_ok (snd b))"

definition svc_sim :: "svc \<Rightarrow> svc \<Rightarrow> bool" where
  "svc_sim sv1 sv2 \<longleftrightarrow> sv_threads sv1 = sv_threads sv2 \<and> sv_agents sv1 = sv_agents sv2 \<and>
     sv_next sv1 = sv_next sv2 \<and> list_all2 step_rel (sv_steps sv1) (sv_steps sv2)"

definition sess_sim :: "session \<Rightarrow> session \<Rightarrow> bool" where
  "sess_sim s1 s2 \<longleftrightarrow> ss_messages s1 = ss_messages s2 \<and> ss_selected s1 = ss_selected s2 \<and> ss_thread s1 = ss_thread s2"

definition world_sim :: "world \<Rightarrow> world \<Rightarrow> bool" where
  "world_sim w1 w2 \<longleftrightarrow> w_dir w1 = w_dir w2 \<and> sess_sim (w_sess w1) (w_sess w2) \<and> svc_sim (w_svc w1) (w_svc w2)"

definition remote_sim :: "('a \<times> svc) py \<Rightarrow> ('a \<times> svc) py \<Rightarrow> bool" where
  "remote_sim r1 r2 \<longleftrightarrow>
     (case (r1, r2) of
        (Inl e1, Inl e2) \<Rightarrow> e1 = e2
      | (Inr (x1, s1), Inr (x2, s2)) \<Rightarrow> x1 = x2 \<and> svc_sim s1 s2
      | _ \<Rightarrow> False)"

definition act_sim :: "'a act \<Rightarrow> 'a act \<Rightarrow> bool" where
  "act_sim m1 m2 \<longleftrightarrow>
     (\<forall>w1 w2. world_sim w1 w2 \<longrightarrow> fst (m1 w1) = fst (m2 w2) \<and> world_sim (snd (m1 w1)) (snd (m2 w2)))"

definition out_sim :: "run_outcome \<Rightarrow> run_outcome \<Rightarrow> bool" where
  "out_sim o1 o2 \<longleftrightarrow> ro_status o1 = ro_status o2 \<and> ro_error o1 = ro_error o2 \<and> ro_replies o1 = ro_replies o2 \<and>
     (ro_steps o1 = ro_steps o2 \<or> steps_ok (ro_steps o1) \<and> steps_ok (ro_steps o2))"

section \<open>Simulation rules for the action combinators\<close>

lemma world_sim_refl: "world_sim w w"
  by (simp add: world_sim_def sess_sim_def svc_sim_def step_rel_def list.rel_refl)

lemma sim_return [sim_intros]: "act_sim (act_return x) (act_return x)"
  and sim_log [sim_intros]: "act_sim (act_log l1) (act_log l2)"
  and sim_lift [sim_intros]: "act_sim (act_lift r) (act_lift r)"
  and sim_thread_id [sim_intros]: "act_sim app_thread_id app_thread_id"
  by (auto simp: act_sim_def act_simps world_sim_def sess_sim_def app_thread_id_def)

lemma sim_query [sim_intros]:
  "(\<And>sv1 sv2. svc_sim sv1 sv2 \<Longrightarrow> f1 sv1 = f2 sv2) \<Longrightarrow> act_sim (act_query f1) (act_query f2)"
  by (simp add: act_sim_def act_query_def world_sim_def)

lemma sim_remote [sim_intros]:
  "(\<And>sv1 sv2. svc_sim sv1 sv2 \<Longrightarrow> remote_sim (f1 sv1) (f2 sv2)) \<Longrightarrow> act_sim (act_remote f1) (act_remote f2)"
  unfolding act_sim_def
proof (intro allI impI)
  fix w1 w2 :: world
  assume f: "\<And>sv1 sv2. svc_sim sv1 sv2 \<Longrightarrow> remote_sim (f1 sv1) (f2 sv2)" and w: "world_sim w1 w2"
  then have "remote_sim (f1 (w_svc w1)) (f2 (w_svc w2))" by (simp add: world_sim_def)
  with w show "fst (act_remote f1 w1) = fst (act_remote f2 w2) \<and>
      world_sim (snd (act_remote f1 w1)) (snd (act_remote f2 w2))"
    by (auto simp: remote_sim_def act_remote_def world_sim_def split: sum.splits prod.splits)
qed

lemma sim_mem [sim_intros]: "act_sim (act_mem f) (act_mem f)"
  by (auto simp: act_sim_def act_mem_def world_sim_def split: sum.splits)

lemma sim_sess [sim_intros]:
  "(\<And>s1 s2. sess_sim s1 s2 \<Longrightarrow> sess_sim (f s1) (f s2)) \<Longrightarrow> act_sim (act_sess f) (act_sess f)"
  by (simp add: act_sim_def act_sess_def world_sim_def)

lemma sim_bind [sim_intros]:
  assumes m: "act_sim m1 m2" and f: "\<And>x. act_sim (f1 x) (f2 x)"
  shows "act_sim (act_bind m1 f1) (act_bind m2 f2)"
  unfolding act_sim_def
proof (intro allI impI)
  fix w1 w2 :: world assume w: "world_sim w1 w2"
  obtain r v1 where m1w: "m1 w1 = (r, v1)" by fastforce
  obtain r2 v2 where m2w: "m2 w2 = (r2, v2)" by fastforce
  from m w m1w m2w have r2: "r2 = r" and v: "world_sim v1 v2" unfolding act_sim_def by (metis fst_conv snd_conv)+
  show "fst (act_bind m1 f1 w1) = fst (act_bind m2 f2 w2) \<and> world_sim (snd (act_bind m1 f1 w1)) (snd (act_bind m2 f2 w2))"
  proof (cases r)
    case (Inr x)
    from f [of x] v have "fst (f1 x v1) = fst (f2 x v2) \<and> world_sim (snd (f1 x v1)) (snd (f2 x v2))"
      unfolding act_sim_def by blast
    with Inr m1w m2w r2 show ?thesis by (simp add: act_bind_def)
  qed (use m1w m2w r2 v in \<open>simp add: act_bind_def\<close>)
qed

lemma sim_seq [sim_intros]: "act_sim m1 m2 \<Longrightarrow> act_sim k1 k2 \<Longrightarrow> act_sim (act_seq m1 k1) (act_seq m2 k2)"
  unfolding act_seq_def by (rule sim_bind)

lemma sim_try [sim_intros]:
  assumes m: "act_sim m1 m2" and h: "\<And>e. act_sim (h1 e) (h2 e)"
  shows "act_sim (act_try m1 h1) (act_try m2 h2)"
  unfolding act_sim_def
proof (intro allI impI)
  fix w1 w2 :: world assume w: "world_sim w1 w2"
  obtain r v1 where m1w: "m1 w1 = (r, v1)" by fastforce
  obtain r2 v2 where m2w: "m2 w2 = (r2, v2)" by fastforce
  from m w m1w m2w have r2: "r2 = r" and v: "world_sim v1 v2" unfolding act_sim_def by (metis fst_conv snd_conv)+
  show "fst (act_try m1 h1 w1) = fst (act_try m2 h2 w2) \<and> world_sim (snd (act_try m1 h1 w1)) (snd (act_try m2 h2 w2))"
  proof (cases r)
    case (Inl e)
    from h [of e] v have "fst (h1 e v1) = fst (h2 e v2) \<and> world_sim (snd (h1 e v1)) (snd (h2 e v2))"
      unfolding act_sim_def by blast
    with Inl m1w m2w r2 show ?thesis by (simp add: act_try_def)
  qed (use m1w m2w r2 v in \<open>simp add: act_try_def\<close>)
qed

lemma sim_if [sim_intros]: "act_sim a1 a2 \<Longrightarrow> act_sim b1 b2 \<Longrightarrow> act_sim (if c then a1 else b1) (if c then a2 else b2)"
  by simp

lemma sess_sim_refl [simp]: "sess_sim s s"
  by (simp add: sess_sim_def)

lemma svc_sim_remote [sim_intros]:
  "svc_sim sv1 sv2 \<Longrightarrow> remote_sim (svc_create_thread fl sv1) (svc_create_thread fl sv2)"
  "svc_sim sv1 sv2 \<Longrightarrow> remote_sim (svc_create_agent fl sv1) (svc_create_agent fl sv2)"
  "svc_sim sv1 sv2 \<Longrightarrow> remote_sim (svc_create_message fl sv1 tid r c) (svc_create_message fl sv2 tid r c)"
  "svc_sim sv1 sv2 \<Longrightarrow> remote_sim (py_bind (svc_delete_agent fl sv1 aid) (\<lambda>sv'. Inr ((), sv')))
                                      (py_bind (svc_delete_agent fl sv2 aid) (\<lambda>sv'. Inr ((), sv')))"
  by (auto simp: remote_sim_def svc_sim_def svc_create_thread_def svc_create_agent_def svc_create_message_def
      svc_delete_agent_def fresh_id_def Let_def py_bind_def split: option.splits)

lemma svc_sim_run [sim_intros]:
  "svc_sim sv1 sv2 \<Longrightarrow> out_sim o1 o2 \<Longrightarrow> remote_sim (svc_run fl sv1 tid aid o1) (svc_run fl sv2 tid aid o2)"
  by (auto simp: remote_sim_def svc_sim_def svc_run_def out_sim_def fresh_id_def step_rel_def Let_def
      list_all2_appendI split: option.splits)

lemma svc_sim_list_messages [sim_intros]:
  "svc_sim sv1 sv2 \<Longrightarrow> svc_list_messages fl sv1 tid = svc_list_messages fl sv2 tid"
  by (simp add: svc_sim_def svc_list_messages_def)

lemma map_of_step_rel:
  "list_all2 step_rel xs ys \<Longrightarrow>
   (case (map_of xs k, map_of ys k) of (None, None) \<Rightarrow> True
      | (Some a, Some b) \<Rightarrow> a = b \<or> steps_ok a \<and> steps_ok b | _ \<Rightarrow> False)"
  by (induction rule: list_all2_induct) (auto simp: step_rel_def split: option.splits)

text \<open>The one place where the steps are read: both runs log a trace, or the same failure.\<close>

lemma sim_log_run_steps [sim_intros]: "act_sim (log_run_steps fl tid rid) (log_run_steps fl tid rid)"
  unfolding act_sim_def
proof (intro allI impI)
  fix w1 w2 :: world assume w: "world_sim w1 w2"
  then have l: "list_all2 step_rel (sv_steps (w_svc w1)) (sv_steps (w_svc w2))" by (simp add: world_sim_def svc_sim_def)
  from map_of_step_rel [OF l, of rid] w
  show "fst (log_run_steps fl tid rid w1) = fst (log_run_steps fl tid rid w2) \<and>
      world_sim (snd (log_run_steps fl tid rid w1)) (snd (log_run_steps fl tid rid w2))"
    by (auto simp: log_run_steps_def act_simps svc_list_steps_def world_sim_def sess_sim_def steps_ok_def
        split: option.splits sum.splits)
qed

lemma sim_print_latest [sim_intros]: "act_sim (print_latest_assistant fl tid) (print_latest_assistant fl tid)"
  unfolding print_latest_assistant_def
  by (intro sim_intros) (simp_all add: svc_sim_list_messages split: option.split add: sim_intros)

lemma sim_open_thread [sim_intros]: "act_sim (app_open_thread fl) (app_open_thread fl)"
proof -
  have m: "act_sim (act_seq (act_log (LInfo ''Creating a new thread...'')) (
          act_bind (act_remote (svc_create_thread fl)) (\<lambda>t.
          act_seq (act_sess (\<lambda>s. s\<lparr>ss_thread := Some (JStr t)\<rparr>)) (
          act_log (LSuccess (''New thread: `'' @ t @ ''`''))))))
        (act_seq (act_log (LInfo ''Creating a new thread...'')) (
          act_bind (act_remote (svc_create_thread fl)) (\<lambda>t.
          act_seq (act_sess (\<lambda>s. s\<lparr>ss_thread := Some (JStr t)\<rparr>)) (
          act_log (LSuccess (''New thread: `'' @ t @ ''`''))))))"
    by (intro sim_intros) (simp_all add: sess_sim_def)
  show ?thesis unfolding act_sim_def
  proof (intro allI impI)
    fix w1 w2 :: world assume w: "world_sim w1 w2"
    then have "ss_thread (w_sess w1) = ss_thread (w_sess w2)" by (simp add: world_sim_def sess_sim_def)
    with w m show "fst (app_open_thread fl w1) = fst (app_open_thread fl w2) \<and>
        world_sim (snd (app_open_thread fl w1)) (snd (app_open_thread fl w2))"
      by (auto simp: app_open_thread_def act_sim_def split: option.splits)
  qed
qed

section \<open>The chat turn\<close>

lemma sim_chat_turn:
  "out_sim o1 o2 \<Longrightarrow> act_sim (app_chat_turn fl o1 ts1 ts2 prompt) (app_chat_turn fl o2 ts1 ts2 prompt)"
  unfolding app_chat_turn_def app_begin_turn_def app_run_turn_def app_reply_def app_delete_agent_def Let_def
  by (intro sim_intros) (simp_all add: sess_sim_def)

text \<open>
  C10. The run-step trace never reaches the journal or the chat pane: two turns whose runs
  differ only in their (well-formed) step records give the same outcome, the same journal
  directory, the same chat messages and the same remote threads.
\<close>

theorem app_turn_trace_not_journalled:
  assumes "steps_ok (ro_steps out)" and "steps_ok st"
  shows "fst (app_chat_turn fl out ts1 ts2 prompt w) = fst (app_chat_turn fl (out\<lparr>ro_steps := st\<rparr>) ts1 ts2 prompt w) \<and>
    w_dir (snd (app_chat_turn fl out ts1 ts2 prompt w)) = w_dir (snd (app_chat_turn fl (out\<lparr>ro_steps := st\<rparr>) ts1 ts2 prompt w)) \<and>
    ss_messages (w_sess (snd (app_chat_turn fl out ts1 ts2 prompt w))) =
      ss_messages (w_sess (snd (app_chat_turn fl (out\<lparr>ro_steps := st\<rparr>) ts1 ts2 prompt w))) \<and>
    sv_threads (w_svc (snd (app_chat_turn fl out ts1 ts2 prompt w))) =
      sv_threads (w_svc (snd (app_chat_turn fl (out\<lparr>ro_steps := st\<rparr>) ts1 ts2 prompt w)))"
proof -
  have "out_sim out (out\<lparr>ro_steps := st\<rparr>)" using assms by (simp add: out_sim_def)
  from sim_chat_turn [OF this, of fl ts1 ts2 prompt] world_sim_refl [of w]
  show ?thesis by (simp add: act_sim_def world_sim_def sess_sim_def svc_sim_def)
qed

theorem app_turn_trace_not_journalled_witness:
  "steps_ok [\<lparr>rs_id = ''step_1'', rs_body = JDict [(''step_details'', JDict [(''tool_calls'',
       JList [JDict [(''id'', JStr ''call_1''), (''type'', JStr ''mcp''), (''name'', JStr ''search'')]])])]\<rparr>] \<and>
   steps_ok [] \<and>
   w_dir (snd (app_chat_turn [] \<lparr>ro_status = ''completed'', ro_error = JNull, ro_replies = [],
        ro_steps = [\<lparr>rs_id = ''step_1'', rs_body = JDict [(''step_details'', JDict [(''tool_calls'',
          JList [JDict [(''id'', JStr ''call_1''), (''type'', JStr ''mcp''), (''name'', JStr ''search'')]])])]\<rparr>]\<rparr>
        ''T1'' ''T2'' ''Hello''
        \<lparr>w_dir = [], w_svc = \<lparr>sv_threads = [], sv_agents = [], sv_steps = [], sv_next = 0\<rparr>, w_sess = session_init\<rparr>)) =
   w_dir (snd (app_chat_turn [] \<lparr>ro_status = ''completed'', ro_error = JNull, ro_replies = [], ro_steps = []\<rparr>
        ''T1'' ''T2'' ''Hello''
        \<lparr>w_dir = [], w_svc = \<lparr>sv_threads = [], sv_agents = [], sv_steps = [], sv_next = 0\<rparr>, w_sess = session_init\<rparr>))"
proof -
  let ?st = "[\<lparr>rs_id = ''step_1'', rs_body = JDict [(''step_details'', JDict [(''tool_calls'',
       JList [JDict [(''id'', JStr ''call_1''), (''type'', JStr ''mcp''), (''name'', JStr ''search'')]])])]\<rparr>]"
  have h1: "steps_ok ?st" by (simp add: steps_ok_def step_details_def call_row_def)
  have h2: "steps_ok []" by (simp add: steps_ok_def)
  let ?out = "\<lparr>ro_status = ''completed'', ro_error = JNull, ro_replies = [], ro_steps = ?st\<rparr>"
  have h1': "steps_ok (ro_steps ?out)" using h1 by simp
  from app_turn_trace_not_journalled [OF h1' h2, of "[]" "''T1''" "''T2''" "''Hello''"]
  show ?thesis using h1 h2 by simp
qed

section \<open>Malformed step records\<close>

text \<open>
  C12. A step record the trace loop cannot read (a \<open>tool_calls\<close> entry that is not
  iterable, a body without \<open>get\<close>) raises out of \<open>_log_run_steps\<close>: the turn ends with
  that error after the prompt is journalled, the reply is never journalled, and the agent
  created for the turn stays registered with the service.
\<close>

theorem app_turn_bad_trace:
  assumes d: "wf_memdir (w_dir w)" and sv: "svc_wf (w_svc w)" and th: "thread_ok w"
    and st: "ro_status out \<noteq> ''failed''" and bad: "py_map step_details (ro_steps out) = Inl e"
  shows "\<exists>t j mid a w'. app_chat_turn [] out ts1 ts2 prompt w = (Inl e, w') \<and>
    ss_thread (w_sess w') = Some (JStr t) \<and>
    journal_of_json (load_memory (w_dir w) (memory_path_for_thread t)) = Some j \<and>
    journal_of_json (load_memory (w_dir w') (memory_path_for_thread t)) =
      Some (j_append (Some 20) j \<lparr>e_ts = ts1, e_role = ''user'', e_text = prompt, e_mid = Some mid\<rparr>) \<and>
    a \<notin> set (sv_agents (w_svc w)) \<and> sv_agents (w_svc w') = sv_agents (w_svc w) @ [a]"
proof -
  from app_chat_turn_opened [OF sv th, of "[]" out ts1 ts2 prompt] obtain t ms w1 where
    turn: "app_chat_turn [] out ts1 ts2 prompt w = app_run_turn [] out ts1 ts2 prompt (JStr t) w1"
    and t1: "ss_thread (w_sess w1) = Some (JStr t)"
    and m1: "map_of (sv_threads (w_svc w1)) t = Some ms" and sv1: "svc_wf (w_svc w1)"
    and d1: "w_dir w1 = w_dir w" and ag1: "sv_agents (w_svc w1) = sv_agents (w_svc w)"
    by auto
  let ?p = "memory_path_for_thread t"
  let ?a = "fresh_id ''asst_'' (w_svc w1)"
  let ?sv2 = "(w_svc w1)\<lparr>sv_agents := sv_agents (w_svc w1) @ [?a], sv_next := Suc (sv_next (w_svc w1))\<rparr>"
  let ?mid = "fresh_id ''msg_'' ?sv2"
  let ?u = "\<lparr>rm_id = ?mid, rm_role = ''user'', rm_texts = [prompt]\<rparr>"
  let ?sv3 = "?sv2\<lparr>sv_threads := AList.update t (ms @ [?u]) (sv_threads ?sv2), sv_next := Suc (sv_next ?sv2)\<rparr>"
  have a: "?a \<notin> set (sv_agents (w_svc w1))"
    using fresh_not_in [OF sv1, of "''asst_''"] by (simp add: svc_ids_def id_prefixes_def)
  have sv2: "svc_wf ?sv2" by (rule svc_wf_next [OF sv1, of "''asst_''"]) (auto simp: svc_ids_def id_prefixes_def)
  have sv3: "svc_wf ?sv3"
    by (rule svc_wf_next [OF sv2, of "''msg_''"]) (auto simp: svc_ids_def id_prefixes_def svc_ids_update_thread m1)
  have r: "map_of (sv_steps ?sv3 @ [(fresh_id ''run_'' ?sv3, ro_steps out)]) (fresh_id ''run_'' ?sv3) = Some (ro_steps out)"
    by (rule steps_listed [OF sv3])
  from wf_memdir_load [OF d] obtain j where j: "journal_of_json (load_memory (w_dir w) ?p) = Some j" by auto
  from append_memory_step [OF j, of "Some 20" ts1 "''user''" prompt "Some ?mid"] obtain v1 where
    v1: "append_memory (Some 20) (w_dir w) ?p ts1 ''user'' prompt (Some ?mid) = Inr (write_json (w_dir w) ?p v1)"
    and j1: "journal_of_json v1 = Some (j_append (Some 20) j \<lparr>e_ts = ts1, e_role = ''user'', e_text = prompt, e_mid = Some ?mid\<rparr>)"
    by blast
  show ?thesis
    apply (rule exI [of _ t], rule exI [of _ j], rule exI [of _ ?mid], rule exI [of _ ?a])
    using j j1 m1 t1 d1 ag1 a v1 r st bad
    by (simp add: turn app_run_turn_def act_simps svc_create_agent_def svc_create_message_def svc_run_def
        app_reply_def log_run_steps_def svc_list_steps_def Let_def AList.update_conv')
qed

theorem app_turn_bad_trace_witness:
  "let w = \<lparr>w_dir = [], w_svc = \<lparr>sv_threads = [], sv_agents = [], sv_steps = [], sv_next = 0\<rparr>,
            w_sess = session_init\<rparr>;
       out = \<lparr>ro_status = ''completed'', ro_error = JNull, ro_replies = [],
              ro_steps = [\<lparr>rs_id = ''step_1'', rs_body = JDict [(''step_details'', JDict [(''tool_calls'', JInt 1)])]\<rparr>]\<rparr>
   in wf_memdir (w_dir w) \<and> svc_wf (w_svc w) \<and> thread_ok w \<and> ro_status out \<noteq> ''failed'' \<and>
      py_map step_details (ro_steps out) = Inl TypeError \<and>
      (\<exists>t j mid a w'. app_chat_turn [] out ''T1'' ''T2'' ''Hello'' w = (Inl TypeError, w') \<and>
        ss_thread (w_sess w') = Some (JStr t) \<and>
        journal_of_json (load_memory (w_dir w) (memory_path_for_thread t)) = Some j \<and>
        journal_of_json (load_memory (w_dir w') (memory_path_for_thread t)) =
          Some (j_append (Some 20) j \<lparr>e_ts = ''T1'', e_role = ''user'', e_text = ''Hello'', e_mid = Some mid\<rparr>) \<and>
        a \<notin> set (sv_agents (w_svc w)) \<and> sv_agents (w_svc w') = sv_agents (w_svc w) @ [a])"
proof -
  let ?w = "\<lparr>w_dir = [], w_svc = \<lparr>sv_threads = [], sv_agents = [], sv_steps = [], sv_next = 0\<rparr>,
            w_sess = session_init\<rparr>"
  let ?out = "\<lparr>ro_status = ''completed'', ro_error = JNull, ro_replies = [],
              ro_steps = [\<lparr>rs_id = ''step_1'', rs_body = JDict [(''step_details'', JDict [(''tool_calls'', JInt 1)])]\<rparr>]\<rparr>"
  have h1: "wf_memdir (w_dir ?w)" by (simp add: wf_memdir_def)
  have h2: "svc_wf (w_svc ?w)" by (simp add: svc_wf_def svc_ids_def)
  have h3: "thread_ok ?w" by (simp add: thread_ok_def session_init_def)
  have h4: "ro_status ?out \<noteq> ''failed''" by simp
  have h5: "py_map step_details (ro_steps ?out) = Inl TypeError" by (simp add: step_details_def)
  show ?thesis
    unfolding Let_def using h1 h2 h3 h4 h5 app_turn_bad_trace [OF h1 h2 h3 h4 h5, of "''T1''" "''T2''" "''Hello''"]
    by blast
qed

end
