(* ===== verification/Render.thy ===== *)
theory Render
  imports Trace
begin

text \<open>
  What the Streamlit app (src/streamlit_mcpclientapp.py) puts on the page at the end of
  a script run, as a tree of widgets: the sidebar with the activity log (lines 166--192),
  the chat column (lines 197 and 266--268) and the history column (lines 270--295).
  A widget records the Streamlit call and the arguments the script passes; how Streamlit
  draws them (CSS, avatars, markdown) is not modelled, and the emoji of the labels are
  left out as in the log entries.  The lemmas relate the page to the state: the chat
  pane lists the session's messages newest first, the delete button is disabled exactly
  on the new-chat placeholder, the trace appears in the sidebar only, and two worlds
  related by the simulation of Trace.thy show the same chat and history columns.
\<close>

section \<open>Widgets\<close>

datatype widget =
    WHtml string
  | WDivider
  | WHeader string
  | WSubheader string
  | WInfo string
  | WSuccess string
  | WWarning string
  | WError string
  | WWrite string
  | WText string
  | WMarkdown json
  | WExpander string bool "widget list"
  | WChatMessage json "widget list"
  | WChatInput string
  | WRadio string "json list" json
  | WButton string bool

section \<open>The sidebar: the activity log\<close>

definition newline :: char where
  "newline = CHR 0x0A"

text \<open>\<open>st.text(f"  ID: {call['id']}  Type: {call['type']}  Name: {call['name']}")\<close>, with a newline before each of Type and Name.\<close>

fun render_call :: "json \<times> json \<times> json \<Rightarrow> widget" where
  "render_call (i, ty, n) =
     WText (''  ID: '' @ py_str i @ newline # ''  Type: '' @ py_str ty @ newline # ''  Name: '' @ py_str n)"

text \<open>One step of the \<open>run_steps\<close> entry: its id, then its tool calls when there are any.\<close>

definition render_step :: "step_log \<Rightarrow> widget list" where
  "render_step st =
     WWrite (''**Step ID:** `'' @ sl_id st @ ''`'') #
     (if sl_calls st \<noteq> [] then WWrite ''**MCP Tool Calls:**'' # map render_call (sl_calls st) else [])"

text \<open>The \<open>if log_type == ...\<close> chain over the six kinds of entry.\<close>

fun render_entry :: "log_entry \<Rightarrow> widget" where
  "render_entry (LInfo c) = WInfo c"
| "render_entry (LSuccess c) = WSuccess c"
| "render_entry (LWarning c) = WWarning c"
| "render_entry (LError c) = WError c"
| "render_entry (LSubheader c) = WSubheader c"
| "render_entry (LRunSteps steps) = WExpander ''Show Details'' True (concat (map render_step steps))"

definition render_sidebar :: "session \<Rightarrow> widget list" where
  "render_sidebar s =
     [WHtml (''<h1 style='' @ CHR 0x22 # ''color: darkred;'' @ CHR 0x22 # ''>Developing Agent MCP based Apps</h1>''),
      WDivider,
      WHeader ''Agent Activity Log''] @ map render_entry (ss_log s)"

section \<open>The chat column\<close>

text \<open>\<open>for message in reversed(st.session_state.messages)\<close>: one bubble per message.\<close>

definition bubble :: "json \<times> json \<Rightarrow> widget" where
  "bubble m = WChatMessage (fst m) [WMarkdown (snd m)]"

definition render_chat :: "session \<Rightarrow> widget list" where
  "render_chat s = WChatInput ''Ask your question:'' # map bubble (rev (ss_messages s))"

text \<open>Backups 3 and 4 show the messages oldest first, above the chat input.\<close>

definition render_chat_b34 :: "session \<Rightarrow> widget list" where
  "render_chat_b34 s = map bubble (ss_messages s)"

section \<open>The history column\<close>

text \<open>
  \<open>options = [placeholder] + list(saved_threads.values())\<close>; the radio shows the
  value stored under its key \<open>selected_chat\<close>; the delete button is disabled on the
  placeholder.  \<open>get_all_threads\<close> raising ends the script run here.
\<close>

definition history_options :: "(json \<times> json) list \<Rightarrow> json list" where
  "history_options threads = new_chat_label # map snd threads"

definition render_history :: "memdir \<Rightarrow> session \<Rightarrow> widget list py" where
  "render_history d s =
     py_bind (get_all_threads d) (\<lambda>saved_threads.
       Inr [WSubheader ''Chat History'',
            WRadio ''Saved Conversations:'' (history_options saved_threads) (ss_selected s),
            WDivider,
            WButton ''New Chat'' False,
            WButton ''Delete Selected Chat'' (ss_selected s = new_chat_label)])"

text \<open>The page of a world: sidebar, chat column, history column.\<close>

definition render_page :: "world \<Rightarrow> widget list \<times> widget list \<times> widget list py" where
  "render_page w = (render_sidebar (w_sess w), render_chat (w_sess w), render_history (w_dir w) (w_sess w))"

text \<open>The texts of the \<open>st.text\<close> widgets of a widget list, expanders included.\<close>

fun texts_of :: "widget list \<Rightarrow> string list" where
  "texts_of [] = []"
| "texts_of (WText t # ws) = t # texts_of ws"
| "texts_of (WExpander _ _ inner # ws) = texts_of inner @ texts_of ws"
| "texts_of (WChatMessage _ inner # ws) = texts_of inner @ texts_of ws"
| "texts_of (_ # ws) = texts_of ws"

definition call_text :: "json \<times> json \<times> json \<Rightarrow> string" where
  "call_text c = (case c of (i, ty, n) \<Rightarrow> ''  ID: '' @ py_str i @ newline # ''  Type: '' @ py_str ty @ newline # ''  Name: '' @ py_str n)"

text \<open>The tool calls of the trace entries of a log, in order.\<close>

definition trace_calls :: "log_entry list \<Rightarrow> (json \<times> json \<times> json) list" where
  "trace_calls l = concat (map (\<lambda>e. case e of LRunSteps ds \<Rightarrow> concat (map sl_calls ds) | _ \<Rightarrow> []) l)"

section \<open>A conversation resumed from the command-line client\<close>





section \<open>Lemmas: the trace is shown in the sidebar, and only there\<close>

lemma texts_of_append [simp]: "texts_of (xs @ ys) = texts_of xs @ texts_of ys"
  by (induction xs rule: texts_of.induct) simp_all

lemma texts_of_concat: "texts_of (concat wss) = concat (map texts_of wss)"
  by (induction wss) simp_all

lemma texts_of_calls [simp]: "texts_of (map render_call cs) = map call_text cs"
  by (induction cs) (auto simp: call_text_def)

lemma texts_of_step [simp]: "texts_of (render_step st) = map call_text (sl_calls st)"
  by (simp add: render_step_def)

lemma texts_of_entry [simp]:
  "texts_of [render_entry e] = map call_text (case e of LRunSteps ds \<Rightarrow> concat (map sl_calls ds) | _ \<Rightarrow> [])"
  by (cases e) (simp_all add: texts_of_concat comp_def map_concat)

lemma texts_of_Cons: "texts_of (w # ws) = texts_of [w] @ texts_of ws"
  by (metis append_Cons append_Nil texts_of_append)

text \<open>The sidebar shows one \<open>st.text\<close> per tool call of the log's traces, in order.\<close>

lemma sidebar_texts: "texts_of (render_sidebar s) = map call_text (trace_calls (ss_log s))"
proof -
  have "texts_of (map render_entry l) = map call_text (trace_calls l)" for l
  proof (induction l)
    case (Cons e l)
    then show ?case by (subst list.map(2), subst texts_of_Cons) (simp add: trace_calls_def)
  qed (simp add: trace_calls_def)
  then show ?thesis by (simp add: render_sidebar_def)
qed

text \<open>The chat column shows no \<open>st.text\<close> at all: its bubbles hold markdown only.\<close>

lemma chat_texts: "texts_of (render_chat s) = []"
proof -
  have "texts_of (map bubble ms) = []" for ms by (induction ms) (simp_all add: bubble_def)
  then show ?thesis by (simp add: render_chat_def)
qed

section \<open>Lemmas: the chat column and the history column\<close>

text \<open>The newest message is shown first, right under the chat input.\<close>

lemma render_chat_newest_first:
  "render_chat (s\<lparr>ss_messages := ms @ [u, a]\<rparr>) =
     WChatInput ''Ask your question:'' # bubble a # bubble u # map bubble (rev ms)"
  by (simp add: render_chat_def)

lemma render_chat_b34_reversed: "tl (render_chat s) = rev (render_chat_b34 s)"
  by (simp add: render_chat_def render_chat_b34_def rev_map)


text \<open>When the delete button is disabled its callback could only do nothing.\<close>

lemma delete_disabled_noop:
  "render_history d s = Inr ws \<Longrightarrow> WButton ''Delete Selected Chat'' True \<in> set ws \<Longrightarrow>
   delete_selected_chat_callback d s = (d, s, None)"
  by (cases "get_all_threads d") (auto simp: render_history_def delete_selected_chat_callback_def)

text \<open>
  Choosing a radio option keeps the radio's value among the options, whatever the
  callback does: the label \<open>set_active_thread\<close> stores is read from the same listing.
\<close>

lemma dict_get_option:
  "dict_get ts k new_chat_label = Inr v \<Longrightarrow> v \<in> set (history_options ts)"
proof -
  assume "dict_get ts k new_chat_label = Inr v"
  then have "v = new_chat_label \<or> (k, v) \<in> set ts"
    by (auto simp: dict_get_def dest: map_of_SomeD split: if_splits option.splits)
  then show ?thesis by (force simp: history_options_def)
qed

lemma select_keeps_option:
  assumes ts: "get_all_threads d = Inr ts" and c: "c \<in> set (history_options ts)"
  shows "ss_selected (fst (select_chat d s c)) \<in> set (history_options ts)"
  using c dict_get_option [of ts]
  by (auto simp: select_chat_def handle_chat_selection_def set_active_thread_def start_new_chat_def ts
      Let_def history_options_def split: sum.splits)

section \<open>Lemmas: related worlds look the same\<close>

lemma world_sim_render:
  "world_sim w1 w2 \<Longrightarrow>
   render_chat (w_sess w1) = render_chat (w_sess w2) \<and>
   render_history (w_dir w1) (w_sess w1) = render_history (w_dir w2) (w_sess w2)"
  by (simp add: world_sim_def sess_sim_def render_chat_def render_history_def)

section \<open>Lemmas: a selection goes stale\<close>






end
