(* ===== verification/Interleave.thy ===== *)
theory Interleave
  imports Journal "HOL-Library.Multiset"
begin

text \<open>
  Concurrent writers of one journal file.  \<open>_append_memory\<close> reads the file
  (\<open>data = _load_memory(mem_path)\<close>, line 40 of src/streamlit_mcpclientapp.py), builds
  the new value in memory (lines 41--48) and dumps it over the file (lines 49--50).
  Two writers of the same thread (two browser sessions of the app, which Streamlit runs
  in threads of one server, or the app and a command-line client) can interleave these
  two phases; spec section 5 accepts that the later write wins.  A writer is what one
  call of \<open>_append_memory\<close> appends, with its own retention policy; a schedule lists
  the writers in the order their phases run, a writer's first occurrence being its read
  and the next one its write.  The abstract model runs the same schedules on journals
  (\<open>ail_run\<close>); \<open>il_run_refines\<close> shows that the file-level model implements it.
\<close>

section \<open>The two phases of \<open>_append_memory\<close>\<close>

text \<open>Lines 41--48: from the loaded value to the value dumped.\<close>

definition append_data :: "nat option \<Rightarrow> json \<Rightarrow> string \<Rightarrow> string \<Rightarrow> string \<Rightarrow> string option \<Rightarrow> json py" where
  "append_data keep data0 ts role text mid =
     py_bind (py_setdefault data0 ''messages'' (JList [])) (\<lambda>data.
     py_bind (py_getitem data ''messages'') (\<lambda>msgs.
     py_bind (py_list_append msgs (mem_entry ts role text mid)) (\<lambda>msgs'.
     py_setitem data ''messages'' (JList (trim_msgs keep msgs')))))"

record writer =
  wr_keep :: "nat option"
  wr_ts :: string
  wr_role :: string
  wr_text :: string
  wr_mid :: "string option"

definition wr_entry :: "writer \<Rightarrow> entry" where
  "wr_entry w = \<lparr>e_ts = wr_ts w, e_role = wr_role w, e_text = wr_text w, e_mid = wr_mid w\<rparr>"

section \<open>Interleaved writers on the directory\<close>

text \<open>The directory and, per writer, the value it has read and not yet written.\<close>

record ilv =
  il_dir :: memdir
  il_buf :: "nat \<Rightarrow> json option"

definition il_init :: "memdir \<Rightarrow> ilv" where
  "il_init d = \<lparr>il_dir = d, il_buf = (\<lambda>_. None)\<rparr>"

definition il_step :: "string \<Rightarrow> (nat \<Rightarrow> writer) \<Rightarrow> ilv \<Rightarrow> nat \<Rightarrow> ilv py" where
  "il_step p ws st i =
     (case il_buf st i of
        None \<Rightarrow> Inr (st\<lparr>il_buf := (il_buf st)(i := Some (load_memory (il_dir st) p))\<rparr>)
      | Some data \<Rightarrow>
          py_bind (append_data (wr_keep (ws i)) data (wr_ts (ws i)) (wr_role (ws i)) (wr_text (ws i)) (wr_mid (ws i)))
            (\<lambda>v. Inr \<lparr>il_dir = write_json (il_dir st) p v, il_buf = (il_buf st)(i := None)\<rparr>))"

fun il_run :: "string \<Rightarrow> (nat \<Rightarrow> writer) \<Rightarrow> ilv \<Rightarrow> nat list \<Rightarrow> ilv py" where
  "il_run p ws st [] = Inr st"
| "il_run p ws st (i # is) = py_bind (il_step p ws st i) (\<lambda>st'. il_run p ws st' is)"

section \<open>The abstract model: interleaved appends to a journal\<close>

record ail =
  al_j :: journal
  al_buf :: "nat \<Rightarrow> journal option"

definition ail_step :: "(nat \<Rightarrow> writer) \<Rightarrow> ail \<Rightarrow> nat \<Rightarrow> ail" where
  "ail_step ws st i =
     (case al_buf st i of
        None \<Rightarrow> st\<lparr>al_buf := (al_buf st)(i := Some (al_j st))\<rparr>
      | Some j \<Rightarrow> \<lparr>al_j = j_append (wr_keep (ws i)) j (wr_entry (ws i)), al_buf = (al_buf st)(i := None)\<rparr>)"

definition ail_run :: "(nat \<Rightarrow> writer) \<Rightarrow> ail \<Rightarrow> nat list \<Rightarrow> ail" where
  "ail_run ws = foldl (ail_step ws)"

definition ail_init :: "journal \<Rightarrow> ail" where
  "ail_init j = \<lparr>al_j = j, al_buf = (\<lambda>_. None)\<rparr>"

text \<open>The file and every pending value are well-formed journals, related to the abstract state.\<close>

definition il_rel :: "string \<Rightarrow> ilv \<Rightarrow> ail \<Rightarrow> bool" where
  "il_rel p st a \<longleftrightarrow> journal_of_json (load_memory (il_dir st) p) = Some (al_j a) \<and>
     (\<forall>i. rel_option (\<lambda>v j. journal_of_json v = Some j) (il_buf st i) (al_buf a i))"

section \<open>Lemmas\<close>

lemma append_memory_split:
  "append_memory keep d p ts role text mid =
     py_bind (append_data keep (load_memory d p) ts role text mid) (\<lambda>v. Inr (write_json d p v))"
  by (simp add: append_memory_def append_data_def py_bind_def split: sum.splits)

lemma append_data_step:
  assumes "journal_of_json data = Some j"
  shows "\<exists>v. append_data keep data ts role body mid = Inr v \<and>
    journal_of_json v = Some (j_append keep j \<lparr>e_ts = ts, e_role = role, e_text = body, e_mid = mid\<rparr>)"
proof -
  let ?d = "[(p, FJson data)] :: memdir"
  have "load_memory ?d p = data" by (simp add: load_memory_def)
  with assms append_memory_step [of ?d p j keep ts role body mid] obtain v where
    v: "append_memory keep ?d p ts role body mid = Inr (write_json ?d p v)"
    and j: "journal_of_json v = Some (j_append keep j \<lparr>e_ts = ts, e_role = role, e_text = body, e_mid = mid\<rparr>)"
    by auto
  from v \<open>load_memory ?d p = data\<close> obtain v' where
    "append_data keep data ts role body mid = Inr v'" and "write_json ?d p v' = write_json ?d p v"
    by (auto simp: append_memory_split py_bind_def split: sum.splits)
  moreover then have "v' = v" using load_write_same [of ?d p v'] by simp
  ultimately show ?thesis using j by blast
qed

lemma il_rel_init: "journal_of_json (load_memory d p) = Some j \<Longrightarrow> il_rel p (il_init d) (ail_init j)"
  by (simp add: il_rel_def il_init_def ail_init_def)

lemma il_step_refines:
  assumes r: "il_rel p st a"
  shows "\<exists>st'. il_step p ws st i = Inr st' \<and> il_rel p st' (ail_step ws a i)"
proof (cases "il_buf st i")
  case None
  have "rel_option (\<lambda>v j. journal_of_json v = Some j) (il_buf st i) (al_buf a i)"
    using r by (simp add: il_rel_def)
  with None have "al_buf a i = None" by (cases "al_buf a i") simp_all
  with None r show ?thesis by (auto simp: il_step_def ail_step_def il_rel_def)
next
  case (Some data)
  have "rel_option (\<lambda>v j. journal_of_json v = Some j) (il_buf st i) (al_buf a i)"
    using r by (simp add: il_rel_def)
  with Some obtain j where b: "al_buf a i = Some j" and dj: "journal_of_json data = Some j"
    by (cases "al_buf a i") simp_all
  from append_data_step [OF dj, of "wr_keep (ws i)" "wr_ts (ws i)" "wr_role (ws i)" "wr_text (ws i)" "wr_mid (ws i)"]
  obtain v where v: "append_data (wr_keep (ws i)) data (wr_ts (ws i)) (wr_role (ws i)) (wr_text (ws i)) (wr_mid (ws i)) = Inr v"
    and jv: "journal_of_json v = Some (j_append (wr_keep (ws i)) j (wr_entry (ws i)))"
    by (auto simp: wr_entry_def)
  show ?thesis using Some b v jv r by (auto simp: il_step_def ail_step_def il_rel_def)
qed

lemma il_serial:
  "map_sum id il_dir (il_run p ws (il_init d) [i, i]) =
     append_memory (wr_keep (ws i)) d p (wr_ts (ws i)) (wr_role (ws i)) (wr_text (ws i)) (wr_mid (ws i))"
  by (simp add: il_step_def il_init_def append_memory_split py_bind_def split: sum.splits)

lemma il_run_sim:
  assumes "il_rel p st a"
  shows "\<exists>st'. il_run p ws st sch = Inr st' \<and> il_rel p st' (ail_run ws a sch)"
  using assms
proof (induction sch arbitrary: st a)
  case Nil
  then show ?case by (simp add: ail_run_def)
next
  case (Cons i sch)
  from il_step_refines [OF Cons.prems, of ws i] obtain st' where
    s: "il_step p ws st i = Inr st'" and r: "il_rel p st' (ail_step ws a i)" by blast
  from Cons.IH [OF r] s show ?case by (simp add: ail_run_def)
qed

text \<open>
  C15. The file-level model of interleaved \<open>_append_memory\<close> calls implements the
  abstract one: from related states, every schedule runs without exception and ends in
  related states, the file holding the journal the abstract run computes.
\<close>

theorem il_run_refines:
  assumes "il_rel p st a"
  shows "\<exists>st'. il_run p ws st sch = Inr st' \<and> il_rel p st' (ail_run ws a sch)"
  using il_run_sim [OF assms] .

lemma two_writer_schedules:
  assumes "mset sch = {#0::nat, 0, 1, 1#}"
  shows "sch \<in> {[0,0,1,1], [0,1,0,1], [0,1,1,0], [1,0,0,1], [1,0,1,0], [1,1,0,0]}"
proof -
  have "length sch = 4" using arg_cong [OF assms, of size] by simp
  then obtain a b c e where s: "sch = [a, b, c, e]" by (auto simp: length_Suc_conv numeral_eq_Suc)
  have "set sch = {0, 1}" using arg_cong [OF assms, of set_mset] by simp
  then have ab: "a \<in> {0, 1}" "b \<in> {0, 1}" "c \<in> {0, 1}" "e \<in> {0, 1}" by (auto simp: s)
  have c0: "count (mset sch) 0 = 2" and c1: "count (mset sch) 1 = 2" using assms by simp_all
  from ab c0 c1 show ?thesis by (auto simp: s)
qed

lemma ail_two_writers:
  assumes "mset sch = {#0::nat, 0, 1, 1#}"
  shows "al_j (ail_run ws (ail_init j) sch) =
    (let l = last sch; f = 1 - l in
     if sch ! 0 = sch ! 1 then j_append (wr_keep (ws l)) (j_append (wr_keep (ws f)) j (wr_entry (ws f))) (wr_entry (ws l))
     else j_append (wr_keep (ws l)) j (wr_entry (ws l)))"
  using two_writer_schedules [OF assms]
  by (auto simp: ail_run_def ail_step_def ail_init_def)

text \<open>
  C31. Two concurrent appends to one journal: whatever the interleaving of their read
  and write phases, both run without exception; when one writer's read and write both
  come before the other's read (a serial schedule) the journal gains both entries in
  that order, and otherwise it gains only the entry of the writer that writes last, the
  other entry being lost.
\<close>

theorem last_writer_wins:
  assumes j: "journal_of_json (load_memory d p) = Some j" and sch: "mset sch = {#0, 0, 1, 1#}"
  shows "\<exists>st. il_run p ws (il_init d) sch = Inr st \<and>
    journal_of_json (load_memory (il_dir st) p) = Some
      (let l = last sch; f = 1 - l in
       if sch ! 0 = sch ! 1 then j_append (wr_keep (ws l)) (j_append (wr_keep (ws f)) j (wr_entry (ws f))) (wr_entry (ws l))
       else j_append (wr_keep (ws l)) j (wr_entry (ws l)))"
proof -
  from il_run_sim [OF il_rel_init [OF j], of ws sch] obtain st where
    "il_run p ws (il_init d) sch = Inr st" and "il_rel p st (ail_run ws (ail_init j) sch)" by blast
  with ail_two_writers [OF sch, of ws j] show ?thesis by (auto simp: il_rel_def)
qed

theorem last_writer_wins_witness:
  "journal_of_json (load_memory [] ''conversation_t1.json'') = Some empty_journal \<and>
   mset [0, 1, 1, 0] = {#0::nat, 0, 1, 1#} \<and>
   (\<exists>st. il_run ''conversation_t1.json''
          (\<lambda>i. \<lparr>wr_keep = (if i = 0 then Some 20 else None), wr_ts = ''T'', wr_role = ''user'',
                wr_text = (if i = 0 then ''from the app'' else ''from the CLI''), wr_mid = None\<rparr>)
          (il_init []) [0, 1, 1, 0] = Inr st \<and>
        journal_of_json (load_memory (il_dir st) ''conversation_t1.json'') =
          Some \<lparr>j_thread = None, j_messages = [\<lparr>e_ts = ''T'', e_role = ''user'', e_text = ''from the app'', e_mid = None\<rparr>]\<rparr>)"
proof -
  have h1: "journal_of_json (load_memory [] ''conversation_t1.json'') = Some empty_journal" by simp
  have h2: "mset [0, 1, 1, 0] = {#0::nat, 0, 1, 1#}" by (simp add: add_mset_commute)
  from last_writer_wins [OF h1 h2, of "\<lambda>i. \<lparr>wr_keep = (if i = 0 then Some 20 else None), wr_ts = ''T'', wr_role = ''user'',
                wr_text = (if i = 0 then ''from the app'' else ''from the CLI''), wr_mid = None\<rparr>"]
  show ?thesis using h1 h2
    by (simp add: j_append_def empty_journal_def wr_entry_def last_n_def)
qed

theorem il_run_refines_witness:
  "il_rel ''conversation_t1.json'' (il_init []) (ail_init empty_journal) \<and>
   (\<exists>st. il_run ''conversation_t1.json''
          (\<lambda>i. \<lparr>wr_keep = None, wr_ts = ''T'', wr_role = ''user'', wr_text = ''hi'', wr_mid = None\<rparr>)
          (il_init []) [0, 1, 0, 1] = Inr st \<and>
        il_rel ''conversation_t1.json'' st
          (ail_run (\<lambda>i. \<lparr>wr_keep = None, wr_ts = ''T'', wr_role = ''user'', wr_text = ''hi'', wr_mid = None\<rparr>)
             (ail_init empty_journal) [0, 1, 0, 1]))"
proof -
  have h: "il_rel ''conversation_t1.json'' (il_init []) (ail_init empty_journal)"
    by (rule il_rel_init) simp
  from il_run_refines [OF h] show ?thesis using h by blast
qed

lemma al_j_ail_init: "al_j (ail_init j) = j"
  by (simp add: ail_init_def)

lemma ail_serial:
  "ail_run ws (ail_init j) (concat (map (\<lambda>i. [i, i]) order)) =
     ail_init (foldl (\<lambda>j i. j_append (wr_keep (ws i)) j (wr_entry (ws i))) j order)"
proof (induction order arbitrary: j)
  case (Cons i order)
  have "ail_run ws (ail_init j) [i, i] = ail_init (j_append (wr_keep (ws i)) j (wr_entry (ws i)))"
    by (simp add: ail_run_def ail_step_def ail_init_def fun_eq_iff)
  then show ?case using Cons.IH by (simp add: ail_run_def)
qed (simp add: ail_run_def)

text \<open>
  C11. Writers that do not overlap lose nothing: when each writer's read is followed
  directly by its write, any number of appends in any order leave the journal with
  every entry, in the order of the writes, each under its writer's retention policy,
  exactly as the same appends one after the other.
\<close>

theorem serial_writers_keep_all:
  assumes j: "journal_of_json (load_memory d p) = Some j"
  shows "\<exists>st. il_run p ws (il_init d) (concat (map (\<lambda>i. [i, i]) order)) = Inr st \<and>
    journal_of_json (load_memory (il_dir st) p) =
      Some (foldl (\<lambda>j i. j_append (wr_keep (ws i)) j (wr_entry (ws i))) j order)"
proof -
  from il_run_sim [OF il_rel_init [OF j], of ws "concat (map (\<lambda>i. [i, i]) order)"] obtain st where
    "il_run p ws (il_init d) (concat (map (\<lambda>i. [i, i]) order)) = Inr st"
    and "il_rel p st (ail_run ws (ail_init j) (concat (map (\<lambda>i. [i, i]) order)))" by blast
  then show ?thesis by (simp add: il_rel_def ail_serial al_j_ail_init)
qed

theorem serial_writers_keep_all_witness:
  "journal_of_json (load_memory [] ''conversation_t1.json'') = Some empty_journal \<and>
   (\<exists>st. il_run ''conversation_t1.json''
          (\<lambda>i. \<lparr>wr_keep = None, wr_ts = ''T'', wr_role = ''user'',
                wr_text = (if i = 0 then ''first'' else ''second''), wr_mid = None\<rparr>)
          (il_init []) (concat (map (\<lambda>i. [i, i]) [0, 1, 0])) = Inr st \<and>
        journal_of_json (load_memory (il_dir st) ''conversation_t1.json'') =
          Some \<lparr>j_thread = None, j_messages =
            [\<lparr>e_ts = ''T'', e_role = ''user'', e_text = ''first'', e_mid = None\<rparr>,
             \<lparr>e_ts = ''T'', e_role = ''user'', e_text = ''second'', e_mid = None\<rparr>,
             \<lparr>e_ts = ''T'', e_role = ''user'', e_text = ''first'', e_mid = None\<rparr>]\<rparr>)"
proof -
  have h: "journal_of_json (load_memory [] ''conversation_t1.json'') = Some empty_journal" by simp
  from serial_writers_keep_all [OF h, of "\<lambda>i. \<lparr>wr_keep = None, wr_ts = ''T'', wr_role = ''user'',
                wr_text = (if i = 0 then ''first'' else ''second''), wr_mid = None\<rparr>" "[0, 1, 0]"]
  show ?thesis using h by (simp add: j_append_def empty_journal_def wr_entry_def)
qed

end
