(* ===== verification/Frames.thy ===== *)
theory Frames
  imports Cli
begin

text \<open>
  Which journal files a front end writes.  The Streamlit app's chat turn
  (src/streamlit_mcpclientapp.py, lines 198--264) and the command-line session of
  src/client_python.py (lines 154--244) each compute the journal path of their thread
  once (\<open>mem_path = _memory_path_for_thread(thread_id)\<close>) and pass it to every
  \<open>_append_memory\<close> and to the stamping block.  \<open>frame_at p d0 d\<close> says that \<open>d\<close> agrees
  with \<open>d0\<close> on every file but \<open>p\<close>; the rules \<open>keeps_intros\<close> of Turn.thy carry it
  through the actions, since every write of the turn or of the session is at \<open>p\<close>.
\<close>

section \<open>The frame of a thread\<close>

definition frame_at :: "string \<Rightarrow> memdir \<Rightarrow> memdir \<Rightarrow> bool" where
  "frame_at p d0 d \<longleftrightarrow> (\<forall>q. q \<noteq> p \<longrightarrow> load_memory d q = load_memory d0 q)"

section \<open>Lemmas\<close>

lemma frame_at_refl [simp]: "frame_at p d d"
  by (simp add: frame_at_def)

lemma frame_append:
  "frame_at p d0 d \<Longrightarrow> append_memory keep d p ts r t m = Inr d' \<Longrightarrow> frame_at p d0 d'"
  by (auto simp: frame_at_def append_memory_def py_bind_eq_Inr)

lemma frame_prepare:
  "frame_at (memory_path_for_thread (py_str tid)) d0 d \<Longrightarrow> prepare_memory d tid = Inr d' \<Longrightarrow>
   frame_at (memory_path_for_thread (py_str tid)) d0 d'"
  by (auto simp: frame_at_def prepare_memory_def Let_def py_bind_eq_Inr)

lemma act_bind_return: "act_bind (act_return x) f = f x"
  by (rule ext) (simp add: act_bind_def act_return_def)

text \<open>A turn on a session that already has a thread skips the thread creation.\<close>

lemma app_chat_turn_resumed:
  "ss_thread (w_sess w) = Some tid \<Longrightarrow>
   app_chat_turn fl out ts1 ts2 prompt w =
     app_run_turn fl out ts1 ts2 prompt tid
       (w\<lparr>w_sess := (w_sess w)\<lparr>ss_log := [], ss_messages := ss_messages (w_sess w) @ [(JStr ''user'', JStr prompt)]\<rparr>\<rparr>)"
  by (simp add: app_chat_turn_def app_begin_turn_def app_open_thread_def app_thread_id_def
      act_seq_def act_bind_def act_sess_def)

lemma keeps_run_turn_frame:
  "act_keeps (frame_at (memory_path_for_thread (py_str tid)) d0) (app_run_turn fl out ts1 ts2 prompt tid)"
  unfolding app_run_turn_def app_reply_def log_run_steps_def app_delete_agent_def Let_def
  by (intro keeps_intros) (auto elim: frame_append)

lemma keeps_cli_loop_frame:
  "act_keeps (frame_at p d0) (cli_loop fl tid p aid lines)"
proof (induction lines)
  case (Cons l ls)
  have t: "act_keeps (frame_at p d0) (cli_turn fl out ts1 ts2 tid p aid u)" for out ts1 ts2 u
    unfolding cli_turn_def cli_log_run_steps_def cli_print_latest_assistant_def
    by (intro keeps_intros) (auto elim: frame_append)
  show ?case using Cons.IH t by (simp add: keeps_intros split: option.split cli_cmd.split)
qed (simp add: keeps_intros)

section \<open>Properties\<close>

text \<open>
  C28. A chat turn of the Streamlit app on a session that already has a thread,
  whatever the service answers and whichever remote calls fail, changes no journal file
  other than that thread's own.
\<close>

theorem app_turn_frame:
  assumes t: "ss_thread (w_sess w) = Some tid" and q: "q \<noteq> memory_path_for_thread (py_str tid)"
  shows "load_memory (w_dir (snd (app_chat_turn fl out ts1 ts2 prompt w))) q = load_memory (w_dir w) q"
proof -
  let ?w0 = "w\<lparr>w_sess := (w_sess w)\<lparr>ss_log := [], ss_messages := ss_messages (w_sess w) @ [(JStr ''user'', JStr prompt)]\<rparr>\<rparr>"
  have "frame_at (memory_path_for_thread (py_str tid)) (w_dir w) (w_dir (snd (app_run_turn fl out ts1 ts2 prompt tid ?w0)))"
    using keeps_run_turn_frame [of tid "w_dir w" fl out ts1 ts2 prompt] by (simp add: act_keeps_def)
  then show ?thesis using q by (simp add: app_chat_turn_resumed [OF t] frame_at_def)
qed

theorem app_turn_frame_witness:
  "ss_thread (w_sess \<lparr>w_dir = [(memory_path_for_thread ''t2'', FJson (JDict [(''thread_id'', JStr ''t2''), (''messages'', JList [])]))],
       w_svc = \<lparr>sv_threads = [(''t1'', [])], sv_agents = [], sv_steps = [], sv_next = 0\<rparr>,
       w_sess = session_init\<lparr>ss_thread := Some (JStr ''t1'')\<rparr>\<rparr>) = Some (JStr ''t1'') \<and>
   memory_path_for_thread ''t2'' \<noteq> memory_path_for_thread (py_str (JStr ''t1'')) \<and>
   load_memory (w_dir (snd (app_chat_turn [] \<lparr>ro_status = ''completed'', ro_error = JNull,
       ro_replies = [\<lparr>rm_id = ''r1'', rm_role = ''assistant'', rm_texts = [''Hi'']\<rparr>], ro_steps = []\<rparr>
       ''T1'' ''T2'' ''Hello'' \<lparr>w_dir = [(memory_path_for_thread ''t2'', FJson (JDict [(''thread_id'', JStr ''t2''), (''messages'', JList [])]))],
       w_svc = \<lparr>sv_threads = [(''t1'', [])], sv_agents = [], sv_steps = [], sv_next = 0\<rparr>,
       w_sess = session_init\<lparr>ss_thread := Some (JStr ''t1'')\<rparr>\<rparr>))) (memory_path_for_thread ''t2'') = JDict [(''thread_id'', JStr ''t2''), (''messages'', JList [])]"
proof -
  have h1: "ss_thread (w_sess \<lparr>w_dir = [(memory_path_for_thread ''t2'', FJson (JDict [(''thread_id'', JStr ''t2''), (''messages'', JList [])]))],
       w_svc = \<lparr>sv_threads = [(''t1'', [])], sv_agents = [], sv_steps = [], sv_next = 0\<rparr>,
       w_sess = session_init\<lparr>ss_thread := Some (JStr ''t1'')\<rparr>\<rparr>) = Some (JStr ''t1'')" by simp
  have h2: "memory_path_for_thread ''t2'' \<noteq> memory_path_for_thread (py_str (JStr ''t1''))"
    by (simp add: memory_path_for_thread_def)
  show ?thesis using h1 h2 app_turn_frame [OF h1 h2, of "[]" "\<lparr>ro_status = ''completed'', ro_error = JNull,
       ro_replies = [\<lparr>rm_id = ''r1'', rm_role = ''assistant'', rm_texts = [''Hi'']\<rparr>], ro_steps = []\<rparr>"
       "''T1''" "''T2''" "''Hello''"]
    by (simp add: load_memory_def)
qed

text \<open>
  C34. A command-line session that resumes a thread (a truthy id chosen from the menu),
  whatever the user types and whatever the service answers or raises, changes no journal
  file other than that thread's own: the stamping and every append of the loop go to
  its file, and the \<open>finally\<close> block writes none.
\<close>

theorem cli_chat_frame:
  assumes t: "py_truthy tid" and q: "q \<noteq> memory_path_for_thread (py_str tid)"
  shows "load_memory (w_dir (snd (cli_chat fl (Some tid) lines w))) q = load_memory (w_dir w) q"
proof -
  have "act_keeps (frame_at (memory_path_for_thread (py_str tid)) (w_dir w)) (cli_chat fl (Some tid) lines)"
    unfolding cli_chat_def cli_open_thread_def cli_delete_agent_def
    using t by (simp add: act_bind_return) (intro keeps_intros keeps_cli_loop_frame; auto elim: frame_prepare)
  then show ?thesis using q by (simp add: act_keeps_def frame_at_def)
qed

theorem cli_chat_frame_witness:
  "py_truthy (JStr ''t1'') \<and> memory_path_for_thread ''t2'' \<noteq> memory_path_for_thread (py_str (JStr ''t1'')) \<and>
   load_memory (w_dir (snd (cli_chat [] (Some (JStr ''t1''))
     [\<lparr>cl_input = Some ''Hello'', cl_outcome = \<lparr>ro_status = ''completed'', ro_error = JNull,
        ro_replies = [\<lparr>rm_id = ''r1'', rm_role = ''assistant'', rm_texts = [''Hi'']\<rparr>], ro_steps = []\<rparr>,
       cl_ts1 = ''T1'', cl_ts2 = ''T2''\<rparr>] \<lparr>w_dir = [(memory_path_for_thread ''t2'', FJson (JDict [(''thread_id'', JStr ''t2''), (''messages'', JList [])]))],
       w_svc = \<lparr>sv_threads = [(''t1'', [])], sv_agents = [], sv_steps = [], sv_next = 0\<rparr>,
       w_sess = session_init\<lparr>ss_thread := Some (JStr ''t1'')\<rparr>\<rparr>))) (memory_path_for_thread ''t2'') =
     JDict [(''thread_id'', JStr ''t2''), (''messages'', JList [])]"
proof -
  have h1: "py_truthy (JStr ''t1'')" by simp
  have h2: "memory_path_for_thread ''t2'' \<noteq> memory_path_for_thread (py_str (JStr ''t1''))"
    by (simp add: memory_path_for_thread_def)
  show ?thesis using h1 h2 cli_chat_frame [OF h1 h2, of "[]" "[\<lparr>cl_input = Some ''Hello'', cl_outcome = \<lparr>ro_status = ''completed'', ro_error = JNull,
        ro_replies = [\<lparr>rm_id = ''r1'', rm_role = ''assistant'', rm_texts = [''Hi'']\<rparr>], ro_steps = []\<rparr>,
       cl_ts1 = ''T1'', cl_ts2 = ''T2''\<rparr>]"]
    by (simp add: load_memory_def)
qed

end
