(* ===== verification/Spec2Isabelle.thy ===== *)
theory Spec2Isabelle
  imports Cli Backup_History Render Interleave Frames
begin

text \<open>
  \<^bold>\<open>A verification library for the Azure agent chat clients.\<close>

  The repository holds three front ends for one remote Azure AI agent: the Streamlit
  app \<open>src/streamlit_mcpclientapp.py\<close> (with four earlier versions under
  \<open>src/backup/\<close>) and the command-line clients \<open>src/client_python.py\<close> and
  \<open>src/client_v2.py\<close>. All of them keep a local journal of every conversation: one JSON
  file \<open>memory/conversation_<thread id>.json\<close> per remote thread, holding the thread id
  and the list of entries (time stamp, role, text, message id). The Streamlit app lists
  the journals in its history panel, resumes and deletes them; the command-line client
  offers them in a numbered menu at start-up. The remote service (threads, agents, runs)
  is reached through the Azure SDK and is not part of this repository.

  \<^medskip>\<^bold>\<open>Theories.\<close>
  \<^item> \<open>Prelude\<close>: JSON values (\<open>json\<close>, the values \<open>json.load\<close> returns), Python
    exceptions as the \<open>py_error\<close> half of the sum type \<open>'a py\<close> and its bind, the
    dictionary and list operations the code uses (\<open>get\<close>, \<open>[k]\<close>, \<open>setdefault\<close>,
    \<open>append\<close>, negative indexing, \<open>xs[-n:]\<close> as \<open>last_n\<close>), \<open>str.strip\<close>,
    \<open>str.lower\<close>, \<open>int()\<close> on strings (\<open>py_int\<close>) and the decimal printer \<open>nat_str\<close>.
  \<^item> \<open>Journal\<close>: the journal store. The directory \<open>memory/\<close> is an association list
    from file names to contents (\<open>FJson\<close> or \<open>FUnreadable\<close> for bytes that do not parse).
    \<open>memory_path_for_thread\<close>, \<open>load_memory\<close>, \<open>append_memory\<close> (one function for all
    versions, with the retention policy \<open>keep\<close>: \<open>Some 20\<close> for the current app,
    \<open>None\<close> elsewhere), \<open>prepare_memory\<close> (the thread-id stamping of the command-line
    clients) and \<open>unlink_memory\<close> translate \<open>_memory_path_for_thread\<close>,
    \<open>_load_memory\<close>, \<open>_append_memory\<close>, the stamping blocks of the \<open>main\<close> functions and
    the \<open>unlink\<close> of \<open>delete_thread\<close>. The abstraction \<open>journal_of_json\<close> maps a file to
    a \<open>journal\<close> record; \<open>mem_reach\<close> is the inductive set of directories the clients
    can produce from an empty one, including writes cut off half-way.
  \<^item> \<open>Directory\<close>: enumerating journals. \<open>get_all_threads\<close> (the app and backup 4:
    descending file-name order) and \<open>get_all_threads_unsorted\<close> (backup 3),
    \<open>list_saved_threads\<close> and the menu \<open>choose_thread_interactive\<close> of
    \<open>client_python.py\<close>, with the descending stable sort \<open>sort_desc\<close> of
    \<open>list.sort(reverse=True)\<close>. The abstract listing \<open>dir_spec\<close> says which threads the
    panel shows and under which label.
  \<^item> \<open>Session\<close>: the Streamlit session state as a record and the callbacks of the history
    panel (\<open>start_new_chat\<close>, \<open>set_active_thread\<close>, \<open>delete_thread\<close>,
    \<open>handle_chat_selection\<close>, \<open>delete_selected_chat_callback\<close>); each callback returns
    the new session and the exception it raised, since Streamlit keeps the writes done
    before an exception.
  \<^item> \<open>Turn\<close>: the remote agent service as explicit state (threads with their messages,
    agents, run steps, an id counter) with one function per SDK call the clients make;
    the world (journal directory, service, session) and a state-and-exception monad
    \<open>'a act\<close> over it; the app's \<open>_print_latest_assistant\<close>, \<open>_log_run_steps\<close> and
    chat handler (\<open>app_chat_turn\<close>, lines 198--264 of the app), and the page's events
    (\<open>app_step\<close>: chat prompt, radio choice, delete and new-chat buttons). What a run
    answers and which remote calls fail are inputs, so every exception path is a value.
  \<^item> \<open>Cli\<close>: \<open>main\<close> of \<open>client_python.py\<close> (\<open>cli_main\<close>: configuration check, menu of
    saved threads, agent, thread, stamping, read-eval loop \<open>cli_loop\<close> over the typed
    lines, \<open>finally\<close>-deletion of the agent) and \<open>main\<close> of \<open>client_v2.py\<close>
    (\<open>v2_main\<close>, always a new thread), with their own step logging and reply extraction.
  \<^item> \<open>Backup_Pages\<close>: \<open>src/backup/streamlit_mcpclient.py\<close> and
    \<open>streamlit_mcpclient2.py\<close>, one page each (\<open>page_b1\<close>, \<open>page_b2\<close>): every script
    run opens the session's thread (creating it and stamping its journal the first time,
    \<open>open_thread_b1/b2\<close>), creates an agent, and on \<open>Send\<close> with a question posts,
    runs, journals without retention limit and deletes the agent (\<open>send_b1/b2\<close>);
    \<open>page_step_b1/b2\<close> fold script runs and new browser sessions. The invariant
    \<open>page_inv\<close> (every journal file records its own thread id, and the session's thread
    has its file) is carried through the actions by the rules \<open>inv_intros\<close>.
  \<^item> \<open>Backup_History\<close>: \<open>streamlit_mcpclient3.py\<close> (history buttons over
    \<open>get_all_threads_unsorted\<close>, \<open>start_new_chat_b3\<close>, \<open>set_active_thread_b3\<close>, the
    chat turn \<open>chat_b3\<close>, \<open>run_b3\<close>) and \<open>streamlit_mcpclient4.py\<close> (select box
    \<open>history_b4\<close>, the callbacks, \<open>chat_b4\<close>, \<open>page_b4\<close>, \<open>run_b4\<close>); a script run of
    backup 4 returns whether it ended in \<open>st.rerun()\<close>, and \<open>settle_b4\<close> follows the
    reruns with fuel.
  \<^item> \<open>Trace\<close>: the run-step trace as an information flow. \<open>world_sim\<close> relates worlds
    that agree on everything but the log pane and on stored step records up to
    well-formed traces (\<open>steps_ok\<close>); \<open>act_sim\<close> lifts it to actions, and the rules
    \<open>sim_intros\<close> carry it through every combinator of the chat turn.
  \<^item> \<open>Render\<close>: the page the app shows at the end of a script run, as widgets
    (\<open>widget\<close>): the sidebar log (\<open>render_sidebar\<close>, \<open>render_entry\<close>,
    \<open>render_step\<close>, \<open>render_call\<close>, lines 166--192), the chat column newest first
    (\<open>render_chat\<close>, lines 266--268; backups 3 and 4 oldest first,
    \<open>render_chat_b34\<close>) and the history column (\<open>render_history\<close>, lines 270--295).
  \<^item> \<open>Interleave\<close>: concurrent writers of one journal. \<open>_append_memory\<close> is split into
    its read phase (line 40) and its write phase (\<open>append_data\<close>, lines 41--50);
    \<open>il_step\<close> runs one phase of one \<open>writer\<close>, \<open>il_run\<close> a schedule of writers on
    the directory. \<open>ail_run\<close> is the abstract model: the same schedules on journals,
    each writer appending to the journal it read. Two writers of one thread arise from
    two browser sessions of the app or from the app and a command-line client.
  \<^item> \<open>Frames\<close>: which journal files a front end writes. \<open>frame_at p d0 d\<close> says that
    \<open>d\<close> agrees with \<open>d0\<close> on every file but \<open>p\<close>, the path the app's chat handler and
    the command-line session compute once from their thread id and pass to every
    \<open>_append_memory\<close> and to the stamping.

  \<^medskip>\<^bold>\<open>What is proved.\<close>
  \<^item> Journal (C1--C9): each append refines appending to the abstract journal and
    applying the retention policy; a run of appends from a missing file yields exactly
    the appended entries; the \<open>[-n:]\<close> bound; on every reachable directory every append
    and stamping succeeds and every file stays well formed (rule induction on
    \<open>mem_reach\<close>); reading is fail-open; deletion is complete and idempotent; stamping
    refines setting the thread id; appends touch only their own file; a journal of the
    wrong JSON shape makes the append raise.
  \<^item> Directory (C13, C14, C16--C19): on a reachable directory \<open>get_all_threads\<close> lists exactly
    the stamped, non-empty journals under the text of their first user message, with
    distinct keys; journals that only ever receive appends (what the app writes) are
    never listed; \<open>_list_saved_threads\<close> returns the saved rows of every journal file,
    ordered by descending \<open>created\<close> stamp and, among equal stamps, in directory order;
    the menu answer \<open>k\<close> (after strip and lower) selects a thread exactly when
    \<open>1 \<le> k \<le> n\<close>, and then the row \<open>k - 1\<close> of the list shown; the glob pattern
    matches exactly the journal file names.
  \<^item> Session (C20--C22): choosing a listed label resumes the first thread with that
    label and shows its journal; whenever a label occurs twice in the listing, the later
    thread can never be selected and deleting it deletes the earlier one's journal;
    deleting the selected row removes exactly that journal and its listing row.
  \<^item> Turn (C23--C27): the app's chat turn on a completed run journals and shows the
    prompt and the extracted reply and deletes its agent; on a failed run it journals
    the prompt only; when posting the prompt fails the agent leaks; on a resumed thread,
    a run that adds no assistant message journals the previous reply again, and a run
    whose last assistant message has no text journals that message's id beside the
    text of an earlier one.
  \<^item> Frames (C28, C34): a chat turn of the app on a session with a thread, and a
    command-line session resuming a thread, change no journal file but that thread's
    own, whatever the service answers or raises (\<open>frame_at\<close>, carried through the
    actions by the rules \<open>keeps_intros\<close>).
  \<^item> Cli (C30, C32, C33): one loop turn journals the input and the non-empty reply,
    keeping every entry; the session always deletes its agent (rules
    \<open>agents_intros\<close>); a missing configuration raises \<open>ValueError\<close> before anything
    else. The lemmas of Cli.thy show that the client keeps the directory reachable.
  \<^item> Turn (C35): a journal file of the wrong shape ends the app's turn after the prompt
    was posted, with the agent left behind.
  \<^item> Backups 1 and 2 (C37, C38): from an empty directory, every thread backup 2
    journalled with a message is listed by the current app's \<open>get_all_threads\<close>
    (invariant \<open>page_inv\<close>); every run of backup 1 without a question leaves one more
    agent on the service.
  \<^item> Backup 4 (C39, C40): a session whose selection is the new-chat label (every fresh
    one) reruns forever, for every fuel, and never answers a prompt; picking a listed
    conversation settles after one rerun. The lemmas \<open>keeps_run_b3\<close> and
    \<open>keeps_run_b4\<close> show that every script run of backups 3 and 4 keeps the directory
    reachable.
  \<^item> Trace (C10, C12): the tool-call trace never reaches the journal, the chat pane or
    the remote threads: two turns whose runs differ only in well-formed step records end
    alike (noninterference, by the simulation rules); a step record the loop cannot read
    ends the turn after the prompt is journalled, before the reply and the deletion.
  \<^item> Render (C36): a stale selection is reachable: on the concrete scenario of a
    conversation resumed from a command-line journal at the retention limit, one more
    turn changes its label, because the label is the first user prompt the trimmed
    journal still holds; the radio keeps the old label (Streamlit keeps a keyed
    widget's value across \<open>st.rerun()\<close>, which stops the run before it completes),
    which is no longer an option, and the Delete button raises \<open>IndexError\<close>. The
    lemmas of the theory show that the sidebar shows one \<open>st.text\<close> per tool call and
    the chat column none, that a radio choice keeps the radio's value among its
    options, and that related worlds show the same chat and history columns.
  \<^item> Interleave (C11, C15, C31): the file-level model of interleaved appends refines
    the abstract one (simulation \<open>il_rel\<close>, by induction on the schedule); for any
    writers and any order in which they run one after another, every append succeeds
    and the journal holds all their entries, each trimmed by its writer's bound; with
    two writers every schedule succeeds, a serial one keeps both entries, and every
    other one keeps only the entry written last (the multiset of the schedule fixes the
    six interleavings, each computed on the abstract model).
  \<^item> Across components (C29, below): from an empty directory, whatever the user does on
    the app's page and whatever the service answers, the history panel stays empty,
    because the app never stamps the thread id into its journals.

  \<^medskip>\<^bold>\<open>Bounds and inputs.\<close> Every loop of the modelled code runs over a finite list
  (files, entries, steps, messages, typed lines), so each is a structural \<open>fun\<close>, a
  fold or a \<open>py_map\<close>, and every definition is total and executable. The one loop
  that need not end is Streamlit's rerun of backup 4's script after \<open>st.rerun()\<close>:
  \<open>settle_b4 n\<close> allows \<open>n\<close> script runs and is \<open>None\<close> when they are spent, so
  "never settles" is proved for every \<open>n\<close> and "settles" with an explicit \<open>n = 2\<close>. The read-eval loop consumes one typed line per iteration and stops at the
  end of the list, as at end of input. The retention bound is the source's 20. Time
  stamps, the typed lines and menu answer, the environment values, what each run
  produces and which remote calls fail are inputs.

  \<^medskip>\<^bold>\<open>Not modelled.\<close> The Azure SDK's transport, authentication and polling (a
  run is one step to its final status); console output; how Streamlit draws a widget
  (the page is the list of widget calls with their arguments), and the CSS blocks,
  titles and spinners of the app and its backups, which hold no state; the widgets of
  backups 1 and 2, which show what their logs already record; \<open>load_dotenv\<close> and the
  credential objects. The helpers of \<open>client_v2.py\<close> (lines 17--69) are textually
  those of \<open>client_python.py\<close> and are modelled once, as the latter's. The app reads
  its configuration inside the chat handler without a check; the model takes the
  service as given there. Helpers that a backup copies verbatim from the app (\<open>_print_latest_assistant\<close>,
  \<open>_log_run_steps\<close>, backup 4's agent interaction) are defined as that app function,
  and backup 4's select box is modelled by what it returns: the option picked in the
  interaction that started the run, else the option at \<open>index\<close>.
\<close>

section \<open>Properties spanning the components\<close>

text \<open>No journal file records a thread id (what the Streamlit app's writes keep true).\<close>

definition unstamped :: "memdir \<Rightarrow> bool" where
  "unstamped d \<longleftrightarrow>
     list_all (\<lambda>(f, c). case c of
         FJson v \<Rightarrow> (case journal_of_json v of Some j \<Rightarrow> j_thread j = None | None \<Rightarrow> True)
       | FUnreadable \<Rightarrow> True) d"

definition app_inv :: "memdir \<Rightarrow> bool" where
  "app_inv d \<longleftrightarrow> mem_reach d \<and> unstamped d"

lemma unstamped_load:
  assumes "unstamped d" and "journal_of_json (load_memory d p) = Some j"
  shows "j_thread j = None"
proof (cases "map_of d p")
  case None
  with assms(2) have "j = empty_journal" by simp
  then show ?thesis by (simp add: empty_journal_def)
next
  case (Some c)
  then have "(p, c) \<in> set d" by (rule map_of_SomeD)
  with assms Some show ?thesis
    by (cases c) (auto simp: unstamped_def list_all_iff load_memory_def empty_journal_def)
qed

lemma unstamped_write:
  assumes "unstamped d" and "journal_of_json v = Some j" and "j_thread j = None"
  shows "unstamped (write_json d p v)"
  using assms set_update_subset [of p "FJson v" d]
  by (fastforce simp: unstamped_def list_all_iff write_json_def split: option.splits fcontent.splits)

lemma unstamped_unlink: "unstamped d \<Longrightarrow> unstamped (unlink_memory d p)"
  by (auto simp: unstamped_def list_all_iff unlink_memory_def AList.delete_eq)

lemma append_keeps_app_inv: "append_keeps app_inv"
  unfolding append_keeps_def app_inv_def
proof (intro allI impI, elim conjE)
  fix d p ts r t m d'
  assume a: "append_memory (Some 20) d p ts r t m = Inr d'" and reach: "mem_reach d" and u: "unstamped d"
  from wf_memdir_load [OF mem_reach_wf_memdir [OF reach]] obtain j where
    j: "journal_of_json (load_memory d p) = Some j" by auto
  from append_memory_step [OF j, of "Some 20" ts r t m] a obtain v where
    d': "d' = write_json d p v" and v: "journal_of_json v = Some (j_append (Some 20) j \<lparr>e_ts = ts, e_role = r, e_text = t, e_mid = m\<rparr>)"
    by auto
  have "j_thread j = None" by (rule unstamped_load [OF u j])
  then have "unstamped d'" unfolding d' using unstamped_write [OF u v] by (simp add: j_append_def)
  with mem_reach.append [OF reach a] show "mem_reach d' \<and> unstamped d'" by blast
qed

lemma delete_callback_dir:
  "fst (delete_selected_chat_callback d s) = d \<or> (\<exists>p. fst (delete_selected_chat_callback d s) = unlink_memory d p)"
  by (auto simp: delete_selected_chat_callback_def delete_thread_def Let_def split: sum.splits)

lemma app_step_inv: "app_inv (w_dir w) \<Longrightarrow> app_inv (w_dir (app_step w e))"
proof (cases e)
  case (EChat fl out ts1 ts2 prompt)
  assume "app_inv (w_dir w)"
  with keeps_chat_turn [OF append_keeps_app_inv, of fl out ts1 ts2 prompt] EChat show ?thesis
    by (simp add: act_keeps_def)
next
  case EDelete
  assume i: "app_inv (w_dir w)"
  have "app_inv (unlink_memory (w_dir w) p)" for p
    using i by (simp add: app_inv_def mem_reach.unlink unstamped_unlink)
  with i delete_callback_dir [of "w_dir w" "w_sess w"] EDelete show ?thesis
    by (auto split: prod.splits)
qed simp_all

lemma app_run_inv: "app_inv (w_dir w) \<Longrightarrow> app_inv (w_dir (foldl app_step w evs))"
  by (induction evs arbitrary: w) (simp_all add: app_step_inv)

lemma app_inv_not_listed: "app_inv d \<Longrightarrow> get_all_threads d = Inr []"
proof -
  assume i: "app_inv d"
  then have r: "mem_reach d" and u: "unstamped d" by (simp_all add: app_inv_def)
  have "\<not> listed (journal_at d f)" for f
  proof -
    from wf_memdir_load [OF mem_reach_wf_memdir [OF r]] obtain j where
      j: "journal_of_json (load_memory d f) = Some j" by auto
    with unstamped_load [OF u j] show ?thesis by (simp add: journal_at_def listed_def)
  qed
  then show ?thesis using get_all_threads_rows [OF r] by (simp add: filter_empty_conv)
qed

text \<open>
  C29. The history panel of the Streamlit app never lists a conversation the app itself
  started: from an empty journal directory, after any sequence of page events (chat
  prompts with any service behaviour, selections, deletions, new chats),
  \<open>get_all_threads\<close> returns the empty listing. The app journals every turn but never
  records the thread id, and the listing skips journals without one.
\<close>

theorem app_history_stays_empty:
  "get_all_threads (w_dir (foldl app_step \<lparr>w_dir = [], w_svc = sv, w_sess = s\<rparr> evs)) = Inr []"
proof -
  have "app_inv []" by (simp add: app_inv_def unstamped_def mem_reach.start)
  then show ?thesis using app_run_inv [of "\<lparr>w_dir = [], w_svc = sv, w_sess = s\<rparr>" evs]
    by (simp add: app_inv_not_listed)
qed

end
